(* ===== verification/Vpn_Prelude.thy ===== *)
theory Vpn_Prelude
  imports Main "HOL-Library.Char_ord" "HOL-Library.List_Lexorder" "HOL-Library.Product_Lexorder"
    "HOL-Library.Multiset"
begin

text \<open>
  What the component theories share.

  \<^item> Names for the types of the model: identifiers (UUIDs and other text keys) are strings, an
    instant is the number of milliseconds that \<open>Date.getTime()\<close> returns, configuration versions
    are integers.  Text identifiers are compared lexicographically; on the lower-case UUIDs the
    database hands out this is the order of \<open>localeCompare\<close>, of \<open>Array.prototype.sort\<close> and of the
    \<open>uuid\<close> type of PostgreSQL.
  \<^item> Results: an operation that may throw returns \<open>'e + 'a\<close>, with \<open>Inl\<close> the error.
  \<^item> The insertion-ordered \<open>Set\<close> and \<open>Map\<close> of JavaScript as lists (\<open>set_add\<close>, \<open>map_put\<close>), with the
    laws the components use stated once in the locale \<open>ordered_map\<close>.
  \<^item> Updates of table rows: \<open>update_rows\<close> is SQL's \<open>UPDATE ... WHERE\<close> on a list of rows.
\<close>

type_synonym uuid = string
type_synonym instant = int
type_synonym version = int

named_theorems vpn_simps \<open>definitions of the model that component proofs unfold\<close>
named_theorems row_simps \<open>laws of row updates, lookups and counts\<close>

section \<open>JavaScript containers\<close>

definition set_add :: "'a \<Rightarrow> 'a list \<Rightarrow> 'a list" where
  "set_add x xs = (if x \<in> set xs then xs else xs @ [x])"

fun map_put :: "'k \<Rightarrow> 'v \<Rightarrow> ('k \<times> 'v) list \<Rightarrow> ('k \<times> 'v) list" where
  "map_put k v [] = [(k, v)]"
| "map_put k v ((k', v') # m) = (if k = k' then (k, v) # m else (k', v') # map_put k v m)"

lemma set_set_add [simp]: "set (set_add x xs) = insert x (set xs)"
  by (auto simp: set_add_def)

lemma distinct_set_add [simp]: "distinct (set_add x xs) = distinct xs"
  by (auto simp: set_add_def)

lemma map_of_map_put [simp]: "map_of (map_put k v m) = (map_of m)(k \<mapsto> v)"
  by (induction k v m rule: map_put.induct) auto

lemma keys_map_put [simp]: "fst ` set (map_put k v m) = insert k (fst ` set m)"
  by (induction k v m rule: map_put.induct) auto

lemma distinct_keys_map_put [simp]:
  "distinct (map fst m) \<Longrightarrow> distinct (map fst (map_put k v m))"
proof (induction k v m rule: map_put.induct)
  case (2 k v k' v' m)
  have "set (map fst (map_put k v m)) = insert k (set (map fst m))" by simp
  with 2 show ?case by auto
qed simp

lemma map_put_fresh: "k \<notin> fst ` set m \<Longrightarrow> map_put k v m = m @ [(k, v)]"
  by (induction k v m rule: map_put.induct) auto

lemma set_map_put: "set (map_put k v m) \<subseteq> insert (k, v) (set m)"
  by (induction k v m rule: map_put.induct) auto

text \<open>The contract of an insertion-ordered map with distinct keys: what a client may rely on when
  it only inserts keys it has not seen.\<close>

locale ordered_map =
  fixes put :: "'k \<Rightarrow> 'v \<Rightarrow> ('k \<times> 'v) list \<Rightarrow> ('k \<times> 'v) list"
    and inv :: "('k \<times> 'v) list \<Rightarrow> bool"
  assumes inv_empty: "inv []"
    and inv_put: "inv m \<Longrightarrow> inv (put k v m)"
    and lookup_put: "inv m \<Longrightarrow> map_of (put k v m) = (map_of m)(k \<mapsto> v)"
    and put_fresh: "inv m \<Longrightarrow> k \<notin> fst ` set m \<Longrightarrow> put k v m = m @ [(k, v)]"
    and inv_keys: "inv m \<Longrightarrow> distinct (map fst m)"
begin

lemma values_put_fresh:
  "inv m \<Longrightarrow> k \<notin> fst ` set m \<Longrightarrow> map snd (put k v m) = map snd m @ [v]"
  by (simp add: put_fresh)

lemma lookup_iff_entry: "inv m \<Longrightarrow> map_of m k = Some v \<longleftrightarrow> (k, v) \<in> set m"
  by (simp add: inv_keys)

lemma put_other: "inv m \<Longrightarrow> k \<noteq> k' \<Longrightarrow> map_of (put k v m) k' = map_of m k'"
  by (simp add: lookup_put)

end

interpretation js_map: ordered_map map_put "\<lambda>m. distinct (map fst m)"
  by unfold_locales (auto simp: map_put_fresh simp del: map_put.simps)

section \<open>Rows of a table\<close>

text \<open>\<open>updateMany\<close> and \<open>UPDATE ... WHERE\<close>: every row that satisfies the condition is changed, and
  the number of changed rows is what the store reads back.\<close>

definition update_rows :: "('r \<Rightarrow> bool) \<Rightarrow> ('r \<Rightarrow> 'r) \<Rightarrow> 'r list \<Rightarrow> 'r list" where
  "update_rows p f rs = map (\<lambda>r. if p r then f r else r) rs"

definition count_rows :: "('r \<Rightarrow> bool) \<Rightarrow> 'r list \<Rightarrow> nat" where
  "count_rows p rs = length (filter p rs)"

definition find_row :: "('r \<Rightarrow> bool) \<Rightarrow> 'r list \<Rightarrow> 'r option" where
  "find_row p rs = find p rs"

lemma set_update_rows: "set (update_rows p f rs) = (\<lambda>r. if p r then f r else r) ` set rs"
  by (simp add: update_rows_def)

lemma length_update_rows [simp, row_simps]: "length (update_rows p f rs) = length rs"
  by (simp add: update_rows_def)

lemma map_update_rows_key [row_simps]:
  "(\<And>r. key (f r) = key r) \<Longrightarrow> map key (update_rows p f rs) = map key rs"
  by (simp add: update_rows_def)

lemma ball_update_rows [row_simps]:
  "(\<forall>r \<in> set (update_rows p f rs). Q r) \<longleftrightarrow>
   (\<forall>r \<in> set rs. (p r \<longrightarrow> Q (f r)) \<and> (\<not> p r \<longrightarrow> Q r))"
  by (auto simp: set_update_rows)

lemma update_rows_none [row_simps]: "(\<forall>r \<in> set rs. \<not> p r) \<Longrightarrow> update_rows p f rs = rs"
  by (simp add: update_rows_def map_idI)

lemma count_rows_zero [row_simps]: "count_rows p rs = 0 \<longleftrightarrow> (\<forall>r \<in> set rs. \<not> p r)"
  by (simp add: count_rows_def filter_empty_conv)

lemma count_rows_pos: "count_rows p rs \<noteq> 0 \<longleftrightarrow> (\<exists>r \<in> set rs. p r)"
  by (auto simp: count_rows_zero)

lemma find_row_Some: "find_row p rs = Some r \<Longrightarrow> r \<in> set rs \<and> p r"
  by (auto simp: find_row_def find_Some_iff)

lemma find_row_None [row_simps]: "find_row p rs = None \<longleftrightarrow> (\<forall>r \<in> set rs. \<not> p r)"
  by (auto simp: find_row_def find_None_iff)

lemma update_rows_keeps: "r \<in> set rs \<Longrightarrow> \<not> p r \<Longrightarrow> r \<in> set (update_rows p f rs)"
  by (force simp: set_update_rows)

lemma update_rows_hit: "r \<in> set rs \<Longrightarrow> p r \<Longrightarrow> f r \<in> set (update_rows p f rs)"
  by (force simp: set_update_rows)

lemma update_rows_cases:
  assumes "r' \<in> set (update_rows p f rs)"
  obtains "r' \<in> set rs" "\<not> p r'" | r where "r \<in> set rs" "p r" "r' = f r"
  using assms by (auto simp: set_update_rows split: if_splits)

text \<open>At most one row carries a primary key, so a condition on the key selects one row.\<close>

lemma distinct_key_eq:
  assumes "distinct (map key rs)" "r \<in> set rs" "r' \<in> set rs" "key r = key r'"
  shows "r = r'"
  using assms by (metis distinct_map inj_onD)

lemma count_rows_key_le_1:
  assumes "distinct (map key rs)" and "\<And>r. p r \<Longrightarrow> key r = k"
  shows "count_rows p rs \<le> 1"
  using assms(1)
proof (induction rs)
  case (Cons r rs)
  then show ?case
  proof (cases "p r")
    case True
    with Cons.prems have "\<forall>x \<in> set rs. \<not> p x" using assms(2) by (metis distinct.simps(2) imageI list.set_map list.simps(9))
    then have "count_rows p rs = 0" by (simp add: count_rows_zero)
    then show ?thesis using True by (simp add: count_rows_def)
  next
    case False
    then show ?thesis using Cons by (simp add: count_rows_def)
  qed
qed (simp add: count_rows_def)

text \<open>Lookups: a hit is a row, a primary key finds its row, and an update that keeps the condition keeps
  what is found.\<close>

lemma find_member: "find p xs = Some x \<Longrightarrow> x \<in> set xs \<and> p x"
  by (auto simp: find_Some_iff)

lemma find_append: "find p (xs @ ys) = (case find p xs of None \<Rightarrow> find p ys | Some x \<Rightarrow> Some x)"
  by (induction xs) simp_all

lemma find_by_key:
  assumes "distinct (map key xs)" "x \<in> set xs"
  shows "find (\<lambda>y. key y = key x) xs = Some x"
proof -
  obtain y where y: "find (\<lambda>y. key y = key x) xs = Some y"
    using assms(2) by (cases "find (\<lambda>y. key y = key x) xs") (auto simp: find_None_iff)
  then show ?thesis using find_member [OF y] distinct_key_eq [OF assms(1), of y x] assms(2) by simp
qed

lemma find_update_rows:
  "(\<And>r. p (f r) = p r) \<Longrightarrow> find p (update_rows q f rs) = map_option (\<lambda>r. if q r then f r else r) (find p rs)"
  by (induction rs) (auto simp: update_rows_def)

lemma list_all2_update_rows:
  assumes "\<And>r. P r r" "\<And>r. r \<in> set rs \<Longrightarrow> p r \<Longrightarrow> P r (f r)"
  shows "list_all2 P rs (update_rows p f rs)"
  using assms(2) by (induction rs) (auto simp: update_rows_def assms(1))

text \<open>\<open>ORDER BY ... LIMIT 1\<close>: the first row of the sorted table is a smallest one.\<close>

lemma sort_key_hd:
  assumes "sort_key f xs = y # ys"
  shows "y \<in> set xs \<and> (\<forall>x \<in> set xs. f y \<le> f x)"
proof -
  have "sorted (map f (y # ys))" using assms by (metis sorted_sort_key)
  moreover have "set xs = set (y # ys)" using assms by (metis set_sort)
  ultimately show ?thesis by auto
qed

section \<open>Systems with an invariant\<close>

text \<open>The interface of a transition system that keeps an invariant: one preservation law per step, and
  with it everything that is reachable.\<close>

locale invariant_system =
  fixes step :: "'s \<Rightarrow> 's \<Rightarrow> bool"
    and inv :: "'s \<Rightarrow> bool"
  assumes step_inv: "step s t \<Longrightarrow> inv s \<Longrightarrow> inv t"
begin

lemma reachable_inv:
  assumes "step\<^sup>*\<^sup>* s t" "inv s"
  shows "inv t"
  using assms by (induction rule: rtranclp_induct) (blast intro: step_inv)+

text \<open>A relation that every step from a good state respects and that composes holds between the
  first and the last state of a run.\<close>

lemma reachable_rel:
  assumes "step\<^sup>*\<^sup>* s t" "inv s" "\<And>x. inv x \<Longrightarrow> R x x"
    and "\<And>x y z. inv x \<Longrightarrow> R x y \<Longrightarrow> R y z \<Longrightarrow> R x z"
    and "\<And>x y. inv x \<Longrightarrow> step x y \<Longrightarrow> R x y"
  shows "R s t"
  using assms(1)
proof (induction rule: rtranclp_induct)
  case (step y z)
  then have "inv y" using reachable_inv assms(2) by blast
  with step assms show ?case by blast
qed (use assms in blast)

end

section \<open>Results\<close>

lemma guard_eq_Some: "(if b then Some x else None) = Some y \<longleftrightarrow> b \<and> x = y"
  by simp

section \<open>Time\<close>

definition milliseconds :: "int \<Rightarrow> int" where
  "milliseconds seconds = seconds * 1000"

end
