(* ===== verification/Json_Schema.thy ===== *)
theory Json_Schema
  imports Vpn_Prelude
begin

text \<open>
  JSON values and the schema checks on them that several components use.

  \<open>json\<close> is the value the database or the network returns: a \<open>jsonb\<close> object has distinct keys, so the
  first entry of a key is its only one, and a number that is not an integer is kept as its text.
  The functions are the \<open>safeParse\<close> of the corresponding schema; \<open>None\<close> is a failed parse.  An
  absent field is the argument \<open>None\<close>.  The format test behind \<open>z.string().uuid()\<close> belongs to the
  schema library, so it is the parameter \<open>is_uuid\<close> of the schemas that use it.
\<close>

datatype json =
  JNull | JBool bool | JInt int | JFloat string | JStr string
| JArr "json list" | JObj "(string \<times> json) list"

fun json_object :: "json \<Rightarrow> (string \<times> json) list option" where
  "json_object (JObj entries) = Some entries"
| "json_object _ = None"

fun json_int :: "json option \<Rightarrow> int option" where
  "json_int (Some (JInt n)) = Some n"
| "json_int _ = None"

definition int_between :: "int \<Rightarrow> int \<Rightarrow> json option \<Rightarrow> int option" where
  "int_between lo hi j = (case json_int j of None \<Rightarrow> None
     | Some n \<Rightarrow> if lo \<le> n \<and> n \<le> hi then Some n else None)"

definition int_at_least :: "int \<Rightarrow> json option \<Rightarrow> int option" where
  "int_at_least lo j = (case json_int j of None \<Rightarrow> None
     | Some n \<Rightarrow> if lo \<le> n then Some n else None)"

fun json_string :: "json option \<Rightarrow> string option" where
  "json_string (Some (JStr s)) = Some s"
| "json_string _ = None"

definition uuid_field :: "(string \<Rightarrow> bool) \<Rightarrow> json option \<Rightarrow> uuid option" where
  "uuid_field is_uuid j = (case json_string j of None \<Rightarrow> None
     | Some s \<Rightarrow> if is_uuid s then Some s else None)"

lemma int_at_least_iff: "int_at_least lo j = Some n \<longleftrightarrow> j = Some (JInt n) \<and> lo \<le> n"
  by (cases j rule: json_int.cases) (auto simp: int_at_least_def)

lemma uuid_field_iff: "uuid_field is_uuid j = Some s \<longleftrightarrow> j = Some (JStr s) \<and> is_uuid s"
  by (cases j rule: json_string.cases) (auto simp: uuid_field_def)

end
