(* ===== verification/Health_Policy.thy ===== *)
theory Health_Policy
  imports Json_Schema "HOL-Library.Monad_Syntax"
begin

text \<open>
  Operational policies (\<open>packages/orchestration-store/src/operational-policy.ts\<close>).

  A policy is stored as JSON and becomes a record only through its schema.  \<open>healthPolicyConfigSchema\<close> and
  \<open>capacityPolicyConfigSchema\<close> are the schemas' \<open>safeParse\<close>: \<open>None\<close> is a failed parse.  \<open>loadActive\<close>
  picks the activation with the highest sequence number of each kind.
\<close>

datatype RouteFailureClass = DNS | TCP_TLS | VPN_HANDSHAKE | TEST_TRAFFIC

record HealthPolicyConfig =
  heartbeatIntervalSeconds :: int
  probeIntervalSeconds :: int
  probeTimeoutSeconds :: int
  probeSourceQuorum :: int
  degradedFailureCycles :: int
  excludeFailureCycles :: int
  recoverySuccessCycles :: int
  recoveryMinimumSeconds :: int
  cooldownSeconds :: int
  staleHeartbeatSeconds :: int
  resultFreshnessSeconds :: int
  mixedUnknownDegradedCycles :: int
  additionalProbeDelaySeconds :: int
  partialBlockedFailureCycles :: int
  blockedTargetNetworkQuorum :: int
  routeFailureClasses :: "RouteFailureClass list"

record CapacityPolicyConfig =
  runtimeFreshnessSeconds :: int
  warningUtilizationPercent :: int
  warningSustainSeconds :: int
  stopAssignmentUtilizationPercent :: int
  stopAssignmentSustainSeconds :: int
  criticalUtilizationPercent :: int
  criticalSustainSeconds :: int
  recoveryBelowUtilizationPercent :: int
  recoverySustainSeconds :: int
  diskWarningFreePercent :: int
  diskStopFreePercent :: int
  trafficSnapshotFreshnessSeconds :: int
  trafficForecastMinimumElapsedSeconds :: int
  trafficWarningForecastPercent :: int
  trafficStopActualPercent :: int
  trafficStopForecastPercent :: int
  overageOverrideMaximumSeconds :: int
  plannedDrainDefaultSeconds :: int
  plannedDrainMinimumSeconds :: int
  plannedDrainMaximumSeconds :: int
  promotionTargetSeconds :: int
  promotionHardTimeoutSeconds :: int
  reserveAggregateLoadPercent :: int
  reserveLargestNodeMultiplierPercent :: int
  reserveRequiresIndependentFailureDomain :: bool

section \<open>Schema primitives\<close>

definition positiveDatabaseInteger :: "json option \<Rightarrow> int option" where
  "positiveDatabaseInteger = int_between 1 2147483647"

definition percent :: "json option \<Rightarrow> int option" where
  "percent = int_between 0 100"

fun failure_class :: "json \<Rightarrow> RouteFailureClass option" where
  "failure_class (JStr s) =
    (if s = ''DNS'' then Some DNS
     else if s = ''TCP_TLS'' then Some TCP_TLS
     else if s = ''VPN_HANDSHAKE'' then Some VPN_HANDSHAKE
     else if s = ''TEST_TRAFFIC'' then Some TEST_TRAFFIC
     else None)"
| "failure_class _ = None"

fun failure_classes :: "json option \<Rightarrow> RouteFailureClass list option" where
  "failure_classes (Some (JArr js)) =
    (case those (map failure_class js) of None \<Rightarrow> None
     | Some cs \<Rightarrow> if length cs = 4 \<and> distinct cs then Some cs else None)"
| "failure_classes _ = None"

fun literal_true :: "json option \<Rightarrow> bool option" where
  "literal_true (Some (JBool True)) = Some True"
| "literal_true _ = None"

section \<open>The two schemas\<close>

definition healthPolicyKeys :: "string list" where
  "healthPolicyKeys =
    [''heartbeatIntervalSeconds'', ''probeIntervalSeconds'', ''probeTimeoutSeconds'',
     ''probeSourceQuorum'', ''degradedFailureCycles'', ''excludeFailureCycles'',
     ''recoverySuccessCycles'', ''recoveryMinimumSeconds'', ''cooldownSeconds'',
     ''staleHeartbeatSeconds'', ''resultFreshnessSeconds'', ''mixedUnknownDegradedCycles'',
     ''additionalProbeDelaySeconds'', ''partialBlockedFailureCycles'',
     ''blockedTargetNetworkQuorum'', ''routeFailureClasses'']"

definition capacityPolicyKeys :: "string list" where
  "capacityPolicyKeys =
    [''runtimeFreshnessSeconds'', ''warningUtilizationPercent'', ''warningSustainSeconds'',
     ''stopAssignmentUtilizationPercent'', ''stopAssignmentSustainSeconds'',
     ''criticalUtilizationPercent'', ''criticalSustainSeconds'',
     ''recoveryBelowUtilizationPercent'', ''recoverySustainSeconds'',
     ''diskWarningFreePercent'', ''diskStopFreePercent'',
     ''trafficSnapshotFreshnessSeconds'', ''trafficForecastMinimumElapsedSeconds'',
     ''trafficWarningForecastPercent'', ''trafficStopActualPercent'',
     ''trafficStopForecastPercent'', ''overageOverrideMaximumSeconds'',
     ''plannedDrainDefaultSeconds'', ''plannedDrainMinimumSeconds'',
     ''plannedDrainMaximumSeconds'', ''promotionTargetSeconds'',
     ''promotionHardTimeoutSeconds'', ''reserveAggregateLoadPercent'',
     ''reserveLargestNodeMultiplierPercent'', ''reserveRequiresIndependentFailureDomain'']"

definition health_refinement :: "HealthPolicyConfig \<Rightarrow> bool" where
  "health_refinement policy \<longleftrightarrow>
     \<not> degradedFailureCycles policy \<ge> excludeFailureCycles policy
   \<and> \<not> probeTimeoutSeconds policy \<ge> probeIntervalSeconds policy"

definition capacity_refinement :: "CapacityPolicyConfig \<Rightarrow> bool" where
  "capacity_refinement policy \<longleftrightarrow>
     (recoveryBelowUtilizationPercent policy < warningUtilizationPercent policy
      \<and> warningUtilizationPercent policy < stopAssignmentUtilizationPercent policy
      \<and> stopAssignmentUtilizationPercent policy < criticalUtilizationPercent policy)
   \<and> \<not> diskStopFreePercent policy \<ge> diskWarningFreePercent policy
   \<and> \<not> (plannedDrainMinimumSeconds policy > plannedDrainDefaultSeconds policy
        \<or> plannedDrainDefaultSeconds policy > plannedDrainMaximumSeconds policy)
   \<and> \<not> promotionTargetSeconds policy \<ge> promotionHardTimeoutSeconds policy"

definition healthPolicyConfigSchema :: "json \<Rightarrow> HealthPolicyConfig option" where
  "healthPolicyConfigSchema j = do {
     entries \<leftarrow> json_object j;
     let get = map_of entries;
     v1 \<leftarrow> positiveDatabaseInteger (get ''heartbeatIntervalSeconds'');
     v2 \<leftarrow> positiveDatabaseInteger (get ''probeIntervalSeconds'');
     v3 \<leftarrow> positiveDatabaseInteger (get ''probeTimeoutSeconds'');
     v4 \<leftarrow> positiveDatabaseInteger (get ''probeSourceQuorum'');
     v5 \<leftarrow> positiveDatabaseInteger (get ''degradedFailureCycles'');
     v6 \<leftarrow> positiveDatabaseInteger (get ''excludeFailureCycles'');
     v7 \<leftarrow> positiveDatabaseInteger (get ''recoverySuccessCycles'');
     v8 \<leftarrow> positiveDatabaseInteger (get ''recoveryMinimumSeconds'');
     v9 \<leftarrow> positiveDatabaseInteger (get ''cooldownSeconds'');
     v10 \<leftarrow> positiveDatabaseInteger (get ''staleHeartbeatSeconds'');
     v11 \<leftarrow> positiveDatabaseInteger (get ''resultFreshnessSeconds'');
     v12 \<leftarrow> positiveDatabaseInteger (get ''mixedUnknownDegradedCycles'');
     v13 \<leftarrow> positiveDatabaseInteger (get ''additionalProbeDelaySeconds'');
     v14 \<leftarrow> positiveDatabaseInteger (get ''partialBlockedFailureCycles'');
     v15 \<leftarrow> positiveDatabaseInteger (get ''blockedTargetNetworkQuorum'');
     v16 \<leftarrow> failure_classes (get ''routeFailureClasses'');
     let policy = \<lparr>heartbeatIntervalSeconds = v1,
       probeIntervalSeconds = v2,
       probeTimeoutSeconds = v3,
       probeSourceQuorum = v4,
       degradedFailureCycles = v5,
       excludeFailureCycles = v6,
       recoverySuccessCycles = v7,
       recoveryMinimumSeconds = v8,
       cooldownSeconds = v9,
       staleHeartbeatSeconds = v10,
       resultFreshnessSeconds = v11,
       mixedUnknownDegradedCycles = v12,
       additionalProbeDelaySeconds = v13,
       partialBlockedFailureCycles = v14,
       blockedTargetNetworkQuorum = v15,
       routeFailureClasses = v16\<rparr>;
     if set (map fst entries) \<subseteq> set healthPolicyKeys \<and> health_refinement policy then Some policy else None }"

definition capacityPolicyConfigSchema :: "json \<Rightarrow> CapacityPolicyConfig option" where
  "capacityPolicyConfigSchema j = do {
     entries \<leftarrow> json_object j;
     let get = map_of entries;
     v1 \<leftarrow> positiveDatabaseInteger (get ''runtimeFreshnessSeconds'');
     v2 \<leftarrow> percent (get ''warningUtilizationPercent'');
     v3 \<leftarrow> positiveDatabaseInteger (get ''warningSustainSeconds'');
     v4 \<leftarrow> percent (get ''stopAssignmentUtilizationPercent'');
     v5 \<leftarrow> positiveDatabaseInteger (get ''stopAssignmentSustainSeconds'');
     v6 \<leftarrow> percent (get ''criticalUtilizationPercent'');
     v7 \<leftarrow> positiveDatabaseInteger (get ''criticalSustainSeconds'');
     v8 \<leftarrow> percent (get ''recoveryBelowUtilizationPercent'');
     v9 \<leftarrow> positiveDatabaseInteger (get ''recoverySustainSeconds'');
     v10 \<leftarrow> percent (get ''diskWarningFreePercent'');
     v11 \<leftarrow> percent (get ''diskStopFreePercent'');
     v12 \<leftarrow> positiveDatabaseInteger (get ''trafficSnapshotFreshnessSeconds'');
     v13 \<leftarrow> positiveDatabaseInteger (get ''trafficForecastMinimumElapsedSeconds'');
     v14 \<leftarrow> percent (get ''trafficWarningForecastPercent'');
     v15 \<leftarrow> percent (get ''trafficStopActualPercent'');
     v16 \<leftarrow> int_at_least 0 (get ''trafficStopForecastPercent'');
     v17 \<leftarrow> positiveDatabaseInteger (get ''overageOverrideMaximumSeconds'');
     v18 \<leftarrow> positiveDatabaseInteger (get ''plannedDrainDefaultSeconds'');
     v19 \<leftarrow> positiveDatabaseInteger (get ''plannedDrainMinimumSeconds'');
     v20 \<leftarrow> positiveDatabaseInteger (get ''plannedDrainMaximumSeconds'');
     v21 \<leftarrow> positiveDatabaseInteger (get ''promotionTargetSeconds'');
     v22 \<leftarrow> positiveDatabaseInteger (get ''promotionHardTimeoutSeconds'');
     v23 \<leftarrow> percent (get ''reserveAggregateLoadPercent'');
     v24 \<leftarrow> int_at_least 100 (get ''reserveLargestNodeMultiplierPercent'');
     v25 \<leftarrow> literal_true (get ''reserveRequiresIndependentFailureDomain'');
     let policy = \<lparr>runtimeFreshnessSeconds = v1,
       warningUtilizationPercent = v2,
       warningSustainSeconds = v3,
       stopAssignmentUtilizationPercent = v4,
       stopAssignmentSustainSeconds = v5,
       criticalUtilizationPercent = v6,
       criticalSustainSeconds = v7,
       recoveryBelowUtilizationPercent = v8,
       recoverySustainSeconds = v9,
       diskWarningFreePercent = v10,
       diskStopFreePercent = v11,
       trafficSnapshotFreshnessSeconds = v12,
       trafficForecastMinimumElapsedSeconds = v13,
       trafficWarningForecastPercent = v14,
       trafficStopActualPercent = v15,
       trafficStopForecastPercent = v16,
       overageOverrideMaximumSeconds = v17,
       plannedDrainDefaultSeconds = v18,
       plannedDrainMinimumSeconds = v19,
       plannedDrainMaximumSeconds = v20,
       promotionTargetSeconds = v21,
       promotionHardTimeoutSeconds = v22,
       reserveAggregateLoadPercent = v23,
       reserveLargestNodeMultiplierPercent = v24,
       reserveRequiresIndependentFailureDomain = v25\<rparr>;
     if set (map fst entries) \<subseteq> set capacityPolicyKeys \<and> capacity_refinement policy then Some policy else None }"

section \<open>Active policies\<close>

record policy_version =
  pv_id :: uuid
  pv_code :: string
  pv_config :: json

record policy_activation =
  pa_sequence :: int
  pa_policyVersionId :: uuid

record 'config active_policy =
  ap_id :: uuid
  ap_code :: string
  ap_config :: 'config

datatype policy_error = ActivePoliciesUnavailable | PolicyParseError

text \<open>\<open>INNER JOIN ... ORDER BY activation.sequence DESC LIMIT 1\<close>.\<close>

definition latest_policy ::
    "policy_activation list \<Rightarrow> policy_version list \<Rightarrow> policy_version option" where
  "latest_policy activations versions =
     (case sort_key (\<lambda>(s, _). - s)
        (concat (map (\<lambda>a. map (\<lambda>v. (pa_sequence a, v))
           (filter (\<lambda>v. pv_id v = pa_policyVersionId a) versions)) activations))
      of [] \<Rightarrow> None | (_, v) # _ \<Rightarrow> Some v)"

definition loadActive ::
    "policy_activation list \<Rightarrow> policy_version list \<Rightarrow>
     policy_activation list \<Rightarrow> policy_version list \<Rightarrow>
     policy_error + (HealthPolicyConfig active_policy \<times> CapacityPolicyConfig active_policy)" where
  "loadActive healthActivations healthVersions capacityActivations capacityVersions =
     (case (latest_policy healthActivations healthVersions,
            latest_policy capacityActivations capacityVersions) of
        (Some health, Some capacity) \<Rightarrow>
          (case healthPolicyConfigSchema (pv_config health) of
             None \<Rightarrow> Inl PolicyParseError
           | Some h \<Rightarrow>
             (case capacityPolicyConfigSchema (pv_config capacity) of
                None \<Rightarrow> Inl PolicyParseError
              | Some c \<Rightarrow> Inr (\<lparr>ap_id = pv_id health, ap_code = pv_code health, ap_config = h\<rparr>,
                            \<lparr>ap_id = pv_id capacity, ap_code = pv_code capacity, ap_config = c\<rparr>)))
      | _ \<Rightarrow> Inl ActivePoliciesUnavailable)"

section \<open>What an accepted policy satisfies\<close>

definition db_positive :: "int \<Rightarrow> bool" where
  "db_positive n \<longleftrightarrow> 0 < n \<and> n \<le> 2147483647"


definition health_policy_ok :: "HealthPolicyConfig \<Rightarrow> bool" where
  "health_policy_ok p \<longleftrightarrow>
     (\<forall>n \<in> set [heartbeatIntervalSeconds p,
        probeIntervalSeconds p,
        probeTimeoutSeconds p,
        probeSourceQuorum p,
        degradedFailureCycles p,
        excludeFailureCycles p,
        recoverySuccessCycles p,
        recoveryMinimumSeconds p,
        cooldownSeconds p,
        staleHeartbeatSeconds p,
        resultFreshnessSeconds p,
        mixedUnknownDegradedCycles p,
        additionalProbeDelaySeconds p,
        partialBlockedFailureCycles p,
        blockedTargetNetworkQuorum p].
        db_positive n)
   \<and> set (routeFailureClasses p) = {DNS, TCP_TLS, VPN_HANDSHAKE, TEST_TRAFFIC}
   \<and> length (routeFailureClasses p) = 4
   \<and> degradedFailureCycles p < excludeFailureCycles p
   \<and> probeTimeoutSeconds p < probeIntervalSeconds p"

fun class_text :: "RouteFailureClass \<Rightarrow> string" where
  "class_text DNS = ''DNS''"
| "class_text TCP_TLS = ''TCP_TLS''"
| "class_text VPN_HANDSHAKE = ''VPN_HANDSHAKE''"
| "class_text TEST_TRAFFIC = ''TEST_TRAFFIC''"

text \<open>The document an operator would store for a policy: one field per key of the schema.\<close>

definition health_policy_json :: "HealthPolicyConfig \<Rightarrow> json" where
  "health_policy_json p = JObj [
     (''heartbeatIntervalSeconds'', JInt (heartbeatIntervalSeconds p)),
     (''probeIntervalSeconds'', JInt (probeIntervalSeconds p)),
     (''probeTimeoutSeconds'', JInt (probeTimeoutSeconds p)),
     (''probeSourceQuorum'', JInt (probeSourceQuorum p)),
     (''degradedFailureCycles'', JInt (degradedFailureCycles p)),
     (''excludeFailureCycles'', JInt (excludeFailureCycles p)),
     (''recoverySuccessCycles'', JInt (recoverySuccessCycles p)),
     (''recoveryMinimumSeconds'', JInt (recoveryMinimumSeconds p)),
     (''cooldownSeconds'', JInt (cooldownSeconds p)),
     (''staleHeartbeatSeconds'', JInt (staleHeartbeatSeconds p)),
     (''resultFreshnessSeconds'', JInt (resultFreshnessSeconds p)),
     (''mixedUnknownDegradedCycles'', JInt (mixedUnknownDegradedCycles p)),
     (''additionalProbeDelaySeconds'', JInt (additionalProbeDelaySeconds p)),
     (''partialBlockedFailureCycles'', JInt (partialBlockedFailureCycles p)),
     (''blockedTargetNetworkQuorum'', JInt (blockedTargetNetworkQuorum p)),
     (''routeFailureClasses'', JArr (map (JStr \<circ> class_text) (routeFailureClasses p)))]"

lemma positiveDatabaseInteger_iff:
  "positiveDatabaseInteger j = Some n \<longleftrightarrow> j = Some (JInt n) \<and> db_positive n"
  by (cases j rule: json_int.cases)
    (auto simp: positiveDatabaseInteger_def int_between_def db_positive_def)

lemma failure_class_text [simp]: "failure_class (JStr (class_text c)) = Some c"
  by (cases c) simp_all

declare failure_class.simps [simp del]

lemma those_failure_class_text [simp]:
  "those (map (failure_class \<circ> (JStr \<circ> class_text)) cs) = Some cs"
  by (induction cs) simp_all

lemma all_route_failure_classes: "c \<in> {DNS, TCP_TLS, VPN_HANDSHAKE, TEST_TRAFFIC}"
  by (cases c) simp_all

lemma four_distinct_classes:
  assumes "length cs = 4" "distinct cs"
  shows "set cs = {DNS, TCP_TLS, VPN_HANDSHAKE, TEST_TRAFFIC}"
proof (rule card_subset_eq)
  show "set cs \<subseteq> {DNS, TCP_TLS, VPN_HANDSHAKE, TEST_TRAFFIC}"
    using all_route_failure_classes by blast
  show "card (set cs) = card {DNS, TCP_TLS, VPN_HANDSHAKE, TEST_TRAFFIC}"
    using assms by (simp add: distinct_card)
qed simp

lemma failure_classes_Some:
  "failure_classes j = Some cs \<Longrightarrow>
     length cs = 4 \<and> set cs = {DNS, TCP_TLS, VPN_HANDSHAKE, TEST_TRAFFIC}"
  by (cases j rule: failure_classes.cases)
    (auto simp: four_distinct_classes split: option.splits if_splits)

lemma healthPolicyConfigSchema_ok:
  assumes "healthPolicyConfigSchema j = Some p"
  shows "health_policy_ok p"
  using assms
  unfolding healthPolicyConfigSchema_def Let_def positiveDatabaseInteger_iff bind_eq_Some_conv
    guard_eq_Some
  apply (elim exE conjE)
  apply hypsubst
  apply (drule failure_classes_Some)
  apply (thin_tac "map_of _ _ = _")+
  apply (unfold health_policy_ok_def health_refinement_def)
  apply (simp only: list.set ball_simps HealthPolicyConfig.simps)
  apply auto
  done

lemma capacityPolicyConfigSchema_ok:
  assumes "capacityPolicyConfigSchema j = Some p"
  shows "capacity_refinement p"
  using assms
  unfolding capacityPolicyConfigSchema_def Let_def bind_eq_Some_conv guard_eq_Some
  by (elim exE conjE) hypsubst

lemma healthPolicyConfigSchema_json:
  assumes "health_policy_ok p"
  shows "healthPolicyConfigSchema (health_policy_json p) = Some p"
proof -
  have pos: "positiveDatabaseInteger (Some (JInt n)) = Some n" if "db_positive n" for n
    using that by (simp add: positiveDatabaseInteger_iff)
  have "distinct (routeFailureClasses p)"
    using assms by (auto simp: health_policy_ok_def intro: card_distinct)
  then show ?thesis
    using assms
    by (simp add: healthPolicyConfigSchema_def health_policy_json_def health_policy_ok_def Let_def
        pos health_refinement_def healthPolicyKeys_def)
qed

section \<open>The seeded policies\<close>

text \<open>The two documents that migration \<open>20260908010000_add_beta_operational_policies\<close> inserts.\<close>

definition beta_health_json :: json where
  "beta_health_json = JObj [
     (''heartbeatIntervalSeconds'', JInt 30),
     (''probeIntervalSeconds'', JInt 60),
     (''probeTimeoutSeconds'', JInt 10),
     (''probeSourceQuorum'', JInt 2),
     (''degradedFailureCycles'', JInt 2),
     (''excludeFailureCycles'', JInt 3),
     (''recoverySuccessCycles'', JInt 5),
     (''recoveryMinimumSeconds'', JInt 300),
     (''cooldownSeconds'', JInt 600),
     (''staleHeartbeatSeconds'', JInt 90),
     (''resultFreshnessSeconds'', JInt 90),
     (''mixedUnknownDegradedCycles'', JInt 2),
     (''additionalProbeDelaySeconds'', JInt 15),
     (''partialBlockedFailureCycles'', JInt 3),
     (''blockedTargetNetworkQuorum'', JInt 2),
     (''routeFailureClasses'', JArr [JStr ''DNS'', JStr ''TCP_TLS'', JStr ''VPN_HANDSHAKE'', JStr ''TEST_TRAFFIC''])]"

definition beta_capacity_json :: json where
  "beta_capacity_json = JObj [
     (''runtimeFreshnessSeconds'', JInt 90),
     (''warningUtilizationPercent'', JInt 65),
     (''warningSustainSeconds'', JInt 600),
     (''stopAssignmentUtilizationPercent'', JInt 80),
     (''stopAssignmentSustainSeconds'', JInt 300),
     (''criticalUtilizationPercent'', JInt 90),
     (''criticalSustainSeconds'', JInt 300),
     (''recoveryBelowUtilizationPercent'', JInt 60),
     (''recoverySustainSeconds'', JInt 600),
     (''diskWarningFreePercent'', JInt 20),
     (''diskStopFreePercent'', JInt 10),
     (''trafficSnapshotFreshnessSeconds'', JInt 86400),
     (''trafficForecastMinimumElapsedSeconds'', JInt 86400),
     (''trafficWarningForecastPercent'', JInt 80),
     (''trafficStopActualPercent'', JInt 90),
     (''trafficStopForecastPercent'', JInt 100),
     (''overageOverrideMaximumSeconds'', JInt 86400),
     (''plannedDrainDefaultSeconds'', JInt 86400),
     (''plannedDrainMinimumSeconds'', JInt 3600),
     (''plannedDrainMaximumSeconds'', JInt 259200),
     (''promotionTargetSeconds'', JInt 120),
     (''promotionHardTimeoutSeconds'', JInt 300),
     (''reserveAggregateLoadPercent'', JInt 25),
     (''reserveLargestNodeMultiplierPercent'', JInt 125),
     (''reserveRequiresIndependentFailureDomain'', JBool True)]"

definition beta_health_policy :: HealthPolicyConfig where
  "beta_health_policy = \<lparr>heartbeatIntervalSeconds = 30,
     probeIntervalSeconds = 60,
     probeTimeoutSeconds = 10,
     probeSourceQuorum = 2,
     degradedFailureCycles = 2,
     excludeFailureCycles = 3,
     recoverySuccessCycles = 5,
     recoveryMinimumSeconds = 300,
     cooldownSeconds = 600,
     staleHeartbeatSeconds = 90,
     resultFreshnessSeconds = 90,
     mixedUnknownDegradedCycles = 2,
     additionalProbeDelaySeconds = 15,
     partialBlockedFailureCycles = 3,
     blockedTargetNetworkQuorum = 2,
     routeFailureClasses = [DNS, TCP_TLS, VPN_HANDSHAKE, TEST_TRAFFIC]\<rparr>"

lemma beta_health_policy_ok: "health_policy_ok beta_health_policy"
  by (simp add: health_policy_ok_def beta_health_policy_def db_positive_def)

lemma beta_health_json: "healthPolicyConfigSchema beta_health_json = Some beta_health_policy"
  using healthPolicyConfigSchema_json [OF beta_health_policy_ok]
  by (simp add: health_policy_json_def beta_health_json_def beta_health_policy_def)

lemma beta_capacity_json_accepted: "capacityPolicyConfigSchema beta_capacity_json \<noteq> None"
  by code_simp

section \<open>The activation that counts\<close>

lemma latest_policy_Some:
  assumes "latest_policy activations versions = Some v"
  shows "v \<in> set versions \<and> (\<exists>a \<in> set activations. pa_policyVersionId a = pv_id v \<and>
    (\<forall>a' \<in> set activations. pa_policyVersionId a' \<in> pv_id ` set versions \<longrightarrow>
       pa_sequence a' \<le> pa_sequence a))"
proof -
  let ?rows = "concat (map (\<lambda>a. map (\<lambda>v. (pa_sequence a, v))
           (filter (\<lambda>v. pv_id v = pa_policyVersionId a) versions)) activations)"
  obtain s rest where "sort_key (\<lambda>(s, _). - s) ?rows = (s, v) # rest"
    using assms by (auto simp: latest_policy_def split: list.splits prod.splits)
  from sort_key_hd [OF this]
  have top: "(s, v) \<in> set ?rows" and latest: "\<And>s' v'. (s', v') \<in> set ?rows \<Longrightarrow> s' \<le> s"
    by auto
  from top obtain a where a: "a \<in> set activations" "s = pa_sequence a"
      "v \<in> set versions" "pv_id v = pa_policyVersionId a" by auto
  have "pa_sequence a' \<le> pa_sequence a"
    if "a' \<in> set activations" "v' \<in> set versions" "pv_id v' = pa_policyVersionId a'" for a' v'
    using latest [of "pa_sequence a'" v'] that a(2) by auto
  with a show ?thesis by (metis imageE)
qed

lemma loadActive_Inr:
  assumes "loadActive ha hv ca cv = Inr (h, c)"
  shows "\<exists>vh vc. latest_policy ha hv = Some vh \<and> ap_id h = pv_id vh \<and>
    healthPolicyConfigSchema (pv_config vh) = Some (ap_config h) \<and>
    latest_policy ca cv = Some vc \<and> ap_id c = pv_id vc \<and>
    capacityPolicyConfigSchema (pv_config vc) = Some (ap_config c)"
  using assms by (auto simp: loadActive_def split: option.splits)

text \<open>\<open>loadActive\<close> hands out validated policies only, and the health policy it hands out is the one
  with the highest activation sequence: every other activation of an existing version has a lower
  or equal sequence number.\<close>

theorem loadActive_sound:
  assumes "loadActive ha hv ca cv = Inr (h, c)"
  shows "health_policy_ok (ap_config h) \<and> capacity_refinement (ap_config c) \<and>
    (\<exists>v \<in> set hv. ap_id h = pv_id v \<and> healthPolicyConfigSchema (pv_config v) = Some (ap_config h) \<and>
      (\<exists>a \<in> set ha. pa_policyVersionId a = pv_id v \<and>
        (\<forall>a' \<in> set ha. pa_policyVersionId a' \<in> pv_id ` set hv \<longrightarrow>
           pa_sequence a' \<le> pa_sequence a)))"
proof -
  from loadActive_Inr [OF assms] obtain vh and vc :: policy_version where lh: "latest_policy ha hv = Some vh"
    and ph: "healthPolicyConfigSchema (pv_config vh) = Some (ap_config h)" and "ap_id h = pv_id vh"
    and pc: "capacityPolicyConfigSchema (pv_config vc) = Some (ap_config c)"
    by blast
  with latest_policy_Some [OF lh] healthPolicyConfigSchema_ok [OF ph]
    capacityPolicyConfigSchema_ok [OF pc]
  show ?thesis by auto
qed

definition beta_policies ::
    "policy_error + (HealthPolicyConfig active_policy \<times> CapacityPolicyConfig active_policy)" where
  "beta_policies = loadActive
     [\<lparr>pa_sequence = 1, pa_policyVersionId = ''101''\<rparr>]
     [\<lparr>pv_id = ''101'', pv_code = ''beta-v1'', pv_config = beta_health_json\<rparr>]
     [\<lparr>pa_sequence = 1, pa_policyVersionId = ''102''\<rparr>]
     [\<lparr>pv_id = ''102'', pv_code = ''beta-v1'', pv_config = beta_capacity_json\<rparr>]"

lemma beta_policies_load:
  "\<exists>h c. beta_policies = Inr (h, c) \<and> ap_config h = beta_health_policy"
  using beta_capacity_json_accepted
  by (auto simp: beta_policies_def loadActive_def latest_policy_def beta_health_json)

theorem loadActive_sound_witness:
  "\<exists>h c. beta_policies = Inr (h, c) \<and> health_policy_ok (ap_config h) \<and>
     capacity_refinement (ap_config c)"
proof -
  obtain h c where "beta_policies = Inr (h, c)" using beta_policies_load by blast
  from loadActive_sound [OF this [unfolded beta_policies_def]] this show ?thesis by blast
qed

end
