(* ===== verification/Health_Decision.thy ===== *)
theory Health_Decision
  imports Health_Policy
begin

text \<open>
  Health decisions (\<open>packages/orchestration-store/src/health-decision.ts\<close>).

  \<open>aggregateHealthProbeCycle\<close> turns the signals of one probe cycle into a decision: every signal is
  judged once, in the order of its arrival, each accepted signal is one vote per probe source and
  per independence key, and a quorum of votes decides.  \<open>evaluateHealthCycle\<close> is the state machine
  of a health scope over these cycles.  \<open>signal_step\<close> is the body of the loop over the ordered
  signals; its five collections are the local sets and maps of the function.
\<close>

section \<open>Data\<close>

datatype HealthScopeKind = PROFILE | ENDPOINT | NODE | PROVIDER_ASN

datatype ProbeOutcome = SUCCESS | FAILURE | PROBE_SOURCE_FAILURE

record ProbeSignal =
  ps_id :: uuid
  ps_sourceId :: uuid
  ps_independenceKey :: string
  ps_cycleStartedAt :: instant
  ps_receivedAt :: instant
  ps_authenticated :: bool
  ps_controlHealthy :: bool
  ps_routeVersion :: version
  ps_outcome :: ProbeOutcome
  ps_failureClass :: "RouteFailureClass option"

datatype ProbeCycleDecision = CycleSuccess | CycleFailed | CycleMixed | CycleUnknown

datatype ProbeSignalRejectionReason =
  PolicyUnavailable | AlreadyConsumed | Unauthenticated | ControlUnhealthy | RouteVersionMismatch
| CycleMismatch | OutsideFreshnessWindow | DuplicateSource | DuplicateIndependenceKey

datatype disposition = ACCEPTED | REJECTED

record ProbeSignalEvaluation =
  ev_signalId :: uuid
  ev_disposition :: disposition
  ev_rejectionReason :: "ProbeSignalRejectionReason option"

record ProbeCycleResult =
  cy_cycleStartedAt :: instant
  cy_decision :: ProbeCycleDecision
  cy_failureClass :: "RouteFailureClass option"
  cy_signalIds :: "uuid list"
  cy_rejectedSignalIds :: "uuid list"
  cy_signalEvaluations :: "ProbeSignalEvaluation list"
  cy_additionalProbeDueAt :: "instant option"

datatype HealthStatus =
  UNKNOWN | HEALTHY | DEGRADED | PARTIALLY_BLOCKED | QUARANTINED | BLOCKED | OFFLINE | DISABLED

record HealthDecisionState =
  hs_status :: HealthStatus
  excludedFromCandidates :: bool
  consecutiveFailureCycles :: int
  consecutiveRecoverySuccesses :: int
  recoveryWindowStartedAt :: "instant option"
  consecutiveUncertainCycles :: int
  cooldownUntil :: "instant option"

datatype HealthDecisionReason =
  POLICY_UNAVAILABLE | CRITICAL_TRUST_FAILURE | STALE_HEARTBEAT | FAILED_CYCLE_OBSERVED
| FAILURE_THRESHOLD_REACHED | EXCLUSION_THRESHOLD_REACHED | SUCCESS_CONFIRMED | RECOVERY_PENDING
| RECOVERY_CONFIRMED | MIXED_CYCLE | UNKNOWN_CYCLE | UNCERTAINTY_THRESHOLD_REACHED

record HealthDecision =
  hd_decision :: HealthStatus
  hd_reason :: HealthDecisionReason
  hd_affectedScope :: "HealthScopeKind \<times> uuid"
  hd_policyVersion :: "(uuid \<times> string) option"
  hd_signalIds :: "uuid list"
  hd_cycle :: "ProbeCycleResult option"
  hd_state :: HealthDecisionState
  hd_allowNewAssignments :: bool
  hd_triggerReplacement :: bool
  hd_triggerIncident :: bool

datatype CriticalTrustKind = UNTRUSTED_CLOCK | CREDENTIAL_COMPROMISE | UNSAFE_RUNTIME

record recovery_gates =
  rg_clockTrusted :: bool
  rg_servingCheckPassed :: bool
  rg_desiredVersion :: version
  rg_appliedVersion :: version

record EvaluateHealthCycleInput =
  in_policy :: "(uuid \<times> string \<times> json) option"
  in_affectedScope :: "HealthScopeKind \<times> uuid"
  in_routeVersion :: version
  in_cycleStartedAt :: instant
  in_evaluatedAt :: instant
  in_signals :: "ProbeSignal list"
  in_consumedSignalIds :: "uuid list"
  in_previousState :: HealthDecisionState
  in_lastHeartbeatAt :: "instant option"
  in_recoveryGates :: recovery_gates
  in_criticalTrustFailure :: "(uuid \<times> CriticalTrustKind) option"

section \<open>One probe cycle\<close>

definition signalRejectionReason ::
    "HealthPolicyConfig \<Rightarrow> ProbeSignal \<Rightarrow> instant \<Rightarrow> version \<Rightarrow> uuid list \<Rightarrow>
     ProbeSignalRejectionReason option" where
  "signalRejectionReason policy signal cycleStartedAt routeVersion consumedSignalIds =
     (if ps_id signal \<in> set consumedSignalIds then Some AlreadyConsumed
      else if \<not> ps_authenticated signal then Some Unauthenticated
      else if \<not> ps_controlHealthy signal then Some ControlUnhealthy
      else if ps_routeVersion signal \<noteq> routeVersion then Some RouteVersionMismatch
      else if ps_cycleStartedAt signal \<noteq> cycleStartedAt then Some CycleMismatch
      else if ps_receivedAt signal < cycleStartedAt
           \<or> ps_receivedAt signal > cycleStartedAt + milliseconds (resultFreshnessSeconds policy)
      then Some OutsideFreshnessWindow
      else None)"

record agg_state =
  rejectedSignalIds :: "uuid list"
  seenSignalIds :: "uuid list"
  seenSourceIds :: "uuid list"
  votes :: "(string \<times> ProbeSignal) list"
  signalEvaluations :: "(uuid \<times> ProbeSignalEvaluation) list"

definition agg_start :: agg_state where
  "agg_start = \<lparr>rejectedSignalIds = [], seenSignalIds = [], seenSourceIds = [], votes = [],
     signalEvaluations = []\<rparr>"

definition reject_signal :: "uuid \<Rightarrow> ProbeSignalRejectionReason \<Rightarrow> agg_state \<Rightarrow> agg_state" where
  "reject_signal sid reason a = a\<lparr>
     rejectedSignalIds := set_add sid (rejectedSignalIds a),
     signalEvaluations := map_put sid
       \<lparr>ev_signalId = sid, ev_disposition = REJECTED, ev_rejectionReason = Some reason\<rparr>
       (signalEvaluations a)\<rparr>"

definition accept_signal :: "ProbeSignal \<Rightarrow> agg_state \<Rightarrow> agg_state" where
  "accept_signal signal a = a\<lparr>
     seenSourceIds := set_add (ps_sourceId signal) (seenSourceIds a),
     votes := map_put (ps_independenceKey signal) signal (votes a),
     signalEvaluations := map_put (ps_id signal)
       \<lparr>ev_signalId = ps_id signal, ev_disposition = ACCEPTED, ev_rejectionReason = None\<rparr>
       (signalEvaluations a)\<rparr>"

definition signal_step ::
    "HealthPolicyConfig \<Rightarrow> instant \<Rightarrow> version \<Rightarrow> uuid list \<Rightarrow> ProbeSignal \<Rightarrow> agg_state \<Rightarrow> agg_state" where
  "signal_step policy cycleStartedAt routeVersion consumedSignalIds signal a =
     (if ps_id signal \<in> set (seenSignalIds a)
      then a\<lparr>rejectedSignalIds := set_add (ps_id signal) (rejectedSignalIds a)\<rparr>
      else let a = a\<lparr>seenSignalIds := set_add (ps_id signal) (seenSignalIds a)\<rparr> in
        case signalRejectionReason policy signal cycleStartedAt routeVersion consumedSignalIds of
          Some reason \<Rightarrow> reject_signal (ps_id signal) reason a
        | None \<Rightarrow>
            if ps_sourceId signal \<in> set (seenSourceIds a)
            then reject_signal (ps_id signal) DuplicateSource a
            else if ps_independenceKey signal \<in> fst ` set (votes a)
            then reject_signal (ps_id signal) DuplicateIndependenceKey a
            else accept_signal signal a)"

definition signal_key :: "ProbeSignal \<Rightarrow> instant \<times> uuid" where
  "signal_key s = (ps_receivedAt s, ps_id s)"

definition collect_signals ::
    "HealthPolicyConfig \<Rightarrow> instant \<Rightarrow> version \<Rightarrow> uuid list \<Rightarrow> ProbeSignal list \<Rightarrow> agg_state" where
  "collect_signals policy cycleStartedAt routeVersion consumed signals =
     fold (signal_step policy cycleStartedAt routeVersion consumed)
       (sort_key signal_key signals) agg_start"

definition route_votes :: "agg_state \<Rightarrow> ProbeSignal list" where
  "route_votes a = filter (\<lambda>s. ps_outcome s \<noteq> PROBE_SOURCE_FAILURE) (map snd (votes a))"

definition success_votes :: "agg_state \<Rightarrow> ProbeSignal list" where
  "success_votes a = filter (\<lambda>s. ps_outcome s = SUCCESS) (route_votes a)"

definition failure_votes :: "HealthPolicyConfig \<Rightarrow> agg_state \<Rightarrow> ProbeSignal list" where
  "failure_votes policy a = filter (\<lambda>s. ps_outcome s = FAILURE \<and>
     (case ps_failureClass s of None \<Rightarrow> False | Some c \<Rightarrow> c \<in> set (routeFailureClasses policy)))
     (route_votes a)"

definition failures_of_class :: "HealthPolicyConfig \<Rightarrow> agg_state \<Rightarrow> RouteFailureClass \<Rightarrow> ProbeSignal list" where
  "failures_of_class policy a c = filter (\<lambda>s. ps_failureClass s = Some c) (failure_votes policy a)"

definition confirmedFailureClass :: "HealthPolicyConfig \<Rightarrow> agg_state \<Rightarrow> RouteFailureClass option" where
  "confirmedFailureClass policy a =
     find (\<lambda>c. int (length (failures_of_class policy a c)) \<ge> probeSourceQuorum policy)
       (routeFailureClasses policy)"

definition aggregateHealthProbeCycle ::
    "HealthPolicyConfig \<Rightarrow> instant \<Rightarrow> version \<Rightarrow> uuid list \<Rightarrow> ProbeSignal list \<Rightarrow> ProbeCycleResult" where
  "aggregateHealthProbeCycle policy cycleStartedAt routeVersion consumed signals =
     (let a = collect_signals policy cycleStartedAt routeVersion consumed signals;
          result = \<lparr>cy_cycleStartedAt = cycleStartedAt,
            cy_decision = CycleUnknown,
            cy_failureClass = None,
            cy_signalIds = sort (map ps_id (route_votes a)),
            cy_rejectedSignalIds = sort (rejectedSignalIds a),
            cy_signalEvaluations = sort_key ev_signalId (map snd (signalEvaluations a)),
            cy_additionalProbeDueAt = None\<rparr>
      in if success_votes a \<noteq> [] \<and> failure_votes policy a \<noteq> []
         then result\<lparr>cy_decision := CycleMixed, cy_additionalProbeDueAt :=
                Some (cycleStartedAt + milliseconds (additionalProbeDelaySeconds policy))\<rparr>
         else case confirmedFailureClass policy a of
           Some c \<Rightarrow> result\<lparr>cy_decision := CycleFailed, cy_failureClass := Some c\<rparr>
         | None \<Rightarrow>
             if int (length (success_votes a)) \<ge> probeSourceQuorum policy
             then result\<lparr>cy_decision := CycleSuccess\<rparr>
             else result)"

section \<open>The health state machine\<close>

definition atLeastDegraded :: "HealthStatus \<Rightarrow> HealthStatus" where
  "atLeastDegraded current =
     (if current = HEALTHY \<or> current = UNKNOWN then DEGRADED else current)"

definition finishDecision ::
    "EvaluateHealthCycleInput \<Rightarrow> HealthDecisionState \<Rightarrow> HealthDecisionReason \<Rightarrow>
     ProbeCycleResult option \<Rightarrow> (uuid \<times> string) option \<Rightarrow> HealthDecision" where
  "finishDecision i state reason cycle policyVersion =
     (let cooldownActive = (case cooldownUntil state of None \<Rightarrow> False
                            | Some t \<Rightarrow> t > in_evaluatedAt i)
      in \<lparr>hd_decision = hs_status state,
          hd_reason = reason,
          hd_affectedScope = in_affectedScope i,
          hd_policyVersion = policyVersion,
          hd_signalIds = (case cycle of Some c \<Rightarrow> cy_signalIds c
             | None \<Rightarrow> (case in_criticalTrustFailure i of Some (sid, _) \<Rightarrow> [sid] | None \<Rightarrow> [])),
          hd_cycle = cycle,
          hd_state = state,
          hd_allowNewAssignments = (hs_status state = HEALTHY \<and> \<not> excludedFromCandidates state),
          hd_triggerReplacement = (reason = CRITICAL_TRUST_FAILURE
             \<or> (reason = EXCLUSION_THRESHOLD_REACHED \<and> \<not> cooldownActive)),
          hd_triggerIncident = (reason = EXCLUSION_THRESHOLD_REACHED
             \<or> reason = CRITICAL_TRUST_FAILURE)\<rparr>)"

definition heartbeat_fresh :: "HealthPolicyConfig \<Rightarrow> EvaluateHealthCycleInput \<Rightarrow> bool" where
  "heartbeat_fresh policy i = (case in_lastHeartbeatAt i of None \<Rightarrow> False
     | Some t \<Rightarrow> in_evaluatedAt i - t \<le> milliseconds (staleHeartbeatSeconds policy))"

definition failed_cycle ::
    "HealthPolicyConfig \<Rightarrow> HealthDecisionState \<Rightarrow> HealthDecisionState \<times> HealthDecisionReason" where
  "failed_cycle policy state0 =
     (let state = state0\<lparr>consecutiveFailureCycles := consecutiveFailureCycles state0 + 1,
            consecutiveRecoverySuccesses := 0,
            recoveryWindowStartedAt := None,
            consecutiveUncertainCycles := 0\<rparr>
      in if consecutiveFailureCycles state \<ge> excludeFailureCycles policy
         then (state\<lparr>hs_status := atLeastDegraded (hs_status state), excludedFromCandidates := True\<rparr>,
               EXCLUSION_THRESHOLD_REACHED)
         else if consecutiveFailureCycles state \<ge> degradedFailureCycles policy
         then (state\<lparr>hs_status := atLeastDegraded (hs_status state)\<rparr>, FAILURE_THRESHOLD_REACHED)
         else (state, FAILED_CYCLE_OBSERVED))"

definition success_cycle ::
    "HealthPolicyConfig \<Rightarrow> EvaluateHealthCycleInput \<Rightarrow> HealthDecisionState \<Rightarrow>
     HealthDecisionState \<times> HealthDecisionReason" where
  "success_cycle policy i state0 =
     (let state = state0\<lparr>consecutiveFailureCycles := 0, consecutiveUncertainCycles := 0\<rparr>
      in if hs_status state = HEALTHY
         then (state\<lparr>consecutiveRecoverySuccesses := 0, recoveryWindowStartedAt := None\<rparr>,
               SUCCESS_CONFIRMED)
         else
           let windowStart = (case recoveryWindowStartedAt state of
                                None \<Rightarrow> in_cycleStartedAt i | Some t \<Rightarrow> t);
               state = state\<lparr>
                 consecutiveRecoverySuccesses := consecutiveRecoverySuccesses state + 1,
                 recoveryWindowStartedAt := Some windowStart\<rparr>;
               recoveryWindowComplete =
                 in_evaluatedAt i - windowStart \<ge> milliseconds (recoveryMinimumSeconds policy);
               gatesPass = heartbeat_fresh policy i
                 \<and> rg_clockTrusted (in_recoveryGates i)
                 \<and> rg_servingCheckPassed (in_recoveryGates i)
                 \<and> rg_desiredVersion (in_recoveryGates i) = rg_appliedVersion (in_recoveryGates i)
           in if hs_status state \<noteq> QUARANTINED
                 \<and> hs_status state \<noteq> DISABLED
                 \<and> consecutiveRecoverySuccesses state \<ge> recoverySuccessCycles policy
                 \<and> recoveryWindowComplete
                 \<and> gatesPass
              then (state\<lparr>hs_status := HEALTHY,
                      excludedFromCandidates := False,
                      consecutiveRecoverySuccesses := 0,
                      recoveryWindowStartedAt := None,
                      cooldownUntil := Some (in_evaluatedAt i + milliseconds (cooldownSeconds policy))\<rparr>,
                    RECOVERY_CONFIRMED)
              else (state, RECOVERY_PENDING))"

definition uncertain_cycle ::
    "HealthPolicyConfig \<Rightarrow> ProbeCycleDecision \<Rightarrow> HealthDecisionState \<Rightarrow>
     HealthDecisionState \<times> HealthDecisionReason" where
  "uncertain_cycle policy decision state0 =
     (let state = state0\<lparr>consecutiveUncertainCycles := consecutiveUncertainCycles state0 + 1,
            consecutiveRecoverySuccesses := 0,
            recoveryWindowStartedAt := None\<rparr>
      in if consecutiveUncertainCycles state \<ge> mixedUnknownDegradedCycles policy
         then (state\<lparr>hs_status := atLeastDegraded (hs_status state)\<rparr>, UNCERTAINTY_THRESHOLD_REACHED)
         else (state, if decision = CycleMixed then MIXED_CYCLE else UNKNOWN_CYCLE))"

definition stale_heartbeat ::
    "HealthPolicyConfig \<Rightarrow> EvaluateHealthCycleInput \<Rightarrow> HealthDecisionState \<times> HealthDecisionReason \<Rightarrow>
     HealthDecisionState \<times> HealthDecisionReason" where
  "stale_heartbeat policy i sr =
     (if \<not> heartbeat_fresh policy i \<and> hs_status (fst sr) = HEALTHY
      then ((fst sr)\<lparr>hs_status := DEGRADED\<rparr>, STALE_HEARTBEAT) else sr)"

definition cycle_of :: "HealthPolicyConfig \<Rightarrow> EvaluateHealthCycleInput \<Rightarrow> ProbeCycleResult" where
  "cycle_of policy i = aggregateHealthProbeCycle policy (in_cycleStartedAt i) (in_routeVersion i)
     (in_consumedSignalIds i) (in_signals i)"

definition apply_cycle ::
    "HealthPolicyConfig \<Rightarrow> EvaluateHealthCycleInput \<Rightarrow> ProbeCycleDecision \<Rightarrow>
     HealthDecisionState \<times> HealthDecisionReason" where
  "apply_cycle policy i decision = (case decision of
       CycleFailed \<Rightarrow> failed_cycle policy (in_previousState i)
     | CycleSuccess \<Rightarrow> success_cycle policy i (in_previousState i)
     | _ \<Rightarrow> uncertain_cycle policy decision (in_previousState i))"

definition evaluateHealthCycle :: "EvaluateHealthCycleInput \<Rightarrow> HealthDecision" where
  "evaluateHealthCycle i =
     (let parsedPolicy = (case in_policy i of None \<Rightarrow> None
            | Some (pid, code, config) \<Rightarrow>
                map_option (\<lambda>policy. ((pid, code), policy)) (healthPolicyConfigSchema config))
      in if in_criticalTrustFailure i \<noteq> None
         then finishDecision i
                ((in_previousState i)\<lparr>hs_status := QUARANTINED,
                   excludedFromCandidates := True,
                   consecutiveRecoverySuccesses := 0,
                   recoveryWindowStartedAt := None\<rparr>)
                CRITICAL_TRUST_FAILURE None (map_option fst parsedPolicy)
         else case parsedPolicy of
           None \<Rightarrow> finishDecision i
                ((in_previousState i)\<lparr>hs_status := atLeastDegraded (hs_status (in_previousState i))\<rparr>)
                POLICY_UNAVAILABLE None None
         | Some (policyVersion, policy) \<Rightarrow>
             let cycle = cycle_of policy i;
                 (state, reason) = stale_heartbeat policy i (apply_cycle policy i (cy_decision cycle))
             in finishDecision i state reason (Some cycle) (Some policyVersion))"

section \<open>Runs of the state machine\<close>

definition health_step :: "EvaluateHealthCycleInput \<Rightarrow> HealthDecisionState \<Rightarrow> HealthDecisionState" where
  "health_step i s = hd_state (evaluateHealthCycle (i\<lparr>in_previousState := s\<rparr>))"

definition run_health :: "EvaluateHealthCycleInput list \<Rightarrow> HealthDecisionState \<Rightarrow> HealthDecisionState" where
  "run_health is s = fold health_step is s"

text \<open>The policy under which an input is evaluated, when no critical trust failure is reported.\<close>

definition effective_policy :: "EvaluateHealthCycleInput \<Rightarrow> HealthPolicyConfig option" where
  "effective_policy i = (if in_criticalTrustFailure i \<noteq> None then None
     else case in_policy i of None \<Rightarrow> None | Some (_, _, config) \<Rightarrow> healthPolicyConfigSchema config)"

text \<open>The unbroken sequence of confirmed successes that ends a history (newest input first).  Inputs
  without a usable policy neither count nor interrupt; everything else interrupts.\<close>

fun recovery_run :: "EvaluateHealthCycleInput list \<Rightarrow> EvaluateHealthCycleInput list" where
  "recovery_run [] = []"
| "recovery_run (i # is) =
     (if in_criticalTrustFailure i \<noteq> None then []
      else case effective_policy i of
        None \<Rightarrow> recovery_run is
      | Some policy \<Rightarrow>
          if cy_decision (cycle_of policy i) = CycleSuccess then i # recovery_run is else [])"

definition health_state_ok :: "HealthDecisionState \<Rightarrow> bool" where
  "health_state_ok s \<longleftrightarrow>
     (hs_status s = HEALTHY \<longrightarrow> \<not> excludedFromCandidates s)
   \<and> 0 \<le> consecutiveFailureCycles s \<and> 0 \<le> consecutiveUncertainCycles s
   \<and> 0 \<le> consecutiveRecoverySuccesses s
   \<and> (recoveryWindowStartedAt s = None \<longleftrightarrow> consecutiveRecoverySuccesses s = 0)"

section \<open>The collected votes\<close>

lemma collect_induct [consumes 0, case_names start step]:
  assumes "P [] agg_start"
    and "\<And>processed s a. P processed a \<Longrightarrow>
           P (processed @ [s]) (signal_step policy cs rv consumed s a)"
  shows "P (sort_key signal_key signals) (collect_signals policy cs rv consumed signals)"
proof -
  have "P xs (fold (signal_step policy cs rv consumed) xs agg_start)" for xs
    by (induction xs rule: rev_induct) (auto intro: assms)
  then show ?thesis by (simp add: collect_signals_def)
qed

definition accepted :: "agg_state \<Rightarrow> ProbeSignal list" where
  "accepted a = map snd (votes a)"

definition agg_ok ::
    "(ProbeSignal \<Rightarrow> bool) \<Rightarrow> ProbeSignal list \<Rightarrow> agg_state \<Rightarrow> bool" where
  "agg_ok admissible processed a \<longleftrightarrow>
     set (seenSignalIds a) = ps_id ` set processed
   \<and> set (seenSourceIds a) = ps_sourceId ` set (accepted a)
   \<and> fst ` set (votes a) = ps_independenceKey ` set (accepted a)
   \<and> distinct (map ps_id (accepted a))
   \<and> distinct (map ps_sourceId (accepted a))
   \<and> distinct (map ps_independenceKey (accepted a))
   \<and> (\<forall>s \<in> set (accepted a). s \<in> set processed \<and> admissible s)
   \<and> distinct (map fst (signalEvaluations a))
   \<and> (\<forall>(k, e) \<in> set (signalEvaluations a). ev_signalId e = k)
   \<and> fst ` set (signalEvaluations a) = ps_id ` set processed
   \<and> ev_signalId ` set (filter (\<lambda>e. ev_disposition e = ACCEPTED) (map snd (signalEvaluations a)))
       = ps_id ` set (accepted a)"

lemma agg_ok_start: "agg_ok admissible [] agg_start"
  by (simp add: agg_ok_def agg_start_def accepted_def)

text \<open>Recording a verdict for a signal that was not seen before.\<close>

lemma agg_ok_reject:
  assumes "agg_ok admissible processed a" "ps_id s \<notin> set (seenSignalIds a)"
  shows "agg_ok admissible (processed @ [s])
    (reject_signal (ps_id s) r (a\<lparr>seenSignalIds := set_add (ps_id s) (seenSignalIds a)\<rparr>))"
proof -
  have fresh: "ps_id s \<notin> fst ` set (signalEvaluations a)"
    using assms by (simp add: agg_ok_def)
  note put = map_put_fresh [OF fresh]
  show ?thesis
    using assms fresh
    by (simp add: agg_ok_def reject_signal_def accepted_def put)
qed

lemma agg_ok_accept:
  assumes "agg_ok admissible processed a" "ps_id s \<notin> set (seenSignalIds a)" "admissible s"
    and "ps_sourceId s \<notin> set (seenSourceIds a)" "ps_independenceKey s \<notin> fst ` set (votes a)"
  shows "agg_ok admissible (processed @ [s])
    (accept_signal s (a\<lparr>seenSignalIds := set_add (ps_id s) (seenSignalIds a)\<rparr>))"
proof -
  have fresh: "ps_id s \<notin> fst ` set (signalEvaluations a)"
    using assms by (simp add: agg_ok_def)
  note put = map_put_fresh [OF fresh] map_put_fresh [OF assms(5)]
  have "ps_id s \<notin> ps_id ` set (accepted a)"
    using assms(1,2) by (auto simp: agg_ok_def)
  then show ?thesis
    using assms fresh
    by (simp add: agg_ok_def accept_signal_def accepted_def put image_image)
qed

lemma agg_ok_seen:
  assumes "agg_ok admissible processed a" "ps_id s \<in> set (seenSignalIds a)"
  shows "agg_ok admissible (processed @ [s]) (a\<lparr>rejectedSignalIds := rejected\<rparr>)"
  using assms by (simp add: agg_ok_def accepted_def insert_absorb)

lemma agg_ok_collect:
  "agg_ok (\<lambda>s. signalRejectionReason policy s cs rv consumed = None)
     (sort_key signal_key signals) (collect_signals policy cs rv consumed signals)"
proof (induction rule: collect_induct)
  case (step processed s a)
  then show ?case
    by (auto simp: signal_step_def Let_def agg_ok_seen agg_ok_accept
        intro!: agg_ok_reject split: option.split)
qed (rule agg_ok_start)

lemma agg_ok_votes:
  assumes "agg_ok admissible processed a" "s \<in> set (route_votes a)"
  shows "s \<in> set processed \<and> admissible s"
  using assms by (auto simp: agg_ok_def route_votes_def accepted_def)

lemma agg_ok_distinct_keys:
  assumes "agg_ok admissible processed a"
  shows "distinct (map ps_sourceId (filter P (accepted a)))"
    and "distinct (map ps_independenceKey (filter P (accepted a)))"
  using assms by (simp_all add: agg_ok_def distinct_map_filter)

section \<open>Decisions of a cycle\<close>

text \<open>A quorum of votes is a set of that many admissible signals from pairwise different probe sources
  and pairwise different independence keys.\<close>

definition independent_quorum ::
    "HealthPolicyConfig \<Rightarrow> instant \<Rightarrow> version \<Rightarrow> uuid list \<Rightarrow> ProbeSignal list \<Rightarrow>
     (ProbeSignal \<Rightarrow> bool) \<Rightarrow> bool" where
  "independent_quorum policy cs rv consumed signals P \<longleftrightarrow>
     (\<exists>V. V \<subseteq> set signals \<and> int (card V) \<ge> probeSourceQuorum policy
       \<and> inj_on ps_sourceId V \<and> inj_on ps_independenceKey V
       \<and> (\<forall>s \<in> V. P s \<and> signalRejectionReason policy s cs rv consumed = None))"

lemma quorum_of_votes:
  assumes "a = collect_signals policy cs rv consumed signals"
    and "int (length (filter P (accepted a))) \<ge> probeSourceQuorum policy"
  shows "independent_quorum policy cs rv consumed signals P"
proof -
  let ?V = "filter P (accepted a)"
  have ok: "agg_ok (\<lambda>s. signalRejectionReason policy s cs rv consumed = None)
      (sort_key signal_key signals) a"
    unfolding assms(1) by (rule agg_ok_collect)
  have "distinct (map ps_sourceId ?V)" "distinct (map ps_independenceKey ?V)"
    by (rule agg_ok_distinct_keys [OF ok])+
  then have inj: "inj_on ps_sourceId (set ?V)" "inj_on ps_independenceKey (set ?V)"
    and dist: "distinct ?V"
    by (simp_all only: distinct_map)
  have "\<forall>s \<in> set (accepted a). s \<in> set signals \<and>
      signalRejectionReason policy s cs rv consumed = None"
    using ok by (simp add: agg_ok_def)
  then have "set ?V \<subseteq> set signals"
    "\<forall>s \<in> set ?V. P s \<and> signalRejectionReason policy s cs rv consumed = None"
    by auto
  with inj assms(2) show ?thesis
    unfolding independent_quorum_def distinct_card [OF dist, symmetric] by blast
qed

lemma success_votes_accepted: "success_votes a = filter (\<lambda>s. ps_outcome s = SUCCESS) (accepted a)"
  unfolding success_votes_def route_votes_def accepted_def filter_filter by (rule filter_cong) auto

definition class_failure :: "RouteFailureClass \<Rightarrow> ProbeSignal \<Rightarrow> bool" where
  "class_failure c s \<longleftrightarrow> ps_outcome s = FAILURE \<and> ps_failureClass s = Some c"

lemma failures_of_class_accepted:
  assumes "c \<in> set (routeFailureClasses policy)"
  shows "failures_of_class policy a c = filter (class_failure c) (accepted a)"
proof -
  have "(ps_failureClass s = Some c \<and> (ps_outcome s = FAILURE \<and>
      (case ps_failureClass s of None \<Rightarrow> False | Some c \<Rightarrow> c \<in> set (routeFailureClasses policy))) \<and>
      ps_outcome s \<noteq> PROBE_SOURCE_FAILURE) = class_failure c s" for s
    using assms by (auto simp: class_failure_def)
  then show ?thesis
    by (simp add: failures_of_class_def failure_votes_def route_votes_def accepted_def conj_commute
        conj_left_commute)
qed

lemmas aggregate_defs = aggregateHealthProbeCycle_def Let_def

text \<open>C7. A cycle is FAILED only on a quorum: as many admissible failure signals of the reported failure
  class as the policy's quorum asks for, from pairwise different sources and independence keys, and
  not one accepted success.  Unauthenticated, stale, already consumed or wrongly versioned signals
  never count.\<close>

theorem failed_cycle_has_quorum:
  assumes "cy_decision (aggregateHealthProbeCycle policy cs rv consumed signals) = CycleFailed"
    and "0 < probeSourceQuorum policy"
  shows "\<exists>c \<in> set (routeFailureClasses policy).
      cy_failureClass (aggregateHealthProbeCycle policy cs rv consumed signals) = Some c
    \<and> independent_quorum policy cs rv consumed signals (class_failure c)
    \<and> success_votes (collect_signals policy cs rv consumed signals) = []"
proof -
  let ?a = "collect_signals policy cs rv consumed signals"
  obtain c where c: "confirmedFailureClass policy ?a = Some c"
    and cls: "cy_failureClass (aggregateHealthProbeCycle policy cs rv consumed signals) = Some c"
    and none: "success_votes ?a = [] \<or> failure_votes policy ?a = []"
    using assms(1) by (auto simp: aggregate_defs split: if_splits option.splits)
  then have mem: "c \<in> set (routeFailureClasses policy)"
    and enough: "probeSourceQuorum policy \<le> int (length (failures_of_class policy ?a c))"
    by (auto simp: confirmedFailureClass_def find_Some_iff)
  from enough assms(2) have "failure_votes policy ?a \<noteq> []"
    by (auto simp: failures_of_class_def)
  with none have "success_votes ?a = []" by simp
  moreover have "independent_quorum policy cs rv consumed signals (class_failure c)"
    using quorum_of_votes [OF refl] enough by (simp add: failures_of_class_accepted [OF mem])
  ultimately show ?thesis using cls mem by blast
qed

text \<open>A cycle is a SUCCESS only on a quorum of admissible successes from pairwise different
  sources and independence keys, with no failure class confirmed.\<close>

lemma success_cycle_has_quorum:
  assumes "cy_decision (aggregateHealthProbeCycle policy cs rv consumed signals) = CycleSuccess"
  shows "independent_quorum policy cs rv consumed signals (\<lambda>s. ps_outcome s = SUCCESS)
    \<and> confirmedFailureClass policy (collect_signals policy cs rv consumed signals) = None"
proof -
  let ?a = "collect_signals policy cs rv consumed signals"
  have "probeSourceQuorum policy \<le> int (length (success_votes ?a))"
    and "confirmedFailureClass policy ?a = None"
    using assms by (auto simp: aggregate_defs split: if_splits option.splits)
  then show ?thesis
    using quorum_of_votes [OF refl] by (simp add: success_votes_accepted)
qed

lemma aggregate_evaluations:
  "cy_signalEvaluations (aggregateHealthProbeCycle policy cs rv consumed signals) =
     sort_key ev_signalId (map snd (signalEvaluations (collect_signals policy cs rv consumed signals)))"
  by (simp add: aggregate_defs split: option.split)

text \<open>Every received signal gets exactly one verdict: the evaluations of a cycle are sorted by
  signal, no signal is judged twice, none is missing and none is invented, and a signal is accepted
  exactly when it is one of the votes.\<close>

theorem one_verdict_per_signal:
  "let r = aggregateHealthProbeCycle policy cs rv consumed signals;
       evs = cy_signalEvaluations r
   in sorted (map ev_signalId evs) \<and> distinct (map ev_signalId evs)
    \<and> set (map ev_signalId evs) = ps_id ` set signals
    \<and> ev_signalId ` set (filter (\<lambda>e. ev_disposition e = ACCEPTED) evs)
        = ps_id ` set (accepted (collect_signals policy cs rv consumed signals))"
proof -
  let ?a = "collect_signals policy cs rv consumed signals"
  let ?evs = "map snd (signalEvaluations ?a)"
  note ok = agg_ok_collect [of policy cs rv consumed signals]
  have keys: "map ev_signalId ?evs = map fst (signalEvaluations ?a)"
    using ok by (auto simp: agg_ok_def)
  have fin: "distinct (map ev_signalId ?evs)" "set (map ev_signalId ?evs) = ps_id ` set signals"
    unfolding keys using ok by (simp_all add: agg_ok_def)
  have acc: "ev_signalId ` set (filter (\<lambda>e. ev_disposition e = ACCEPTED) ?evs) = ps_id ` set (accepted ?a)"
    using ok by (simp add: agg_ok_def)
  have "distinct (map ev_signalId (sort_key ev_signalId ?evs))"
    using fin(1) by (simp only: distinct_map distinct_sort set_sort)
  with fin(2) acc show ?thesis
    by (simp only: Let_def aggregate_evaluations sorted_sort_key set_map set_sort set_filter)
qed

text \<open>The result of a cycle does not depend on the order in which the database returned the
  signals, as long as no two of them agree in both arrival time and identifier.\<close>

theorem cycle_order_independent:
  assumes "mset signals = mset signals'" and "inj_on signal_key (set signals)"
  shows "aggregateHealthProbeCycle policy cs rv consumed signals =
    aggregateHealthProbeCycle policy cs rv consumed signals'"
proof -
  have "sort_key signal_key signals = sort_key signal_key signals'"
    using assms by (intro sort_key_inj_key_eq) simp_all
  then have "collect_signals policy cs rv consumed signals = collect_signals policy cs rv consumed signals'"
    by (simp add: collect_signals_def)
  then show ?thesis by (simp add: aggregate_defs)
qed

section \<open>The state machine over many cycles\<close>

lemma cycle_of_previous [simp]: "cycle_of policy (i\<lparr>in_previousState := s\<rparr>) = cycle_of policy i"
  by (simp add: cycle_of_def)

lemma heartbeat_fresh_previous [simp]:
  "heartbeat_fresh policy (i\<lparr>in_previousState := s\<rparr>) = heartbeat_fresh policy i"
  by (simp add: heartbeat_fresh_def split: option.split)

lemma hd_state_finish [simp]: "hd_state (finishDecision i s r c v) = s"
  by (simp add: finishDecision_def Let_def)

lemma health_step_critical:
  "in_criticalTrustFailure i \<noteq> None \<Longrightarrow> health_step i s =
     s\<lparr>hs_status := QUARANTINED, excludedFromCandidates := True,
       consecutiveRecoverySuccesses := 0, recoveryWindowStartedAt := None\<rparr>"
  by (simp add: health_step_def evaluateHealthCycle_def)

lemma health_step_no_policy:
  assumes "in_criticalTrustFailure i = None" "effective_policy i = None"
  shows "health_step i s = s\<lparr>hs_status := atLeastDegraded (hs_status s)\<rparr>"
  using assms
  by (auto simp: health_step_def evaluateHealthCycle_def effective_policy_def split: option.splits)

lemma health_step_policy:
  assumes "effective_policy i = Some policy"
  shows "health_step i s = fst (stale_heartbeat policy i
    (apply_cycle policy (i\<lparr>in_previousState := s\<rparr>) (cy_decision (cycle_of policy i))))"
  using assms
  by (auto simp: health_step_def evaluateHealthCycle_def effective_policy_def Let_def
      stale_heartbeat_def split: option.splits if_splits prod.splits)

lemma health_step_cases [case_names critical no_policy policy]:
  obtains "in_criticalTrustFailure i \<noteq> None"
    | "in_criticalTrustFailure i = None" "effective_policy i = None"
    | policy where "in_criticalTrustFailure i = None" "effective_policy i = Some policy"
  by (cases "effective_policy i"; cases "in_criticalTrustFailure i")
    (auto simp: effective_policy_def)

lemmas cycle_defs [vpn_simps] =
  apply_cycle_def failed_cycle_def success_cycle_def uncertain_cycle_def stale_heartbeat_def
  atLeastDegraded_def Let_def

lemmas health_step_rules = health_step_critical health_step_no_policy health_step_policy

lemma health_state_ok_step:
  assumes "health_state_ok s"
  shows "health_state_ok (health_step i s)"
proof (cases rule: health_step_cases [of i])
  case (policy policy)
  then show ?thesis
    using assms
    by (cases "cy_decision (cycle_of policy i)")
      (auto simp: health_step_policy health_state_ok_def vpn_simps)
qed (use assms in \<open>auto simp: health_step_rules health_state_ok_def atLeastDegraded_def\<close>)

lemma run_health_Nil [simp]: "run_health [] s = s"
  by (simp add: run_health_def)

lemma run_health_snoc [simp]: "run_health (is @ [i]) s = health_step i (run_health is s)"
  by (simp add: run_health_def)

text \<open>Every evaluation keeps the state of a scope consistent: a healthy scope is never excluded
  from the candidates, the counters never become negative, and a recovery window is open exactly
  while recovery successes are being counted.  Hence the same holds after any history of cycles.\<close>

theorem health_state_invariant:
  assumes "health_state_ok s"
  shows "health_state_ok (run_health is s)"
  by (induction "is" rule: rev_induct) (use assms in \<open>simp_all add: health_state_ok_step\<close>)

lemma fenced_step:
  assumes "hs_status s \<in> {QUARANTINED, DISABLED}"
  shows "hs_status (health_step i s) \<in> {QUARANTINED, DISABLED} \<and>
    (excludedFromCandidates s \<longrightarrow> excludedFromCandidates (health_step i s))"
proof (cases rule: health_step_cases [of i])
  case (policy policy)
  then show ?thesis
    using assms
    by (cases "cy_decision (cycle_of policy i)") (auto simp: health_step_policy vpn_simps)
qed (use assms in \<open>auto simp: health_step_rules atLeastDegraded_def\<close>)

text \<open>Quarantine and disablement are left by no sequence of probe cycles: whatever signals arrive,
  the scope stays quarantined or disabled, stays excluded, and no decision allows new assignments.
  Only an operator action outside this state machine can lift it.\<close>

theorem quarantine_is_sticky:
  assumes "hs_status s \<in> {QUARANTINED, DISABLED}" "excludedFromCandidates s"
  shows "hs_status (run_health is s) \<in> {QUARANTINED, DISABLED}
    \<and> excludedFromCandidates (run_health is s)
    \<and> \<not> hd_allowNewAssignments (evaluateHealthCycle (i\<lparr>in_previousState := run_health is s\<rparr>))"
proof -
  have fenced: "hs_status (run_health is s) \<in> {QUARANTINED, DISABLED}
      \<and> excludedFromCandidates (run_health is s)" for "is"
    by (induction "is" rule: rev_induct) (use assms fenced_step in auto)
  have "hd_allowNewAssignments d \<longrightarrow> hs_status (hd_state d) = HEALTHY"
    if "d = evaluateHealthCycle j" for d j
    by (auto simp: that evaluateHealthCycle_def finishDecision_def Let_def split: option.splits prod.splits)
  with fenced [of "is"] fenced [of "is @ [i]"] show ?thesis
    by (auto simp: health_step_def)
qed

lemma recovery_run_bound:
  assumes "consecutiveRecoverySuccesses s0 = 0" "recoveryWindowStartedAt s0 = None"
  shows "consecutiveRecoverySuccesses (run_health is s0) \<le> int (length (recovery_run (rev is)))
    \<and> (\<forall>t. recoveryWindowStartedAt (run_health is s0) = Some t \<longrightarrow>
         t \<in> in_cycleStartedAt ` set (recovery_run (rev is)))"
proof (induction "is" rule: rev_induct)
  case (snoc i "is")
  show ?case
  proof (cases rule: health_step_cases [of i])
    case (policy policy)
    then show ?thesis
      using snoc
      by (cases "cy_decision (cycle_of policy i)")
        (auto simp: health_step_policy vpn_simps split: option.splits)
  qed (use snoc in \<open>simp_all add: health_step_rules\<close>)
qed (simp add: assms)

text \<open>C6. A scope becomes healthy only by an earned recovery: the history ends in at least
  \<open>recoverySuccessCycles\<close> uninterrupted confirmed successes, one of them started at least
  \<open>recoveryMinimumSeconds\<close> before the evaluation, and at that moment the heartbeat is fresh, the
  clock is trusted, the serving check passed and the node has applied what it was told to.\<close>

theorem recovery_is_earned:
  assumes "consecutiveRecoverySuccesses s0 = 0" "recoveryWindowStartedAt s0 = None"
    and "hs_status (run_health is s0) \<noteq> HEALTHY"
    and "hs_status (run_health (is @ [i]) s0) = HEALTHY"
  shows "\<exists>policy. effective_policy i = Some policy
    \<and> recoverySuccessCycles policy \<le> int (length (recovery_run (rev (is @ [i]))))
    \<and> (\<exists>j \<in> set (recovery_run (rev (is @ [i]))).
         in_evaluatedAt i - in_cycleStartedAt j \<ge> milliseconds (recoveryMinimumSeconds policy))
    \<and> heartbeat_fresh policy i
    \<and> rg_clockTrusted (in_recoveryGates i) \<and> rg_servingCheckPassed (in_recoveryGates i)
    \<and> rg_desiredVersion (in_recoveryGates i) = rg_appliedVersion (in_recoveryGates i)"
proof (cases rule: health_step_cases [of i])
  case (policy policy)
  let ?s = "run_health is s0"
  have success: "cy_decision (cycle_of policy i) = CycleSuccess"
    using policy assms(3,4)
    by (cases "cy_decision (cycle_of policy i)")
      (auto simp: health_step_policy vpn_simps split: if_splits)
  note bound = recovery_run_bound [OF assms(1,2), of "is"]
  have "in_evaluatedAt i - (case recoveryWindowStartedAt ?s of None \<Rightarrow> in_cycleStartedAt i | Some t \<Rightarrow> t)
          \<ge> milliseconds (recoveryMinimumSeconds policy)"
    and "recoverySuccessCycles policy \<le> consecutiveRecoverySuccesses ?s + 1"
    and gates: "heartbeat_fresh policy i \<and> rg_clockTrusted (in_recoveryGates i)
      \<and> rg_servingCheckPassed (in_recoveryGates i)
      \<and> rg_desiredVersion (in_recoveryGates i) = rg_appliedVersion (in_recoveryGates i)"
    using policy assms(3,4) success
    by (auto simp: health_step_policy vpn_simps split: if_splits option.splits)
  with bound success policy show ?thesis
    by (auto split: option.splits)
qed (use assms(3,4) in \<open>auto simp: health_step_rules atLeastDegraded_def split: if_splits\<close>)

section \<open>Concrete cycles\<close>

definition sample_signal :: "instant \<Rightarrow> uuid \<Rightarrow> ProbeOutcome \<Rightarrow> ProbeSignal" where
  "sample_signal t sid outcome = \<lparr>ps_id = sid, ps_sourceId = ''source-'' @ sid,
     ps_independenceKey = ''network-'' @ sid, ps_cycleStartedAt = t, ps_receivedAt = t + 500,
     ps_authenticated = True, ps_controlHealthy = True, ps_routeVersion = 7, ps_outcome = outcome,
     ps_failureClass = (if outcome = FAILURE then Some TCP_TLS else None)\<rparr>"

definition fresh_state :: HealthDecisionState where
  "fresh_state = \<lparr>hs_status = UNKNOWN, excludedFromCandidates = False, consecutiveFailureCycles = 0,
     consecutiveRecoverySuccesses = 0, recoveryWindowStartedAt = None,
     consecutiveUncertainCycles = 0, cooldownUntil = None\<rparr>"

definition sample_input :: "ProbeOutcome \<Rightarrow> int \<Rightarrow> EvaluateHealthCycleInput" where
  "sample_input outcome n = \<lparr>in_policy = Some (''101'', ''beta-v1'', beta_health_json),
     in_affectedScope = (NODE, ''node''), in_routeVersion = 7,
     in_cycleStartedAt = n * 100000, in_evaluatedAt = n * 100000 + 1000,
     in_signals = [sample_signal (n * 100000) ''a'' outcome, sample_signal (n * 100000) ''b'' outcome],
     in_consumedSignalIds = [], in_previousState = fresh_state,
     in_lastHeartbeatAt = Some (n * 100000),
     in_recoveryGates = \<lparr>rg_clockTrusted = True, rg_servingCheckPassed = True,
       rg_desiredVersion = 7, rg_appliedVersion = 7\<rparr>,
     in_criticalTrustFailure = None\<rparr>"

definition sample_cycle :: "ProbeOutcome \<Rightarrow> ProbeCycleResult" where
  "sample_cycle outcome = aggregateHealthProbeCycle beta_health_policy 0 7 []
     [sample_signal 0 ''a'' outcome, sample_signal 0 ''b'' outcome]"

lemma sample_failed: "cy_decision (sample_cycle FAILURE) = CycleFailed"
  by code_simp

theorem failed_cycle_has_quorum_witness:
  "\<exists>c. cy_failureClass (sample_cycle FAILURE) = Some c \<and>
     independent_quorum beta_health_policy 0 7 []
       [sample_signal 0 ''a'' FAILURE, sample_signal 0 ''b'' FAILURE] (class_failure c)"
  using failed_cycle_has_quorum [OF sample_failed [unfolded sample_cycle_def]]
  by (auto simp: sample_cycle_def beta_health_policy_def)

theorem cycle_order_independent_witness:
  "sample_cycle FAILURE = aggregateHealthProbeCycle beta_health_policy 0 7 []
     [sample_signal 0 ''b'' FAILURE, sample_signal 0 ''a'' FAILURE]"
  unfolding sample_cycle_def
  by (rule cycle_order_independent) (auto simp: sample_signal_def signal_key_def)

theorem health_state_invariant_witness:
  "health_state_ok fresh_state \<and> health_state_ok (run_health [sample_input FAILURE 0] fresh_state)"
proof -
  have "health_state_ok fresh_state" by code_simp
  with health_state_invariant [OF this] show ?thesis by blast
qed

theorem quarantine_is_sticky_witness:
  "hs_status (run_health [sample_input SUCCESS 0]
     (fresh_state\<lparr>hs_status := QUARANTINED, excludedFromCandidates := True\<rparr>)) \<in> {QUARANTINED, DISABLED}"
  using quarantine_is_sticky [of "fresh_state\<lparr>hs_status := QUARANTINED, excludedFromCandidates := True\<rparr>"]
  by simp

definition recovery_history :: "EvaluateHealthCycleInput list" where
  "recovery_history = map (sample_input SUCCESS) [0, 1, 2, 3]"

lemma recovery_history_pending: "hs_status (run_health recovery_history fresh_state) = UNKNOWN"
  by code_simp

lemma recovery_history_healthy:
  "hs_status (run_health (recovery_history @ [sample_input SUCCESS 4]) fresh_state) = HEALTHY"
  by code_simp

theorem recovery_is_earned_witness:
  "\<exists>policy. effective_policy (sample_input SUCCESS 4) = Some policy \<and> recoverySuccessCycles policy
     \<le> int (length (recovery_run (rev (recovery_history @ [sample_input SUCCESS 4]))))"
  using recovery_is_earned [of fresh_state recovery_history "sample_input SUCCESS 4"]
    recovery_history_pending recovery_history_healthy
  by (auto simp: fresh_state_def)

end
