(* ===== verification/Control_Plane_Db.thy ===== *)
theory Control_Plane_Db
  imports Json_Schema
begin

text \<open>
  The control-plane database (\<open>prisma/schema.prisma\<close> and the triggers of \<open>prisma/migrations\<close>) and the
  single-table writes the services share.

  A table is the list of its rows; \<open>db\<close> is the record of the tables the modelled services touch.  A
  transaction is a function that returns \<open>Inl\<close> the error, which rolls back, or \<open>Inr\<close> the result and
  the new database.  Row locks and advisory locks serialise transactions, so a transaction is one
  atomic step.  Columns that no modelled code reads (\<open>updatedAt\<close>, audit metadata) are left out.
  Identifiers from \<open>randomUUID()\<close> or a column default are arguments of the operation that inserts the
  row; an insert that repeats a primary key or a unique key is a database error.
\<close>

section \<open>Enumerations\<close>

datatype NodeStatus =
  NodeProvisioning | NodeHealthy | NodeDraining | NodeDisabled | NodeQuarantined | NodeDeleted

datatype GrantStatus = GrantPending | GrantActive | GrantRevoked

datatype JobStatus = JobPending | JobProcessing | JobSucceeded | JobFailed

datatype OutboxStatus = OutboxPending | OutboxProcessing | OutboxPublished | OutboxFailed

datatype DeviceStatus = DeviceActive | DeviceRevoked

datatype SubscriptionStatus = SubPending | SubActive | SubExpired | SubCancelled

datatype EndpointStatus = EndpointActive | EndpointDisabled

datatype ProfileStatus = ProfileDraft | ProfileActive | ProfileDisabled

section \<open>Rows\<close>

record node =
  nd_id :: uuid
  nd_status :: NodeStatus
  desiredConfigVersion :: version
  appliedConfigVersion :: version

record grant =
  gr_id :: uuid
  gr_nodeId :: uuid
  gr_deviceId :: uuid
  gr_status :: GrantStatus
  gr_credentialHash :: string
  gr_derivationVersion :: "int option"
  gr_expiresAt :: instant
  gr_desiredVersion :: version
  gr_appliedVersion :: version
  gr_revokedAt :: "instant option"

record job =
  jb_id :: uuid
  jb_nodeId :: uuid
  jb_grantId :: "uuid option"
  jb_routeEndpointId :: "uuid option"
  jb_routeProfileId :: "uuid option"
  jb_targetVersion :: version
  jb_key :: string
  jb_status :: JobStatus
  jb_attempts :: int
  jb_nextAttemptAt :: "instant option"
  jb_leaseOwner :: "string option"
  jb_leaseToken :: "uuid option"
  jb_leaseExpiresAt :: "instant option"
  jb_lastErrorCode :: "string option"
  jb_completedAt :: "instant option"

record outbox_event =
  ob_id :: uuid
  ob_topic :: string
  ob_aggregateType :: string
  ob_aggregateId :: uuid
  ob_payload :: json
  ob_key :: string
  ob_status :: OutboxStatus
  ob_attempts :: int
  ob_nextAttemptAt :: "instant option"
  ob_leaseOwner :: "string option"
  ob_leaseToken :: "uuid option"
  ob_leaseExpiresAt :: "instant option"
  ob_publishedAt :: "instant option"
  ob_lastErrorCode :: "string option"
  ob_createdAt :: instant

record acknowledgement =
  ak_nodeId :: uuid
  ak_jobId :: uuid
  ak_targetVersion :: version
  ak_snapshotHash :: string
  ak_acknowledgedAt :: instant

record delivery =
  dl_nodeId :: uuid
  dl_jobId :: uuid
  dl_targetVersion :: version
  dl_snapshotHash :: string

record device =
  dv_id :: uuid
  dv_userId :: uuid
  dv_status :: DeviceStatus
  dv_revokedAt :: "instant option"

record subscription =
  sb_id :: uuid
  sb_userId :: uuid
  sb_status :: SubscriptionStatus
  sb_expiresAt :: "instant option"
  sb_cancelledAt :: "instant option"

record endpoint =
  ep_id :: uuid
  ep_nodeId :: uuid
  ep_host :: string
  ep_addressKind :: string
  ep_port :: int
  ep_priority :: int
  ep_status :: EndpointStatus

record profile =
  pf_id :: uuid
  pf_nodeId :: uuid
  pf_profileKey :: uuid
  pf_version :: int
  pf_protocolKind :: string
  pf_transportKind :: string
  pf_securityKind :: string
  pf_clientCompatibility :: string
  pf_priority :: int
  pf_status :: ProfileStatus

record public_config =
  pc_profileId :: uuid
  pc_tlsServerName :: string
  pc_displayName :: string

record route =
  rt_endpointId :: uuid
  rt_profileId :: uuid
  rt_nodeId :: uuid
  rt_activationVersion :: "version option"
  rt_lastActivationVersion :: version

record audit_event =
  au_actorUserId :: "uuid option"
  au_action :: string
  au_entityType :: string
  au_entityId :: uuid

record db =
  nodes :: "node list"
  grants :: "grant list"
  jobs :: "job list"
  outbox :: "outbox_event list"
  acknowledgements :: "acknowledgement list"
  deliveries :: "delivery list"
  devices :: "device list"
  subscriptions :: "subscription list"
  endpoints :: "endpoint list"
  profiles :: "profile list"
  public_configs :: "public_config list"
  routes :: "route list"
  audit :: "audit_event list"

datatype cp_error = Thrown string | DbError string

type_synonym 'a tx = "db \<Rightarrow> cp_error + ('a \<times> db)"

section \<open>Lookups\<close>

definition find_node :: "uuid \<Rightarrow> db \<Rightarrow> node option" where
  "find_node nid d = find (\<lambda>n. nd_id n = nid) (nodes d)"

definition find_device :: "uuid \<Rightarrow> db \<Rightarrow> device option" where
  "find_device did d = find (\<lambda>v. dv_id v = did) (devices d)"

definition find_grant :: "uuid \<Rightarrow> db \<Rightarrow> grant option" where
  "find_grant gid d = find (\<lambda>g. gr_id g = gid) (grants d)"

definition find_job_by_key :: "string \<Rightarrow> db \<Rightarrow> job option" where
  "find_job_by_key k d = find (\<lambda>j. jb_key j = k) (jobs d)"

definition find_outbox_by_key :: "string \<Rightarrow> db \<Rightarrow> outbox_event option" where
  "find_outbox_by_key k d = find (\<lambda>e. ob_key e = k) (outbox d)"

definition live_grant :: "grant \<Rightarrow> bool" where
  "live_grant g \<longleftrightarrow> gr_status g \<noteq> GrantRevoked"

section \<open>Writes\<close>

text \<open>\<open>node.update\<close> with \<open>desiredConfigVersion: { increment: 1 }\<close>.\<close>

definition bump_desired :: "uuid \<Rightarrow> db \<Rightarrow> db" where
  "bump_desired nid d = d\<lparr>nodes := update_rows (\<lambda>n. nd_id n = nid)
     (\<lambda>n. n\<lparr>desiredConfigVersion := desiredConfigVersion n + 1\<rparr>) (nodes d)\<rparr>"

text \<open>An update of \<open>Node.status\<close> fires three triggers: a node returns to \<open>HEALTHY\<close> only when it has
  applied its desired version, it enters \<open>QUARANTINED\<close> only without live grants, and any change of
  status closes the activations of its routes.\<close>

definition close_node_routes :: "uuid \<Rightarrow> db \<Rightarrow> db" where
  "close_node_routes nid d = d\<lparr>routes := update_rows (\<lambda>r. rt_nodeId r = nid)
     (\<lambda>r. r\<lparr>rt_activationVersion := None\<rparr>) (routes d)\<rparr>"

definition set_node_status :: "uuid \<Rightarrow> NodeStatus \<Rightarrow> db \<Rightarrow> cp_error + db" where
  "set_node_status nid st d = (case find_node nid d of
       None \<Rightarrow> Inl (DbError ''Record to update not found'')
     | Some n \<Rightarrow>
         if st = NodeHealthy \<and> nd_status n \<noteq> NodeHealthy
            \<and> desiredConfigVersion n > appliedConfigVersion n
         then Inl (DbError ''Node cannot return to HEALTHY until pending access updates are reconciled'')
         else if st = NodeQuarantined \<and> nd_status n \<noteq> NodeQuarantined
            \<and> (\<exists>g \<in> set (grants d). gr_nodeId g = nid \<and> live_grant g)
         then Inl (DbError ''Node cannot enter QUARANTINED while live access grants remain'')
         else let d' = d\<lparr>nodes := update_rows (\<lambda>m. nd_id m = nid) (\<lambda>m. m\<lparr>nd_status := st\<rparr>) (nodes d)\<rparr>
              in Inr (if st \<noteq> nd_status n then close_node_routes nid d' else d'))"

definition new_job ::
    "uuid \<Rightarrow> uuid \<Rightarrow> uuid option \<Rightarrow> uuid option \<Rightarrow> uuid option \<Rightarrow> version \<Rightarrow> string \<Rightarrow> job" where
  "new_job jid nid gid epid pfid target k = \<lparr>jb_id = jid, jb_nodeId = nid, jb_grantId = gid,
     jb_routeEndpointId = epid, jb_routeProfileId = pfid, jb_targetVersion = target, jb_key = k,
     jb_status = JobPending, jb_attempts = 0, jb_nextAttemptAt = None, jb_leaseOwner = None,
     jb_leaseToken = None, jb_leaseExpiresAt = None, jb_lastErrorCode = None, jb_completedAt = None\<rparr>"

definition create_job :: "job \<Rightarrow> db \<Rightarrow> cp_error + db" where
  "create_job j d =
     (if \<exists>k \<in> set (jobs d). jb_id k = jb_id j \<or> jb_key k = jb_key j
      then Inl (DbError ''Unique constraint failed on NodeSyncJob'')
      else Inr (d\<lparr>jobs := jobs d @ [j]\<rparr>))"

definition new_event ::
    "uuid \<Rightarrow> string \<Rightarrow> uuid \<Rightarrow> json \<Rightarrow> string \<Rightarrow> instant \<Rightarrow> outbox_event" where
  "new_event eid aggType aggId payload k now = \<lparr>ob_id = eid, ob_topic = ''node-sync.requested'',
     ob_aggregateType = aggType, ob_aggregateId = aggId, ob_payload = payload, ob_key = k,
     ob_status = OutboxPending, ob_attempts = 0, ob_nextAttemptAt = None, ob_leaseOwner = None,
     ob_leaseToken = None, ob_leaseExpiresAt = None, ob_publishedAt = None, ob_lastErrorCode = None,
     ob_createdAt = now\<rparr>"

definition create_event :: "outbox_event \<Rightarrow> db \<Rightarrow> cp_error + db" where
  "create_event e d =
     (if \<exists>f \<in> set (outbox d). ob_id f = ob_id e \<or> ob_key f = ob_key e
      then Inl (DbError ''Unique constraint failed on OutboxEvent'')
      else Inr (d\<lparr>outbox := outbox d @ [e]\<rparr>))"

definition write_audit :: "uuid option \<Rightarrow> string \<Rightarrow> string \<Rightarrow> uuid \<Rightarrow> db \<Rightarrow> db" where
  "write_audit actor action entityType entityId d = d\<lparr>audit := audit d @
     [\<lparr>au_actorUserId = actor, au_action = action, au_entityType = entityType, au_entityId = entityId\<rparr>]\<rparr>"

text \<open>Insert and status update of a grant are refused on a quarantined node unless the grant is
  revoked.\<close>

definition create_grant :: "grant \<Rightarrow> db \<Rightarrow> cp_error + db" where
  "create_grant g d =
     (if \<exists>h \<in> set (grants d). gr_id h = gr_id g
           \<or> (gr_nodeId h = gr_nodeId g \<and> gr_deviceId h = gr_deviceId g)
           \<or> gr_credentialHash h = gr_credentialHash g
      then Inl (DbError ''Unique constraint failed on NodeAccessGrant'')
      else if live_grant g \<and> (\<exists>n \<in> set (nodes d). nd_id n = gr_nodeId g \<and> nd_status n = NodeQuarantined)
      then Inl (DbError ''Quarantined node cannot retain live access grants'')
      else Inr (d\<lparr>grants := grants d @ [g]\<rparr>))"

definition revoke_grant :: "uuid \<Rightarrow> instant \<Rightarrow> version option \<Rightarrow> db \<Rightarrow> db" where
  "revoke_grant gid now target d = d\<lparr>grants := update_rows (\<lambda>g. gr_id g = gid)
     (\<lambda>g. g\<lparr>gr_status := GrantRevoked, gr_revokedAt := Some now,
        gr_desiredVersion := (case target of None \<Rightarrow> gr_desiredVersion g | Some v \<Rightarrow> v)\<rparr>) (grants d)\<rparr>"

text \<open>The job and the outbox event that tell a node to synchronise a grant, written together.\<close>

definition grant_payload :: "uuid \<Rightarrow> uuid \<Rightarrow> version \<Rightarrow> json" where
  "grant_payload gid jid target = JObj [(''nodeAccessGrantId'', JStr gid),
     (''nodeSyncJobId'', JStr jid), (''targetVersion'', JInt target)]"

definition route_payload :: "uuid \<Rightarrow> uuid \<Rightarrow> uuid \<Rightarrow> version \<Rightarrow> json" where
  "route_payload epid pfid jid target = JObj [(''routeEndpointId'', JStr epid),
     (''routeConnectionProfileId'', JStr pfid), (''nodeSyncJobId'', JStr jid),
     (''targetVersion'', JInt target)]"

definition request_grant_sync ::
    "uuid \<Rightarrow> uuid \<Rightarrow> uuid \<Rightarrow> uuid \<Rightarrow> version \<Rightarrow> string \<Rightarrow> string \<Rightarrow> instant \<Rightarrow> db \<Rightarrow> cp_error + db" where
  "request_grant_sync jid eid nid gid target jobKey eventKey now d =
     (case create_job (new_job jid nid (Some gid) None None target jobKey) d of
        Inl e \<Rightarrow> Inl e
      | Inr d1 \<Rightarrow> create_event
          (new_event eid ''NodeAccessGrant'' gid (grant_payload gid jid target) eventKey now) d1)"

section \<open>A small database for concrete runs\<close>

definition empty_db :: db where
  "empty_db = \<lparr>nodes = [], grants = [], jobs = [], outbox = [], acknowledgements = [], deliveries = [],
     devices = [], subscriptions = [], endpoints = [], profiles = [], public_configs = [], routes = [],
     audit = []\<rparr>"

definition sample_node :: node where
  "sample_node = \<lparr>nd_id = ''n1'', nd_status = NodeHealthy, desiredConfigVersion = 3, appliedConfigVersion = 2\<rparr>"

definition sample_grant :: grant where
  "sample_grant = \<lparr>gr_id = ''g1'', gr_nodeId = ''n1'', gr_deviceId = ''d1'', gr_status = GrantPending,
     gr_credentialHash = ''h1'', gr_derivationVersion = Some 1, gr_expiresAt = 900000,
     gr_desiredVersion = 3, gr_appliedVersion = 0, gr_revokedAt = None\<rparr>"

definition sample_db :: db where
  "sample_db = empty_db\<lparr>nodes := [sample_node], grants := [sample_grant],
     jobs := [new_job ''j1'' ''n1'' (Some ''g1'') None None 3 ''job-key''],
     outbox := [new_event ''e1'' ''NodeAccessGrant'' ''g1'' (grant_payload ''g1'' ''j1'' 3) ''event-key'' 100],
     devices := [\<lparr>dv_id = ''d1'', dv_userId = ''u1'', dv_status = DeviceActive, dv_revokedAt = None\<rparr>],
     subscriptions := [\<lparr>sb_id = ''s1'', sb_userId = ''u1'', sb_status = SubActive, sb_expiresAt = Some 900000,
        sb_cancelledAt = None\<rparr>]\<rparr>"

end
