(* ===== verification/Health_Store.thy ===== *)
theory Health_Store
  imports Health_Decision Control_Plane_Db
begin

text \<open>
  Health evidence and health actions (\<open>packages/orchestration-store/src/health-evidence-store.ts\<close>,
  \<open>health-action-store.ts\<close>).

  Probe results are recorded once, a decision consumes results of its scope and moves the state of the
  scope to the next version, and a decision that asks for it opens an incident with at most one
  operation.  \<open>health_db\<close> holds the tables; the checks, unique indexes and triggers of the migrations are
  guards of the writes and fail with \<open>DbError\<close>.  The advisory locks and the serialisable isolation make
  a transaction atomic; a serialisation failure of the database is the argument \<open>conflict\<close>.

  The instant, the identifiers of inserted rows, the test of the UUID format and the digests behind the
  idempotency keys are arguments.  Metadata of audit rows and timeline events is left out.
\<close>

section \<open>Tables\<close>

type_synonym health_scope = "HealthScopeKind \<times> string"

record probe_source =
  so_id :: uuid
  so_independenceKey :: string
  so_active :: bool

record probe_result =
  pr_id :: uuid
  pr_probeSourceId :: uuid
  pr_sourceResultId :: string
  pr_sourceIndependenceKey :: string
  pr_scope :: health_scope
  pr_cycleStartedAt :: instant
  pr_routeVersion :: version
  pr_outcome :: ProbeOutcome
  pr_failureClass :: "RouteFailureClass option"
  pr_controlHealthy :: bool
  pr_receivedAt :: instant

record availability_state =
  as_id :: uuid
  as_scope :: health_scope
  as_state :: HealthDecisionState
  as_version :: int

record availability_decision =
  ad_id :: uuid
  ad_idempotencyKey :: string
  ad_stateId :: uuid
  ad_stateVersion :: int
  ad_policyVersionId :: "uuid option"
  ad_signalIds :: "string list"
  ad_inputProbeResultIds :: "uuid list"
  ad_decision :: HealthStatus
  ad_reason :: HealthDecisionReason
  ad_state :: HealthDecisionState
  ad_allowNewAssignments :: bool
  ad_triggerReplacement :: bool
  ad_triggerIncident :: bool
  ad_cycleStartedAt :: "instant option"
  ad_routeVersion :: "version option"
  ad_cycleDecision :: "ProbeCycleDecision option"
  ad_failureClass :: "RouteFailureClass option"
  ad_additionalProbeDueAt :: "instant option"

record decision_signal =
  ds_decisionId :: uuid
  ds_probeResultId :: uuid
  ds_disposition :: disposition
  ds_rejectionReason :: "ProbeSignalRejectionReason option"

datatype IncidentStatus = IncidentOpen | IncidentResolved

record incident =
  ic_id :: uuid
  ic_decisionId :: uuid
  ic_scope :: health_scope
  ic_status :: IncidentStatus
  ic_openedAt :: instant
  ic_resolvedAt :: "instant option"

datatype OperationType = PromoteStandby | OtherOperation string
datatype OperationStatus = OperationPending | OperationRunning | OperationSucceeded | OperationFailed

record node_operation =
  no_id :: uuid
  no_incidentId :: uuid
  no_decisionId :: uuid
  no_policyVersionId :: uuid
  no_idempotencyKey :: string
  no_type :: OperationType
  no_status :: OperationStatus
  no_scope :: health_scope
  no_servicePrincipal :: "string option"
  no_reason :: HealthDecisionReason
  no_attempts :: int
  no_maxAttempts :: int

datatype TimelineKind = Opened | OperationCreated | Resolved

record timeline_event =
  te_incidentId :: uuid
  te_kind :: TimelineKind
  te_operationId :: "uuid option"
  te_createdAt :: instant

record health_db =
  h_sources :: "probe_source list"
  h_results :: "probe_result list"
  h_states :: "availability_state list"
  h_decisions :: "availability_decision list"
  h_signals :: "decision_signal list"
  h_policyVersions :: "policy_version list"
  h_policyActivations :: "policy_activation list"
  h_incidents :: "incident list"
  h_operations :: "node_operation list"
  h_events :: "timeline_event list"
  h_audit :: "audit_event list"

type_synonym 'a health_tx = "health_db \<Rightarrow> cp_error + ('a \<times> health_db)"

section \<open>Input schemas\<close>

text \<open>\<open>String.prototype.trim\<close> and \<open>z.string().trim().min(lo).max(hi)\<close>.\<close>

definition js_space :: "char \<Rightarrow> bool" where
  "js_space c \<longleftrightarrow> c \<in> {CHR 0x09, CHR 0x0A, CHR 0x0B, CHR 0x0C, CHR 0x0D, CHR 0x20, CHR 0xA0}"

definition js_trim :: "string \<Rightarrow> string" where
  "js_trim s = rev (dropWhile js_space (rev (dropWhile js_space s)))"

definition trimmed :: "nat \<Rightarrow> nat \<Rightarrow> string \<Rightarrow> string option" where
  "trimmed lo hi s = (let t = js_trim s in if lo \<le> length t \<and> length t \<le> hi then Some t else None)"

definition scopeSchema :: "health_scope \<Rightarrow> health_scope option" where
  "scopeSchema scope = map_option (Pair (fst scope)) (trimmed 1 128 (snd scope))"

definition databaseInteger :: "int \<Rightarrow> bool" where
  "databaseInteger n \<longleftrightarrow> 0 \<le> n \<and> n \<le> 2147483647"

record record_input =
  ri_probeSourceId :: uuid
  ri_sourceResultId :: string
  ri_affectedScope :: health_scope
  ri_cycleStartedAt :: instant
  ri_routeVersion :: version
  ri_outcome :: ProbeOutcome
  ri_failureClass :: "RouteFailureClass option"
  ri_controlHealthy :: bool

definition recordProbeResultSchema :: "(string \<Rightarrow> bool) \<Rightarrow> record_input \<Rightarrow> record_input option" where
  "recordProbeResultSchema is_uuid i =
     (case (trimmed 1 128 (ri_sourceResultId i), scopeSchema (ri_affectedScope i)) of
        (Some rid, Some scope) \<Rightarrow>
          if is_uuid (ri_probeSourceId i) \<and> databaseInteger (ri_routeVersion i)
             \<and> (ri_outcome i = FAILURE \<longleftrightarrow> ri_failureClass i \<noteq> None)
          then Some (i\<lparr>ri_sourceResultId := rid, ri_affectedScope := scope\<rparr>) else None
      | _ \<Rightarrow> None)"

record cycle_input =
  ci_affectedScope :: health_scope
  ci_routeVersion :: version
  ci_cycleStartedAt :: instant
  ci_probeResultIds :: "uuid list"
  ci_lastHeartbeatAt :: "instant option"
  ci_recoveryGates :: recovery_gates
  ci_criticalTrustFailure :: "(string \<times> CriticalTrustKind) option"

definition criticalTrustSchema :: "(string \<times> CriticalTrustKind) option \<Rightarrow> (string \<times> CriticalTrustKind) option option" where
  "criticalTrustSchema c = (case c of None \<Rightarrow> Some None
     | Some (sid, kind) \<Rightarrow> map_option (\<lambda>t. Some (t, kind)) (trimmed 1 128 sid))"

definition applyHealthCycleSchema :: "(string \<Rightarrow> bool) \<Rightarrow> cycle_input \<Rightarrow> cycle_input option" where
  "applyHealthCycleSchema is_uuid i =
     (case (scopeSchema (ci_affectedScope i), criticalTrustSchema (ci_criticalTrustFailure i)) of
        (Some scope, Some critical) \<Rightarrow>
          if databaseInteger (ci_routeVersion i) \<and> list_all is_uuid (ci_probeResultIds i)
             \<and> length (ci_probeResultIds i) \<le> 32
             \<and> databaseInteger (rg_desiredVersion (ci_recoveryGates i))
             \<and> databaseInteger (rg_appliedVersion (ci_recoveryGates i))
             \<and> distinct (ci_probeResultIds i)
             \<and> (critical \<noteq> None \<longrightarrow> ci_probeResultIds i = [])
          then Some (i\<lparr>ci_affectedScope := scope, ci_criticalTrustFailure := critical\<rparr>) else None
      | _ \<Rightarrow> None)"

section \<open>Recording a probe result\<close>

definition probeRowToSignal :: "probe_result \<Rightarrow> ProbeSignal" where
  "probeRowToSignal r = \<lparr>ps_id = pr_id r, ps_sourceId = pr_probeSourceId r,
     ps_independenceKey = pr_sourceIndependenceKey r, ps_cycleStartedAt = pr_cycleStartedAt r,
     ps_receivedAt = pr_receivedAt r, ps_authenticated = True, ps_controlHealthy = pr_controlHealthy r,
     ps_routeVersion = pr_routeVersion r, ps_outcome = pr_outcome r, ps_failureClass = pr_failureClass r\<rparr>"

definition exactRetry :: "record_input \<Rightarrow> probe_result \<Rightarrow> bool" where
  "exactRetry i r \<longleftrightarrow> pr_scope r = ri_affectedScope i \<and> pr_cycleStartedAt r = ri_cycleStartedAt i
     \<and> pr_routeVersion r = ri_routeVersion i \<and> pr_outcome r = ri_outcome i
     \<and> pr_failureClass r = ri_failureClass i \<and> pr_controlHealthy r = ri_controlHealthy i"

definition insert_result :: "probe_result \<Rightarrow> health_db \<Rightarrow> cp_error + health_db" where
  "insert_result r d =
     (if \<exists>q \<in> set (h_results d). pr_id q = pr_id r
           \<or> (pr_probeSourceId q = pr_probeSourceId r \<and> pr_sourceResultId q = pr_sourceResultId r)
      then Inl (DbError ''Unique constraint failed on ProbeResult'')
      else if pr_receivedAt r < pr_cycleStartedAt r then Inl (DbError ''ProbeResult_time_order_check'')
      else Inr (d\<lparr>h_results := h_results d @ [r]\<rparr>))"

definition recordProbeResultInTransaction ::
    "(string \<Rightarrow> bool) \<Rightarrow> uuid \<Rightarrow> record_input \<Rightarrow> instant \<Rightarrow> (ProbeSignal \<times> bool) health_tx" where
  "recordProbeResultInTransaction is_uuid rid untrustedInput now d =
     (case recordProbeResultSchema is_uuid untrustedInput of
        None \<Rightarrow> Inl (Thrown ''ZodError'')
      | Some i \<Rightarrow>
          (case find (\<lambda>r. pr_probeSourceId r = ri_probeSourceId i \<and> pr_sourceResultId r = ri_sourceResultId i)
                  (h_results d) of
             Some row \<Rightarrow>
               if exactRetry i row then Inr ((probeRowToSignal row, True), d)
               else Inl (Thrown ''Probe result replay key conflicts with stored data'')
           | None \<Rightarrow>
               (case find (\<lambda>s. so_id s = ri_probeSourceId i \<and> so_active s) (h_sources d) of
                  None \<Rightarrow> Inl (Thrown ''Active probe source is unavailable'')
                | Some s \<Rightarrow>
                    let row = \<lparr>pr_id = rid, pr_probeSourceId = so_id s, pr_sourceResultId = ri_sourceResultId i,
                      pr_sourceIndependenceKey = so_independenceKey s, pr_scope = ri_affectedScope i,
                      pr_cycleStartedAt = ri_cycleStartedAt i, pr_routeVersion = ri_routeVersion i,
                      pr_outcome = ri_outcome i, pr_failureClass = ri_failureClass i,
                      pr_controlHealthy = ri_controlHealthy i, pr_receivedAt = now\<rparr>
                    in map_sum id (Pair (probeRowToSignal row, False)) (insert_result row d))))"

section \<open>The state of a scope\<close>

definition initial_health_state :: HealthDecisionState where
  "initial_health_state = \<lparr>hs_status = UNKNOWN, excludedFromCandidates = True, consecutiveFailureCycles = 0,
     consecutiveRecoverySuccesses = 0, recoveryWindowStartedAt = None, consecutiveUncertainCycles = 0,
     cooldownUntil = None\<rparr>"

definition find_state :: "health_scope \<Rightarrow> health_db \<Rightarrow> availability_state option" where
  "find_state scope d = find (\<lambda>s. as_scope s = scope) (h_states d)"

definition loadState :: "health_scope \<Rightarrow> health_db \<Rightarrow> cp_error + (HealthDecisionState \<times> int)" where
  "loadState affectedScope d =
     (case scopeSchema affectedScope of
        None \<Rightarrow> Inl (Thrown ''ZodError'')
      | Some scope \<Rightarrow> Inr (case find_state scope d of None \<Rightarrow> (initial_health_state, 0)
          | Some s \<Rightarrow> (as_state s, as_version s)))"

text \<open>\<open>INSERT ... ON CONFLICT (scopeKind, scopeKey) DO NOTHING\<close>.\<close>

definition ensure_state :: "uuid \<Rightarrow> health_scope \<Rightarrow> health_db \<Rightarrow> cp_error + health_db" where
  "ensure_state sid scope d =
     (if find_state scope d \<noteq> None then Inr d
      else if \<exists>s \<in> set (h_states d). as_id s = sid then Inl (DbError ''Unique constraint failed on AvailabilityState'')
      else Inr (d\<lparr>h_states := h_states d @
        [\<lparr>as_id = sid, as_scope = scope, as_state = initial_health_state, as_version = 0\<rparr>]\<rparr>))"

section \<open>Writing a decision\<close>

definition hex64 :: "string \<Rightarrow> bool" where
  "hex64 s \<longleftrightarrow> length s = 64 \<and> list_all (\<lambda>c. c \<in> set ''0123456789abcdef'') s"

text \<open>The checks of the table \<open>AvailabilityDecision\<close>.\<close>

definition decision_checks :: "availability_decision \<Rightarrow> bool" where
  "decision_checks a \<longleftrightarrow>
     hex64 (ad_idempotencyKey a)
   \<and> ad_stateVersion a > 0
   \<and> consecutiveFailureCycles (ad_state a) \<ge> 0 \<and> consecutiveRecoverySuccesses (ad_state a) \<ge> 0
   \<and> consecutiveUncertainCycles (ad_state a) \<ge> 0
   \<and> (ad_decision a = HEALTHY \<longrightarrow> \<not> excludedFromCandidates (ad_state a))
   \<and> (ad_allowNewAssignments a \<longleftrightarrow> ad_decision a = HEALTHY \<and> \<not> excludedFromCandidates (ad_state a))
   \<and> (ad_triggerReplacement a \<longrightarrow> ad_triggerIncident a)
   \<and> (ad_cycleDecision a = None \<longleftrightarrow> ad_cycleStartedAt a = None)
   \<and> (ad_cycleDecision a = None \<longleftrightarrow> ad_routeVersion a = None)
   \<and> (case ad_routeVersion a of None \<Rightarrow> True | Some v \<Rightarrow> v \<ge> 0)
   \<and> (ad_cycleDecision a = Some CycleFailed \<longleftrightarrow> ad_failureClass a \<noteq> None)
   \<and> (ad_cycleDecision a = Some CycleMixed \<longleftrightarrow> ad_additionalProbeDueAt a \<noteq> None)
   \<and> (ad_reason a \<in> {POLICY_UNAVAILABLE, CRITICAL_TRUST_FAILURE} \<or> ad_policyVersionId a \<noteq> None)"

text \<open>\<open>validate_availability_decision_version\<close>.\<close>

definition decision_trigger :: "availability_decision \<Rightarrow> health_db \<Rightarrow> bool" where
  "decision_trigger a d \<longleftrightarrow>
     (case find (\<lambda>s. as_id s = ad_stateId a) (h_states d) of None \<Rightarrow> False
      | Some s \<Rightarrow> ad_stateVersion a = as_version s + 1)
   \<and> distinct (ad_inputProbeResultIds a)
   \<and> (ad_cycleDecision a \<noteq> None \<longrightarrow> set (ad_signalIds a) \<subseteq> set (ad_inputProbeResultIds a))"

definition insert_decision :: "availability_decision \<Rightarrow> health_db \<Rightarrow> cp_error + health_db" where
  "insert_decision a d =
     (if \<not> decision_trigger a d then Inl (DbError ''AvailabilityDecision state version conflict'')
      else if \<not> decision_checks a then Inl (DbError ''AvailabilityDecision check'')
      else if \<exists>b \<in> set (h_decisions d). ad_id b = ad_id a \<or> ad_idempotencyKey b = ad_idempotencyKey a
             \<or> (ad_stateId b = ad_stateId a \<and> ad_stateVersion b = ad_stateVersion a)
      then Inl (DbError ''Unique constraint failed on AvailabilityDecision'')
      else Inr (d\<lparr>h_decisions := h_decisions d @ [a]\<rparr>))"

text \<open>\<open>validate_availability_decision_signal_scope\<close>: a decision signal belongs to the scope of its
  decision, was declared as an input, and an accepted one to its cycle and route version.\<close>

definition signal_trigger :: "decision_signal \<Rightarrow> health_db \<Rightarrow> bool" where
  "signal_trigger l d \<longleftrightarrow>
     (case (find (\<lambda>a. ad_id a = ds_decisionId l) (h_decisions d), find (\<lambda>r. pr_id r = ds_probeResultId l) (h_results d)) of
        (Some a, Some r) \<Rightarrow>
          (case find (\<lambda>s. as_id s = ad_stateId a) (h_states d) of None \<Rightarrow> False
           | Some s \<Rightarrow> as_scope s = pr_scope r \<and> ds_probeResultId l \<in> set (ad_inputProbeResultIds a)
              \<and> (ds_disposition l = ACCEPTED \<longrightarrow> ad_cycleStartedAt a = Some (pr_cycleStartedAt r)
                   \<and> ad_routeVersion a = Some (pr_routeVersion r))
              \<and> as_version s = ad_stateVersion a - 1)
      | _ \<Rightarrow> False)"

definition insert_signal :: "decision_signal \<Rightarrow> health_db \<Rightarrow> cp_error + health_db" where
  "insert_signal l d =
     (if \<not> signal_trigger l d then Inl (DbError ''AvailabilityDecision signal'')
      else if (ds_disposition l = ACCEPTED) \<noteq> (ds_rejectionReason l = None)
      then Inl (DbError ''AvailabilityDecisionSignal_disposition_check'')
      else if \<exists>m \<in> set (h_signals d). ds_decisionId m = ds_decisionId l \<and> ds_probeResultId m = ds_probeResultId l
      then Inl (DbError ''Unique constraint failed on AvailabilityDecisionSignal'')
      else Inr (d\<lparr>h_signals := h_signals d @ [l]\<rparr>))"

fun insert_signals :: "uuid \<Rightarrow> ProbeSignalEvaluation list \<Rightarrow> health_db \<Rightarrow> cp_error + health_db" where
  "insert_signals did [] d = Inr d"
| "insert_signals did (e # es) d =
     (case insert_signal \<lparr>ds_decisionId = did, ds_probeResultId = ev_signalId e,
             ds_disposition = ev_disposition e, ds_rejectionReason = ev_rejectionReason e\<rparr> d of
        Inl x \<Rightarrow> Inl x | Inr d' \<Rightarrow> insert_signals did es d')"

text \<open>\<open>protect_availability_state_scope\<close>: a state moves by one version, to what a decision with all its
  signals recorded.\<close>

definition decision_matches :: "availability_state \<Rightarrow> HealthDecisionState \<Rightarrow> int \<Rightarrow> health_db \<Rightarrow> availability_decision \<Rightarrow> bool" where
  "decision_matches s st v d a \<longleftrightarrow>
     ad_stateId a = as_id s \<and> ad_stateVersion a = v \<and> ad_decision a = hs_status st
   \<and> excludedFromCandidates (ad_state a) = excludedFromCandidates st
   \<and> consecutiveFailureCycles (ad_state a) = consecutiveFailureCycles st
   \<and> consecutiveRecoverySuccesses (ad_state a) = consecutiveRecoverySuccesses st
   \<and> recoveryWindowStartedAt (ad_state a) = recoveryWindowStartedAt st
   \<and> consecutiveUncertainCycles (ad_state a) = consecutiveUncertainCycles st
   \<and> cooldownUntil (ad_state a) = cooldownUntil st
   \<and> length (ad_inputProbeResultIds a) = count_rows (\<lambda>l. ds_decisionId l = ad_id a) (h_signals d)
   \<and> (\<forall>pid \<in> set (ad_inputProbeResultIds a). \<exists>l \<in> set (h_signals d). ds_decisionId l = ad_id a \<and> ds_probeResultId l = pid)"

definition state_update_ok :: "availability_state \<Rightarrow> HealthDecisionState \<Rightarrow> int \<Rightarrow> health_db \<Rightarrow> bool" where
  "state_update_ok s st v d \<longleftrightarrow> v = as_version s + 1 \<and> (\<exists>a \<in> set (h_decisions d). decision_matches s st v d a)
     \<and> (hs_status st = HEALTHY \<longrightarrow> \<not> excludedFromCandidates st)
     \<and> consecutiveFailureCycles st \<ge> 0 \<and> consecutiveRecoverySuccesses st \<ge> 0 \<and> consecutiveUncertainCycles st \<ge> 0"

definition advance_state :: "uuid \<Rightarrow> int \<Rightarrow> HealthDecisionState \<Rightarrow> health_db \<Rightarrow> cp_error + health_db" where
  "advance_state sid expectedVersion st d =
     (let hit = (\<lambda>s. as_id s = sid \<and> as_version s = expectedVersion)
      in if \<exists>s \<in> set (h_states d). hit s \<and> \<not> state_update_ok s st (expectedVersion + 1) d
         then Inl (DbError ''AvailabilityState update requires a matching decision'')
         else if count_rows hit (h_states d) \<noteq> 1 then Inl (Thrown ''Availability state version conflict'')
         else Inr (d\<lparr>h_states := update_rows hit (\<lambda>s. s\<lparr>as_state := st, as_version := expectedVersion + 1\<rparr>) (h_states d)\<rparr>))"

section \<open>Evaluating a cycle\<close>

type_synonym cycle_material =
  "int \<times> health_scope \<times> version \<times> instant \<times> uuid list \<times> instant option \<times> recovery_gates \<times> (string \<times> CriticalTrustKind) option"

definition cycleIdempotencyKey :: "(cycle_material \<Rightarrow> string) \<Rightarrow> int \<Rightarrow> cycle_input \<Rightarrow> string" where
  "cycleIdempotencyKey digest expectedVersion i =
     digest (expectedVersion, ci_affectedScope i, ci_routeVersion i, ci_cycleStartedAt i,
       sort (ci_probeResultIds i), ci_lastHeartbeatAt i, ci_recoveryGates i, ci_criticalTrustFailure i)"

text \<open>The latest cycle a decision of the state recorded.\<close>

definition previous_cycle :: "uuid \<Rightarrow> health_db \<Rightarrow> instant option" where
  "previous_cycle sid d =
     (case sort_key (\<lambda>a. - ad_stateVersion a)
        (filter (\<lambda>a. ad_stateId a = sid \<and> ad_cycleStartedAt a \<noteq> None) (h_decisions d)) of
        [] \<Rightarrow> None | a # _ \<Rightarrow> ad_cycleStartedAt a)"

definition selected_results :: "uuid list \<Rightarrow> health_db \<Rightarrow> probe_result list" where
  "selected_results ids d = sort_key (\<lambda>r. (pr_receivedAt r, pr_id r))
     (filter (\<lambda>r. pr_id r \<in> set ids) (h_results d))"

definition consumed_ids :: "uuid list \<Rightarrow> health_db \<Rightarrow> uuid list" where
  "consumed_ids ids d = remdups (map ds_probeResultId
     (filter (\<lambda>l. ds_probeResultId l \<in> set ids \<and> ds_disposition l = ACCEPTED) (h_signals d)))"

definition active_policy_row :: "health_db \<Rightarrow> (uuid \<times> string \<times> json) option" where
  "active_policy_row d = map_option (\<lambda>v. (pv_id v, pv_code v, pv_config v))
     (latest_policy (h_policyActivations d) (h_policyVersions d))"

definition evaluation_input :: "cycle_input \<Rightarrow> instant \<Rightarrow> HealthDecisionState \<Rightarrow> health_db \<Rightarrow> EvaluateHealthCycleInput" where
  "evaluation_input i evaluatedAt previous d = \<lparr>in_policy = active_policy_row d,
     in_affectedScope = ci_affectedScope i, in_routeVersion = ci_routeVersion i,
     in_cycleStartedAt = ci_cycleStartedAt i, in_evaluatedAt = evaluatedAt,
     in_signals = map probeRowToSignal (selected_results (ci_probeResultIds i) d),
     in_consumedSignalIds = consumed_ids (ci_probeResultIds i) d, in_previousState = previous,
     in_lastHeartbeatAt = ci_lastHeartbeatAt i, in_recoveryGates = ci_recoveryGates i,
     in_criticalTrustFailure = ci_criticalTrustFailure i\<rparr>"

text \<open>The checks before the evaluation, in the order of the code.\<close>

definition cycle_refusal :: "cycle_input \<Rightarrow> instant \<Rightarrow> availability_state \<Rightarrow> health_db \<Rightarrow> string option" where
  "cycle_refusal i evaluatedAt current d =
     (if ci_cycleStartedAt i > evaluatedAt then Some ''Health cycle cannot start in the future''
      else if (case ci_lastHeartbeatAt i of None \<Rightarrow> False | Some t \<Rightarrow> t > evaluatedAt)
      then Some ''Heartbeat cannot be in the future''
      else if ci_criticalTrustFailure i = None
             \<and> (case previous_cycle (as_id current) d of None \<Rightarrow> False | Some t \<Rightarrow> ci_cycleStartedAt i \<le> t)
      then Some ''Health cycle is not newer than current state''
      else if length (selected_results (ci_probeResultIds i) d) \<noteq> length (ci_probeResultIds i)
      then Some ''One or more probe results are unavailable''
      else if \<exists>r \<in> set (selected_results (ci_probeResultIds i) d). pr_scope r \<noteq> ci_affectedScope i
      then Some ''Probe result scope does not match health cycle''
      else None)"

definition signal_evaluations :: "cycle_input \<Rightarrow> HealthDecision \<Rightarrow> ProbeSignalEvaluation list" where
  "signal_evaluations i h = (case hd_cycle h of
       Some c \<Rightarrow> cy_signalEvaluations c
     | None \<Rightarrow> map (\<lambda>sid. \<lparr>ev_signalId = sid, ev_disposition = REJECTED, ev_rejectionReason = Some PolicyUnavailable\<rparr>)
         (sort (ci_probeResultIds i)))"

definition decision_row ::
    "uuid \<Rightarrow> string \<Rightarrow> uuid \<Rightarrow> int \<Rightarrow> cycle_input \<Rightarrow> HealthDecision \<Rightarrow> availability_decision" where
  "decision_row did key sid v i h = \<lparr>ad_id = did, ad_idempotencyKey = key, ad_stateId = sid,
     ad_stateVersion = v, ad_policyVersionId = map_option fst (hd_policyVersion h),
     ad_signalIds = hd_signalIds h, ad_inputProbeResultIds = sort (ci_probeResultIds i),
     ad_decision = hd_decision h, ad_reason = hd_reason h, ad_state = hd_state h,
     ad_allowNewAssignments = hd_allowNewAssignments h, ad_triggerReplacement = hd_triggerReplacement h,
     ad_triggerIncident = hd_triggerIncident h, ad_cycleStartedAt = map_option cy_cycleStartedAt (hd_cycle h),
     ad_routeVersion = map_option (\<lambda>_. ci_routeVersion i) (hd_cycle h),
     ad_cycleDecision = map_option cy_decision (hd_cycle h),
     ad_failureClass = Option.bind (hd_cycle h) cy_failureClass,
     ad_additionalProbeDueAt = Option.bind (hd_cycle h) cy_additionalProbeDueAt\<rparr>"

record applied_decision =
  ap_decisionId :: uuid
  ap_idempotencyKey :: string
  ap_stateVersion :: int
  ap_replayed :: bool

definition apply_decision ::
    "uuid \<Rightarrow> string \<Rightarrow> cycle_input \<Rightarrow> int \<Rightarrow> instant \<Rightarrow> availability_state \<Rightarrow> applied_decision health_tx" where
  "apply_decision did key i expectedVersion now current d =
     (let h = evaluateHealthCycle (evaluation_input i now (as_state current) d)
      in case insert_decision (decision_row did key (as_id current) (expectedVersion + 1) i h) d of
           Inl e \<Rightarrow> Inl e
         | Inr d1 \<Rightarrow> (case insert_signals did (signal_evaluations i h) d1 of
             Inl e \<Rightarrow> Inl e
           | Inr d2 \<Rightarrow> map_sum id (Pair \<lparr>ap_decisionId = did, ap_idempotencyKey = key,
                 ap_stateVersion = expectedVersion + 1, ap_replayed = False\<rparr>)
               (advance_state (as_id current) expectedVersion (hd_state h) d2)))"

definition evaluateAndApplyDecision ::
    "(string \<Rightarrow> bool) \<Rightarrow> (cycle_material \<Rightarrow> string) \<Rightarrow> bool \<Rightarrow> uuid \<Rightarrow> uuid \<Rightarrow> cycle_input \<Rightarrow> int \<Rightarrow> instant \<Rightarrow>
     applied_decision health_tx" where
  "evaluateAndApplyDecision is_uuid digest conflict sid did untrustedInput expectedVersion now d =
     (case applyHealthCycleSchema is_uuid untrustedInput of
        None \<Rightarrow> Inl (Thrown ''ZodError'')
      | Some i \<Rightarrow>
          if expectedVersion < 0 then Inl (Thrown ''Expected state version is invalid'')
          else if conflict then Inl (Thrown ''Availability state version conflict'')
          else let key = cycleIdempotencyKey digest expectedVersion i
            in case find (\<lambda>a. ad_idempotencyKey a = key) (h_decisions d) of
                 Some a \<Rightarrow> Inr (\<lparr>ap_decisionId = ad_id a, ap_idempotencyKey = key,
                   ap_stateVersion = ad_stateVersion a, ap_replayed = True\<rparr>, d)
               | None \<Rightarrow> (case ensure_state sid (ci_affectedScope i) d of
                   Inl e \<Rightarrow> Inl e
                 | Inr d1 \<Rightarrow> (case find_state (ci_affectedScope i) d1 of
                     None \<Rightarrow> Inl (Thrown ''Availability state version conflict'')
                   | Some current \<Rightarrow>
                       if as_version current \<noteq> expectedVersion
                       then Inl (Thrown ''Availability state version conflict'')
                       else (case cycle_refusal i now current d1 of
                           Some e \<Rightarrow> Inl (Thrown e)
                         | None \<Rightarrow> apply_decision did key i expectedVersion now current d1))))"

end
