(* ===== verification/Health_Actions.thy ===== *)
theory Health_Actions
  imports Health_Store
begin

text \<open>
  Health actions (\<open>packages/orchestration-store/src/health-action-store.ts\<close>): a decision that triggers an
  incident opens one, with an operation that promotes a standby when the decision asks for a
  replacement; an incident is resolved when its operations are terminal.

  The writes carry the triggers of the incident tables: an incident belongs to a triggering decision of
  its scope, an operation to an open incident and a replacing decision, and inserting the timeline event
  \<open>RESOLVED\<close> is what closes an incident.
\<close>

section \<open>Writes\<close>

definition find_decision :: "uuid \<Rightarrow> health_db \<Rightarrow> availability_decision option" where
  "find_decision did d = find (\<lambda>a. ad_id a = did) (h_decisions d)"

text \<open>The scope of a decision is the scope of the state it moved.\<close>

definition decision_scope :: "availability_decision \<Rightarrow> health_db \<Rightarrow> health_scope option" where
  "decision_scope a d = map_option as_scope (find (\<lambda>s. as_id s = ad_stateId a) (h_states d))"

definition insert_incident :: "incident \<Rightarrow> health_db \<Rightarrow> cp_error + health_db" where
  "insert_incident ic d =
     (case find_decision (ic_decisionId ic) d of
        None \<Rightarrow> Inl (DbError ''Incident requires a triggering availability decision'')
      | Some a \<Rightarrow>
          if decision_scope a d = None \<or> \<not> ad_triggerIncident a
          then Inl (DbError ''Incident requires a triggering availability decision'')
          else if decision_scope a d \<noteq> Some (ic_scope ic)
          then Inl (DbError ''Incident scope must match its availability decision'')
          else if \<exists>k \<in> set (h_incidents d). ic_id k = ic_id ic \<or> ic_decisionId k = ic_decisionId ic
          then Inl (DbError ''Unique constraint failed on Incident'')
          else Inr (d\<lparr>h_incidents := h_incidents d @ [ic]\<rparr>))"

definition insert_operation :: "node_operation \<Rightarrow> health_db \<Rightarrow> cp_error + health_db" where
  "insert_operation op d =
     (case (find (\<lambda>k. ic_id k = no_incidentId op) (h_incidents d), find_decision (no_decisionId op) d) of
        (Some ic, Some a) \<Rightarrow>
          if ic_status ic \<noteq> IncidentOpen \<or> ic_decisionId ic \<noteq> no_decisionId op \<or> \<not> ad_triggerReplacement a
             \<or> ad_policyVersionId a = None
          then Inl (DbError ''NodeOperation requires an open incident, triggering decision and policy'')
          else if ad_policyVersionId a \<noteq> Some (no_policyVersionId op) \<or> decision_scope a d \<noteq> Some (no_scope op)
          then Inl (DbError ''NodeOperation policy or scope does not match its decision'')
          else if \<not> hex64 (no_idempotencyKey op) \<or> \<not> (1 \<le> no_maxAttempts op \<and> no_maxAttempts op \<le> 100)
             \<or> \<not> (0 \<le> no_attempts op \<and> no_attempts op \<le> no_maxAttempts op)
          then Inl (DbError ''NodeOperation check'')
          else if \<exists>k \<in> set (h_operations d). no_id k = no_id op \<or> no_idempotencyKey k = no_idempotencyKey op
             \<or> (no_decisionId k = no_decisionId op \<and> no_type k = no_type op)
          then Inl (DbError ''Unique constraint failed on NodeOperation'')
          else Inr (d\<lparr>h_operations := h_operations d @ [op]\<rparr>)
      | _ \<Rightarrow> Inl (DbError ''NodeOperation requires an open incident, triggering decision and policy''))"

definition terminal_operation :: "node_operation \<Rightarrow> bool" where
  "terminal_operation op \<longleftrightarrow> no_status op \<in> {OperationSucceeded, OperationFailed}"

text \<open>\<open>validate_incident_timeline_event\<close> and the partial unique indexes of the timeline.\<close>

definition event_trigger :: "timeline_event \<Rightarrow> incident \<Rightarrow> health_db \<Rightarrow> bool" where
  "event_trigger e ic d \<longleftrightarrow>
     (case te_operationId e of None \<Rightarrow> True
      | Some oid \<Rightarrow> (\<exists>op \<in> set (h_operations d). no_id op = oid \<and> no_incidentId op = te_incidentId e))
   \<and> (te_kind e = OperationCreated \<longleftrightarrow> te_operationId e \<noteq> None)
   \<and> ic_status ic = IncidentOpen
   \<and> (te_kind e = Resolved \<longrightarrow> (\<forall>op \<in> set (h_operations d). no_incidentId op = te_incidentId e \<longrightarrow> terminal_operation op))"

definition event_clash :: "timeline_event \<Rightarrow> timeline_event \<Rightarrow> bool" where
  "event_clash e f \<longleftrightarrow> (te_operationId e \<noteq> None \<and> te_operationId f = te_operationId e)
     \<or> (te_kind e \<in> {Opened, Resolved} \<and> te_kind f = te_kind e \<and> te_incidentId f = te_incidentId e)"

text \<open>\<open>resolve_incident_from_timeline\<close>, after the insert.\<close>

definition resolve_row :: "instant \<Rightarrow> incident \<Rightarrow> incident" where
  "resolve_row now ic = ic\<lparr>ic_status := IncidentResolved, ic_resolvedAt := Some now\<rparr>"

definition insert_event :: "timeline_event \<Rightarrow> health_db \<Rightarrow> cp_error + health_db" where
  "insert_event e d =
     (case find (\<lambda>k. ic_id k = te_incidentId e) (h_incidents d) of
        None \<Rightarrow> Inl (DbError ''Incident timeline requires an incident'')
      | Some ic \<Rightarrow>
          if \<not> event_trigger e ic d then Inl (DbError ''Incident timeline event is not valid'')
          else if \<exists>f \<in> set (h_events d). event_clash e f then Inl (DbError ''Unique constraint failed on IncidentTimelineEvent'')
          else let d1 = d\<lparr>h_events := h_events d @ [e]\<rparr>
            in if te_kind e \<noteq> Resolved then Inr d1
               else if te_createdAt e < ic_openedAt ic then Inl (DbError ''Incident_resolution_order_check'')
               else Inr (d1\<lparr>h_incidents := update_rows (\<lambda>k. ic_id k = te_incidentId e \<and> ic_status k = IncidentOpen)
                 (resolve_row (te_createdAt e)) (h_incidents d1)\<rparr>))"

definition health_audit :: "string \<Rightarrow> string \<Rightarrow> uuid \<Rightarrow> health_db \<Rightarrow> health_db" where
  "health_audit action entityType entityId d = d\<lparr>h_audit := h_audit d @
     [\<lparr>au_actorUserId = None, au_action = action, au_entityType = entityType, au_entityId = entityId\<rparr>]\<rparr>"

section \<open>Materialising a decision\<close>

text \<open>\<open>z.string().trim().min(3).max(128).regex(/^[a-z][a-z0-9._-]*$/)\<close>.\<close>

definition principalSchema :: "string \<Rightarrow> string option" where
  "principalSchema s = (case trimmed 3 128 s of None \<Rightarrow> None
     | Some t \<Rightarrow> if hd t \<in> set ''abcdefghijklmnopqrstuvwxyz''
           \<and> list_all (\<lambda>c. c \<in> set ''abcdefghijklmnopqrstuvwxyz0123456789._-'') t then Some t else None)"

record materialized_actions =
  ma_incidentId :: "uuid option"
  ma_operationId :: "uuid option"
  ma_replayed :: bool

definition promotion_expected :: "availability_decision \<Rightarrow> bool" where
  "promotion_expected a \<longleftrightarrow> ad_triggerReplacement a \<and> ad_policyVersionId a \<noteq> None"

definition find_promotion :: "uuid \<Rightarrow> health_db \<Rightarrow> node_operation option" where
  "find_promotion incidentId d =
     find (\<lambda>op. no_incidentId op = incidentId \<and> no_type op = PromoteStandby) (h_operations d)"

definition replay_actions ::
    "availability_decision \<Rightarrow> incident \<Rightarrow> string \<Rightarrow> int \<Rightarrow> health_db \<Rightarrow> cp_error + materialized_actions" where
  "replay_actions a existing account maxAttempts d =
     (let op = find_promotion (ic_id existing) d
      in if promotion_expected a \<noteq> (op \<noteq> None)
            \<or> (case op of None \<Rightarrow> False
               | Some k \<Rightarrow> no_servicePrincipal k \<noteq> Some account \<or> no_maxAttempts k \<noteq> maxAttempts)
         then Inl (Thrown ''Health action materialization conflict'')
         else Inr \<lparr>ma_incidentId = Some (ic_id existing), ma_operationId = map_option no_id op, ma_replayed = True\<rparr>)"

definition open_incident :: "availability_decision \<Rightarrow> health_scope \<Rightarrow> uuid \<Rightarrow> instant \<Rightarrow> health_db \<Rightarrow> cp_error + health_db" where
  "open_incident a scope incidentId now d =
     (case insert_incident \<lparr>ic_id = incidentId, ic_decisionId = ad_id a, ic_scope = scope,
             ic_status = IncidentOpen, ic_openedAt = now, ic_resolvedAt = None\<rparr> d of
        Inl e \<Rightarrow> Inl e
      | Inr d1 \<Rightarrow> map_sum id (health_audit ''health-incident.opened'' ''Incident'' incidentId)
          (insert_event \<lparr>te_incidentId = incidentId, te_kind = Opened, te_operationId = None, te_createdAt = now\<rparr> d1))"

definition create_promotion ::
    "(uuid \<Rightarrow> string) \<Rightarrow> availability_decision \<Rightarrow> health_scope \<Rightarrow> uuid \<Rightarrow> uuid \<Rightarrow> uuid \<Rightarrow> string \<Rightarrow> int \<Rightarrow> instant \<Rightarrow>
     health_db \<Rightarrow> cp_error + health_db" where
  "create_promotion keyOf a scope policyId incidentId operationId account maxAttempts now d =
     (case insert_operation \<lparr>no_id = operationId, no_incidentId = incidentId, no_decisionId = ad_id a,
             no_policyVersionId = policyId, no_idempotencyKey = keyOf (ad_id a), no_type = PromoteStandby,
             no_status = OperationPending, no_scope = scope, no_servicePrincipal = Some account,
             no_reason = ad_reason a, no_attempts = 0, no_maxAttempts = maxAttempts\<rparr> d of
        Inl e \<Rightarrow> Inl e
      | Inr d1 \<Rightarrow> map_sum id (health_audit ''node-operation.created'' ''NodeOperation'' operationId)
          (insert_event \<lparr>te_incidentId = incidentId, te_kind = OperationCreated, te_operationId = Some operationId,
             te_createdAt = now\<rparr> d1))"

definition materializeDecisionActions ::
    "(string \<Rightarrow> bool) \<Rightarrow> (uuid \<Rightarrow> string) \<Rightarrow> int \<Rightarrow> uuid \<Rightarrow> uuid \<Rightarrow> uuid \<Rightarrow> string \<Rightarrow> instant \<Rightarrow>
     materialized_actions health_tx" where
  "materializeDecisionActions is_uuid keyOf maxAttempts incidentId operationId decisionId servicePrincipal now d =
     (case principalSchema servicePrincipal of
        None \<Rightarrow> Inl (Thrown ''ZodError'')
      | Some account \<Rightarrow>
          if \<not> is_uuid decisionId then Inl (Thrown ''ZodError'')
          else (case Option.bind (find_decision decisionId d) (\<lambda>a. map_option (Pair a) (decision_scope a d)) of
             None \<Rightarrow> Inl (Thrown ''Availability decision was not found'')
           | Some (a, scope) \<Rightarrow>
               if \<not> ad_triggerIncident a
               then Inr (\<lparr>ma_incidentId = None, ma_operationId = None, ma_replayed = False\<rparr>, d)
               else (case find (\<lambda>k. ic_decisionId k = ad_id a) (h_incidents d) of
                   Some existing \<Rightarrow> map_sum id (\<lambda>r. (r, d)) (replay_actions a existing account maxAttempts d)
                 | None \<Rightarrow> (case open_incident a scope incidentId now d of
                     Inl e \<Rightarrow> Inl e
                   | Inr d1 \<Rightarrow>
                       if \<not> ad_triggerReplacement a \<or> ad_policyVersionId a = None
                       then Inr (\<lparr>ma_incidentId = Some incidentId, ma_operationId = None, ma_replayed = False\<rparr>, d1)
                       else map_sum id (Pair \<lparr>ma_incidentId = Some incidentId, ma_operationId = Some operationId,
                              ma_replayed = False\<rparr>)
                         (create_promotion keyOf a scope (the (ad_policyVersionId a)) incidentId operationId
                            account maxAttempts now d1)))))"

section \<open>Resolving an incident\<close>

record resolved_incident =
  rs_incidentId :: uuid
  rs_resolvedAt :: instant
  rs_replayed :: bool

definition resolveIncident ::
    "(string \<Rightarrow> bool) \<Rightarrow> uuid \<Rightarrow> string \<Rightarrow> string \<Rightarrow> instant \<Rightarrow> resolved_incident health_tx" where
  "resolveIncident is_uuid incidentId servicePrincipal reason now d =
     (if \<not> is_uuid incidentId \<or> principalSchema servicePrincipal = None \<or> trimmed 10 500 reason = None
      then Inl (Thrown ''ZodError'')
      else (case find (\<lambda>k. ic_id k = incidentId) (h_incidents d) of
          None \<Rightarrow> Inl (Thrown ''Health incident was not found'')
        | Some ic \<Rightarrow>
            if ic_status ic = IncidentResolved
            then (case ic_resolvedAt ic of
                None \<Rightarrow> Inl (Thrown ''Resolved health incident is inconsistent'')
              | Some t \<Rightarrow> Inr (\<lparr>rs_incidentId = ic_id ic, rs_resolvedAt = t, rs_replayed = True\<rparr>, d))
            else if \<exists>op \<in> set (h_operations d). no_incidentId op = ic_id ic \<and> \<not> terminal_operation op
            then Inl (Thrown ''Health incident has non-terminal operations'')
            else map_sum id (\<lambda>d1. (\<lparr>rs_incidentId = ic_id ic, rs_resolvedAt = now, rs_replayed = False\<rparr>,
                  health_audit ''health-incident.resolved'' ''Incident'' (ic_id ic) d1))
              (insert_event \<lparr>te_incidentId = ic_id ic, te_kind = Resolved, te_operationId = None,
                 te_createdAt = now\<rparr> d)))"

end
