(* ===== verification/Health_Store_Properties.thy ===== *)
theory Health_Store_Properties
  imports Health_Actions
begin

text \<open>
  What the health stores keep.

  \<open>health_inv\<close> is the invariant of the tables: the state of every scope is the result of the state
  machine of \<open>Health_Decision\<close> on the inputs of its decisions (\<open>scope_history\<close>), accepted evidence is
  used once, cycles go forward, and incidents belong to the decisions that opened them.  \<open>store_step\<close> is
  one transaction of the stores or a change by somebody else; the interpretation of \<open>invariant_system\<close>
  carries the invariant along every history.
\<close>

section \<open>What a transaction writes\<close>

definition signal_link :: "uuid \<Rightarrow> ProbeSignalEvaluation \<Rightarrow> decision_signal" where
  "signal_link did e = \<lparr>ds_decisionId = did, ds_probeResultId = ev_signalId e,
     ds_disposition = ev_disposition e, ds_rejectionReason = ev_rejectionReason e\<rparr>"

lemma signal_link_sel [simp]:
  "ds_decisionId (signal_link did e) = did" "ds_probeResultId (signal_link did e) = ev_signalId e"
  "ds_disposition (signal_link did e) = ev_disposition e" "ds_rejectionReason (signal_link did e) = ev_rejectionReason e"
  by (simp_all add: signal_link_def)

lemma signal_trigger_signals [simp]: "signal_trigger l (d\<lparr>h_signals := x\<rparr>) = signal_trigger l d"
  by (simp add: signal_trigger_def cong: option.case_cong)

definition links_fit :: "uuid \<Rightarrow> ProbeSignalEvaluation list \<Rightarrow> health_db \<Rightarrow> bool" where
  "links_fit did es d \<longleftrightarrow> distinct (map ev_signalId es)
     \<and> (\<forall>e \<in> set es. signal_trigger (signal_link did e) d
          \<and> (ev_disposition e = ACCEPTED \<longleftrightarrow> ev_rejectionReason e = None)
          \<and> (\<forall>m \<in> set (h_signals d). \<not> (ds_decisionId m = did \<and> ds_probeResultId m = ev_signalId e)))"

lemma insert_signals_iff:
  "insert_signals did es d = Inr d' \<longleftrightarrow>
     d' = d\<lparr>h_signals := h_signals d @ map (signal_link did) es\<rparr> \<and> links_fit did es d"
proof (induction es arbitrary: d)
  case Nil
  then show ?case by (auto simp: links_fit_def)
next
  case (Cons e es)
  let ?l = "signal_link did e"
  have "insert_signals did (e # es) d = (case insert_signal ?l d of Inl x \<Rightarrow> Inl x | Inr d1 \<Rightarrow> insert_signals did es d1)"
    by (simp add: signal_link_def)
  then show ?case
    using Cons.IH [of "d\<lparr>h_signals := h_signals d @ [?l]\<rparr>"]
    by (auto simp: insert_signal_def links_fit_def)
qed

definition decision_fits :: "availability_decision \<Rightarrow> health_db \<Rightarrow> bool" where
  "decision_fits a d \<longleftrightarrow> decision_trigger a d \<and> decision_checks a
     \<and> (\<forall>b \<in> set (h_decisions d). ad_id b \<noteq> ad_id a \<and> ad_idempotencyKey b \<noteq> ad_idempotencyKey a
          \<and> \<not> (ad_stateId b = ad_stateId a \<and> ad_stateVersion b = ad_stateVersion a))"

lemma insert_decision_iff:
  "insert_decision a d = Inr d' \<longleftrightarrow> d' = d\<lparr>h_decisions := h_decisions d @ [a]\<rparr> \<and> decision_fits a d"
  by (auto simp: insert_decision_def decision_fits_def)

definition state_hit :: "uuid \<Rightarrow> int \<Rightarrow> availability_state \<Rightarrow> bool" where
  "state_hit sid v s \<longleftrightarrow> as_id s = sid \<and> as_version s = v"

lemma advance_state_iff:
  "advance_state sid v st d = Inr d' \<longleftrightarrow>
     d' = d\<lparr>h_states := update_rows (state_hit sid v) (\<lambda>s. s\<lparr>as_state := st, as_version := v + 1\<rparr>) (h_states d)\<rparr>
   \<and> count_rows (state_hit sid v) (h_states d) = 1
   \<and> (\<forall>s \<in> set (h_states d). state_hit sid v s \<longrightarrow> state_update_ok s st (v + 1) d)"
  by (auto simp: advance_state_def Let_def state_hit_def [abs_def])

text \<open>The decision of a cycle and the tables after it.\<close>

definition cycle_decision :: "cycle_input \<Rightarrow> instant \<Rightarrow> availability_state \<Rightarrow> health_db \<Rightarrow> HealthDecision" where
  "cycle_decision i now current d = evaluateHealthCycle (evaluation_input i now (as_state current) d)"

definition decided :: "uuid \<Rightarrow> string \<Rightarrow> cycle_input \<Rightarrow> int \<Rightarrow> instant \<Rightarrow> availability_state \<Rightarrow> health_db \<Rightarrow> health_db" where
  "decided did key i v now current d = (let h = cycle_decision i now current d
     in d\<lparr>h_decisions := h_decisions d @ [decision_row did key (as_id current) (v + 1) i h],
          h_signals := h_signals d @ map (signal_link did) (signal_evaluations i h),
          h_states := update_rows (state_hit (as_id current) v)
            (\<lambda>s. s\<lparr>as_state := hd_state h, as_version := v + 1\<rparr>) (h_states d)\<rparr>)"

lemma apply_decision_iff:
  "apply_decision did key i v now current d = Inr (r, d') \<longleftrightarrow>
     (let h = cycle_decision i now current d; a = decision_row did key (as_id current) (v + 1) i h;
          d1 = d\<lparr>h_decisions := h_decisions d @ [a]\<rparr>;
          d2 = d1\<lparr>h_signals := h_signals d @ map (signal_link did) (signal_evaluations i h)\<rparr>
      in r = \<lparr>ap_decisionId = did, ap_idempotencyKey = key, ap_stateVersion = v + 1, ap_replayed = False\<rparr>
       \<and> d' = decided did key i v now current d
       \<and> decision_fits a d \<and> links_fit did (signal_evaluations i h) d1
       \<and> count_rows (state_hit (as_id current) v) (h_states d) = 1
       \<and> (\<forall>s \<in> set (h_states d). state_hit (as_id current) v s \<longrightarrow> state_update_ok s (hd_state h) (v + 1) d2))"
proof -
  let ?h = "cycle_decision i now current d"
  let ?a = "decision_row did key (as_id current) (v + 1) i ?h"
  let ?d1 = "d\<lparr>h_decisions := h_decisions d @ [?a]\<rparr>"
  let ?d2 = "?d1\<lparr>h_signals := h_signals d @ map (signal_link did) (signal_evaluations i ?h)\<rparr>"
  have run: "apply_decision did key i v now current d = (case insert_decision ?a d of
       Inl e \<Rightarrow> Inl e | Inr d1 \<Rightarrow> (case insert_signals did (signal_evaluations i ?h) d1 of
         Inl e \<Rightarrow> Inl e | Inr d2 \<Rightarrow> map_sum id (Pair \<lparr>ap_decisionId = did, ap_idempotencyKey = key,
             ap_stateVersion = v + 1, ap_replayed = False\<rparr>) (advance_state (as_id current) v (hd_state ?h) d2)))"
    unfolding apply_decision_def cycle_decision_def Let_def by (rule refl)
  show ?thesis
  proof (cases "insert_decision ?a d")
    case (Inl e)
    then have "\<not> decision_fits ?a d" using insert_decision_iff [of ?a d ?d1] by auto
    then show ?thesis using Inl by (simp add: run Let_def)
  next
    case (Inr d1)
    then have d1: "d1 = ?d1" and fits: "decision_fits ?a d" using insert_decision_iff [of ?a d d1] by simp_all
    show ?thesis
    proof (cases "insert_signals did (signal_evaluations i ?h) ?d1")
      case (Inl e)
      then have "\<not> links_fit did (signal_evaluations i ?h) ?d1" using insert_signals_iff [of did "signal_evaluations i ?h" ?d1 ?d2] by simp
      then show ?thesis using Inl Inr d1 by (simp add: run Let_def)
    next
      case (Inr d2)
      then have d2: "d2 = ?d2" and links: "links_fit did (signal_evaluations i ?h) ?d1"
        using insert_signals_iff [of did _ ?d1 d2] by simp_all
      have "apply_decision did key i v now current d = map_sum id (Pair \<lparr>ap_decisionId = did, ap_idempotencyKey = key,
             ap_stateVersion = v + 1, ap_replayed = False\<rparr>) (advance_state (as_id current) v (hd_state ?h) ?d2)"
        using \<open>insert_decision ?a d = Inr d1\<close> d1 Inr d2 by (simp add: run)
      then show ?thesis
        using advance_state_iff [of "as_id current" v "hd_state ?h" ?d2] fits links
        by (cases "advance_state (as_id current) v (hd_state ?h) ?d2") (auto simp: Let_def decided_def)
    qed
  qed
qed

lemma cycle_run:
  assumes "evaluateAndApplyDecision is_uuid digest conflict sid did u v now d = Inr (r, d')"
  obtains (replayed) a where "a \<in> set (h_decisions d)" "d' = d" "ap_replayed r" "ap_decisionId r = ad_id a"
  | (evaluated) i d1 current where "applyHealthCycleSchema is_uuid u = Some i" "0 \<le> v" "ensure_state sid (ci_affectedScope i) d = Inr d1"
      "find_state (ci_affectedScope i) d1 = Some current" "as_version current = v" "cycle_refusal i now current d1 = None"
      "find (\<lambda>a. ad_idempotencyKey a = cycleIdempotencyKey digest v i) (h_decisions d) = None"
      "apply_decision did (cycleIdempotencyKey digest v i) i v now current d1 = Inr (r, d')"
proof (cases "applyHealthCycleSchema is_uuid u")
  case None
  with assms show thesis by (simp add: evaluateAndApplyDecision_def)
next
  case i: (Some i)
  let ?key = "cycleIdempotencyKey digest v i"
  have run: "(case find (\<lambda>a. ad_idempotencyKey a = ?key) (h_decisions d) of
       Some a \<Rightarrow> Inr (\<lparr>ap_decisionId = ad_id a, ap_idempotencyKey = ?key, ap_stateVersion = ad_stateVersion a, ap_replayed = True\<rparr>, d)
     | None \<Rightarrow> (case ensure_state sid (ci_affectedScope i) d of
         Inl e \<Rightarrow> Inl e
       | Inr d1 \<Rightarrow> (case find_state (ci_affectedScope i) d1 of
           None \<Rightarrow> Inl (Thrown ''Availability state version conflict'')
         | Some current \<Rightarrow>
             if as_version current \<noteq> v then Inl (Thrown ''Availability state version conflict'')
             else (case cycle_refusal i now current d1 of
                 Some e \<Rightarrow> Inl (Thrown e)
               | None \<Rightarrow> apply_decision did ?key i v now current d1)))) = Inr (r, d')" "0 \<le> v"
    using assms i by (simp_all add: evaluateAndApplyDecision_def Let_def split: if_splits)
  show thesis
  proof (cases "find (\<lambda>a. ad_idempotencyKey a = ?key) (h_decisions d)")
    case (Some a)
    then have "a \<in> set (h_decisions d)" by (auto simp: find_Some_iff)
    moreover have "r = \<lparr>ap_decisionId = ad_id a, ap_idempotencyKey = ?key, ap_stateVersion = ad_stateVersion a, ap_replayed = True\<rparr>" "d' = d"
      using run(1) Some by simp_all
    ultimately show thesis by (intro replayed [of a]) simp_all
  next
    case None
    obtain d1 where d1: "ensure_state sid (ci_affectedScope i) d = Inr d1" using run(1) None by (simp split: sum.splits)
    obtain current where c: "find_state (ci_affectedScope i) d1 = Some current" using run(1) None d1 by (simp split: option.splits)
    have v: "as_version current = v" using run(1) None d1 c by (simp split: if_splits)
    have "cycle_refusal i now current d1 = None" using run(1) None d1 c v by (simp split: option.splits)
    then show thesis using run None d1 c v by (intro evaluated [OF i run(2) d1 c v]) simp_all
  qed
qed

section \<open>The invariant of the tables\<close>

definition keys_ok :: "health_db \<Rightarrow> bool" where
  "keys_ok d \<longleftrightarrow> distinct (map as_id (h_states d)) \<and> distinct (map as_scope (h_states d))
     \<and> distinct (map ad_id (h_decisions d)) \<and> distinct (map pr_id (h_results d))
     \<and> distinct (map (\<lambda>a. (ad_stateId a, ad_stateVersion a)) (h_decisions d))
     \<and> (\<forall>s \<in> set (h_states d). health_state_ok (as_state s) \<and> 0 \<le> as_version s)
     \<and> (\<forall>a \<in> set (h_decisions d). \<exists>s \<in> set (h_states d). as_id s = ad_stateId a
          \<and> 1 \<le> ad_stateVersion a \<and> ad_stateVersion a \<le> as_version s)"

text \<open>The state of a scope is the run of the state machine on the inputs of its decisions, one decision
  per version, on evidence recorded for the scope.\<close>

definition decision_of_input :: "health_db \<Rightarrow> availability_state \<Rightarrow> EvaluateHealthCycleInput list \<Rightarrow> nat \<Rightarrow> bool" where
  "decision_of_input d s is k \<longleftrightarrow>
     (\<exists>a \<in> set (h_decisions d). ad_stateId a = as_id s \<and> ad_stateVersion a = int k + 1
        \<and> ad_state a = run_health (take (k + 1) is) initial_health_state)
   \<and> in_affectedScope (is ! k) = as_scope s
   \<and> set (in_signals (is ! k)) \<subseteq> probeRowToSignal ` {r \<in> set (h_results d). pr_scope r = as_scope s}"

definition scope_history :: "health_db \<Rightarrow> availability_state \<Rightarrow> EvaluateHealthCycleInput list \<Rightarrow> bool" where
  "scope_history d s is \<longleftrightarrow> int (length is) = as_version s \<and> as_state s = run_health is initial_health_state
     \<and> (\<forall>k < length is. decision_of_input d s is k)"

definition links_ok :: "health_db \<Rightarrow> bool" where
  "links_ok d \<longleftrightarrow> (\<forall>l \<in> set (h_signals d). \<exists>a \<in> set (h_decisions d). ad_id a = ds_decisionId l)
     \<and> distinct (map ds_probeResultId (filter (\<lambda>l. ds_disposition l = ACCEPTED) (h_signals d)))
     \<and> (\<forall>l \<in> set (h_signals d). ds_disposition l = ACCEPTED \<longrightarrow>
          (\<exists>a \<in> set (h_decisions d). \<exists>r \<in> set (h_results d). \<exists>s \<in> set (h_states d).
             ad_id a = ds_decisionId l \<and> pr_id r = ds_probeResultId l \<and> as_id s = ad_stateId a
           \<and> pr_scope r = as_scope s \<and> ad_cycleStartedAt a = Some (pr_cycleStartedAt r)
           \<and> ad_routeVersion a = Some (pr_routeVersion r)))"

definition cycles_ok :: "health_db \<Rightarrow> bool" where
  "cycles_ok d \<longleftrightarrow> (\<forall>a \<in> set (h_decisions d). \<forall>b \<in> set (h_decisions d). \<forall>t u.
     ad_stateId a = ad_stateId b \<and> ad_stateVersion a < ad_stateVersion b
   \<and> ad_cycleStartedAt a = Some t \<and> ad_cycleStartedAt b = Some u \<longrightarrow> t < u)"

definition evidence_inv :: "health_db \<Rightarrow> bool" where
  "evidence_inv d \<longleftrightarrow> keys_ok d \<and> (\<forall>s \<in> set (h_states d). \<exists>is. scope_history d s is) \<and> links_ok d \<and> cycles_ok d"

lemma evidence_inv_links: "evidence_inv d \<Longrightarrow> links_ok d"
  by (simp only: evidence_inv_def)

text \<open>Only the tables of the evidence matter, and a new result or a new, empty state changes nothing.\<close>

lemma evidence_inv_frame:
  assumes "h_states x = h_states d" "h_decisions x = h_decisions d" "h_signals x = h_signals d" "h_results x = h_results d"
  shows "evidence_inv x = evidence_inv d"
  using assms by (simp add: evidence_inv_def keys_ok_def scope_history_def decision_of_input_def links_ok_def cycles_ok_def)

lemma links_ok_mono:
  assumes l: "links_ok d" and x: "h_signals x = h_signals d" "h_decisions x = h_decisions d"
    and r: "set (h_results d) \<subseteq> set (h_results x)" and s: "set (h_states d) \<subseteq> set (h_states x)"
  shows "links_ok x"
  using l r s unfolding links_ok_def x by (meson subsetD)

lemma cycles_ok_frame: "h_decisions x = h_decisions d \<Longrightarrow> cycles_ok x = cycles_ok d"
  by (simp add: cycles_ok_def)

lemma scope_history_mono:
  assumes "scope_history d s is" "set (h_decisions d) \<subseteq> set (h_decisions x)" "set (h_results d) \<subseteq> set (h_results x)"
  shows "scope_history x s is"
proof -
  have "decision_of_input x s is k" if k: "decision_of_input d s is k" for k
  proof -
    have "probeRowToSignal ` {r \<in> set (h_results d). pr_scope r = as_scope s}
        \<subseteq> probeRowToSignal ` {r \<in> set (h_results x). pr_scope r = as_scope s}"
      using assms(3) by auto
    then show ?thesis using k assms(2) unfolding decision_of_input_def by (meson subsetD subset_trans)
  qed
  then show ?thesis using assms(1) by (simp add: scope_history_def)
qed

lemma evidence_inv_result:
  assumes inv: "evidence_inv d" and new: "pr_id r \<notin> pr_id ` set (h_results d)"
  shows "evidence_inv (d\<lparr>h_results := h_results d @ [r]\<rparr>)"
proof -
  let ?x = "d\<lparr>h_results := h_results d @ [r]\<rparr>"
  have "scope_history ?x s is" if "scope_history d s is" for s "is"
    using scope_history_mono [OF that, of ?x] by auto
  moreover have "keys_ok ?x" using inv new by (simp add: evidence_inv_def keys_ok_def)
  moreover have "links_ok ?x"
    by (rule links_ok_mono [OF evidence_inv_links [OF inv]]) auto
  moreover have "cycles_ok ?x" using inv cycles_ok_frame [of ?x d] by (simp add: evidence_inv_def)
  moreover have "h_states ?x = h_states d" by simp
  ultimately show ?thesis using inv unfolding evidence_inv_def by metis
qed

lemma initial_health_state_ok: "health_state_ok initial_health_state"
  by (simp add: health_state_ok_def initial_health_state_def)

lemma evidence_inv_ensure:
  assumes inv: "evidence_inv d" and e: "ensure_state sid scope d = Inr d1"
  shows "evidence_inv d1"
proof (cases "find_state scope d")
  case (Some s)
  then show ?thesis using e inv by (simp add: ensure_state_def)
next
  case None
  let ?s = "\<lparr>as_id = sid, as_scope = scope, as_state = initial_health_state, as_version = 0\<rparr>"
  have d1: "d1 = d\<lparr>h_states := h_states d @ [?s]\<rparr>" and new: "sid \<notin> as_id ` set (h_states d)"
    using e None by (auto simp: ensure_state_def split: if_splits)
  have "scope \<notin> as_scope ` set (h_states d)" using None by (auto simp: find_state_def find_None_iff)
  then have "keys_ok d1" using inv new initial_health_state_ok by (auto simp: evidence_inv_def keys_ok_def d1)
  moreover have "scope_history d1 s is" if "scope_history d s is" for s "is"
    using scope_history_mono [OF that, of d1] by (simp add: d1)
  moreover have "scope_history d1 ?s []" by (simp add: scope_history_def)
  moreover have "links_ok d1"
    by (rule links_ok_mono [OF evidence_inv_links [OF inv]]) (auto simp: d1)
  moreover have "cycles_ok d1" using inv cycles_ok_frame [of d1 d] by (simp add: evidence_inv_def d1)
  moreover have "set (h_states d1) = insert ?s (set (h_states d))" by (simp add: d1)
  ultimately show ?thesis using inv unfolding evidence_inv_def by (metis insertE)
qed

section \<open>A decision keeps the invariant\<close>

lemma hd_cycle_evaluate: "hd_cycle (evaluateHealthCycle j) = map_option (\<lambda>policy. cycle_of policy j) (effective_policy j)"
  by (auto simp: evaluateHealthCycle_def finishDecision_def effective_policy_def Let_def split: option.splits prod.splits)

lemma effective_policy_noncritical: "effective_policy j = Some policy \<Longrightarrow> in_criticalTrustFailure j = None"
  by (cases "in_criticalTrustFailure j") (simp_all add: effective_policy_def)

lemma cycle_started [simp]: "cy_cycleStartedAt (cycle_of policy j) = in_cycleStartedAt j"
  by (auto simp: cycle_of_def aggregate_defs split: option.split)

lemma hd_state_cycle_decision:
  "hd_state (cycle_decision i now current d) = health_step (evaluation_input i now (as_state current) d) (as_state current)"
  by (simp add: cycle_decision_def health_step_def evaluation_input_def)

lemma accepted_evaluation:
  assumes "e \<in> set (cy_signalEvaluations (cycle_of policy j))" "ev_disposition e = ACCEPTED"
  obtains s where "s \<in> set (in_signals j)" "ps_id s = ev_signalId e"
    "signalRejectionReason policy s (in_cycleStartedAt j) (in_routeVersion j) (in_consumedSignalIds j) = None"
proof -
  let ?a = "collect_signals policy (in_cycleStartedAt j) (in_routeVersion j) (in_consumedSignalIds j) (in_signals j)"
  let ?evs = "cy_signalEvaluations (cycle_of policy j)"
  have "ev_signalId ` set (filter (\<lambda>e. ev_disposition e = ACCEPTED) ?evs) = ps_id ` set (accepted ?a)"
    using one_verdict_per_signal [of policy "in_cycleStartedAt j" "in_routeVersion j" "in_consumedSignalIds j" "in_signals j"]
    by (simp add: cycle_of_def Let_def)
  then have "ev_signalId e \<in> ps_id ` set (accepted ?a)" using assms by fastforce
  then obtain s where s: "s \<in> set (accepted ?a)" "ps_id s = ev_signalId e" by auto
  with agg_ok_collect [of policy "in_cycleStartedAt j" "in_routeVersion j" "in_consumedSignalIds j" "in_signals j"]
  show thesis by (intro that [of s]) (auto simp: agg_ok_def)
qed

lemma consumed_not_accepted:
  assumes e: "e \<in> set (signal_evaluations i (cycle_decision i now current d))" "ev_disposition e = ACCEPTED"
  shows "ev_signalId e \<notin> set (consumed_ids (ci_probeResultIds i) d)"
proof -
  let ?j = "evaluation_input i now (as_state current) d"
  obtain policy where p: "effective_policy ?j = Some policy"
    using e by (auto simp: signal_evaluations_def cycle_decision_def hd_cycle_evaluate split: option.splits)
  then have "e \<in> set (cy_signalEvaluations (cycle_of policy ?j))"
    using e(1) by (simp add: signal_evaluations_def cycle_decision_def hd_cycle_evaluate)
  then obtain s where "ps_id s = ev_signalId e"
    "signalRejectionReason policy s (in_cycleStartedAt ?j) (in_routeVersion ?j) (in_consumedSignalIds ?j) = None"
    using accepted_evaluation e(2) by blast
  moreover have "in_consumedSignalIds ?j = consumed_ids (ci_probeResultIds i) d" by (simp add: evaluation_input_def)
  ultimately show ?thesis by (auto simp: signalRejectionReason_def split: if_splits)
qed

lemma previous_cycle_latest:
  assumes k: "keys_ok d" and c: "cycles_ok d" and a: "a \<in> set (h_decisions d)" "ad_stateId a = sid" "ad_cycleStartedAt a = Some t"
  obtains u where "previous_cycle sid d = Some u" "t \<le> u"
proof -
  let ?rows = "filter (\<lambda>a. ad_stateId a = sid \<and> ad_cycleStartedAt a \<noteq> None) (h_decisions d)"
  have "a \<in> set ?rows" using a by simp
  then have "a \<in> set (sort_key (\<lambda>a. - ad_stateVersion a) ?rows)" by (simp only: set_sort)
  then obtain b rest where sort: "sort_key (\<lambda>a. - ad_stateVersion a) ?rows = b # rest"
    by (cases "sort_key (\<lambda>a. - ad_stateVersion a) ?rows") (simp only: list.set empty_iff, blast)
  from sort_key_hd [OF sort] have b: "b \<in> set (h_decisions d)" "ad_stateId b = sid" "ad_cycleStartedAt b \<noteq> None"
    and late: "ad_stateVersion a \<le> ad_stateVersion b"
    using \<open>a \<in> set ?rows\<close> by auto
  then obtain u where u: "ad_cycleStartedAt b = Some u" by blast
  have "t \<le> u"
  proof (cases "ad_stateVersion a = ad_stateVersion b")
    case True
    have "distinct (map (\<lambda>a. (ad_stateId a, ad_stateVersion a)) (h_decisions d))" using k by (simp add: keys_ok_def)
    from distinct_key_eq [OF this a(1) b(1)] have "a = b" using True a(2) b(2) by simp
    then show ?thesis using a(3) u by simp
  next
    case False
    then have "t < u" using c a b(1,2) u late unfolding cycles_ok_def by (metis order_le_less)
    then show ?thesis by simp
  qed
  then show thesis by (rule that [rotated]) (simp only: previous_cycle_def sort u list.case)
qed

text \<open>The tables after a decision, for a state that was found and an input that was not refused.\<close>

lemma find_state_Some: "find_state scope d = Some s \<Longrightarrow> s \<in> set (h_states d) \<and> as_scope s = scope"
  by (auto simp: find_state_def find_Some_iff)

lemma state_hit_current:
  assumes "keys_ok d" "current \<in> set (h_states d)" "s \<in> set (h_states d)"
  shows "state_hit (as_id current) (as_version current) s \<longleftrightarrow> s = current"
  using assms distinct_key_eq [of as_id "h_states d" s current] by (auto simp: state_hit_def keys_ok_def)

lemma decided_states:
  assumes k: "keys_ok d" and c: "current \<in> set (h_states d)" "as_version current = v"
    and s: "s' \<in> set (h_states (decided did key i v now current d))"
  obtains "s' \<in> set (h_states d)" "s' \<noteq> current"
    | "s' = current\<lparr>as_state := hd_state (cycle_decision i now current d), as_version := v + 1\<rparr>"
proof -
  have "s' \<in> set (update_rows (state_hit (as_id current) v)
      (\<lambda>s. s\<lparr>as_state := hd_state (cycle_decision i now current d), as_version := v + 1\<rparr>) (h_states d))"
    using s by (simp add: decided_def Let_def)
  then show thesis
  proof (rule update_rows_cases)
    assume s: "s' \<in> set (h_states d)" "\<not> state_hit (as_id current) v s'"
    then have "s' \<noteq> current" using c(2) unfolding state_hit_def by blast
    with s(1) show thesis by (rule that(1))
  next
    fix s assume s: "s \<in> set (h_states d)" "state_hit (as_id current) v s"
      and "s' = s\<lparr>as_state := hd_state (cycle_decision i now current d), as_version := v + 1\<rparr>"
    then show thesis using that(2) state_hit_current [OF k c(1) s(1)] c(2) by simp
  qed
qed

lemma decided_tables:
  "h_decisions (decided did key i v now current d) =
     h_decisions d @ [decision_row did key (as_id current) (v + 1) i (cycle_decision i now current d)]"
  "h_signals (decided did key i v now current d) =
     h_signals d @ map (signal_link did) (signal_evaluations i (cycle_decision i now current d))"
  "h_results (decided did key i v now current d) = h_results d"
  by (simp_all add: decided_def Let_def)

lemma decision_row_sel [simp]:
  "ad_id (decision_row did key sid v i h) = did" "ad_stateId (decision_row did key sid v i h) = sid"
  "ad_stateVersion (decision_row did key sid v i h) = v" "ad_state (decision_row did key sid v i h) = hd_state h"
  "ad_idempotencyKey (decision_row did key sid v i h) = key"
  "ad_inputProbeResultIds (decision_row did key sid v i h) = sort (ci_probeResultIds i)"
  "ad_cycleStartedAt (decision_row did key sid v i h) = map_option cy_cycleStartedAt (hd_cycle h)"
  "ad_routeVersion (decision_row did key sid v i h) = map_option (\<lambda>_. ci_routeVersion i) (hd_cycle h)"
  by (simp_all add: decision_row_def)

lemma decided_keys:
  assumes k: "keys_ok d" and c: "current \<in> set (h_states d)" "as_version current = v"
    and fits: "decision_fits (decision_row did key (as_id current) (v + 1) i (cycle_decision i now current d)) d"
  shows "keys_ok (decided did key i v now current d)"
proof -
  let ?x = "decided did key i v now current d"
  let ?new = "current\<lparr>as_state := hd_state (cycle_decision i now current d), as_version := v + 1\<rparr>"
  have same: "map as_id (h_states ?x) = map as_id (h_states d)" "map as_scope (h_states ?x) = map as_scope (h_states d)"
    by (simp_all add: decided_def Let_def map_update_rows_key)
  have good: "health_state_ok (as_state s') \<and> 0 \<le> as_version s'" if "s' \<in> set (h_states ?x)" for s'
    using k c that health_state_ok_step
    by (elim decided_states [OF k c]) (auto simp: keys_ok_def hd_state_cycle_decision)
  have grow: "\<exists>s' \<in> set (h_states ?x). as_id s' = as_id s \<and> as_version s \<le> as_version s'" if s: "s \<in> set (h_states d)" for s
  proof (cases "state_hit (as_id current) v s")
    case True
    then have "s\<lparr>as_state := hd_state (cycle_decision i now current d), as_version := v + 1\<rparr> \<in> set (h_states ?x)"
      using s by (force simp: decided_def Let_def set_update_rows)
    moreover have "as_version s \<le> v + 1" using True by (simp add: state_hit_def)
    ultimately show ?thesis
      by (intro bexI [of _ "s\<lparr>as_state := hd_state (cycle_decision i now current d), as_version := v + 1\<rparr>"]) simp_all
  next
    case False
    then have "s \<in> set (h_states ?x)" using s by (force simp: decided_def Let_def set_update_rows)
    then show ?thesis by blast
  qed
  have new: "?new \<in> set (h_states ?x)"
    using c by (force simp: decided_def Let_def set_update_rows state_hit_def)
  have "\<exists>s \<in> set (h_states ?x). as_id s = ad_stateId a \<and> 1 \<le> ad_stateVersion a \<and> ad_stateVersion a \<le> as_version s"
    if a: "a \<in> set (h_decisions ?x)" for a
  proof (cases "a \<in> set (h_decisions d)")
    case True
    then obtain s where "s \<in> set (h_states d)" "as_id s = ad_stateId a" "1 \<le> ad_stateVersion a" "ad_stateVersion a \<le> as_version s"
      using k by (auto simp: keys_ok_def)
    then show ?thesis using grow [of s] by fastforce
  next
    case False
    then have "ad_stateId a = as_id current" "ad_stateVersion a = v + 1" using a by (auto simp: decided_tables)
    moreover have "0 \<le> v" using k c by (auto simp: keys_ok_def)
    ultimately show ?thesis by (intro bexI [OF _ new]) simp
  qed
  moreover have "distinct (map ad_id (h_decisions ?x))" "distinct (map (\<lambda>a. (ad_stateId a, ad_stateVersion a)) (h_decisions ?x))"
    using k fits by (auto simp: keys_ok_def decision_fits_def decided_tables)
  ultimately show ?thesis using k same good by (simp add: keys_ok_def decided_tables(3))
qed

lemma run_health_take_snoc: "k < length is \<Longrightarrow> run_health (take (k + 1) (is @ [j])) s = run_health (take (k + 1) is) s"
  by simp

lemma decided_history:
  assumes k: "keys_ok d" and c: "current \<in> set (h_states d)" "as_version current = v" "as_scope current = ci_affectedScope i"
    and r: "cycle_refusal i now current d = None" and hist: "\<forall>s \<in> set (h_states d). \<exists>is. scope_history d s is"
    and s: "s' \<in> set (h_states (decided did key i v now current d))"
  shows "\<exists>is. scope_history (decided did key i v now current d) s' is"
proof -
  let ?x = "decided did key i v now current d"
  have mono: "scope_history d s is \<Longrightarrow> scope_history ?x s is" for s "is"
    by (rule scope_history_mono) (auto simp: decided_tables)
  from s show ?thesis
  proof (rule decided_states [OF k c(1,2)])
    assume "s' \<in> set (h_states d)" "s' \<noteq> current"
    then show ?thesis using hist mono by blast
  next
    assume s': "s' = current\<lparr>as_state := hd_state (cycle_decision i now current d), as_version := v + 1\<rparr>"
    obtain "is" where old: "scope_history d current is" using hist c(1) by blast
    let ?j = "evaluation_input i now (as_state current) d"
    let ?a = "decision_row did key (as_id current) (v + 1) i (cycle_decision i now current d)"
    have len: "int (length is) = v" and st: "as_state current = run_health is initial_health_state"
      using old c(2) by (simp_all add: scope_history_def)
    have run: "hd_state (cycle_decision i now current d) = run_health (is @ [?j]) initial_health_state"
      by (simp add: hd_state_cycle_decision st)
    have "decision_of_input ?x s' (is @ [?j]) k" if k: "k < length (is @ [?j])" for k
    proof (cases "k < length is")
      case True
      then have "decision_of_input ?x current is k" using mono [OF old] by (simp add: scope_history_def)
      then show ?thesis using True by (simp add: decision_of_input_def nth_append s')
    next
      case False
      then have k': "k = length is" using k by simp
      have "?a \<in> set (h_decisions ?x)" by (simp add: decided_tables)
      moreover have "ad_state ?a = run_health (take (k + 1) (is @ [?j])) initial_health_state" using run k' by simp
      moreover have "ad_stateVersion ?a = int k + 1" "ad_stateId ?a = as_id s'" using len k' s' by simp_all
      ultimately have "\<exists>a \<in> set (h_decisions ?x). ad_stateId a = as_id s' \<and> ad_stateVersion a = int k + 1
          \<and> ad_state a = run_health (take (k + 1) (is @ [?j])) initial_health_state" by blast
      moreover have "(is @ [?j]) ! k = ?j" using k' by simp
      moreover have "\<forall>r \<in> set (selected_results (ci_probeResultIds i) d). pr_scope r = ci_affectedScope i"
        using r by (auto simp: cycle_refusal_def split: if_splits)
      then have "set (in_signals ?j) \<subseteq> probeRowToSignal ` {r \<in> set (h_results ?x). pr_scope r = as_scope s'}"
        using c(3) s' by (auto simp: evaluation_input_def decided_tables selected_results_def)
      moreover have "in_affectedScope ?j = as_scope s'" using c(3) s' by (simp add: evaluation_input_def)
      ultimately show ?thesis by (simp only: decision_of_input_def)
    qed
    moreover have "as_state s' = run_health (is @ [?j]) initial_health_state" using run s' by simp
    moreover have "int (length (is @ [?j])) = as_version s'" using len s' by simp
    ultimately show ?thesis by (auto simp only: scope_history_def)
  qed
qed

lemma decided_cycles:
  assumes k: "keys_ok d" and cyc: "cycles_ok d" and c: "current \<in> set (h_states d)" "as_version current = v"
    and r: "cycle_refusal i now current d = None"
  shows "cycles_ok (decided did key i v now current d)"
proof -
  let ?x = "decided did key i v now current d"
  let ?n = "decision_row did key (as_id current) (v + 1) i (cycle_decision i now current d)"
  have "t < u" if a: "a \<in> set (h_decisions ?x)" and b: "b \<in> set (h_decisions ?x)" and ab: "ad_stateId a = ad_stateId b"
      "ad_stateVersion a < ad_stateVersion b" and t: "ad_cycleStartedAt a = Some t" and u: "ad_cycleStartedAt b = Some u" for a b t u
  proof (cases "b \<in> set (h_decisions d)")
    case old: True
    have "a \<in> set (h_decisions d)"
    proof (rule ccontr)
      assume "a \<notin> set (h_decisions d)"
      then have "a = ?n" using a by (simp add: decided_tables)
      then have "ad_stateId b = as_id current" "v + 1 < ad_stateVersion b" using ab by simp_all
      moreover obtain s where s: "s \<in> set (h_states d)" "as_id s = ad_stateId b" "ad_stateVersion b \<le> as_version s"
        using k old by (auto simp: keys_ok_def)
      moreover have "s = current" if "as_id s = as_id current"
        using distinct_key_eq [of as_id "h_states d" s current] k s(1) c(1) that by (simp add: keys_ok_def)
      ultimately show False using c(2) by simp
    qed
    then show ?thesis using cyc old ab t u unfolding cycles_ok_def by blast
  next
    case False
    then have b': "b = ?n" using b by (simp add: decided_tables)
    then have a': "a \<in> set (h_decisions d)" "ad_stateId a = as_id current" using a ab by (auto simp: decided_tables)
    obtain w where w: "previous_cycle (as_id current) d = Some w" "t \<le> w" using previous_cycle_latest [OF k cyc a' t] .
    obtain policy where p: "effective_policy (evaluation_input i now (as_state current) d) = Some policy"
      and u': "u = ci_cycleStartedAt i"
      using u b' by (auto simp: cycle_decision_def hd_cycle_evaluate evaluation_input_def)
    have "ci_criticalTrustFailure i = None" using effective_policy_noncritical [OF p] by (simp add: evaluation_input_def)
    then have "w < u" using r w(1) u' by (auto simp: cycle_refusal_def split: if_splits)
    then show ?thesis using w(2) by simp
  qed
  then show ?thesis unfolding cycles_ok_def by blast
qed

lemma signal_trigger_facts:
  assumes "signal_trigger l d"
  obtains a r s where "a \<in> set (h_decisions d)" "ad_id a = ds_decisionId l" "r \<in> set (h_results d)" "pr_id r = ds_probeResultId l"
    "s \<in> set (h_states d)" "as_id s = ad_stateId a" "as_scope s = pr_scope r" "ds_probeResultId l \<in> set (ad_inputProbeResultIds a)"
    "ds_disposition l = ACCEPTED \<longrightarrow> ad_cycleStartedAt a = Some (pr_cycleStartedAt r) \<and> ad_routeVersion a = Some (pr_routeVersion r)"
proof -
  obtain a r where f: "find (\<lambda>a. ad_id a = ds_decisionId l) (h_decisions d) = Some a"
    "find (\<lambda>r. pr_id r = ds_probeResultId l) (h_results d) = Some r"
    using assms by (auto simp: signal_trigger_def split: option.splits)
  moreover obtain s where g: "find (\<lambda>s. as_id s = ad_stateId a) (h_states d) = Some s"
    using assms f by (auto simp: signal_trigger_def split: option.splits)
  ultimately show thesis using assms that [of a r s] find_member [OF f(1)] find_member [OF f(2)] find_member [OF g]
    by (simp add: signal_trigger_def)
qed

lemma decided_state_kept:
  assumes "s \<in> set (h_states d)"
  obtains s' where "s' \<in> set (h_states (decided did key i v now current d))" "as_id s' = as_id s" "as_scope s' = as_scope s"
proof -
  let ?f = "\<lambda>s. if state_hit (as_id current) v s
     then s\<lparr>as_state := hd_state (cycle_decision i now current d), as_version := v + 1\<rparr> else s"
  have "?f s \<in> set (h_states (decided did key i v now current d))"
    using assms by (simp add: decided_def Let_def set_update_rows)
  then show thesis by (rule that) simp_all
qed

lemma decided_links:
  assumes links: "links_ok d"
    and fits: "decision_fits (decision_row did key (as_id current) (v + 1) i (cycle_decision i now current d)) d"
    and new: "links_fit did (signal_evaluations i (cycle_decision i now current d))
       (d\<lparr>h_decisions := h_decisions d @ [decision_row did key (as_id current) (v + 1) i (cycle_decision i now current d)]\<rparr>)"
  shows "links_ok (decided did key i v now current d)"
proof -
  let ?x = "decided did key i v now current d"
  let ?a = "decision_row did key (as_id current) (v + 1) i (cycle_decision i now current d)"
  let ?d1 = "d\<lparr>h_decisions := h_decisions d @ [?a]\<rparr>"
  let ?es = "signal_evaluations i (cycle_decision i now current d)"
  let ?acc = "filter (\<lambda>l. ds_disposition l = ACCEPTED)"
  have trigger: "signal_trigger (signal_link did e) ?d1" if "e \<in> set ?es" for e using new that by (simp add: links_fit_def)
  have "\<exists>a \<in> set (h_decisions ?x). ad_id a = ds_decisionId l" if "l \<in> set (h_signals ?x)" for l
    using that links by (auto simp: links_ok_def decided_tables)
  moreover have "\<exists>a \<in> set (h_decisions ?x). \<exists>r \<in> set (h_results ?x). \<exists>s \<in> set (h_states ?x).
       ad_id a = ds_decisionId l \<and> pr_id r = ds_probeResultId l \<and> as_id s = ad_stateId a
     \<and> pr_scope r = as_scope s \<and> ad_cycleStartedAt a = Some (pr_cycleStartedAt r) \<and> ad_routeVersion a = Some (pr_routeVersion r)"
    if l: "l \<in> set (h_signals ?x)" "ds_disposition l = ACCEPTED" for l
  proof -
    have "\<exists>a \<in> set (h_decisions ?x). \<exists>r \<in> set (h_results ?x). \<exists>s \<in> set (h_states d).
       ad_id a = ds_decisionId l \<and> pr_id r = ds_probeResultId l \<and> as_id s = ad_stateId a
     \<and> pr_scope r = as_scope s \<and> ad_cycleStartedAt a = Some (pr_cycleStartedAt r) \<and> ad_routeVersion a = Some (pr_routeVersion r)"
    proof (cases "l \<in> set (h_signals d)")
      case True
      then show ?thesis using links l(2) unfolding links_ok_def decided_tables by (metis UnCI set_append)
    next
      case False
      then obtain e where e: "e \<in> set ?es" "l = signal_link did e" using l(1) by (auto simp: decided_tables)
      show ?thesis
      proof (rule signal_trigger_facts [OF trigger [OF e(1)]])
        fix a r s assume f: "a \<in> set (h_decisions ?d1)" "ad_id a = ds_decisionId (signal_link did e)"
          "r \<in> set (h_results ?d1)" "pr_id r = ds_probeResultId (signal_link did e)" "s \<in> set (h_states ?d1)"
          "as_id s = ad_stateId a" "as_scope s = pr_scope r"
          "ds_disposition (signal_link did e) = ACCEPTED \<longrightarrow> ad_cycleStartedAt a = Some (pr_cycleStartedAt r)
             \<and> ad_routeVersion a = Some (pr_routeVersion r)"
        then show ?thesis
          using e(2) l(2) by (intro bexI [of _ a] bexI [of _ r] bexI [of _ s]) (simp_all add: decided_tables)
      qed
    qed
    then show ?thesis using decided_state_kept [of _ d] by metis
  qed
  moreover have "distinct (map ds_probeResultId (?acc (h_signals ?x)))"
  proof -
    have "distinct (map ds_probeResultId (?acc (h_signals d)))" using links by (simp add: links_ok_def)
    moreover have "distinct (map ds_probeResultId (map (signal_link did) ?es))"
      using new by (simp add: links_fit_def o_def)
    then have "distinct (map ds_probeResultId (?acc (map (signal_link did) ?es)))" by (rule distinct_map_filter)
    moreover have "ds_probeResultId l \<noteq> ev_signalId e"
      if l: "l \<in> set (h_signals d)" "ds_disposition l = ACCEPTED" and e: "e \<in> set ?es" "ev_disposition e = ACCEPTED" for l e
    proof
      assume same: "ds_probeResultId l = ev_signalId e"
      have "ev_signalId e \<in> set (ci_probeResultIds i)"
      proof (rule signal_trigger_facts [OF trigger [OF e(1)]])
        fix a assume a: "a \<in> set (h_decisions ?d1)" "ad_id a = ds_decisionId (signal_link did e)"
          "ds_probeResultId (signal_link did e) \<in> set (ad_inputProbeResultIds a)"
        then have "a = ?a" using fits by (auto simp: decision_fits_def)
        then show ?thesis using a(3) by simp
      qed
      then have "ev_signalId e \<in> set (consumed_ids (ci_probeResultIds i) d)"
        using l same by (force simp: consumed_ids_def)
      then show False using consumed_not_accepted [OF e] by blast
    qed
    ultimately show ?thesis by (auto simp: decided_tables)
  qed
  ultimately show ?thesis unfolding links_ok_def by blast
qed

lemma evidence_inv_apply:
  assumes inv: "evidence_inv d" and c: "find_state (ci_affectedScope i) d = Some current" "as_version current = v"
    and r: "cycle_refusal i now current d = None" and run: "apply_decision did key i v now current d = Inr (x, d')"
  shows "evidence_inv d'"
proof -
  have cur: "current \<in> set (h_states d)" "as_scope current = ci_affectedScope i" using find_state_Some [OF c(1)] by simp_all
  have k: "keys_ok d" "links_ok d" "cycles_ok d" and hist: "\<forall>s \<in> set (h_states d). \<exists>is. scope_history d s is"
    using inv by (simp_all add: evidence_inv_def)
  note facts = apply_decision_iff [THEN iffD1, OF run, unfolded Let_def]
  have d': "d' = decided did key i v now current d" using facts by blast
  show ?thesis
    unfolding evidence_inv_def d'
  proof (intro conjI ballI)
    show "keys_ok (decided did key i v now current d)" using facts by (intro decided_keys [OF k(1) cur(1) c(2)]) blast
    show "links_ok (decided did key i v now current d)" using facts by (intro decided_links [OF k(2)]) blast+
    show "cycles_ok (decided did key i v now current d)" by (rule decided_cycles [OF k(1,3) cur(1) c(2) r])
    show "\<exists>is. scope_history (decided did key i v now current d) s is"
      if "s \<in> set (h_states (decided did key i v now current d))" for s
      by (rule decided_history [OF k(1) cur(1) c(2) cur(2) r hist that])
  qed
qed

end
