(* ===== verification/Health_Histories.thy ===== *)
theory Health_Histories
  imports Health_Store_Properties
begin

text \<open>
  Every history of the health stores: transactions of the evidence and action stores in any order, with
  changes of probe sources and policies by operators and of operations by whoever executes them.
\<close>

section \<open>Incidents\<close>

definition incident_bound :: "health_db \<Rightarrow> incident \<Rightarrow> bool" where
  "incident_bound d ic \<longleftrightarrow> (\<exists>a \<in> set (h_decisions d). ad_id a = ic_decisionId ic \<and> ad_triggerIncident a
     \<and> decision_scope a d = Some (ic_scope ic))"

definition operation_bound :: "health_db \<Rightarrow> node_operation \<Rightarrow> bool" where
  "operation_bound d op \<longleftrightarrow>
     (\<exists>ic \<in> set (h_incidents d). ic_id ic = no_incidentId op \<and> ic_decisionId ic = no_decisionId op)
   \<and> (\<exists>a \<in> set (h_decisions d). ad_id a = no_decisionId op \<and> ad_triggerReplacement a
        \<and> ad_policyVersionId a = Some (no_policyVersionId op))"

definition incident_settled :: "health_db \<Rightarrow> incident \<Rightarrow> bool" where
  "incident_settled d ic \<longleftrightarrow> ic_status ic = IncidentResolved \<longrightarrow> ic_resolvedAt ic \<noteq> None
     \<and> (\<forall>op \<in> set (h_operations d). no_incidentId op = ic_id ic \<longrightarrow> terminal_operation op)"

definition incident_inv :: "health_db \<Rightarrow> bool" where
  "incident_inv d \<longleftrightarrow> distinct (map ic_id (h_incidents d)) \<and> distinct (map ic_decisionId (h_incidents d))
     \<and> distinct (map no_id (h_operations d)) \<and> distinct (map (\<lambda>op. (no_decisionId op, no_type op)) (h_operations d))
     \<and> (\<forall>ic \<in> set (h_incidents d). incident_bound d ic \<and> incident_settled d ic)
     \<and> (\<forall>op \<in> set (h_operations d). operation_bound d op)"

text \<open>Decisions are only added and keep their scope.\<close>

definition decisions_grow :: "health_db \<Rightarrow> health_db \<Rightarrow> bool" where
  "decisions_grow d x \<longleftrightarrow> (\<forall>a \<in> set (h_decisions d). a \<in> set (h_decisions x) \<and> (decision_scope a d \<noteq> None \<longrightarrow> decision_scope a x = decision_scope a d))"

lemma incident_bound_grow: "decisions_grow d x \<Longrightarrow> incident_bound d ic \<Longrightarrow> incident_bound x ic"
  by (force simp: incident_bound_def decisions_grow_def)

lemma incident_inv_grow:
  assumes i: "incident_inv d" and g: "decisions_grow d x" and x: "h_incidents x = h_incidents d" "h_operations x = h_operations d"
  shows "incident_inv x"
proof -
  have "operation_bound x op" if "operation_bound d op" for op
    using that g x by (auto simp: operation_bound_def decisions_grow_def)
  then show ?thesis
    using i incident_bound_grow [OF g] x by (simp add: incident_inv_def incident_settled_def)
qed

lemma decisions_grow_same:
  "h_decisions x = h_decisions d \<Longrightarrow> h_states x = h_states d \<Longrightarrow> decisions_grow d x"
  by (simp add: decisions_grow_def decision_scope_def)

lemma decisions_grow_ensure: "ensure_state sid scope d = Inr d1 \<Longrightarrow> decisions_grow d d1"
  by (auto simp: ensure_state_def decisions_grow_def decision_scope_def find_append split: if_splits option.splits)

lemma decisions_grow_trans: "decisions_grow d x \<Longrightarrow> decisions_grow x y \<Longrightarrow> decisions_grow d y"
  by (simp add: decisions_grow_def)

lemma scope_of_advanced:
  fixes ss :: "availability_state list"
  shows "map_option as_scope (find (\<lambda>s. as_id s = sid) (update_rows q (\<lambda>s. s\<lparr>as_state := st, as_version := w\<rparr>) ss))
    = map_option as_scope (find (\<lambda>s. as_id s = sid) ss)"
  by (induction ss) (auto simp: update_rows_def)

lemma decisions_grow_decided: "decisions_grow d (decided did key i v now current d)"
  by (simp add: decisions_grow_def decision_scope_def decided_def Let_def scope_of_advanced)

section \<open>The writes of the action store\<close>

lemma incident_inv_insert:
  assumes inv: "incident_inv d" and new: "insert_incident ic d = Inr x" and op: "ic_status ic = IncidentOpen"
  shows "incident_inv x" "x = d\<lparr>h_incidents := h_incidents d @ [ic]\<rparr>"
proof -
  obtain a where a: "find_decision (ic_decisionId ic) d = Some a" "ad_triggerIncident a" "decision_scope a d = Some (ic_scope ic)"
    and fresh: "\<forall>k \<in> set (h_incidents d). ic_id k \<noteq> ic_id ic \<and> ic_decisionId k \<noteq> ic_decisionId ic"
    and x: "x = d\<lparr>h_incidents := h_incidents d @ [ic]\<rparr>"
    using new by (auto simp: insert_incident_def split: option.splits if_splits)
  have "a \<in> set (h_decisions d)" "ad_id a = ic_decisionId ic"
    using find_member a(1) by (fastforce simp: find_decision_def)+
  then have "incident_bound d ic" using a by (auto simp: incident_bound_def)
  moreover have "incident_bound x k = incident_bound d k" for k by (simp add: incident_bound_def decision_scope_def x)
  moreover have "operation_bound d k \<Longrightarrow> operation_bound x k" for k by (auto simp: operation_bound_def x)
  moreover have "incident_settled x k = incident_settled d k" for k by (simp add: incident_settled_def x)
  moreover have "incident_settled d ic" using op by (simp add: incident_settled_def)
  moreover have "h_operations x = h_operations d" "h_incidents x = h_incidents d @ [ic]" by (simp_all add: x)
  moreover have "distinct (map ic_id (h_incidents d @ [ic]))" "distinct (map ic_decisionId (h_incidents d @ [ic]))"
    using inv fresh by (auto simp: incident_inv_def)
  ultimately show "incident_inv x" using inv by (simp add: incident_inv_def)
  show "x = d\<lparr>h_incidents := h_incidents d @ [ic]\<rparr>" by (rule x)
qed

lemma incident_inv_operation:
  assumes inv: "incident_inv d" and new: "insert_operation op d = Inr x"
  shows "incident_inv x" "x = d\<lparr>h_operations := h_operations d @ [op]\<rparr>"
proof -
  obtain ic a where ic: "find (\<lambda>k. ic_id k = no_incidentId op) (h_incidents d) = Some ic" "ic_status ic = IncidentOpen"
      "ic_decisionId ic = no_decisionId op"
    and a: "find_decision (no_decisionId op) d = Some a" "ad_triggerReplacement a" "ad_policyVersionId a = Some (no_policyVersionId op)"
    and fresh: "\<forall>k \<in> set (h_operations d). no_id k \<noteq> no_id op \<and> \<not> (no_decisionId k = no_decisionId op \<and> no_type k = no_type op)"
    and x: "x = d\<lparr>h_operations := h_operations d @ [op]\<rparr>"
    using new by (auto simp: insert_operation_def split: option.splits if_splits)
  note m = find_member [OF ic(1)]
  have "a \<in> set (h_decisions d)" "ad_id a = no_decisionId op"
    using find_member a(1) by (fastforce simp: find_decision_def)+
  then have "operation_bound d op" using a m ic(3) by (auto simp: operation_bound_def)
  moreover have "operation_bound x k = operation_bound d k" for k by (simp add: operation_bound_def x)
  moreover have "incident_bound x k = incident_bound d k" for k by (simp add: incident_bound_def decision_scope_def x)
  moreover have "incident_settled x k" if k: "k \<in> set (h_incidents d)" for k
  proof (cases "ic_id k = no_incidentId op")
    case True
    then have "k = ic" using inv m k distinct_key_eq [of ic_id "h_incidents d" k ic] by (simp add: incident_inv_def)
    then show ?thesis using ic(2) by (simp add: incident_settled_def)
  next
    case False
    then show ?thesis using inv k by (auto simp: incident_inv_def incident_settled_def x)
  qed
  moreover have "h_incidents x = h_incidents d" "h_operations x = h_operations d @ [op]" by (simp_all add: x)
  moreover have "distinct (map no_id (h_operations d @ [op]))"
    "distinct (map (\<lambda>op. (no_decisionId op, no_type op)) (h_operations d @ [op]))"
    using inv fresh by (auto simp: incident_inv_def)
  ultimately show "incident_inv x" using inv by (simp add: incident_inv_def)
  show "x = d\<lparr>h_operations := h_operations d @ [op]\<rparr>" by (rule x)
qed

text \<open>What an event leaves of the evidence: everything.\<close>

definition same_evidence :: "health_db \<Rightarrow> health_db \<Rightarrow> bool" where
  "same_evidence d x \<longleftrightarrow> h_states x = h_states d \<and> h_decisions x = h_decisions d \<and> h_signals x = h_signals d
     \<and> h_results x = h_results d"

lemma same_evidence_inv: "same_evidence d x \<Longrightarrow> evidence_inv x = evidence_inv d"
  by (rule evidence_inv_frame) (simp_all add: same_evidence_def)

lemma incident_inv_event:
  assumes inv: "incident_inv d" and new: "insert_event e d = Inr x"
  shows "incident_inv x" "same_evidence d x" "h_operations x = h_operations d"
proof -
  obtain ic where ic: "find (\<lambda>k. ic_id k = te_incidentId e) (h_incidents d) = Some ic" and t: "event_trigger e ic d"
    and x: "te_kind e \<noteq> Resolved \<and> x = d\<lparr>h_events := h_events d @ [e]\<rparr>
      \<or> te_kind e = Resolved \<and> x = d\<lparr>h_events := h_events d @ [e],
           h_incidents := update_rows (\<lambda>k. ic_id k = te_incidentId e \<and> ic_status k = IncidentOpen)
             (resolve_row (te_createdAt e)) (h_incidents d)\<rparr>"
    using new by (auto simp: insert_event_def Let_def split: option.splits if_splits)
  show "same_evidence d x" "h_operations x = h_operations d" using x by (auto simp: same_evidence_def)
  show "incident_inv x"
  proof (cases "te_kind e = Resolved")
    case False
    then have "x = d\<lparr>h_events := h_events d @ [e]\<rparr>" using x by simp
    then show ?thesis using incident_inv_grow [OF inv, of x] by (simp add: decisions_grow_def decision_scope_def)
  next
    case True
    let ?q = "\<lambda>k. ic_id k = te_incidentId e \<and> ic_status k = IncidentOpen"
    let ?f = "resolve_row (te_createdAt e)"
    have x': "h_incidents x = update_rows ?q ?f (h_incidents d)" "h_operations x = h_operations d"
      "h_decisions x = h_decisions d" "h_states x = h_states d"
      using x True by simp_all
    have bound: "incident_bound x k = incident_bound d k" for k by (simp add: incident_bound_def decision_scope_def x')
    have bound_f: "incident_bound d (?f k) = incident_bound d k" for k by (simp add: incident_bound_def resolve_row_def)
    have settled: "incident_settled x k = incident_settled d k" for k by (simp add: incident_settled_def x')
    have done_ops: "\<forall>op \<in> set (h_operations d). no_incidentId op = te_incidentId e \<longrightarrow> terminal_operation op"
      using t True by (simp add: event_trigger_def)
    then have settled_f: "incident_settled d (?f k)" if "?q k" for k
      using that by (simp add: incident_settled_def resolve_row_def)
    have ops: "operation_bound x op" if o: "operation_bound d op" for op
    proof -
      obtain k where k: "k \<in> set (h_incidents d)" "ic_id k = no_incidentId op" "ic_decisionId k = no_decisionId op"
        using o by (auto simp: operation_bound_def)
      have "(if ?q k then ?f k else k) \<in> set (h_incidents x)" using k(1) by (auto simp: x' set_update_rows)
      then have "\<exists>k \<in> set (h_incidents x). ic_id k = no_incidentId op \<and> ic_decisionId k = no_decisionId op"
        using k(2,3) by (intro bexI [of _ "if ?q k then ?f k else k"]) (auto simp: resolve_row_def)
      then show ?thesis using o by (simp add: operation_bound_def x')
    qed
    have "map ic_id (h_incidents x) = map ic_id (h_incidents d)" "map ic_decisionId (h_incidents x) = map ic_decisionId (h_incidents d)"
      by (simp_all add: x' map_update_rows_key resolve_row_def)
    moreover have "incident_bound x k \<and> incident_settled x k" if "k \<in> set (h_incidents x)" for k
    proof -
      from that have "k \<in> set (update_rows ?q ?f (h_incidents d))" by (simp only: x')
      then show ?thesis
        by (rule update_rows_cases) (use inv bound bound_f settled settled_f in \<open>auto simp: incident_inv_def\<close>)
    qed
    ultimately show ?thesis using inv ops by (simp add: incident_inv_def x'(2))
  qed
qed

section \<open>Histories\<close>

text \<open>\<open>protect_node_operation_lifecycle\<close>: what the trigger lets the executor of an operation change.\<close>

definition operation_update_ok :: "node_operation \<Rightarrow> OperationStatus \<Rightarrow> int \<Rightarrow> bool" where
  "operation_update_ok old status attempts \<longleftrightarrow> no_attempts old \<le> attempts
   \<and> (case no_status old of
        OperationPending \<Rightarrow> status \<in> {OperationPending, OperationRunning, OperationFailed}
      | OperationRunning \<Rightarrow> status \<in> {OperationRunning, OperationSucceeded, OperationFailed}
      | _ \<Rightarrow> False)"

definition executed :: "uuid \<Rightarrow> OperationStatus \<Rightarrow> int \<Rightarrow> health_db \<Rightarrow> health_db" where
  "executed oid status attempts d = d\<lparr>h_operations := update_rows (\<lambda>k. no_id k = oid)
     (\<lambda>k. k\<lparr>no_status := status, no_attempts := attempts\<rparr>) (h_operations d)\<rparr>"

inductive store_step :: "health_db \<Rightarrow> health_db \<Rightarrow> bool" where
  store_record: "recordProbeResultInTransaction is_uuid rid ri now d = Inr (r, d') \<Longrightarrow> store_step d d'"
| store_decide: "evaluateAndApplyDecision is_uuid digest conflict sid did ci v now d = Inr (a, d') \<Longrightarrow> store_step d d'"
| store_materialize: "materializeDecisionActions is_uuid keyOf n iid oid did account now d = Inr (m, d') \<Longrightarrow> store_step d d'"
| store_resolve: "resolveIncident is_uuid iid account reason now d = Inr (s, d') \<Longrightarrow> store_step d d'"
| store_operators: "d' = d\<lparr>h_sources := so, h_policyVersions := pv, h_policyActivations := pa\<rparr> \<Longrightarrow> store_step d d'"
| store_execute: "op \<in> set (h_operations d) \<Longrightarrow> operation_update_ok op status attempts \<Longrightarrow>
    store_step d (executed (no_id op) status attempts d)"

definition health_inv :: "health_db \<Rightarrow> bool" where
  "health_inv d \<longleftrightarrow> evidence_inv d \<and> incident_inv d"

lemma record_run:
  assumes "recordProbeResultInTransaction is_uuid rid ri now d = Inr (r, d')"
  obtains "d' = d" | row where "insert_result row d = Inr d'"
  using assms
  by (auto simp: recordProbeResultInTransaction_def Let_def map_sum_def split: option.splits if_splits sum.splits)

lemma same_evidence_trans: "same_evidence d x \<Longrightarrow> same_evidence x y \<Longrightarrow> same_evidence d y"
  by (simp add: same_evidence_def)

lemma open_incident_inv:
  assumes inv: "incident_inv d" and run: "open_incident a scope iid now d = Inr x"
  shows "incident_inv x \<and> same_evidence d x"
proof -
  let ?ic = "\<lparr>ic_id = iid, ic_decisionId = ad_id a, ic_scope = scope, ic_status = IncidentOpen, ic_openedAt = now, ic_resolvedAt = None\<rparr>"
  obtain d1 y where d1: "insert_incident ?ic d = Inr d1"
    and y: "insert_event \<lparr>te_incidentId = iid, te_kind = Opened, te_operationId = None, te_createdAt = now\<rparr> d1 = Inr y"
    and x: "x = health_audit ''health-incident.opened'' ''Incident'' iid y"
    using run by (auto simp: open_incident_def map_sum_def split: sum.splits)
  have "incident_inv d1" "d1 = d\<lparr>h_incidents := h_incidents d @ [?ic]\<rparr>"
    using incident_inv_insert [OF inv d1] by simp_all
  moreover have "incident_inv y" "same_evidence d1 y" using incident_inv_event [OF calculation(1) y] by simp_all
  moreover have "incident_inv x" using incident_inv_grow [OF calculation(3), of x]
    by (simp add: x health_audit_def decisions_grow_def decision_scope_def)
  ultimately show ?thesis by (simp add: x health_audit_def same_evidence_def)
qed

lemma create_promotion_inv:
  assumes inv: "incident_inv d" and run: "create_promotion keyOf a scope pid iid oid account n now d = Inr x"
  shows "incident_inv x \<and> same_evidence d x"
proof -
  obtain op d1 y where d1: "insert_operation op d = Inr d1"
    and y: "insert_event \<lparr>te_incidentId = iid, te_kind = OperationCreated, te_operationId = Some oid, te_createdAt = now\<rparr> d1 = Inr y"
    and x: "x = health_audit ''node-operation.created'' ''NodeOperation'' oid y"
    using run by (auto simp: create_promotion_def map_sum_def split: sum.splits)
  have "incident_inv d1" "d1 = d\<lparr>h_operations := h_operations d @ [op]\<rparr>"
    using incident_inv_operation [OF inv d1] by simp_all
  moreover have "incident_inv y" "same_evidence d1 y" using incident_inv_event [OF calculation(1) y] by simp_all
  moreover have "incident_inv x" using incident_inv_grow [OF calculation(3), of x]
    by (simp add: x health_audit_def decisions_grow_def decision_scope_def)
  ultimately show ?thesis by (simp add: x health_audit_def same_evidence_def)
qed

lemma materialize_inv:
  assumes inv: "incident_inv d" and run: "materializeDecisionActions is_uuid keyOf n iid oid did account now d = Inr (m, d')"
  shows "incident_inv d' \<and> same_evidence d d'"
proof -
  have refl: "same_evidence d d" by (simp add: same_evidence_def)
  consider "d' = d" | a scope where "open_incident a scope iid now d = Inr d'"
    | a scope d1 pid who where "open_incident a scope iid now d = Inr d1"
        "create_promotion keyOf a scope pid iid oid who n now d1 = Inr d'"
    using run by (auto simp: materializeDecisionActions_def map_sum_def split: option.splits if_splits sum.splits)
  then show ?thesis
  proof cases
    case 3
    then show ?thesis using open_incident_inv [OF inv 3(1)] create_promotion_inv [OF _ 3(2)] same_evidence_trans by blast
  qed (use inv refl open_incident_inv [OF inv] in blast)+
qed

lemma resolve_inv:
  assumes inv: "incident_inv d" and run: "resolveIncident is_uuid iid account reason now d = Inr (s, d')"
  shows "incident_inv d' \<and> same_evidence d d'"
proof -
  consider "d' = d" | e y where "insert_event e d = Inr y" "d' = health_audit ''health-incident.resolved'' ''Incident'' (te_incidentId e) y"
    using run by (fastforce simp: resolveIncident_def map_sum_def split: option.splits if_splits sum.splits)
  then show ?thesis
  proof cases
    case 1
    then show ?thesis using inv by (simp add: same_evidence_def)
  next
    case 2
    have "incident_inv y" "same_evidence d y" using incident_inv_event [OF inv 2(1)] by simp_all
    then show ?thesis using incident_inv_grow [of y d']
      by (simp add: 2(2) health_audit_def decisions_grow_def decision_scope_def same_evidence_def)
  qed
qed

lemma execute_inv:
  assumes inv: "incident_inv d" and op: "op \<in> set (h_operations d)" "operation_update_ok op status attempts"
  shows "incident_inv (executed (no_id op) status attempts d)"
proof -
  let ?x = "executed (no_id op) status attempts d" and ?f = "\<lambda>k. k\<lparr>no_status := status, no_attempts := attempts\<rparr>"
  have ops: "h_operations ?x = update_rows (\<lambda>k. no_id k = no_id op) ?f (h_operations d)" by (simp add: executed_def)
  have keys: "map no_id (h_operations ?x) = map no_id (h_operations d)"
    "map (\<lambda>op. (no_decisionId op, no_type op)) (h_operations ?x) = map (\<lambda>op. (no_decisionId op, no_type op)) (h_operations d)"
    by (simp_all add: ops map_update_rows_key)
  have running: "\<not> terminal_operation op"
    using op(2) by (auto simp: operation_update_ok_def terminal_operation_def split: OperationStatus.splits)
  have from_old: "\<exists>k \<in> set (h_operations d). no_incidentId k = no_incidentId k' \<and> no_decisionId k = no_decisionId k'
      \<and> no_policyVersionId k = no_policyVersionId k' \<and> (terminal_operation k \<longrightarrow> terminal_operation k')" if k': "k' \<in> set (h_operations ?x)" for k'
  proof -
    from k' have "k' \<in> set (update_rows (\<lambda>k. no_id k = no_id op) ?f (h_operations d))" by (simp only: ops)
    then show ?thesis
    proof (rule update_rows_cases)
      fix k assume k: "k \<in> set (h_operations d)" "no_id k = no_id op" "k' = ?f k"
      then have "k = op" using inv op(1) distinct_key_eq [of no_id "h_operations d" k op] by (simp add: incident_inv_def)
      then show ?thesis using k running by (intro bexI [of _ k]) simp_all
    qed blast
  qed
  have "incident_settled ?x ic" if ic: "ic \<in> set (h_incidents d)" for ic
  proof -
    have s: "incident_settled d ic" using inv ic by (simp add: incident_inv_def)
    show ?thesis
      unfolding incident_settled_def
    proof (intro impI conjI ballI)
      assume r: "ic_status ic = IncidentResolved"
      then show "ic_resolvedAt ic \<noteq> None" using s by (simp add: incident_settled_def)
      fix k' assume k': "k' \<in> set (h_operations ?x)" "no_incidentId k' = ic_id ic"
      then show "terminal_operation k'" using from_old [OF k'(1)] s r by (auto simp: incident_settled_def)
    qed
  qed
  moreover have "operation_bound ?x k'" if k': "k' \<in> set (h_operations ?x)" for k'
    using from_old [OF k'] inv by (fastforce simp: incident_inv_def operation_bound_def executed_def)
  moreover have "incident_bound ?x ic = incident_bound d ic" for ic by (simp add: incident_bound_def decision_scope_def executed_def)
  moreover have "h_incidents ?x = h_incidents d" by (simp add: executed_def)
  ultimately show ?thesis using inv keys by (simp add: incident_inv_def)
qed

lemma health_inv_decide:
  assumes inv: "health_inv d" and run: "evaluateAndApplyDecision is_uuid digest conflict sid did u v now d = Inr (r, d')"
  shows "health_inv d'"
  using run
proof (cases rule: cycle_run)
  case (evaluated i d1 current)
  have e: "evidence_inv d1" using evidence_inv_ensure [OF _ evaluated(3)] inv by (simp add: health_inv_def)
  have d': "d' = decided did (cycleIdempotencyKey digest v i) i v now current d1"
    using apply_decision_iff [THEN iffD1, OF evaluated(8), unfolded Let_def] by blast
  have "h_incidents d1 = h_incidents d" "h_operations d1 = h_operations d"
    using evaluated(3) by (auto simp: ensure_state_def split: if_splits)
  then have same: "h_incidents d' = h_incidents d" "h_operations d' = h_operations d" by (simp_all add: d' decided_def Let_def)
  have "decisions_grow d d'"
    using decisions_grow_trans [OF decisions_grow_ensure [OF evaluated(3)] decisions_grow_decided] d' by simp
  then have "incident_inv d'" using incident_inv_grow [OF _ _ same] inv by (simp add: health_inv_def)
  moreover have "evidence_inv d'" by (rule evidence_inv_apply [OF e evaluated(4-6,8)])
  ultimately show ?thesis by (simp add: health_inv_def)
qed (use inv in simp)

lemma health_inv_record:
  assumes inv: "health_inv d" and run: "recordProbeResultInTransaction is_uuid rid ri now d = Inr (r, d')"
  shows "health_inv d'"
  using run
proof (cases rule: record_run)
  case (2 row)
  then have "d' = d\<lparr>h_results := h_results d @ [row]\<rparr>" "pr_id row \<notin> pr_id ` set (h_results d)"
    by (auto simp: insert_result_def split: if_splits)
  then show ?thesis
    using inv evidence_inv_result incident_inv_grow [of d d'] by (auto simp: health_inv_def decisions_grow_def decision_scope_def)
qed (use inv in simp)

lemma operators_inv:
  assumes "d' = d\<lparr>h_sources := so, h_policyVersions := pv, h_policyActivations := pa\<rparr>" "health_inv d"
  shows "health_inv d'"
proof -
  have "evidence_inv d' = evidence_inv d" by (rule evidence_inv_frame) (simp_all add: assms(1))
  moreover have "incident_inv d'"
    by (rule incident_inv_grow [of d]) (use assms in \<open>simp_all add: health_inv_def decisions_grow_def decision_scope_def\<close>)
  ultimately show ?thesis using assms(2) by (simp add: health_inv_def)
qed

lemma store_step_inv: "store_step d d' \<Longrightarrow> health_inv d \<Longrightarrow> health_inv d'"
proof (induction rule: store_step.induct)
  case store_operators
  then show ?case using operators_inv by blast
next
  case (store_execute op d status attempts)
  have "evidence_inv (executed (no_id op) status attempts d) = evidence_inv d"
    by (rule evidence_inv_frame) (simp_all add: executed_def)
  then show ?case using store_execute execute_inv by (simp add: health_inv_def)
next
  case (store_materialize is_uuid keyOf n iid oid did account now d m d')
  then show ?case using materialize_inv [OF _ store_materialize(1)] same_evidence_inv by (auto simp: health_inv_def)
next
  case (store_resolve is_uuid iid account reason now d s d')
  then show ?case using resolve_inv [OF _ store_resolve(1)] same_evidence_inv by (auto simp: health_inv_def)
qed (blast intro: health_inv_record health_inv_decide)+

interpretation health_store: invariant_system store_step health_inv
  by unfold_locales (rule store_step_inv)


text \<open>C3. Evidence counts once: in every state the tables reach, a probe result is accepted by at most one
  decision, one that concerns the scope, the cycle and the route version of the result.\<close>

theorem evidence_used_once:
  assumes "health_inv d0" "store_step\<^sup>*\<^sup>* d0 d"
    and "l \<in> set (h_signals d)" "ds_disposition l = ACCEPTED"
  shows "(\<forall>m \<in> set (h_signals d). ds_disposition m = ACCEPTED \<and> ds_probeResultId m = ds_probeResultId l \<longrightarrow> m = l)
    \<and> (\<exists>a \<in> set (h_decisions d). \<exists>r \<in> set (h_results d). \<exists>s \<in> set (h_states d).
        ad_id a = ds_decisionId l \<and> pr_id r = ds_probeResultId l \<and> as_id s = ad_stateId a \<and> pr_scope r = as_scope s
      \<and> ad_cycleStartedAt a = Some (pr_cycleStartedAt r) \<and> ad_routeVersion a = Some (pr_routeVersion r))"
proof -
  have links: "links_ok d"
    using health_store.reachable_inv [OF assms(2,1)] by (simp add: health_inv_def evidence_inv_def)
  let ?acc = "filter (\<lambda>l. ds_disposition l = ACCEPTED) (h_signals d)"
  have "distinct (map ds_probeResultId ?acc)" using links by (simp add: links_ok_def)
  then have "m = l" if "m \<in> set ?acc" "ds_probeResultId m = ds_probeResultId l" for m
    using distinct_key_eq [of ds_probeResultId ?acc m l] that assms(3,4) by simp
  moreover have "\<exists>a \<in> set (h_decisions d). \<exists>r \<in> set (h_results d). \<exists>s \<in> set (h_states d).
        ad_id a = ds_decisionId l \<and> pr_id r = ds_probeResultId l \<and> as_id s = ad_stateId a \<and> pr_scope r = as_scope s
      \<and> ad_cycleStartedAt a = Some (pr_cycleStartedAt r) \<and> ad_routeVersion a = Some (pr_routeVersion r)"
    using links assms(3,4) unfolding links_ok_def by blast
  ultimately show ?thesis by auto
qed

definition fenced_state :: "availability_state \<Rightarrow> bool" where
  "fenced_state s \<longleftrightarrow> hs_status (as_state s) \<in> {QUARANTINED, DISABLED} \<and> excludedFromCandidates (as_state s)"

definition fences_kept :: "health_db \<Rightarrow> health_db \<Rightarrow> bool" where
  "fences_kept d d' \<longleftrightarrow> (\<forall>s \<in> set (h_states d). fenced_state s \<longrightarrow>
     (\<exists>s' \<in> set (h_states d'). as_id s' = as_id s \<and> as_scope s' = as_scope s \<and> as_version s \<le> as_version s' \<and> fenced_state s'))"

lemma fences_kept_subset: "set (h_states d) \<subseteq> set (h_states d') \<Longrightarrow> fences_kept d d'"
  by (auto simp: fences_kept_def)

lemma fences_kept_trans: "fences_kept d x \<Longrightarrow> fences_kept x y \<Longrightarrow> fences_kept d y"
  unfolding fences_kept_def by (metis order_trans)

lemma fences_kept_decided: "fences_kept d (decided did key i v now current d)" if "as_version current = v" "current \<in> set (h_states d)" "keys_ok d"
proof -
  have "\<exists>s' \<in> set (h_states (decided did key i v now current d)). as_id s' = as_id s \<and> as_scope s' = as_scope s
      \<and> as_version s \<le> as_version s' \<and> fenced_state s'" if s: "s \<in> set (h_states d)" "fenced_state s" for s
  proof (cases "s = current")
    case True
    let ?s = "s\<lparr>as_state := hd_state (cycle_decision i now current d), as_version := v + 1\<rparr>"
    have "?s \<in> set (h_states (decided did key i v now current d))"
      using s(1) True \<open>as_version current = v\<close> by (force simp: decided_def Let_def set_update_rows state_hit_def)
    moreover have "fenced_state ?s"
      using s(2) True fenced_step [of "as_state current"] by (simp add: fenced_state_def hd_state_cycle_decision)
    ultimately show ?thesis using True \<open>as_version current = v\<close> by (intro bexI [of _ ?s]) simp_all
  next
    case False
    then have "\<not> state_hit (as_id current) v s"
      using state_hit_current [OF \<open>keys_ok d\<close> \<open>current \<in> set (h_states d)\<close> s(1)] \<open>as_version current = v\<close> by simp
    then have "s \<in> set (h_states (decided did key i v now current d))" using s(1) by (force simp: decided_def Let_def set_update_rows)
    then show ?thesis using s(2) by blast
  qed
  then show ?thesis unfolding fences_kept_def by blast
qed

lemma fences_kept_step: "store_step d d' \<Longrightarrow> health_inv d \<Longrightarrow> fences_kept d d'"
proof (induction rule: store_step.induct)
  case (store_record is_uuid rid ri now d r d')
  then show ?case
    by (elim record_run) (auto simp: insert_result_def split: if_splits intro: fences_kept_subset)
next
  case (store_decide is_uuid digest conflict sid did ci v now d a d')
  from store_decide(1) show ?case
  proof (cases rule: cycle_run)
    case (evaluated i d1 current)
    have k: "keys_ok d1"
      using evidence_inv_ensure [OF _ evaluated(3)] store_decide(2) by (simp add: health_inv_def evidence_inv_def)
    have "fences_kept d d1" using evaluated(3) by (intro fences_kept_subset) (auto simp: ensure_state_def split: if_splits)
    moreover have "fences_kept d1 d'"
      using fences_kept_decided [OF evaluated(5) _ k] find_state_Some [OF evaluated(4)]
        apply_decision_iff [THEN iffD1, OF evaluated(8), unfolded Let_def] by blast
    ultimately show ?thesis by (rule fences_kept_trans)
  qed (simp add: fences_kept_subset)
next
  case (store_materialize is_uuid keyOf n iid oid did account now d m d')
  then show ?case using materialize_inv [OF _ store_materialize(1)]
    by (intro fences_kept_subset) (simp add: health_inv_def same_evidence_def)
next
  case (store_resolve is_uuid iid account reason now d s d')
  then show ?case using resolve_inv [OF _ store_resolve(1)]
    by (intro fences_kept_subset) (simp add: health_inv_def same_evidence_def)
next
  case store_operators
  then show ?case by (intro fences_kept_subset) simp
next
  case store_execute
  then show ?case by (intro fences_kept_subset) (simp add: executed_def)
qed

text \<open>C2. No transaction of the stores lifts a quarantine: a scope that is quarantined or disabled and
  excluded stays so along every history, whatever evidence, decisions, incidents and policy changes
  follow, while its version only grows.\<close>

theorem quarantine_survives_store:
  assumes "health_inv d0" "store_step\<^sup>*\<^sup>* d0 d" "s \<in> set (h_states d0)" "fenced_state s"
  shows "\<exists>s' \<in> set (h_states d). as_id s' = as_id s \<and> as_scope s' = as_scope s \<and> as_version s \<le> as_version s' \<and> fenced_state s'"
proof -
  have "fences_kept d0 d"
    by (rule health_store.reachable_rel [OF assms(2,1)])
      (blast intro: fences_kept_subset fences_kept_trans fences_kept_step)+
  then show ?thesis using assms(3,4) unfolding fences_kept_def by blast
qed

text \<open>C4. Incidents follow decisions: in every state the tables reach, an incident belongs to a decision
  that triggered one and has its scope, no decision has two, an operation belongs to the incident of a
  decision that asks for a replacement under a policy, no decision has two operations of a type, and
  an incident that is resolved has only terminal operations.\<close>

theorem incidents_follow_decisions:
  assumes "health_inv d0" "store_step\<^sup>*\<^sup>* d0 d" "ic \<in> set (h_incidents d)"
  shows "(\<exists>a \<in> set (h_decisions d). ad_id a = ic_decisionId ic \<and> ad_triggerIncident a \<and> decision_scope a d = Some (ic_scope ic))
    \<and> (\<forall>jc \<in> set (h_incidents d). ic_decisionId jc = ic_decisionId ic \<longrightarrow> jc = ic)
    \<and> (\<forall>op \<in> set (h_operations d). no_incidentId op = ic_id ic \<longrightarrow>
         no_decisionId op = ic_decisionId ic \<and> operation_bound d op
       \<and> (ic_status ic = IncidentResolved \<longrightarrow> terminal_operation op)
       \<and> (\<forall>op' \<in> set (h_operations d). no_decisionId op' = no_decisionId op \<and> no_type op' = no_type op \<longrightarrow> op' = op))"
proof -
  have inv: "incident_inv d" using health_store.reachable_inv [OF assms(2,1)] by (simp add: health_inv_def)
  have "jc = ic" if "jc \<in> set (h_incidents d)" "ic_decisionId jc = ic_decisionId ic" for jc
    using distinct_key_eq [of ic_decisionId "h_incidents d" jc ic] inv assms(3) that by (simp add: incident_inv_def)
  moreover have "no_decisionId op = ic_decisionId ic \<and> operation_bound d op"
    if op: "op \<in> set (h_operations d)" "no_incidentId op = ic_id ic" for op
  proof -
    have b: "operation_bound d op" using inv op(1) by (simp add: incident_inv_def)
    then obtain k where "k \<in> set (h_incidents d)" "ic_id k = ic_id ic" "ic_decisionId k = no_decisionId op"
      using op(2) by (auto simp: operation_bound_def)
    then show ?thesis using b distinct_key_eq [of ic_id "h_incidents d" k ic] inv assms(3) by (simp add: incident_inv_def)
  qed
  moreover have "op' = op" if "op \<in> set (h_operations d)" "op' \<in> set (h_operations d)" "no_decisionId op' = no_decisionId op" "no_type op' = no_type op" for op op'
    using distinct_key_eq [of "\<lambda>op. (no_decisionId op, no_type op)" "h_operations d" op' op] inv that by (simp add: incident_inv_def)
  moreover have "incident_bound d ic" "incident_settled d ic" using inv assms(3) by (simp_all add: incident_inv_def)
  ultimately show ?thesis unfolding incident_bound_def incident_settled_def by blast
qed

end
