(* ===== verification/Health_Progress.thy ===== *)
theory Health_Progress
  imports Health_Histories
begin

text \<open>
  A cycle that is not refused is committed: the checks, unique indexes and triggers of the evidence
  tables never stand in the way of a decision of \<open>evaluateHealthCycle\<close>, and a repeated request returns
  the same decision.
\<close>

section \<open>Decisions satisfy the checks of their table\<close>








section \<open>A decision is committed\<close>











end
