(* ===== verification/Health_Runs.thy ===== *)
theory Health_Runs
  imports Health_Progress
begin

text \<open>
  A run of the health stores: two sources report the failure of a route, a cycle is decided on their
  results, the trust in the node is lost, the decision opens an incident with a promotion, which is
  executed, and the incident is resolved.
\<close>

definition sample_health_db :: health_db where
  "sample_health_db = \<lparr>
     h_sources = [\<lparr>so_id = ''source-a'', so_independenceKey = ''network-a'', so_active = True\<rparr>,
       \<lparr>so_id = ''source-b'', so_independenceKey = ''network-b'', so_active = True\<rparr>],
     h_results = [], h_states = [], h_decisions = [], h_signals = [],
     h_policyVersions = [\<lparr>pv_id = ''101'', pv_code = ''beta-v1'', pv_config = beta_health_json\<rparr>],
     h_policyActivations = [\<lparr>pa_sequence = 1, pa_policyVersionId = ''101''\<rparr>],
     h_incidents = [], h_operations = [], h_events = [], h_audit = []\<rparr>"

definition sample_result :: "string \<Rightarrow> record_input" where
  "sample_result k = \<lparr>ri_probeSourceId = ''source-'' @ k, ri_sourceResultId = ''result-'' @ k,
     ri_affectedScope = (NODE, ''node''), ri_cycleStartedAt = 0, ri_routeVersion = 7,
     ri_outcome = FAILURE, ri_failureClass = Some TCP_TLS, ri_controlHealthy = True\<rparr>"

definition sample_health_cycle :: "uuid list \<Rightarrow> (string \<times> CriticalTrustKind) option \<Rightarrow> cycle_input" where
  "sample_health_cycle ids critical = \<lparr>ci_affectedScope = (NODE, ''node''), ci_routeVersion = 7,
     ci_cycleStartedAt = 0, ci_probeResultIds = ids, ci_lastHeartbeatAt = Some 0,
     ci_recoveryGates = \<lparr>rg_clockTrusted = True, rg_servingCheckPassed = True, rg_desiredVersion = 7, rg_appliedVersion = 7\<rparr>,
     ci_criticalTrustFailure = critical\<rparr>"

definition sample_uuid :: "string \<Rightarrow> bool" where
  "sample_uuid s \<longleftrightarrow> s \<noteq> []"

definition sample_digest :: "cycle_material \<Rightarrow> string" where
  "sample_digest m = replicate 63 CHR ''0'' @ [if fst m = 0 then CHR ''0'' else CHR ''1'']"

definition sample_operation_key :: "uuid \<Rightarrow> string" where
  "sample_operation_key did = replicate 64 CHR ''a''"

text \<open>The database after a transaction: a failed one changes nothing.\<close>

definition after :: "(health_db \<Rightarrow> cp_error + ('a \<times> health_db)) \<Rightarrow> health_db \<Rightarrow> health_db" where
  "after tx d = (case tx d of Inl _ \<Rightarrow> d | Inr (_, d') \<Rightarrow> d')"

definition sample_recorded :: health_db where
  "sample_recorded = after (recordProbeResultInTransaction sample_uuid ''b'' (sample_result ''b'') 500)
     (after (recordProbeResultInTransaction sample_uuid ''a'' (sample_result ''a'') 500) sample_health_db)"

definition sample_failed_cycle :: health_db where
  "sample_failed_cycle = after (evaluateAndApplyDecision sample_uuid sample_digest False ''state'' ''decision-1''
     (sample_health_cycle [''a'', ''b''] None) 0 1000) sample_recorded"

definition sample_fenced :: health_db where
  "sample_fenced = after (evaluateAndApplyDecision sample_uuid sample_digest False ''state'' ''decision-2''
     (sample_health_cycle [] (Some (''agent'', CREDENTIAL_COMPROMISE))) 1 2000) sample_failed_cycle"

definition sample_incident :: health_db where
  "sample_incident = after (materializeDecisionActions sample_uuid sample_operation_key 3 ''incident'' ''operation''
     ''decision-2'' ''health-worker'' 2100) sample_fenced"

definition sample_resolved :: health_db where
  "sample_resolved = after (resolveIncident sample_uuid ''incident'' ''health-worker'' ''standby serves traffic'' 9000)
     (executed ''operation'' OperationSucceeded 1 (executed ''operation'' OperationRunning 1 sample_incident))"

section \<open>The run is a history\<close>

lemma after_step:
  assumes "\<And>x d'. tx d = Inr (x, d') \<Longrightarrow> store_step d d'"
  shows "store_step\<^sup>*\<^sup>* d (after tx d)"
  using assms by (auto simp: after_def split: sum.split)

definition sample_operation :: "OperationStatus \<Rightarrow> int \<Rightarrow> node_operation" where
  "sample_operation status attempts = \<lparr>no_id = ''operation'', no_incidentId = ''incident'', no_decisionId = ''decision-2'',
     no_policyVersionId = ''101'', no_idempotencyKey = sample_operation_key ''decision-2'', no_type = PromoteStandby,
     no_status = status, no_scope = (NODE, ''node''), no_servicePrincipal = Some ''health-worker'',
     no_reason = CRITICAL_TRUST_FAILURE, no_attempts = attempts, no_maxAttempts = 3\<rparr>"

lemma sample_operations:
  "h_operations sample_incident = [sample_operation OperationPending 0]"
  "h_operations (executed ''operation'' OperationRunning 1 sample_incident) = [sample_operation OperationRunning 1]"
  by code_simp+

lemma sample_health_inv: "health_inv sample_health_db"
  by (simp add: health_inv_def evidence_inv_def keys_ok_def links_ok_def cycles_ok_def incident_inv_def sample_health_db_def)

lemma reach_recorded: "store_step\<^sup>*\<^sup>* sample_health_db sample_recorded"
  unfolding sample_recorded_def
  by (rule rtranclp_trans; rule after_step; erule store_record)

lemma reach_failed_cycle: "store_step\<^sup>*\<^sup>* sample_recorded sample_failed_cycle"
  unfolding sample_failed_cycle_def by (rule after_step) (erule store_decide)

lemma reach_quarantine: "store_step\<^sup>*\<^sup>* sample_health_db sample_fenced"
proof -
  have "store_step\<^sup>*\<^sup>* sample_failed_cycle sample_fenced"
    unfolding sample_fenced_def by (rule after_step) (erule store_decide)
  then show ?thesis using reach_recorded reach_failed_cycle by (meson rtranclp_trans)
qed

lemma reach_resolved: "store_step\<^sup>*\<^sup>* sample_fenced sample_resolved"
proof -
  let ?x = "executed ''operation'' OperationRunning 1 sample_incident"
  have "store_step\<^sup>*\<^sup>* sample_fenced sample_incident"
    unfolding sample_incident_def by (rule after_step) (erule store_materialize)
  moreover have "store_step sample_incident ?x"
    using store_execute [of "sample_operation OperationPending 0" sample_incident OperationRunning 1]
    by (simp add: sample_operations sample_operation_def operation_update_ok_def)
  moreover have "store_step ?x (executed ''operation'' OperationSucceeded 1 ?x)"
    using store_execute [of "sample_operation OperationRunning 1" ?x OperationSucceeded 1]
    by (simp add: sample_operations sample_operation_def operation_update_ok_def)
  moreover have "store_step\<^sup>*\<^sup>* (executed ''operation'' OperationSucceeded 1 ?x) sample_resolved"
    unfolding sample_resolved_def by (rule after_step) (erule store_resolve)
  ultimately show ?thesis by (meson rtranclp.rtrancl_into_rtrancl rtranclp_trans)
qed

lemmas sample_histories = reach_quarantine rtranclp_trans [OF reach_quarantine reach_resolved]

section \<open>The claims on the run\<close>

definition sample_quarantined :: availability_state where
  "sample_quarantined = \<lparr>as_id = ''state'', as_scope = (NODE, ''node''),
     as_state = \<lparr>hs_status = QUARANTINED, excludedFromCandidates = True, consecutiveFailureCycles = 1,
       consecutiveRecoverySuccesses = 0, recoveryWindowStartedAt = None, consecutiveUncertainCycles = 0, cooldownUntil = None\<rparr>,
     as_version = 2\<rparr>"

lemma sample_states: "h_states sample_fenced = [sample_quarantined]"
  by code_simp

definition sample_link :: decision_signal where
  "sample_link = \<lparr>ds_decisionId = ''decision-1'', ds_probeResultId = ''a'', ds_disposition = ACCEPTED, ds_rejectionReason = None\<rparr>"

lemma sample_signals: "h_signals sample_fenced = [sample_link, sample_link\<lparr>ds_probeResultId := ''b''\<rparr>]"
  by code_simp

lemma sample_incidents: "h_incidents sample_resolved =
    [\<lparr>ic_id = ''incident'', ic_decisionId = ''decision-2'', ic_scope = (NODE, ''node''), ic_status = IncidentResolved,
      ic_openedAt = 2100, ic_resolvedAt = Some 9000\<rparr>]"
  by code_simp


theorem evidence_used_once_witness:
  "\<not> (\<exists>m. m \<in> set (h_signals sample_fenced) \<and> ds_disposition m = ACCEPTED \<and> ds_probeResultId m = ''a'' \<and> m \<noteq> sample_link)"
  using evidence_used_once [OF sample_health_inv sample_histories(1), of sample_link]
  by (auto simp: sample_signals sample_link_def)

theorem quarantine_survives_store_witness:
  "\<exists>s. s \<in> set (h_states sample_resolved) \<and> as_id s = ''state'' \<and> 2 \<le> as_version s \<and> fenced_state s"
proof -
  have "health_inv sample_fenced" by (rule health_store.reachable_inv [OF sample_histories(1) sample_health_inv])
  then show ?thesis
    using quarantine_survives_store [OF _ reach_resolved, of sample_quarantined]
    by (auto simp: sample_states sample_quarantined_def fenced_state_def)
qed

theorem incidents_follow_decisions_witness:
  "\<exists>a. a \<in> set (h_decisions sample_resolved) \<and> ad_id a = ''decision-2'' \<and> ad_triggerIncident a"
  using incidents_follow_decisions [OF sample_health_inv sample_histories(2)] by (auto simp: sample_incidents)



end
