(* ===== verification/Node_Lifecycle.thy ===== *)
theory Node_Lifecycle
  imports Control_Plane_Db
begin

text \<open>
  The lifecycle of a node (\<open>apps/api/src/orchestration/node-lifecycle-manager.service.ts\<close>,
  \<open>node-access-control.ts\<close>).

  Each operation is one transaction: \<open>restoreHealthy\<close>, \<open>drain\<close>, \<open>disable\<close> change the status of a node
  along the allowed transitions, \<open>quarantine\<close> revokes every live grant of the node in the same
  transaction that fences it.  The identifiers of the inserted rows and the database instant are
  arguments.
\<close>

section \<open>Which status allows what\<close>

definition isNodeInAccessControlSync :: "NodeStatus \<Rightarrow> bool" where
  "isNodeInAccessControlSync st \<longleftrightarrow> st \<in> {NodeHealthy, NodeDraining, NodeDisabled}"

definition isNodeAgentAuthAllowed :: "NodeStatus \<Rightarrow> bool" where
  "isNodeAgentAuthAllowed st \<longleftrightarrow> st \<in> {NodeHealthy, NodeDraining, NodeDisabled, NodeQuarantined}"

definition isNodeEligibleForNewAssignment :: "NodeStatus \<Rightarrow> bool" where
  "isNodeEligibleForNewAssignment st \<longleftrightarrow> st = NodeHealthy"

definition isNodeEligibleForEmergencyQuarantine :: "NodeStatus \<Rightarrow> bool" where
  "isNodeEligibleForEmergencyQuarantine st \<longleftrightarrow> st \<in> {NodeHealthy, NodeDraining, NodeDisabled}"

section \<open>Status changes\<close>

definition change_status ::
    "uuid \<Rightarrow> uuid option \<Rightarrow> NodeStatus \<Rightarrow> NodeStatus set \<Rightarrow> string \<Rightarrow> string \<Rightarrow> NodeStatus tx" where
  "change_status nodeId actor target sources action refusal d =
     (case find_node nodeId d of
        None \<Rightarrow> Inl (Thrown refusal)
      | Some n \<Rightarrow>
          if nd_status n = target then Inr (target, d)
          else if nd_status n \<notin> sources then Inl (Thrown refusal)
          else (case set_node_status nodeId target d of
              Inl e \<Rightarrow> Inl e
            | Inr d' \<Rightarrow> Inr (target, write_audit actor action ''Node'' nodeId d')))"

definition restoreHealthy :: "uuid \<Rightarrow> uuid option \<Rightarrow> NodeStatus tx" where
  "restoreHealthy nodeId actor = change_status nodeId actor NodeHealthy {NodeDraining, NodeDisabled}
     ''node.healthy'' ''Node cannot be restored to HEALTHY''"

definition drain :: "uuid \<Rightarrow> uuid option \<Rightarrow> NodeStatus tx" where
  "drain nodeId actor = change_status nodeId actor NodeDraining {NodeHealthy}
     ''node.draining'' ''Node cannot be drained''"

definition disable :: "uuid \<Rightarrow> uuid option \<Rightarrow> NodeStatus tx" where
  "disable nodeId actor = change_status nodeId actor NodeDisabled {NodeHealthy, NodeDraining}
     ''node.disabled'' ''Node cannot be disabled''"

section \<open>Quarantine\<close>

record quarantine_input =
  qi_nodeId :: uuid
  qi_syncJobIdempotencyKey :: string
  qi_outboxEventIdempotencyKey :: string
  qi_actorUserId :: "uuid option"

record quarantine_result =
  qr_nodeId :: uuid
  qr_nodeSyncJobId :: "uuid option"
  qr_outboxEventId :: "uuid option"
  qr_targetVersion :: version

text \<open>The replay of a request whose idempotency keys are already used.\<close>

definition quarantine_replay ::
    "quarantine_input \<Rightarrow> job option \<Rightarrow> outbox_event option \<Rightarrow> db \<Rightarrow> cp_error + quarantine_result" where
  "quarantine_replay i existingJob existingEvent d =
     (case (existingJob, existingEvent) of
        (Some j, Some e) \<Rightarrow>
          if jb_nodeId j \<noteq> qi_nodeId i
             \<or> jb_grantId j = None
             \<or> map_option nd_status (find_node (jb_nodeId j) d) \<noteq> Some NodeQuarantined
             \<or> ob_topic e \<noteq> ''node-sync.requested''
             \<or> ob_aggregateType e \<noteq> ''NodeAccessGrant''
             \<or> Some (ob_aggregateId e) \<noteq> jb_grantId j
          then Inl (Thrown ''Idempotency key does not match the requested quarantine'')
          else Inr \<lparr>qr_nodeId = jb_nodeId j, qr_nodeSyncJobId = Some (jb_id j),
                 qr_outboxEventId = Some (ob_id e), qr_targetVersion = jb_targetVersion j\<rparr>
      | _ \<Rightarrow> Inl (Thrown ''Idempotency key does not match the requested quarantine''))"

definition live_grants_of :: "uuid \<Rightarrow> db \<Rightarrow> grant list" where
  "live_grants_of nodeId d =
     sort_key gr_id (filter (\<lambda>g. gr_nodeId g = nodeId \<and> live_grant g) (grants d))"

definition desired_of :: "uuid \<Rightarrow> db \<Rightarrow> version" where
  "desired_of nodeId d = (case find_node nodeId d of None \<Rightarrow> 0 | Some n \<Rightarrow> desiredConfigVersion n)"

definition revoke_all :: "grant list \<Rightarrow> instant \<Rightarrow> version \<Rightarrow> db \<Rightarrow> db" where
  "revoke_all gs now target d = fold (\<lambda>g. revoke_grant (gr_id g) now (Some target)) gs d"

definition quarantine :: "quarantine_input \<Rightarrow> uuid \<Rightarrow> uuid \<Rightarrow> instant \<Rightarrow> quarantine_result tx" where
  "quarantine i jid eid now d =
     (let existingJob = find_job_by_key (qi_syncJobIdempotencyKey i) d;
          existingEvent = find_outbox_by_key (qi_outboxEventIdempotencyKey i) d
      in if existingJob \<noteq> None \<or> existingEvent \<noteq> None
         then map_sum id (\<lambda>r. (r, d)) (quarantine_replay i existingJob existingEvent d)
         else case find_node (qi_nodeId i) d of
           None \<Rightarrow> Inl (Thrown ''Node cannot be quarantined'')
         | Some n \<Rightarrow>
             if nd_status n = NodeQuarantined
             then Inr (\<lparr>qr_nodeId = nd_id n, qr_nodeSyncJobId = None, qr_outboxEventId = None,
                        qr_targetVersion = desiredConfigVersion n\<rparr>, d)
             else if \<not> isNodeEligibleForEmergencyQuarantine (nd_status n)
             then Inl (Thrown ''Node cannot be quarantined'')
             else
               let gs = live_grants_of (qi_nodeId i) d;
                   target = (if gs = [] then desiredConfigVersion n else desiredConfigVersion n + 1);
                   revoked = (if gs = [] then Inr d
                     else request_grant_sync jid eid (qi_nodeId i) (gr_id (hd gs)) target
                            (qi_syncJobIdempotencyKey i) (qi_outboxEventIdempotencyKey i) now
                            (revoke_all gs now target (bump_desired (qi_nodeId i) d)))
               in case revoked of
                    Inl e \<Rightarrow> Inl e
                  | Inr d1 \<Rightarrow> (case set_node_status (qi_nodeId i) NodeQuarantined d1 of
                        Inl e \<Rightarrow> Inl e
                      | Inr d2 \<Rightarrow> Inr (\<lparr>qr_nodeId = qi_nodeId i,
                            qr_nodeSyncJobId = (if gs = [] then None else Some jid),
                            qr_outboxEventId = (if gs = [] then None else Some eid),
                            qr_targetVersion = target\<rparr>,
                          write_audit (qi_actorUserId i) ''node.quarantined'' ''Node'' (qi_nodeId i) d2)))"

end
