(* ===== verification/Lease_Protocol.thy ===== *)
theory Lease_Protocol
  imports Vpn_Prelude
begin

text \<open>
  The contract of leased work, which the outbox and the node-sync queue both promise.

  A unit of work waits, is leased to one owner under a fencing token until an instant, and ends done
  or dead; \<open>attempts\<close> counts the leases it was given.  \<open>lease_step\<close> is the abstract specification:
  the only ways one row may change.  The locale \<open>leased_table\<close> is the interface of a store whose
  operations change rows only by such steps; its lemmas hold for every history of operations, with
  the operations of different workers interleaved in any order, and the two stores interpret it.
\<close>

section \<open>The abstract protocol\<close>

datatype lease_phase =
  Waiting "instant option"
| Leased "string option" "uuid option" "instant option"
| Done
| Dead

record lease =
  l_attempts :: int
  l_phase :: lease_phase

record lease_config =
  leaseDurationMs :: int
  retryDelayMs :: int
  maxAttempts :: int

definition exhausted :: "lease_config \<Rightarrow> lease \<Rightarrow> bool" where
  "exhausted c l \<longleftrightarrow> l_attempts l \<ge> maxAttempts c"

inductive lease_step :: "lease_config \<Rightarrow> instant \<Rightarrow> lease \<Rightarrow> lease \<Rightarrow> bool"
  for c :: lease_config and now :: instant where
  claim: "l_phase l = Waiting due \<Longrightarrow> (case due of None \<Rightarrow> True | Some t \<Rightarrow> t \<le> now) \<Longrightarrow>
     \<not> exhausted c l \<Longrightarrow>
     l' = \<lparr>l_attempts = l_attempts l + 1, l_phase = Leased (Some owner) (Some token) (Some (now + leaseDurationMs c))\<rparr> \<Longrightarrow>
     lease_step c now l l'"
| complete: "l_phase l = Leased (Some owner) (Some token) (Some expires) \<Longrightarrow> expires > now \<Longrightarrow>
     l' = l\<lparr>l_phase := Done\<rparr> \<Longrightarrow> lease_step c now l l'"
| retry: "l_phase l = Leased (Some owner) (Some token) (Some expires) \<Longrightarrow> expires > now \<Longrightarrow>
     l' = l\<lparr>l_phase := (if exhausted c l then Dead else Waiting (Some (now + retryDelayMs c)))\<rparr> \<Longrightarrow>
     lease_step c now l l'"
| reclaim: "l_phase l = Leased owner token (Some expires) \<Longrightarrow> expires \<le> now \<Longrightarrow>
     l' = l\<lparr>l_phase := (if exhausted c l then Dead else Waiting (Some now))\<rparr> \<Longrightarrow>
     lease_step c now l l'"
| bury: "l_phase l = Waiting due \<Longrightarrow> exhausted c l \<Longrightarrow> l' = l\<lparr>l_phase := Dead\<rparr> \<Longrightarrow>
     lease_step c now l l'"
| close_waiting: "l_phase l = Waiting due \<Longrightarrow> l' = l\<lparr>l_phase := Dead\<rparr> \<Longrightarrow> lease_step c now l l'"
| close_expired: "l_phase l = Leased owner token (Some expires) \<Longrightarrow> expires \<le> now \<Longrightarrow>
     l' = l\<lparr>l_phase := Dead\<rparr> \<Longrightarrow> lease_step c now l l'"

inductive_cases lease_stepE: "lease_step c now l l'"

definition settled :: "lease \<Rightarrow> bool" where
  "settled l \<longleftrightarrow> l_phase l = Done \<or> l_phase l = Dead"

definition lease_ok :: "lease_config \<Rightarrow> lease \<Rightarrow> bool" where
  "lease_ok c l \<longleftrightarrow> 0 \<le> l_attempts l \<and> l_attempts l \<le> maxAttempts c"

lemma settled_no_step: "lease_step c now l l' \<Longrightarrow> \<not> settled l"
  by (erule lease_stepE) (auto simp: settled_def)

lemma lease_step_attempts:
  "lease_step c now l l' \<Longrightarrow> l_attempts l \<le> l_attempts l' \<and> l_attempts l' \<le> l_attempts l + 1"
  by (erule lease_stepE) auto

lemma lease_step_ok: "lease_step c now l l' \<Longrightarrow> lease_ok c l \<Longrightarrow> lease_ok c l'"
  by (erule lease_stepE) (auto simp: lease_ok_def exhausted_def)

text \<open>While a lease is live, only its end by the holder can change it.\<close>

lemma live_lease_step:
  assumes "lease_step c now l l'" "l_phase l = Leased owner token (Some expires)" "now < expires"
  shows "l_phase l' = Done \<or> l_phase l' = Dead \<or> l_phase l' = Waiting (Some (now + retryDelayMs c))"
  using assms by (auto elim!: lease_stepE split: if_splits)

text \<open>Each step that grants a lease uses one attempt, so a row is granted at most \<open>maxAttempts\<close> leases
  in its life.  \<open>lease_fuel\<close> is the bound on the number of steps a row can still take.\<close>

fun phase_rank :: "lease_phase \<Rightarrow> int" where
  "phase_rank (Waiting _) = 1"
| "phase_rank (Leased _ _ _) = 2"
| "phase_rank Done = 0"
| "phase_rank Dead = 0"

definition lease_fuel :: "lease_config \<Rightarrow> lease \<Rightarrow> nat" where
  "lease_fuel c l = nat (2 * (maxAttempts c - l_attempts l) + phase_rank (l_phase l))"

lemma lease_fuel_decreases:
  assumes "lease_step c now l l'" "lease_ok c l"
  shows "lease_fuel c l' < lease_fuel c l"
  using assms
  by (auto elim!: lease_stepE simp: lease_fuel_def lease_ok_def exhausted_def)

section \<open>The interface of a store of leased rows\<close>

text \<open>A store executes operations of type \<open>'op\<close> at an instant.  \<open>rows\<close> are its rows, \<open>key\<close> their
  identifier, \<open>lease_of\<close> the abstraction.  The one law: an operation keeps the rows in place and
  changes each of them by at most one abstract step.\<close>

definition row_refines ::
    "lease_config \<Rightarrow> instant \<Rightarrow> ('r \<Rightarrow> uuid) \<Rightarrow> ('r \<Rightarrow> lease) \<Rightarrow> 'r \<Rightarrow> 'r \<Rightarrow> bool" where
  "row_refines c now key lease_of r r' \<longleftrightarrow>
     key r' = key r \<and> (r' = r \<or> lease_step c now (lease_of r) (lease_of r'))"

text \<open>A history of operations, and how often it changes the row at a position.\<close>

definition run_ops :: "(instant \<Rightarrow> 'op \<Rightarrow> 's \<Rightarrow> 's) \<Rightarrow> (instant \<times> 'op) list \<Rightarrow> 's \<Rightarrow> 's" where
  "run_ops exec ops s = fold (\<lambda>(now, op). exec now op) ops s"

fun row_changes ::
    "(instant \<Rightarrow> 'op \<Rightarrow> 's \<Rightarrow> 's) \<Rightarrow> ('s \<Rightarrow> 'r list) \<Rightarrow> nat \<Rightarrow> (instant \<times> 'op) list \<Rightarrow> 's \<Rightarrow> nat" where
  "row_changes exec rows i [] s = 0"
| "row_changes exec rows i ((now, op) # ops) s =
     (if rows (exec now op s) ! i = rows s ! i then 0 else 1)
     + row_changes exec rows i ops (exec now op s)"

lemma run_ops_simps [simp]:
  "run_ops exec [] s = s"
  "run_ops exec (ops @ [(now, op)]) s = exec now op (run_ops exec ops s)"
  by (simp_all add: run_ops_def)

locale leased_table =
  fixes config :: lease_config
    and key :: "'r \<Rightarrow> uuid"
    and lease_of :: "'r \<Rightarrow> lease"
    and rows :: "'s \<Rightarrow> 'r list"
    and inv :: "'s \<Rightarrow> bool"
    and exec :: "instant \<Rightarrow> 'op \<Rightarrow> 's \<Rightarrow> 's"
  assumes exec_inv: "inv s \<Longrightarrow> inv (exec now op s)"
    and exec_refines: "inv s \<Longrightarrow>
      list_all2 (row_refines config now key lease_of) (rows s) (rows (exec now op s))"
begin

lemma run_inv: "inv s \<Longrightarrow> inv (run_ops exec ops s)"
proof (induction ops rule: rev_induct)
  case (snoc x ops)
  then show ?case by (cases x) (simp add: exec_inv)
qed simp

lemma exec_length: "inv s \<Longrightarrow> length (rows (exec now op s)) = length (rows s)"
  using exec_refines [of s now op] by (simp add: list_all2_lengthD)

lemma exec_row:
  assumes "inv s" "i < length (rows s)"
  shows "row_refines config now key lease_of (rows s ! i) (rows (exec now op s) ! i)"
  using exec_refines [OF assms(1), of now op] assms by (simp add: list_all2_nthD)

lemma run_length: "inv s \<Longrightarrow> length (rows (run_ops exec ops s)) = length (rows s)"
proof (induction ops rule: rev_induct)
  case (snoc x ops)
  then show ?case by (cases x) (simp add: exec_length run_inv)
qed simp

lemma run_row:
  assumes "inv s" "i < length (rows s)"
  shows "row_refines config now key lease_of (rows (run_ops exec ops s) ! i)
    (rows (run_ops exec (ops @ [(now, op)]) s) ! i)"
  using exec_row [of "run_ops exec ops s" i now op] assms by (simp add: run_inv run_length)

lemma run_key:
  assumes "inv s" "i < length (rows s)"
  shows "key (rows (run_ops exec ops s) ! i) = key (rows s ! i)"
proof (induction ops rule: rev_induct)
  case (snoc x ops)
  obtain now op where "x = (now, op)" by fastforce
  with snoc run_row [OF assms, of now ops op] show ?case by (simp add: row_refines_def)
qed simp

lemma settled_forever:
  assumes "inv s" "i < length (rows s)" "settled (lease_of (rows s ! i))"
  shows "rows (run_ops exec ops s) ! i = rows s ! i"
proof (induction ops rule: rev_induct)
  case (snoc x ops)
  obtain now op where "x = (now, op)" by fastforce
  with snoc run_row [OF assms(1,2), of now ops op] assms(3) settled_no_step show ?case
    by (auto simp: row_refines_def)
qed simp

lemma attempts_bounded:
  assumes "inv s" "i < length (rows s)" "lease_ok config (lease_of (rows s ! i))"
  shows "lease_ok config (lease_of (rows (run_ops exec ops s) ! i))"
proof (induction ops rule: rev_induct)
  case (snoc x ops)
  obtain now op where "x = (now, op)" by fastforce
  with snoc run_row [OF assms(1,2), of now ops op] lease_step_ok show ?case
    by (auto simp: row_refines_def)
qed (use assms in simp)

lemma changes_bounded:
  assumes "inv s" "i < length (rows s)" "lease_ok config (lease_of (rows s ! i))"
  shows "row_changes exec rows i ops s \<le> lease_fuel config (lease_of (rows s ! i))"
  using assms
proof (induction ops arbitrary: s)
  case (Cons x ops)
  obtain now op where x: "x = (now, op)" by fastforce
  note IH = Cons.IH [of "exec now op s"] and row = exec_row [OF Cons.prems(1,2), of now op]
  show ?case
  proof (cases "rows (exec now op s) ! i = rows s ! i")
    case True
    then show ?thesis using IH Cons.prems x by (simp add: exec_length exec_inv)
  next
    case False
    then have step: "lease_step config now (lease_of (rows s ! i)) (lease_of (rows (exec now op s) ! i))"
      using row by (auto simp: row_refines_def)
    from IH Cons.prems lease_step_ok [OF step] lease_fuel_decreases [OF step] False x
    show ?thesis by (simp add: exec_length exec_inv)
  qed
qed simp

text \<open>Fencing: while the lease of a row is live, an operation changes the row only by ending the lease
  for good or by putting the row back with the retry delay.\<close>

lemma live_lease_fenced:
  assumes "inv s" "i < length (rows s)"
    and "l_phase (lease_of (rows s ! i)) = Leased owner token (Some expires)"
    and "now < expires" "rows (exec now op s) ! i \<noteq> rows s ! i"
  shows "l_phase (lease_of (rows (exec now op s) ! i)) \<in>
    {Done, Dead, Waiting (Some (now + retryDelayMs config))}"
  using exec_row [OF assms(1,2), of now op] live_lease_step [OF _ assms(3,4)] assms(5)
  by (auto simp: row_refines_def)

end

end
