(* ===== verification/Node_Sync_Store.thy ===== *)
theory Node_Sync_Store
  imports Control_Plane_Db Lease_Protocol "HOL-Library.Monad_Syntax"
begin

text \<open>
  The node-sync queue (\<open>packages/orchestration-store/src/node-sync-store.ts\<close>) and the command it is
  claimed with (\<open>nodeSyncRequestedEventSchema\<close> of \<open>packages/contracts/src/node-agent.ts\<close>).

  \<open>claim\<close> runs up to four statements, each at its own database instant; they are the separate
  definitions \<open>reset_expired_job\<close>, \<open>acquire_job\<close>, \<open>close_route_job\<close> and \<open>explain_unclaimed\<close>, and
  \<open>node_sync_claim\<close> composes them.  The statements are also the operations of the store's state
  machine, so that statements of different workers interleave freely.
\<close>

section \<open>The command\<close>

datatype NodeSyncRequestedEvent =
  GrantCommand (gc_grantId: uuid) (cmd_jobId: uuid) (cmd_target: version)
| RouteCommand (rc_endpointId: uuid) (rc_profileId: uuid) (cmd_jobId: uuid) (cmd_target: version)

definition grantSyncRequestedEventSchema ::
    "(string \<Rightarrow> bool) \<Rightarrow> json \<Rightarrow> NodeSyncRequestedEvent option" where
  "grantSyncRequestedEventSchema is_uuid j = do {
     entries \<leftarrow> json_object j;
     g \<leftarrow> uuid_field is_uuid (map_of entries ''nodeAccessGrantId'');
     k \<leftarrow> uuid_field is_uuid (map_of entries ''nodeSyncJobId'');
     v \<leftarrow> int_at_least 0 (map_of entries ''targetVersion'');
     if set (map fst entries) \<subseteq> {''nodeAccessGrantId'', ''nodeSyncJobId'', ''targetVersion''}
     then Some (GrantCommand g k v) else None }"

definition routeSyncRequestedEventSchema ::
    "(string \<Rightarrow> bool) \<Rightarrow> json \<Rightarrow> NodeSyncRequestedEvent option" where
  "routeSyncRequestedEventSchema is_uuid j = do {
     entries \<leftarrow> json_object j;
     e \<leftarrow> uuid_field is_uuid (map_of entries ''routeEndpointId'');
     p \<leftarrow> uuid_field is_uuid (map_of entries ''routeConnectionProfileId'');
     k \<leftarrow> uuid_field is_uuid (map_of entries ''nodeSyncJobId'');
     v \<leftarrow> int_at_least 1 (map_of entries ''targetVersion'');
     if set (map fst entries) \<subseteq>
        {''routeEndpointId'', ''routeConnectionProfileId'', ''nodeSyncJobId'', ''targetVersion''}
     then Some (RouteCommand e p k v) else None }"

definition nodeSyncRequestedEventSchema ::
    "(string \<Rightarrow> bool) \<Rightarrow> json \<Rightarrow> NodeSyncRequestedEvent option" where
  "nodeSyncRequestedEventSchema is_uuid j =
     (case grantSyncRequestedEventSchema is_uuid j of
        Some c \<Rightarrow> Some c
      | None \<Rightarrow> routeSyncRequestedEventSchema is_uuid j)"

section \<open>Statements\<close>

definition job_exhausted :: "lease_config \<Rightarrow> job \<Rightarrow> bool" where
  "job_exhausted c j \<longleftrightarrow> jb_attempts j \<ge> maxAttempts c"

definition expired_job_lease :: "instant \<Rightarrow> job \<Rightarrow> bool" where
  "expired_job_lease now j \<longleftrightarrow>
     jb_status j = JobProcessing \<and> (\<exists>t \<in> set_option (jb_leaseExpiresAt j). t \<le> now)"

definition reclaim_job :: "lease_config \<Rightarrow> instant \<Rightarrow> job \<Rightarrow> job" where
  "reclaim_job c now j = j\<lparr>
     jb_status := (if job_exhausted c j then JobFailed else JobPending),
     jb_completedAt := (if job_exhausted c j then Some now else None),
     jb_nextAttemptAt := (if job_exhausted c j then None else Some now),
     jb_lastErrorCode := (if job_exhausted c j
       then (case jb_lastErrorCode j of None \<Rightarrow> Some ''NODE_SYNC_LEASE_EXPIRED'' | Some e \<Rightarrow> Some e)
       else jb_lastErrorCode j),
     jb_leaseOwner := None, jb_leaseToken := None, jb_leaseExpiresAt := None\<rparr>"

definition reclaimable_job :: "lease_config \<Rightarrow> instant \<Rightarrow> job \<Rightarrow> bool" where
  "reclaimable_job c now j \<longleftrightarrow>
     expired_job_lease now j \<or> (jb_status j = JobPending \<and> job_exhausted c j)"

definition node_sync_reclaimExpiredLeases :: "lease_config \<Rightarrow> instant \<Rightarrow> db \<Rightarrow> nat \<times> db" where
  "node_sync_reclaimExpiredLeases c now d =
     (count_rows (reclaimable_job c now) (jobs d),
      d\<lparr>jobs := update_rows (reclaimable_job c now) (reclaim_job c now) (jobs d)\<rparr>)"

fun command_matches :: "NodeSyncRequestedEvent \<Rightarrow> job \<Rightarrow> bool" where
  "command_matches (GrantCommand g k v) j \<longleftrightarrow>
     jb_id j = k \<and> jb_grantId j = Some g \<and> jb_targetVersion j = v"
| "command_matches (RouteCommand e p k v) j \<longleftrightarrow>
     jb_id j = k \<and> jb_routeEndpointId j = Some e \<and> jb_routeProfileId j = Some p
     \<and> jb_targetVersion j = v"

definition reset_expired_job :: "lease_config \<Rightarrow> instant \<Rightarrow> NodeSyncRequestedEvent \<Rightarrow> db \<Rightarrow> db" where
  "reset_expired_job c now cmd d = d\<lparr>jobs := update_rows
     (\<lambda>j. command_matches cmd j \<and> expired_job_lease now j) (reclaim_job c now) (jobs d)\<rparr>"

definition job_due :: "lease_config \<Rightarrow> instant \<Rightarrow> job \<Rightarrow> bool" where
  "job_due c now j \<longleftrightarrow> jb_status j = JobPending \<and> \<not> job_exhausted c j
     \<and> (case jb_nextAttemptAt j of None \<Rightarrow> True | Some t \<Rightarrow> t \<le> now)"

text \<open>The joins of the candidate query: the grant or the activated route of the job, and its node.\<close>

fun resource_ready :: "db \<Rightarrow> NodeSyncRequestedEvent \<Rightarrow> job \<Rightarrow> bool" where
  "resource_ready d (GrantCommand g k v) j \<longleftrightarrow>
     (\<exists>n \<in> set (nodes d). nd_id n = jb_nodeId j \<and> desiredConfigVersion n \<ge> jb_targetVersion j
        \<and> (\<exists>a \<in> set (grants d). jb_grantId j = Some (gr_id a) \<and> gr_nodeId a = jb_nodeId j
              \<and> gr_desiredVersion a \<le> desiredConfigVersion n))"
| "resource_ready d (RouteCommand e p k v) j \<longleftrightarrow>
     (\<exists>n \<in> set (nodes d). nd_id n = jb_nodeId j \<and> desiredConfigVersion n \<ge> jb_targetVersion j)
   \<and> (\<exists>r \<in> set (routes d). jb_routeEndpointId j = Some (rt_endpointId r)
        \<and> jb_routeProfileId j = Some (rt_profileId r) \<and> rt_nodeId r = jb_nodeId j
        \<and> rt_activationVersion r = Some (jb_targetVersion j))"

definition acquirable_job :: "lease_config \<Rightarrow> instant \<Rightarrow> NodeSyncRequestedEvent \<Rightarrow> db \<Rightarrow> job \<Rightarrow> bool" where
  "acquirable_job c now cmd d j \<longleftrightarrow>
     command_matches cmd j \<and> resource_ready d cmd j \<and> job_due c now j"

definition lease_job :: "lease_config \<Rightarrow> instant \<Rightarrow> string \<Rightarrow> uuid \<Rightarrow> job \<Rightarrow> job" where
  "lease_job c now leaseOwner leaseToken j = j\<lparr>
     jb_status := JobProcessing,
     jb_attempts := jb_attempts j + 1,
     jb_nextAttemptAt := None,
     jb_leaseOwner := Some leaseOwner,
     jb_leaseToken := Some leaseToken,
     jb_leaseExpiresAt := Some (now + leaseDurationMs c)\<rparr>"

definition acquire_job ::
    "lease_config \<Rightarrow> instant \<Rightarrow> NodeSyncRequestedEvent \<Rightarrow> string \<Rightarrow> uuid \<Rightarrow> db \<Rightarrow> bool \<times> db" where
  "acquire_job c now cmd leaseOwner leaseToken d =
     (count_rows (acquirable_job c now cmd d) (jobs d) \<noteq> 0,
      d\<lparr>jobs := update_rows (acquirable_job c now cmd d) (lease_job c now leaseOwner leaseToken) (jobs d)\<rparr>)"

definition closed_route_job :: "instant \<Rightarrow> NodeSyncRequestedEvent \<Rightarrow> db \<Rightarrow> job \<Rightarrow> bool" where
  "closed_route_job now cmd d j \<longleftrightarrow>
     command_matches cmd j \<and> jb_grantId j = None
   \<and> (jb_status j = JobPending \<or> expired_job_lease now j)
   \<and> (\<exists>r \<in> set (routes d). jb_routeEndpointId j = Some (rt_endpointId r)
        \<and> jb_routeProfileId j = Some (rt_profileId r) \<and> rt_nodeId r = jb_nodeId j
        \<and> rt_activationVersion r \<noteq> Some (jb_targetVersion j)
        \<and> rt_lastActivationVersion r \<ge> jb_targetVersion j)"

definition fail_route_job :: "instant \<Rightarrow> job \<Rightarrow> job" where
  "fail_route_job now j = j\<lparr>jb_status := JobFailed, jb_completedAt := Some now,
     jb_nextAttemptAt := None, jb_lastErrorCode := Some ''ROUTE_ACTIVATION_CLOSED'',
     jb_leaseOwner := None, jb_leaseToken := None, jb_leaseExpiresAt := None\<rparr>"

definition close_route_job :: "instant \<Rightarrow> NodeSyncRequestedEvent \<Rightarrow> db \<Rightarrow> bool \<times> db" where
  "close_route_job now cmd d =
     (count_rows (closed_route_job now cmd d) (jobs d) \<noteq> 0,
      d\<lparr>jobs := update_rows (closed_route_job now cmd d) (fail_route_job now) (jobs d)\<rparr>)"

datatype claim_result = Claimed uuid uuid | AlreadyCompleted | Terminal | Unavailable

fun resource_mismatch :: "NodeSyncRequestedEvent \<Rightarrow> job \<Rightarrow> bool" where
  "resource_mismatch (GrantCommand g k v) j \<longleftrightarrow>
     jb_grantId j \<noteq> Some g \<or> jb_routeEndpointId j \<noteq> None"
| "resource_mismatch (RouteCommand e p k v) j \<longleftrightarrow>
     jb_grantId j \<noteq> None \<or> jb_routeEndpointId j \<noteq> Some e \<or> jb_routeProfileId j \<noteq> Some p"

definition explain_unclaimed :: "NodeSyncRequestedEvent \<Rightarrow> db \<Rightarrow> claim_result" where
  "explain_unclaimed cmd d = (case find (\<lambda>j. jb_id j = cmd_jobId cmd) (jobs d) of
       None \<Rightarrow> Unavailable
     | Some j \<Rightarrow>
         if resource_mismatch cmd j \<or> jb_targetVersion j \<noteq> cmd_target cmd then Terminal
         else if jb_status j = JobSucceeded then AlreadyCompleted
         else if jb_status j = JobFailed then Terminal
         else Unavailable)"

definition is_route_command :: "NodeSyncRequestedEvent \<Rightarrow> bool" where
  "is_route_command cmd = (case cmd of RouteCommand _ _ _ _ \<Rightarrow> True | _ \<Rightarrow> False)"

definition node_sync_claim ::
    "lease_config \<Rightarrow> instant \<times> instant \<times> instant \<Rightarrow> NodeSyncRequestedEvent \<Rightarrow> string \<Rightarrow> uuid \<Rightarrow> db \<Rightarrow>
     claim_result \<times> db" where
  "node_sync_claim c ts cmd leaseOwner leaseToken d0 =
     (let (t1, t2, t3) = ts;
          d1 = reset_expired_job c t1 cmd d0;
          (acquired, d2) = acquire_job c t2 cmd leaseOwner leaseToken d1
      in if acquired then (Claimed (cmd_jobId cmd) leaseToken, d2)
         else let (closed, d3) = (if is_route_command cmd then close_route_job t3 cmd d2 else (False, d2))
              in if closed then (Terminal, d3) else (explain_unclaimed cmd d3, d3))"

definition holds_job_lease :: "instant \<Rightarrow> uuid \<Rightarrow> string \<Rightarrow> uuid \<Rightarrow> job \<Rightarrow> bool" where
  "holds_job_lease now jid leaseOwner leaseToken j \<longleftrightarrow>
     jb_id j = jid
   \<and> jb_status j = JobProcessing
   \<and> jb_leaseOwner j = Some leaseOwner
   \<and> jb_leaseToken j = Some leaseToken
   \<and> (\<exists>t \<in> set_option (jb_leaseExpiresAt j). t > now)"

definition succeed_job :: "instant \<Rightarrow> job \<Rightarrow> job" where
  "succeed_job now j = j\<lparr>jb_status := JobSucceeded, jb_completedAt := Some now,
     jb_leaseOwner := None, jb_leaseToken := None, jb_leaseExpiresAt := None\<rparr>"

definition node_sync_complete :: "instant \<Rightarrow> uuid \<Rightarrow> string \<Rightarrow> uuid \<Rightarrow> db \<Rightarrow> bool \<times> db" where
  "node_sync_complete now jid leaseOwner leaseToken d =
     (count_rows (holds_job_lease now jid leaseOwner leaseToken) (jobs d) = 1,
      d\<lparr>jobs := update_rows (holds_job_lease now jid leaseOwner leaseToken) (succeed_job now) (jobs d)\<rparr>)"

datatype retry_result = Retried | RetryFailed | RetryFenced

definition retry_job :: "lease_config \<Rightarrow> instant \<Rightarrow> string \<Rightarrow> job \<Rightarrow> job" where
  "retry_job c now errorCode j = j\<lparr>
     jb_status := (if job_exhausted c j then JobFailed else JobPending),
     jb_completedAt := (if job_exhausted c j then Some now else None),
     jb_nextAttemptAt := (if job_exhausted c j then None else Some (now + retryDelayMs c)),
     jb_lastErrorCode := Some errorCode,
     jb_leaseOwner := None, jb_leaseToken := None, jb_leaseExpiresAt := None\<rparr>"

definition node_sync_retry ::
    "lease_config \<Rightarrow> instant \<Rightarrow> uuid \<Rightarrow> string \<Rightarrow> uuid \<Rightarrow> string \<Rightarrow> db \<Rightarrow> retry_result \<times> db" where
  "node_sync_retry c now jid leaseOwner leaseToken errorCode d =
     (case find (holds_job_lease now jid leaseOwner leaseToken) (jobs d) of
        None \<Rightarrow> RetryFenced
      | Some j \<Rightarrow> if job_exhausted c j then RetryFailed else Retried,
      d\<lparr>jobs := update_rows (holds_job_lease now jid leaseOwner leaseToken)
          (retry_job c now errorCode) (jobs d)\<rparr>)"

section \<open>The store as a state machine\<close>

datatype node_sync_op =
  NReclaim
| NReset NodeSyncRequestedEvent
| NAcquire NodeSyncRequestedEvent string uuid
| NClose NodeSyncRequestedEvent
| NComplete uuid string uuid
| NRetry uuid string uuid string

fun node_sync_exec :: "lease_config \<Rightarrow> instant \<Rightarrow> node_sync_op \<Rightarrow> db \<Rightarrow> db" where
  "node_sync_exec c now NReclaim d = snd (node_sync_reclaimExpiredLeases c now d)"
| "node_sync_exec c now (NReset cmd) d = reset_expired_job c now cmd d"
| "node_sync_exec c now (NAcquire cmd owner token) d = snd (acquire_job c now cmd owner token d)"
| "node_sync_exec c now (NClose cmd) d = snd (close_route_job now cmd d)"
| "node_sync_exec c now (NComplete jid owner token) d = snd (node_sync_complete now jid owner token d)"
| "node_sync_exec c now (NRetry jid owner token code) d = snd (node_sync_retry c now jid owner token code d)"

lemmas job_rows [vpn_simps] =
  reclaim_job_def lease_job_def fail_route_job_def succeed_job_def retry_job_def job_exhausted_def

lemmas job_guards [vpn_simps] =
  reclaimable_job_def expired_job_lease_def acquirable_job_def job_due_def closed_route_job_def
  holds_job_lease_def

lemmas job_statements =
  node_sync_reclaimExpiredLeases_def reset_expired_job_def acquire_job_def close_route_job_def
  node_sync_complete_def node_sync_retry_def

section \<open>The database constraints\<close>

definition job_row_ok :: "job \<Rightarrow> bool" where
  "job_row_ok j \<longleftrightarrow>
     (if jb_status j = JobProcessing
      then jb_leaseOwner j \<noteq> None \<and> jb_leaseToken j \<noteq> None \<and> jb_leaseExpiresAt j \<noteq> None
      else jb_leaseOwner j = None \<and> jb_leaseToken j = None \<and> jb_leaseExpiresAt j = None)
   \<and> (jb_status j = JobPending \<or> jb_nextAttemptAt j = None)
   \<and> (jb_status j \<in> {JobSucceeded, JobFailed} \<longrightarrow> jb_completedAt j \<noteq> None)
   \<and> 0 \<le> jb_attempts j"

definition jobs_ok :: "db \<Rightarrow> bool" where
  "jobs_ok d \<longleftrightarrow> distinct (map jb_id (jobs d)) \<and> (\<forall>j \<in> set (jobs d). job_row_ok j)"

lemma node_sync_exec_keys: "map jb_id (jobs (node_sync_exec c now op d)) = map jb_id (jobs d)"
  by (cases op) (simp_all add: job_statements map_update_rows_key job_rows)

lemma node_sync_exec_rows_ok:
  assumes "\<forall>j \<in> set (jobs d). job_row_ok j"
  shows "\<forall>j \<in> set (jobs (node_sync_exec c now op d)). job_row_ok j"
  using assms
  by (cases op) (auto simp: job_statements ball_update_rows job_row_ok_def vpn_simps)

lemma node_sync_exec_ok: "jobs_ok d \<Longrightarrow> jobs_ok (node_sync_exec c now op d)"
  unfolding jobs_ok_def node_sync_exec_keys using node_sync_exec_rows_ok by blast

section \<open>Refinement of the lease protocol\<close>

fun job_phase :: "JobStatus \<Rightarrow> job \<Rightarrow> lease_phase" where
  "job_phase JobPending j = Waiting (jb_nextAttemptAt j)"
| "job_phase JobProcessing j = Leased (jb_leaseOwner j) (jb_leaseToken j) (jb_leaseExpiresAt j)"
| "job_phase JobSucceeded j = Done"
| "job_phase JobFailed j = Dead"

definition job_lease :: "job \<Rightarrow> lease" where
  "job_lease j = \<lparr>l_attempts = jb_attempts j, l_phase = job_phase (jb_status j) j\<rparr>"

lemma reclaim_job_refines:
  "reclaimable_job c now j \<Longrightarrow> lease_step c now (job_lease j) (job_lease (reclaim_job c now j))"
  by (cases "jb_status j")
    (auto simp: vpn_simps job_lease_def exhausted_def intro: lease_step.reclaim lease_step.bury)

lemma lease_job_refines:
  "job_due c now j \<Longrightarrow> lease_step c now (job_lease j) (job_lease (lease_job c now owner token j))"
  by (auto simp: vpn_simps job_lease_def exhausted_def intro!: lease_step.claim)

lemma fail_route_job_refines:
  "closed_route_job now cmd d j \<Longrightarrow> lease_step c now (job_lease j) (job_lease (fail_route_job now j))"
  by (auto simp: vpn_simps job_lease_def intro: lease_step.close_waiting lease_step.close_expired)

lemma succeed_job_refines:
  "holds_job_lease now jid owner token j \<Longrightarrow>
     lease_step c now (job_lease j) (job_lease (succeed_job now j))"
  by (auto simp: vpn_simps job_lease_def intro!: lease_step.complete)

lemma retry_job_refines:
  "holds_job_lease now jid owner token j \<Longrightarrow>
     lease_step c now (job_lease j) (job_lease (retry_job c now code j))"
  by (auto simp: vpn_simps job_lease_def exhausted_def intro!: lease_step.retry)

lemma job_ids_kept [simp]:
  "jb_id (reclaim_job c now j) = jb_id j" "jb_id (lease_job c now owner token j) = jb_id j"
  "jb_id (fail_route_job now j) = jb_id j" "jb_id (succeed_job now j) = jb_id j"
  "jb_id (retry_job c now code j) = jb_id j"
  by (simp_all add: job_rows)

lemma node_sync_exec_refines:
  "list_all2 (row_refines c now jb_id job_lease) (jobs d) (jobs (node_sync_exec c now op d))"
proof (cases op)
  case (NReset cmd)
  then show ?thesis
    by (auto simp: job_statements row_refines_def reclaimable_job_def
        intro!: list_all2_update_rows reclaim_job_refines)
next
  case (NAcquire cmd owner token)
  then show ?thesis
    by (auto simp: job_statements row_refines_def acquirable_job_def
        intro!: list_all2_update_rows lease_job_refines)
qed (auto simp: job_statements row_refines_def intro!: list_all2_update_rows
    intro: reclaim_job_refines fail_route_job_refines succeed_job_refines retry_job_refines)

interpretation node_sync_table:
  leased_table c jb_id job_lease jobs jobs_ok "node_sync_exec c" for c
  by unfold_locales (simp_all add: node_sync_exec_ok node_sync_exec_refines)

end
