(* ===== verification/Data_Plane_Credential.thy ===== *)
theory Data_Plane_Credential
  imports Vpn_Prelude "HOL-Library.Word"
begin

unbundle bit_operations_syntax

text \<open>
  Data-plane credentials (\<open>packages/orchestration-store/src/data-plane-credential.ts\<close>).

  The credential of a grant is derived from the pepper and the binding of grant, device and node, and
  only a verifier of it is stored.  The digest function is the runtime's HMAC-SHA-256: it is the
  parameter \<open>hmac_sha256\<close>, a function of key and message to bytes, of which the code relies on the
  digest length only (\<open>digest_length\<close>).  Buffers are lists of 8-bit words; their hexadecimal text and
  the two masked bytes of the version-4 layout are written out.
\<close>

type_synonym byte = "8 word"

datatype credential_error = PepperNotConfigured

record credential_binding =
  cb_grantId :: uuid
  cb_deviceId :: uuid
  cb_nodeId :: uuid

definition DATA_PLANE_CREDENTIAL_DERIVATION_VERSION :: int where
  "DATA_PLANE_CREDENTIAL_DERIVATION_VERSION = 1"

section \<open>Hexadecimal text\<close>

definition hex_digits :: string where
  "hex_digits = ''0123456789abcdef''"

definition hex_byte :: "byte \<Rightarrow> string" where
  "hex_byte b = [hex_digits ! (unat b div 16), hex_digits ! (unat b mod 16)]"

definition to_hex :: "byte list \<Rightarrow> string" where
  "to_hex bs = concat (map hex_byte bs)"

definition hex_value :: "char \<Rightarrow> nat" where
  "hex_value c = length (takeWhile (\<lambda>d. d \<noteq> c) hex_digits)"

definition byte_of :: "nat \<Rightarrow> nat \<Rightarrow> byte" where
  "byte_of hi lo = word_of_nat (16 * hi + lo)"

fun from_hex :: "string \<Rightarrow> byte list" where
  "from_hex (hi # lo # s) = byte_of (hex_value hi) (hex_value lo) # from_hex s"
| "from_hex _ = []"

definition slice :: "nat \<Rightarrow> nat \<Rightarrow> string \<Rightarrow> string" where
  "slice i j s = take (j - i) (drop i s)"

section \<open>Derivation and verification\<close>

definition material :: "credential_binding \<Rightarrow> string" where
  "material v = cb_grantId v @ [CHR 0x00] @ cb_deviceId v @ [CHR 0x00] @ cb_nodeId v"

definition hmac ::
    "(string \<Rightarrow> string \<Rightarrow> byte list) \<Rightarrow> string \<Rightarrow> string \<Rightarrow> string \<Rightarrow> credential_error + byte list" where
  "hmac hmac_sha256 pepper domain text =
     (if pepper = [] then Inl PepperNotConfigured
      else Inr (hmac_sha256 pepper
        (''vpn-platform:data-plane:'' @ domain @ [CHR 0x00] @ text)))"

definition uuid_text :: "byte list \<Rightarrow> uuid" where
  "uuid_text digest0 =
     (let digest1 = digest0[6 := (digest0 ! 6 AND 0x0f) OR 0x40];
          digest = digest1[8 := (digest1 ! 8 AND 0x3f) OR 0x80];
          hex = to_hex digest
      in slice 0 8 hex @ ''-'' @ slice 8 12 hex @ ''-'' @ slice 12 16 hex @ ''-'' @
         slice 16 20 hex @ ''-'' @ drop 20 hex)"

definition deriveDataPlaneCredential ::
    "(string \<Rightarrow> string \<Rightarrow> byte list) \<Rightarrow> string \<Rightarrow> credential_binding \<Rightarrow> credential_error + uuid" where
  "deriveDataPlaneCredential hmac_sha256 pepper binding =
     (case hmac hmac_sha256 pepper ''credential:v1'' (material binding) of
        Inl e \<Rightarrow> Inl e
      | Inr digest \<Rightarrow> Inr (uuid_text (take 16 digest)))"

definition hashDataPlaneCredential ::
    "(string \<Rightarrow> string \<Rightarrow> byte list) \<Rightarrow> string \<Rightarrow> uuid \<Rightarrow> credential_error + string" where
  "hashDataPlaneCredential hmac_sha256 pepper credential =
     map_sum id to_hex (hmac hmac_sha256 pepper ''verifier:v1'' credential)"

definition verifyDataPlaneCredentialHash ::
    "(string \<Rightarrow> string \<Rightarrow> byte list) \<Rightarrow> string \<Rightarrow> uuid \<Rightarrow> string \<Rightarrow> credential_error + bool" where
  "verifyDataPlaneCredentialHash hmac_sha256 pepper credential storedHash =
     (case hashDataPlaneCredential hmac_sha256 pepper credential of
        Inl e \<Rightarrow> Inl e
      | Inr h \<Rightarrow>
          let expected = from_hex h;
              validStoredHash = (length storedHash = 64 \<and> set storedHash \<subseteq> set hex_digits);
              actual = (if validStoredHash then from_hex storedHash else replicate (length expected) 0)
          in Inr (expected = actual \<and> validStoredHash))"

section \<open>Encoding lemmas\<close>

definition digest_length :: "(string \<Rightarrow> string \<Rightarrow> byte list) \<Rightarrow> bool" where
  "digest_length hmac_sha256 \<longleftrightarrow> (\<forall>key message. length (hmac_sha256 key message) = 32)"

lemma length_to_hex [simp]: "length (to_hex bs) = 2 * length bs"
  by (induction bs) (auto simp: to_hex_def hex_byte_def)

lemma hex_value_digit: "n < 16 \<Longrightarrow> hex_value (hex_digits ! n) = n"
proof -
  have "\<forall>n < 16. hex_value (hex_digits ! n) = n" by code_simp
  then show "n < 16 \<Longrightarrow> hex_value (hex_digits ! n) = n" by blast
qed

lemma hex_digit_value: "c \<in> set hex_digits \<Longrightarrow> hex_value c < 16 \<and> hex_digits ! hex_value c = c"
proof -
  have "\<forall>c \<in> set hex_digits. hex_value c < 16 \<and> hex_digits ! hex_value c = c" by code_simp
  then show "c \<in> set hex_digits \<Longrightarrow> hex_value c < 16 \<and> hex_digits ! hex_value c = c" by blast
qed

lemma unat_byte_less: "unat (b :: byte) < 256"
  using unsigned_less [of b] by simp

lemma byte_of_nibbles: "byte_of (unat b div 16) (unat b mod 16) = b"
proof -
  have "byte_of (unat b div 16) (unat b mod 16) = word_of_nat (unat b)"
    unfolding byte_of_def by (simp only: mult_div_mod_eq)
  then show ?thesis by simp
qed

lemma unat_byte_of: "hi < 16 \<Longrightarrow> lo < 16 \<Longrightarrow> unat (byte_of hi lo) = 16 * hi + lo"
  unfolding byte_of_def unsigned_of_nat by (simp add: take_bit_eq_mod)

lemma from_to_hex: "from_hex (to_hex bs) = bs"
proof (induction bs)
  case (Cons b bs)
  have "unat b div 16 < 16" "unat b mod 16 < 16" using unat_byte_less [of b] by simp_all
  with Cons show ?case by (simp add: to_hex_def hex_byte_def hex_value_digit byte_of_nibbles)
qed (simp add: to_hex_def)

lemma hex_byte_byte_of: "hi < 16 \<Longrightarrow> lo < 16 \<Longrightarrow> hex_byte (byte_of hi lo) = [hex_digits ! hi, hex_digits ! lo]"
  by (simp add: hex_byte_def unat_byte_of)

lemma to_from_hex:
  assumes "even (length s)" "set s \<subseteq> set hex_digits"
  shows "to_hex (from_hex s) = s"
  using assms
proof (induction s rule: from_hex.induct)
  case (1 hi lo s)
  then have "hex_value hi < 16 \<and> hex_digits ! hex_value hi = hi"
    "hex_value lo < 16 \<and> hex_digits ! hex_value lo = lo" by (auto intro!: hex_digit_value)
  with 1 show ?case by (simp add: to_hex_def hex_byte_byte_of)
qed (auto simp: to_hex_def)

lemma length_hex_digits: "length hex_digits = 16"
  by code_simp

lemma set_to_hex: "set (to_hex bs) \<subseteq> set hex_digits"
proof -
  have "set (hex_byte b) \<subseteq> set hex_digits" for b :: byte
    using unat_byte_less [of b] nth_mem [of _ hex_digits] by (auto simp: hex_byte_def length_hex_digits)
  then show ?thesis by (auto simp: to_hex_def)
qed

section \<open>Correctness\<close>

text \<open>C26. A stored verifier is accepted for a credential exactly when it is the verifier the service
  would compute for it: the stored text of every hash verifies, and no other text, malformed ones
  included, does.\<close>

theorem verify_iff_stored_hash:
  assumes "digest_length hmac_sha256" "pepper \<noteq> []"
  shows "verifyDataPlaneCredentialHash hmac_sha256 pepper credential stored =
    Inr (hashDataPlaneCredential hmac_sha256 pepper credential = Inr stored)"
proof -
  define d where "d = hmac_sha256 pepper
    (''vpn-platform:data-plane:'' @ ''verifier:v1'' @ [CHR 0x00] @ credential)"
  have len: "length d = 32" using assms(1) by (simp add: digest_length_def d_def)
  have hash: "hashDataPlaneCredential hmac_sha256 pepper credential = Inr (to_hex d)"
    using assms(2) by (simp add: hashDataPlaneCredential_def hmac_def d_def)
  have "(d = (if length stored = 64 \<and> set stored \<subseteq> set hex_digits then from_hex stored
        else replicate (length d) 0) \<and> length stored = 64 \<and> set stored \<subseteq> set hex_digits)
      \<longleftrightarrow> to_hex d = stored"
    using to_from_hex [of stored] set_to_hex [of d] length_to_hex [of d] len
    by (auto simp: from_to_hex)
  then show ?thesis
    by (simp add: verifyDataPlaneCredentialHash_def hash from_to_hex Let_def)
qed

text \<open>The text layout of a version-4 UUID: five groups of hexadecimal digits, the third beginning with
  the version, the fourth with one of the four variant digits.\<close>

definition uuid_v4_shape :: "string \<Rightarrow> bool" where
  "uuid_v4_shape s \<longleftrightarrow> (\<exists>a b c e f. s = a @ ''-'' @ b @ ''-'' @ c @ ''-'' @ e @ ''-'' @ f
     \<and> length a = 8 \<and> length b = 4 \<and> length c = 4 \<and> length e = 4 \<and> length f = 12
     \<and> set (a @ b @ c @ e @ f) \<subseteq> set hex_digits
     \<and> c ! 0 = CHR ''4'' \<and> e ! 0 \<in> {CHR ''8'', CHR ''9'', CHR ''a'', CHR ''b''})"

lemma high_nibble: "unat (x :: byte) div 16 = unat (drop_bit 4 x)"
  by (simp add: drop_bit_eq_div unat_div)

lemma version_nibble: "unat ((b AND 0x0f) OR 0x40 :: byte) div 16 = 4"
  unfolding high_nibble drop_bit_or drop_bit_and by simp

lemma variant_nibble: "unat ((b AND 0x3f) OR 0x80 :: byte) div 16 \<in> {8, 9, 10, 11}"
proof -
  have all: "\<forall>n < 4. unat ((word_of_nat n :: byte) OR 8) \<in> {8, 9, 10, 11}" by code_simp
  define x where "x = drop_bit 4 b AND (3 :: byte)"
  have "x = take_bit 2 (drop_bit 4 b)" by (simp add: x_def take_bit_eq_mask mask_eq_exp_minus_1)
  then have "unat x < 4"
    using take_bit_nat_less_exp [of 2 "unat (drop_bit 4 b)"] by (simp add: unsigned_take_bit_eq)
  moreover have "drop_bit 4 ((b AND 0x3f) OR 0x80) = x OR 8"
    unfolding drop_bit_or drop_bit_and x_def by simp
  ultimately show ?thesis unfolding high_nibble using all [rule_format, of "unat x"] by simp
qed

lemma to_hex_nth: "i < length bs \<Longrightarrow> to_hex bs ! (2 * i) = hex_digits ! (unat (bs ! i) div 16)"
proof (induction bs arbitrary: i)
  case (Cons b bs)
  then show ?case by (cases i) (simp_all add: to_hex_def hex_byte_def)
qed simp

lemma uuid_text_shape:
  assumes "length digest0 = 16"
  shows "uuid_v4_shape (uuid_text digest0)"
proof -
  define digest where "digest = digest0[6 := (digest0 ! 6 AND 0x0f) OR 0x40,
    8 := (digest0[6 := (digest0 ! 6 AND 0x0f) OR 0x40] ! 8 AND 0x3f) OR 0x80]"
  define hex where "hex = to_hex digest"
  have len: "length digest = 16" "length hex = 32" using assms by (simp_all add: digest_def hex_def)
  have digits: "set hex \<subseteq> set hex_digits" unfolding hex_def by (rule set_to_hex)
  have four: "hex_digits ! 4 = CHR ''4''" "hex_digits ! 8 = CHR ''8''" "hex_digits ! 9 = CHR ''9''"
    "hex_digits ! 10 = CHR ''a''" "hex_digits ! 11 = CHR ''b''" by code_simp+
  have d: "digest ! 6 = (digest0 ! 6 AND 0x0f) OR 0x40" "digest ! 8 = (digest0 ! 8 AND 0x3f) OR 0x80"
    using assms by (simp_all add: digest_def)
  have 1: "hex ! 12 = CHR ''4''"
    using to_hex_nth [of 6 digest] len(1) by (simp add: hex_def d version_nibble four)
  have 2: "hex ! 16 \<in> {CHR ''8'', CHR ''9'', CHR ''a'', CHR ''b''}"
    using to_hex_nth [of 8 digest] len(1) variant_nibble [of "digest0 ! 8"]
    unfolding hex_def d by (elim insertE) (simp_all add: four)
  have 3: "set (slice n m hex) \<subseteq> set hex_digits" for n m
    unfolding slice_def using digits by (meson order_trans set_take_subset set_drop_subset)
  have 4: "uuid_text digest0 = slice 0 8 hex @ ''-'' @ slice 8 12 hex @ ''-'' @ slice 12 16 hex @
      ''-'' @ slice 16 20 hex @ ''-'' @ slice 20 32 hex"
    using len unfolding uuid_text_def Let_def hex_def digest_def by (simp add: slice_def)
  have 5: "slice 12 16 hex ! 0 = hex ! 12" "slice 16 20 hex ! 0 = hex ! 16"
     "length (slice 0 8 hex) = 8" "length (slice 8 12 hex) = 4" "length (slice 12 16 hex) = 4"
     "length (slice 16 20 hex) = 4" "length (slice 20 32 hex) = 12"
    using len by (simp_all add: slice_def)
  have 6: "set (slice 0 8 hex @ slice 8 12 hex @ slice 12 16 hex @ slice 16 20 hex @ slice 20 32 hex) \<subseteq> set hex_digits"
    unfolding set_append by (intro Un_least 3)
  show ?thesis
    unfolding uuid_v4_shape_def using 1 2 4 5 6 by metis
qed

text \<open>C27. Every derived credential is the text of a version-4 UUID, as the node agent's snapshot schema
  and the data plane require, whatever the digest.\<close>

theorem derived_credential_is_uuid:
  assumes "digest_length hmac_sha256" "pepper \<noteq> []"
  shows "\<exists>c. deriveDataPlaneCredential hmac_sha256 pepper binding = Inr c \<and> uuid_v4_shape c"
  using assms uuid_text_shape
  by (simp add: deriveDataPlaneCredential_def hmac_def digest_length_def)

section \<open>Concrete digests\<close>

text \<open>A digest function with the right length, for concrete runs.\<close>

definition toy_digest :: "string \<Rightarrow> string \<Rightarrow> byte list" where
  "toy_digest k msg = map (\<lambda>i. word_of_nat (i * length msg + length k)) [0..<32]"

lemma toy_digest_length: "digest_length toy_digest"
  by (simp add: digest_length_def toy_digest_def)

theorem verify_iff_stored_hash_witness:
  "\<forall>stored. verifyDataPlaneCredentialHash toy_digest ''pepper'' ''credential'' stored =
     Inr (hashDataPlaneCredential toy_digest ''pepper'' ''credential'' = Inr stored)"
  using verify_iff_stored_hash [OF toy_digest_length, of "''pepper''" "''credential''"] by simp

theorem derived_credential_is_uuid_witness:
  "\<exists>c. deriveDataPlaneCredential toy_digest ''pepper''
      \<lparr>cb_grantId = ''g1'', cb_deviceId = ''d1'', cb_nodeId = ''n1''\<rparr> = Inr c \<and> uuid_v4_shape c"
  using derived_credential_is_uuid [OF toy_digest_length, of "''pepper''"] by simp

end
