(* ===== verification/Orchestration.thy ===== *)
theory Orchestration
  imports Node_Lifecycle Node_Sync_Store Data_Plane_Credential
begin

text \<open>
  The orchestration services of the API (\<open>apps/api/src/orchestration\<close>): scheduling a grant
  (\<open>node-access-grant-scheduler.service.ts\<close>), revoking a device (\<open>device-access-revoker.service.ts\<close>),
  publishing a connection route and acknowledging a configuration (\<open>orchestration.service.ts\<close>).

  Each is one transaction on the control-plane database.  Generated identifiers, the database instant
  and the credential digest are arguments; where a loop inserts one job and one event per grant, the
  identifiers are functions of the grant.
\<close>

section \<open>Scheduling a grant\<close>

record schedule_input =
  si_nodeId :: uuid
  si_deviceId :: uuid
  si_expiresAt :: instant
  si_syncJobIdempotencyKey :: string
  si_outboxEventIdempotencyKey :: string
  si_actorUserId :: "uuid option"

record schedule_result =
  sr_nodeAccessGrantId :: uuid
  sr_nodeSyncJobId :: uuid
  sr_outboxEventId :: uuid
  sr_targetVersion :: version

definition schedule_replay ::
    "schedule_input \<Rightarrow> job option \<Rightarrow> outbox_event option \<Rightarrow> db \<Rightarrow> cp_error + schedule_result" where
  "schedule_replay i existingJob existingEvent d =
     (case (existingJob, existingEvent) of
        (Some j, Some e) \<Rightarrow> (case jb_grantId j of
            None \<Rightarrow> Inl (Thrown ''Idempotency key does not match the requested grant'')
          | Some gid \<Rightarrow>
              if jb_nodeId j \<noteq> si_nodeId i
                 \<or> map_option gr_deviceId (find_grant gid d) \<noteq> Some (si_deviceId i)
                 \<or> ob_aggregateId e \<noteq> gid
              then Inl (Thrown ''Idempotency key does not match the requested grant'')
              else Inr \<lparr>sr_nodeAccessGrantId = gid, sr_nodeSyncJobId = jb_id j,
                     sr_outboxEventId = ob_id e, sr_targetVersion = jb_targetVersion j\<rparr>)
      | _ \<Rightarrow> Inl (Thrown ''Idempotency key does not match the requested grant''))"

type_synonym credential_provider = "((string \<Rightarrow> string \<Rightarrow> byte list) \<times> string) option"

definition provide_credential ::
    "credential_provider \<Rightarrow> credential_binding \<Rightarrow> cp_error + (uuid \<times> string)" where
  "provide_credential provider binding =
     (case provider of
        None \<Rightarrow> Inl (Thrown ''Data-plane credential provider is unavailable'')
      | Some (h, pepper) \<Rightarrow>
          (case deriveDataPlaneCredential h pepper binding of
             Inl _ \<Rightarrow> Inl (Thrown ''Data-plane credential pepper is not configured'')
           | Inr c \<Rightarrow> (case hashDataPlaneCredential h pepper c of
                 Inl _ \<Rightarrow> Inl (Thrown ''Data-plane credential pepper is not configured'')
               | Inr hash \<Rightarrow> Inr (c, hash))))"

definition scheduleInTransaction ::
    "credential_provider \<Rightarrow> schedule_input \<Rightarrow> uuid \<Rightarrow> uuid \<Rightarrow> uuid \<Rightarrow> instant \<Rightarrow> schedule_result tx" where
  "scheduleInTransaction provider i gid jid eid now d =
     (let existingJob = find_job_by_key (si_syncJobIdempotencyKey i) d;
          existingEvent = find_outbox_by_key (si_outboxEventIdempotencyKey i) d
      in if existingJob \<noteq> None \<or> existingEvent \<noteq> None
         then map_sum id (\<lambda>r. (r, d)) (schedule_replay i existingJob existingEvent d)
         else if map_option dv_status (find_device (si_deviceId i) d) \<noteq> Some DeviceActive
         then Inl (Thrown ''Node access cannot be scheduled for this device'')
         else case find_node (si_nodeId i) d of
           None \<Rightarrow> Inl (Thrown ''Node access cannot be scheduled for this node'')
         | Some n \<Rightarrow>
             if \<not> isNodeEligibleForNewAssignment (nd_status n)
             then Inl (Thrown ''Node access cannot be scheduled for this node'')
             else
               let target = desiredConfigVersion n + 1
               in case provide_credential provider
                    \<lparr>cb_grantId = gid, cb_deviceId = si_deviceId i, cb_nodeId = si_nodeId i\<rparr> of
                 Inl e \<Rightarrow> Inl e
               | Inr (_, hash) \<Rightarrow>
                   (case create_grant \<lparr>gr_id = gid, gr_nodeId = si_nodeId i, gr_deviceId = si_deviceId i,
                        gr_status = GrantPending, gr_credentialHash = hash,
                        gr_derivationVersion = Some DATA_PLANE_CREDENTIAL_DERIVATION_VERSION,
                        gr_expiresAt = si_expiresAt i, gr_desiredVersion = target, gr_appliedVersion = 0,
                        gr_revokedAt = None\<rparr> (bump_desired (si_nodeId i) d) of
                      Inl e \<Rightarrow> Inl e
                    | Inr d1 \<Rightarrow>
                        (case request_grant_sync jid eid (si_nodeId i) gid target
                            (si_syncJobIdempotencyKey i) (si_outboxEventIdempotencyKey i) now d1 of
                           Inl e \<Rightarrow> Inl e
                         | Inr d2 \<Rightarrow> Inr (\<lparr>sr_nodeAccessGrantId = gid, sr_nodeSyncJobId = jid,
                               sr_outboxEventId = eid, sr_targetVersion = target\<rparr>,
                             write_audit (si_actorUserId i) ''node-access-grant.scheduled''
                               ''NodeAccessGrant'' gid d2))))"

section \<open>Revoking a device\<close>

datatype revoke_result = Revoked | AlreadyRevoked | NotFound

text \<open>The decimal text of a version in an idempotency key.\<close>

fun digits_of_nat :: "nat \<Rightarrow> string" where
  "digits_of_nat n = (if n < 10 then [char_of (48 + n)]
     else digits_of_nat (n div 10) @ [char_of (48 + n mod 10)])"

declare digits_of_nat.simps [simp del]

definition version_text :: "version \<Rightarrow> string" where
  "version_text v = (if v < 0 then ''-'' @ digits_of_nat (nat (- v)) else digits_of_nat (nat v))"

definition revoke_device_grant ::
    "uuid \<Rightarrow> uuid \<Rightarrow> (uuid \<Rightarrow> uuid) \<Rightarrow> (uuid \<Rightarrow> uuid) \<Rightarrow> instant \<Rightarrow> (uuid \<Rightarrow> NodeStatus option) \<Rightarrow>
     grant \<Rightarrow> db \<Rightarrow> cp_error + db" where
  "revoke_device_grant userId deviceId jobIdOf eventIdOf now nodeStatusById g d =
     (case nodeStatusById (gr_nodeId g) of
        Some st \<Rightarrow>
          if isNodeInAccessControlSync st
          then let d1 = bump_desired (gr_nodeId g) d;
                   target = desired_of (gr_nodeId g) d1;
                   d2 = revoke_grant (gr_id g) now (Some target) d1
               in map_sum id (write_audit (Some userId) ''node-access-grant.revoked'' ''NodeAccessGrant'' (gr_id g))
                    (request_grant_sync (jobIdOf (gr_id g)) (eventIdOf (gr_id g)) (gr_nodeId g) (gr_id g) target
                      (''device-revoke:'' @ deviceId @ '':'' @ gr_id g @ '':'' @ version_text target)
                      (''device-revoke-outbox:'' @ gr_id g @ '':'' @ version_text target) now d2)
          else Inr (write_audit (Some userId) ''node-access-grant.revoked'' ''NodeAccessGrant'' (gr_id g)
                 (revoke_grant (gr_id g) now None d))
      | None \<Rightarrow> Inr (write_audit (Some userId) ''node-access-grant.revoked'' ''NodeAccessGrant'' (gr_id g)
                 (revoke_grant (gr_id g) now None d)))"

fun each_row :: "('r \<Rightarrow> db \<Rightarrow> cp_error + db) \<Rightarrow> 'r list \<Rightarrow> db \<Rightarrow> cp_error + db" where
  "each_row f [] d = Inr d"
| "each_row f (r # rs) d = (case f r d of Inl e \<Rightarrow> Inl e | Inr d' \<Rightarrow> each_row f rs d')"

definition device_live_grants :: "uuid \<Rightarrow> db \<Rightarrow> grant list" where
  "device_live_grants deviceId d = sort_key (\<lambda>g. (gr_nodeId g, gr_id g))
     (filter (\<lambda>g. gr_deviceId g = deviceId \<and> live_grant g) (grants d))"

definition revoke ::
    "uuid \<Rightarrow> uuid \<Rightarrow> (uuid \<Rightarrow> uuid) \<Rightarrow> (uuid \<Rightarrow> uuid) \<Rightarrow> instant \<Rightarrow> revoke_result tx" where
  "revoke userId deviceId jobIdOf eventIdOf now d =
     (case find (\<lambda>v. dv_id v = deviceId \<and> dv_userId v = userId) (devices d) of
        None \<Rightarrow> Inr (NotFound, d)
      | Some v \<Rightarrow>
          if dv_status v = DeviceRevoked then Inr (AlreadyRevoked, d)
          else
            let nodeStatusById = (\<lambda>nid. map_option nd_status (find_node nid d));
                gs = device_live_grants deviceId d;
                d1 = d\<lparr>devices := update_rows (\<lambda>w. dv_id w = deviceId)
                       (\<lambda>w. w\<lparr>dv_status := DeviceRevoked, dv_revokedAt := Some now\<rparr>) (devices d)\<rparr>
            in case each_row (revoke_device_grant userId deviceId jobIdOf eventIdOf now nodeStatusById) gs d1 of
                 Inl e \<Rightarrow> Inl e
               | Inr d2 \<Rightarrow> Inr (Revoked, write_audit (Some userId) ''device.revoked'' ''Device'' deviceId d2))"

section \<open>Publishing a connection route\<close>

record publish_input =
  pi_nodeId :: uuid
  pi_endpointId :: uuid
  pi_connectionProfileId :: uuid
  pi_syncJobIdempotencyKey :: string
  pi_outboxEventIdempotencyKey :: string
  pi_actorUserId :: "uuid option"

definition publish_replay ::
    "(string \<Rightarrow> bool) \<Rightarrow> publish_input \<Rightarrow> job option \<Rightarrow> outbox_event option \<Rightarrow>
     cp_error + (uuid \<times> uuid \<times> version)" where
  "publish_replay is_uuid i existingJob existingEvent =
     (case (existingJob, existingEvent) of
        (Some j, Some e) \<Rightarrow>
          if jb_nodeId j \<noteq> pi_nodeId i
             \<or> jb_routeEndpointId j \<noteq> Some (pi_endpointId i)
             \<or> jb_routeProfileId j \<noteq> Some (pi_connectionProfileId i)
             \<or> ob_topic e \<noteq> ''node-sync.requested''
             \<or> ob_aggregateType e \<noteq> ''ConnectionRoute''
             \<or> ob_aggregateId e \<noteq> pi_endpointId i
             \<or> nodeSyncRequestedEventSchema is_uuid (ob_payload e) \<noteq>
                 Some (RouteCommand (pi_endpointId i) (pi_connectionProfileId i) (jb_id j) (jb_targetVersion j))
          then Inl (Thrown ''Idempotency key does not match the requested route'')
          else Inr (jb_id j, ob_id e, jb_targetVersion j)
      | _ \<Rightarrow> Inl (Thrown ''Idempotency key does not match the requested route''))"

definition is_route :: "publish_input \<Rightarrow> route \<Rightarrow> bool" where
  "is_route i r \<longleftrightarrow> rt_endpointId r = pi_endpointId i \<and> rt_profileId r = pi_connectionProfileId i"

text \<open>The triggers on an update of a route's activation: it must exceed every earlier activation, be
  newer than what the node has applied, and use a version that was not delivered yet.  The remaining
  trigger conditions (active material, healthy node, matching job and event) hold because the same
  transaction has just established them.\<close>

definition activate_route :: "publish_input \<Rightarrow> version \<Rightarrow> db \<Rightarrow> cp_error + db" where
  "activate_route i v d =
     (if \<exists>r \<in> set (routes d). is_route i r \<and> v \<le> rt_lastActivationVersion r
      then Inl (DbError ''Connection route activation version must increase beyond every prior activation'')
      else if \<exists>n \<in> set (nodes d). nd_id n = pi_nodeId i \<and> appliedConfigVersion n \<ge> v
      then Inl (DbError ''Connection route activation must be newer than the applied node configuration'')
      else if \<exists>x \<in> set (deliveries d). dl_nodeId x = pi_nodeId i \<and> dl_targetVersion x = v
      then Inl (DbError ''Connection route activation cannot use an already delivered version'')
      else Inr (d\<lparr>routes := update_rows (is_route i)
             (\<lambda>r. r\<lparr>rt_activationVersion := Some v, rt_lastActivationVersion := v\<rparr>) (routes d)\<rparr>))"

definition publish_material :: "publish_input \<Rightarrow> db \<Rightarrow> db" where
  "publish_material i d =
     (let d1 = (if \<exists>r \<in> set (routes d). is_route i r \<and> rt_nodeId r = pi_nodeId i then d
                else d\<lparr>routes := routes d @ [\<lparr>rt_endpointId = pi_endpointId i,
                   rt_profileId = pi_connectionProfileId i, rt_nodeId = pi_nodeId i,
                   rt_activationVersion = None, rt_lastActivationVersion = 0\<rparr>]\<rparr>)
      in d1\<lparr>endpoints := update_rows (\<lambda>e. ep_id e = pi_endpointId i)
               (\<lambda>e. e\<lparr>ep_status := EndpointActive\<rparr>) (endpoints d1),
            profiles := update_rows (\<lambda>p. pf_id p = pi_connectionProfileId i)
               (\<lambda>p. p\<lparr>pf_status := ProfileActive\<rparr>) (profiles d1)\<rparr>)"

definition publishConnectionRoute ::
    "(string \<Rightarrow> bool) \<Rightarrow> publish_input \<Rightarrow> uuid \<Rightarrow> uuid \<Rightarrow> instant \<Rightarrow> (uuid \<times> uuid \<times> version) tx" where
  "publishConnectionRoute is_uuid i jid eid now d =
     (let existingJob = find_job_by_key (pi_syncJobIdempotencyKey i) d;
          existingEvent = find_outbox_by_key (pi_outboxEventIdempotencyKey i) d
      in if existingJob \<noteq> None \<or> existingEvent \<noteq> None
         then map_sum id (\<lambda>r. (r, d)) (publish_replay is_uuid i existingJob existingEvent)
         else case find_node (pi_nodeId i) d of
           None \<Rightarrow> Inl (Thrown ''Connection route requires an existing node'')
         | Some n \<Rightarrow>
             if nd_status n \<noteq> NodeHealthy then Inl (Thrown ''Connection route requires a healthy node'')
             else if \<not> (\<exists>e \<in> set (endpoints d). ep_id e = pi_endpointId i \<and> ep_nodeId e = pi_nodeId i)
             then Inl (Thrown ''Connection route endpoint does not belong to node'')
             else if \<not> (\<exists>p \<in> set (profiles d). pf_id p = pi_connectionProfileId i \<and> pf_nodeId p = pi_nodeId i)
             then Inl (Thrown ''Connection route profile does not belong to node'')
             else if \<not> (\<exists>c \<in> set (public_configs d). pc_profileId c = pi_connectionProfileId i)
             then Inl (Thrown ''Connection route public config is unavailable'')
             else
               let v = desiredConfigVersion n + 1;
                   d1 = bump_desired (pi_nodeId i) (publish_material i d)
               in case create_job (new_job jid (pi_nodeId i) None (Some (pi_endpointId i))
                      (Some (pi_connectionProfileId i)) v (pi_syncJobIdempotencyKey i)) d1 of
                    Inl e \<Rightarrow> Inl e
                  | Inr d2 \<Rightarrow>
                    (case create_event (new_event eid ''ConnectionRoute'' (pi_endpointId i)
                        (route_payload (pi_endpointId i) (pi_connectionProfileId i) jid v)
                        (pi_outboxEventIdempotencyKey i) now) d2 of
                       Inl e \<Rightarrow> Inl e
                     | Inr d3 \<Rightarrow> (case activate_route i v d3 of
                           Inl e \<Rightarrow> Inl e
                         | Inr d4 \<Rightarrow> Inr ((jid, eid, v), write_audit (pi_actorUserId i)
                               ''connection-route.published'' ''ConnectionRoute'' (pi_endpointId i) d4))))"

section \<open>Acknowledging a configuration\<close>

record ack_input =
  ai_nodeId :: uuid
  ai_nodeSyncJobId :: uuid
  ai_targetVersion :: version
  ai_snapshotHash :: string

definition settle_grant :: "grant \<Rightarrow> grant" where
  "settle_grant g = g\<lparr>gr_appliedVersion := gr_desiredVersion g,
     gr_status := (if gr_status g = GrantPending then GrantActive else gr_status g)\<rparr>"

definition settles_grant :: "uuid \<Rightarrow> version \<Rightarrow> grant \<Rightarrow> bool" where
  "settles_grant nid v g \<longleftrightarrow>
     gr_nodeId g = nid \<and> gr_desiredVersion g \<le> v \<and> gr_appliedVersion g < gr_desiredVersion g"

text \<open>Turning a pending grant active on a quarantined node is refused by the grant trigger.\<close>

definition settle_grants :: "uuid \<Rightarrow> version \<Rightarrow> db \<Rightarrow> cp_error + db" where
  "settle_grants nid v d =
     (if (\<exists>n \<in> set (nodes d). nd_id n = nid \<and> nd_status n = NodeQuarantined)
         \<and> (\<exists>g \<in> set (grants d). settles_grant nid v g \<and> live_grant g)
      then Inl (DbError ''Quarantined node cannot retain live access grants'')
      else Inr (d\<lparr>grants := update_rows (settles_grant nid v) settle_grant (grants d)\<rparr>))"

definition eligible_ack_job :: "ack_input \<Rightarrow> db \<Rightarrow> job \<Rightarrow> bool" where
  "eligible_ack_job i d j \<longleftrightarrow>
     jb_id j = ai_nodeSyncJobId i \<and> jb_nodeId j = ai_nodeId i
   \<and> jb_targetVersion j = ai_targetVersion i \<and> jb_status j = JobSucceeded
   \<and> (\<exists>x \<in> set (deliveries d). dl_jobId x = jb_id j \<and> dl_nodeId x = ai_nodeId i
        \<and> dl_targetVersion x = ai_targetVersion i \<and> dl_snapshotHash x = ai_snapshotHash i)"

definition create_acknowledgement :: "acknowledgement \<Rightarrow> db \<Rightarrow> cp_error + db" where
  "create_acknowledgement a d =
     (if \<exists>b \<in> set (acknowledgements d). ak_jobId b = ak_jobId a
           \<or> (ak_nodeId b = ak_nodeId a \<and> ak_targetVersion b = ak_targetVersion a)
      then Inl (DbError ''Unique constraint failed on NodeConfigAcknowledgement'')
      else Inr (d\<lparr>acknowledgements := acknowledgements d @ [a]\<rparr>))"

text \<open>The applied version never exceeds the desired version (check constraint of the table).\<close>

definition set_applied :: "uuid \<Rightarrow> version \<Rightarrow> db \<Rightarrow> cp_error + db" where
  "set_applied nid v d =
     (if \<exists>n \<in> set (nodes d). nd_id n = nid \<and> v > desiredConfigVersion n
      then Inl (DbError ''Node_config_versions_valid'')
      else Inr (d\<lparr>nodes := update_rows (\<lambda>n. nd_id n = nid) (\<lambda>n. n\<lparr>appliedConfigVersion := v\<rparr>) (nodes d)\<rparr>))"

definition acknowledgeNodeConfigInTransaction ::
    "ack_input \<Rightarrow> instant \<Rightarrow> (uuid \<times> uuid \<times> version) tx" where
  "acknowledgeNodeConfigInTransaction i now d =
     (case find (\<lambda>a. ak_jobId a = ai_nodeSyncJobId i) (acknowledgements d) of
        Some a \<Rightarrow>
          if ak_nodeId a \<noteq> ai_nodeId i \<or> ak_targetVersion a \<noteq> ai_targetVersion i
             \<or> ak_snapshotHash a \<noteq> ai_snapshotHash i
          then Inl (Thrown ''Node sync job does not match the requested acknowledgement'')
          else (case find_node (ai_nodeId i) d of
              None \<Rightarrow> Inl (DbError ''No record was found for a query'')
            | Some n \<Rightarrow> (case settle_grants (ai_nodeId i) (ai_targetVersion i) d of
                  Inl e \<Rightarrow> Inl e
                | Inr d1 \<Rightarrow> Inr ((ai_nodeId i, ai_nodeSyncJobId i, appliedConfigVersion n), d1)))
      | None \<Rightarrow>
          if \<not> (\<exists>j \<in> set (jobs d). eligible_ack_job i d j)
          then Inl (Thrown ''Node sync job is not eligible for acknowledgement'')
          else (case find_node (ai_nodeId i) d of
              None \<Rightarrow> Inl (DbError ''No record was found for a query'')
            | Some n \<Rightarrow>
                (case create_acknowledgement \<lparr>ak_nodeId = ai_nodeId i, ak_jobId = ai_nodeSyncJobId i,
                     ak_targetVersion = ai_targetVersion i, ak_snapshotHash = ai_snapshotHash i,
                     ak_acknowledgedAt = now\<rparr> d of
                   Inl e \<Rightarrow> Inl e
                 | Inr d1 \<Rightarrow>
                   (case (if ai_targetVersion i > appliedConfigVersion n
                          then set_applied (ai_nodeId i) (ai_targetVersion i) d1 else Inr d1) of
                      Inl e \<Rightarrow> Inl e
                    | Inr d2 \<Rightarrow> (case settle_grants (ai_nodeId i) (ai_targetVersion i) d2 of
                          Inl e \<Rightarrow> Inl e
                        | Inr d3 \<Rightarrow> Inr ((ai_nodeId i, ai_nodeSyncJobId i,
                              max (ai_targetVersion i) (appliedConfigVersion n)),
                            write_audit None ''node-config.acknowledged'' ''Node'' (ai_nodeId i) d3))))))"

end
