(* ===== verification/Subscription_Access.thy ===== *)
theory Subscription_Access
  imports Orchestration
begin

text \<open>
  Access that follows subscriptions (\<open>packages/orchestration-store/src/subscription-access-store.ts\<close>,
  \<open>access-policy.ts\<close>).

  \<^item> \<open>cancelSubscriptionAccess\<close> ends a subscription and revokes the access it gave;
  \<^item> \<open>scheduleExpiredSubscriptionOnNode\<close> and \<open>materializeExpiredSubscriptionStatus\<close> record that a
    subscription ran out;
  \<^item> \<open>reconcileOneNode\<close> compares the grants of a node with the entitled devices and repairs them;
  \<^item> \<open>materializeExpiredSubscriptions\<close> and \<open>reconcileAccess\<close> are the batches of the worker: candidate
    queries with a keyset cursor, then one transaction per candidate.

  A transaction reads the database clock once; the instant, the identifiers of the rows it inserts and
  the credential provider are arguments.  The advisory lock on the user serialises transactions and has
  no other effect.  In a batch every statement meets what other clients committed before it
  (\<open>me_others\<close>) and its own fate (\<open>me_fate\<close>): committed, rolled back, or committed with a lost reply.
\<close>

section \<open>Access policy\<close>

definition effectiveSubscriptionStatus ::
    "SubscriptionStatus \<Rightarrow> instant option \<Rightarrow> instant \<Rightarrow> SubscriptionStatus" where
  "effectiveSubscriptionStatus st expiresAt databaseTime =
     (if st = SubActive \<and> (case expiresAt of None \<Rightarrow> True | Some e \<Rightarrow> e \<le> databaseTime)
      then SubExpired else st)"

definition hasEntitlement ::
    "DeviceStatus \<Rightarrow> SubscriptionStatus \<Rightarrow> instant option \<Rightarrow> instant \<Rightarrow> bool" where
  "hasEntitlement dev st expiresAt databaseTime \<longleftrightarrow>
     dev = DeviceActive \<and> effectiveSubscriptionStatus st expiresAt databaseTime = SubActive"

definition isGrantConverged :: "GrantStatus \<Rightarrow> instant \<Rightarrow> version \<Rightarrow> version \<Rightarrow> instant \<Rightarrow> bool" where
  "isGrantConverged st expiresAt desired applied databaseTime \<longleftrightarrow>
     st = GrantActive \<and> expiresAt > databaseTime \<and> applied = desired"

definition isRouteReady ::
    "bool \<Rightarrow> bool \<Rightarrow> NodeStatus \<Rightarrow> bool \<Rightarrow> version option \<Rightarrow> version \<Rightarrow> bool" where
  "isRouteReady entitled grantConverged nodeStatus routeActive routeActivationVersion nodeAppliedVersion \<longleftrightarrow>
     entitled \<and> grantConverged \<and> nodeStatus = NodeHealthy \<and> routeActive
   \<and> (case routeActivationVersion of None \<Rightarrow> False | Some v \<Rightarrow> v \<le> nodeAppliedVersion)"

section \<open>What the transactions read\<close>

text \<open>The subscriptions that entitle a user, the one that lasts longest first.\<close>

definition entitling :: "uuid \<Rightarrow> instant \<Rightarrow> subscription \<Rightarrow> bool" where
  "entitling userId now s \<longleftrightarrow> sb_userId s = userId \<and> sb_status s = SubActive
     \<and> (case sb_expiresAt s of None \<Rightarrow> False | Some e \<Rightarrow> e > now)"

definition findEffectiveExpiry :: "uuid \<Rightarrow> instant \<Rightarrow> db \<Rightarrow> instant option" where
  "findEffectiveExpiry userId now d =
     (case sort_key (\<lambda>s. (- the (sb_expiresAt s), sb_id s)) (filter (entitling userId now) (subscriptions d)) of
        [] \<Rightarrow> None
      | s # _ \<Rightarrow> sb_expiresAt s)"

record expected_device =
  ed_deviceId :: uuid
  ed_expiresAt :: instant

definition expected_device_of :: "instant \<Rightarrow> db \<Rightarrow> device \<Rightarrow> expected_device option" where
  "expected_device_of now d v = map_option (\<lambda>e. \<lparr>ed_deviceId = dv_id v, ed_expiresAt = e\<rparr>)
     (findEffectiveExpiry (dv_userId v) now d)"

definition expectedDevices :: "instant \<Rightarrow> db \<Rightarrow> expected_device list" where
  "expectedDevices now d = List.map_filter (expected_device_of now d)
     (sort_key dv_id (filter (\<lambda>v. dv_status v = DeviceActive) (devices d)))"

definition existingGrants :: "uuid \<Rightarrow> db \<Rightarrow> grant list" where
  "existingGrants nodeId d =
     sort_key (\<lambda>g. (gr_deviceId g, gr_id g)) (filter (\<lambda>g. gr_nodeId g = nodeId) (grants d))"

text \<open>\<open>payload ->> 'nodeSyncJobId'\<close>; a member that is not a string is never the text of an identifier.\<close>

definition payload_job_id :: "json \<Rightarrow> uuid option" where
  "payload_job_id payload = (case json_object payload of None \<Rightarrow> None
     | Some entries \<Rightarrow> json_string (map_of entries ''nodeSyncJobId''))"

definition delivery_live :: "db \<Rightarrow> job \<Rightarrow> bool" where
  "delivery_live d j \<longleftrightarrow>
     jb_status j = JobSucceeded \<and> \<not> (\<exists>a \<in> set (acknowledgements d). ak_jobId a = jb_id j)
   \<or> jb_status j \<in> {JobPending, JobProcessing}
     \<and> (\<exists>e \<in> set (outbox d). ob_topic e = ''node-sync.requested''
          \<and> payload_job_id (ob_payload e) = Some (jb_id j) \<and> ob_status e \<noteq> OutboxFailed)"

definition liveDeliveryVersions :: "uuid \<Rightarrow> db \<Rightarrow> version list" where
  "liveDeliveryVersions nodeId d =
     map jb_targetVersion (filter (\<lambda>j. jb_nodeId j = nodeId \<and> delivery_live d j) (jobs d))"

definition user_device :: "uuid \<Rightarrow> db \<Rightarrow> uuid \<Rightarrow> bool" where
  "user_device userId d deviceId \<longleftrightarrow> (\<exists>v \<in> set (devices d). dv_id v = deviceId \<and> dv_userId v = userId)"

section \<open>What they write\<close>

definition incrementNodeVersion :: "uuid \<Rightarrow> db \<Rightarrow> version \<times> db" where
  "incrementNodeVersion nodeId d = (desired_of nodeId (bump_desired nodeId d), bump_desired nodeId d)"

definition createNodeSyncOperation ::
    "uuid \<Rightarrow> uuid \<Rightarrow> uuid \<Rightarrow> uuid \<Rightarrow> version \<Rightarrow> string \<Rightarrow> string \<Rightarrow> instant \<Rightarrow> db \<Rightarrow> cp_error + db" where
  "createNodeSyncOperation jid eid nodeId leadGrantId target jobKey eventKey now d =
     (case create_job (new_job jid nodeId (Some leadGrantId) None None target jobKey) d of
        Inl e \<Rightarrow> Inl e
      | Inr d1 \<Rightarrow> create_event (new_event eid ''NodeAccessGrant'' leadGrantId
          (grant_payload leadGrantId jid target) eventKey now) d1)"

definition hasMatchingNodeSyncOperation ::
    "uuid \<Rightarrow> uuid \<Rightarrow> string \<Rightarrow> string \<Rightarrow> db \<Rightarrow> cp_error + bool" where
  "hasMatchingNodeSyncOperation nodeId leadGrantId jobKey eventKey d =
     (case (find_job_by_key jobKey d, find_outbox_by_key eventKey d) of
        (None, None) \<Rightarrow> Inr False
      | (Some j, Some e) \<Rightarrow>
          if jb_nodeId j \<noteq> nodeId \<or> jb_grantId j \<noteq> Some leadGrantId \<or> ob_aggregateId e \<noteq> leadGrantId
          then Inl (Thrown ''Expiry delivery operation is inconsistent'') else Inr True
      | _ \<Rightarrow> Inl (Thrown ''Expiry delivery operation is inconsistent''))"

text \<open>\<open>nodeAccessGrant.updateMany\<close> over a list of identifiers.\<close>

definition update_grants :: "uuid list \<Rightarrow> (grant \<Rightarrow> grant) \<Rightarrow> db \<Rightarrow> db" where
  "update_grants gids f d = d\<lparr>grants := update_rows (\<lambda>g. gr_id g \<in> set gids) f (grants d)\<rparr>"

definition update_subscription :: "uuid \<Rightarrow> (subscription \<Rightarrow> subscription) \<Rightarrow> db \<Rightarrow> db" where
  "update_subscription sid f d = d\<lparr>subscriptions := update_rows (\<lambda>s. sb_id s = sid) f (subscriptions d)\<rparr>"

section \<open>Cancelling a subscription\<close>

datatype cancel_result = Cancelled | AlreadyCancelled | SubscriptionNotFound

definition user_live_grants :: "uuid \<Rightarrow> db \<Rightarrow> grant list" where
  "user_live_grants userId d = sort_key (\<lambda>g. (gr_nodeId g, gr_id g))
     (filter (\<lambda>g. user_device userId d (gr_deviceId g) \<and> live_grant g) (grants d))"

definition cancel_on_node ::
    "uuid \<Rightarrow> (uuid \<Rightarrow> uuid) \<Rightarrow> (uuid \<Rightarrow> uuid) \<Rightarrow> instant \<Rightarrow> grant list \<Rightarrow> node \<Rightarrow> db \<Rightarrow> cp_error + db" where
  "cancel_on_node sid jobIdOf eventIdOf now gs n d =
     (let nodeGrants = filter (\<lambda>g. gr_nodeId g = nd_id n) gs
      in if nodeGrants = [] then Inr d
         else
           let (target, d1) = (if nd_status n \<in> {NodeHealthy, NodeDraining, NodeDisabled}
                 then (case incrementNodeVersion (nd_id n) d of (v, d1) \<Rightarrow> (Some v, d1)) else (None, d));
               d2 = update_grants (map gr_id nodeGrants)
                 (\<lambda>g. g\<lparr>gr_status := GrantRevoked, gr_revokedAt := Some now,
                    gr_desiredVersion := (case target of None \<Rightarrow> gr_desiredVersion g | Some v \<Rightarrow> v)\<rparr>) d1;
               delivered = (case target of None \<Rightarrow> Inr d2
                 | Some v \<Rightarrow> createNodeSyncOperation (jobIdOf (nd_id n)) (eventIdOf (nd_id n)) (nd_id n)
                     (gr_id (hd nodeGrants)) v
                     (''subscription-cancel:'' @ sid @ '':'' @ nd_id n @ '':'' @ version_text v)
                     (''subscription-cancel-outbox:'' @ sid @ '':'' @ nd_id n @ '':'' @ version_text v) now d2)
           in map_sum id (write_audit None ''subscription-cancellation.access-revoked'' ''Subscription'' sid)
                delivered)"

definition cancellation_nodes :: "subscription \<Rightarrow> instant \<Rightarrow> db \<Rightarrow> node list" where
  "cancellation_nodes s now d = (if entitling (sb_userId s) now s
     then sort_key nd_id (filter (\<lambda>n. \<exists>g \<in> set (user_live_grants (sb_userId s) d). gr_nodeId g = nd_id n) (nodes d))
     else [])"

definition cancellation_grants :: "subscription \<Rightarrow> instant \<Rightarrow> db \<Rightarrow> grant list" where
  "cancellation_grants s now d = (if entitling (sb_userId s) now s then user_live_grants (sb_userId s) d else [])"

definition cancelSubscriptionAccess ::
    "uuid \<Rightarrow> (uuid \<Rightarrow> uuid) \<Rightarrow> (uuid \<Rightarrow> uuid) \<Rightarrow> instant \<Rightarrow> cancel_result tx" where
  "cancelSubscriptionAccess subscriptionId jobIdOf eventIdOf now d =
     (case find (\<lambda>s. sb_id s = subscriptionId) (subscriptions d) of
        None \<Rightarrow> Inr (SubscriptionNotFound, d)
      | Some s \<Rightarrow>
          if sb_status s = SubCancelled then Inr (AlreadyCancelled, d)
          else
            (case each_row (cancel_on_node (sb_id s) jobIdOf eventIdOf now (cancellation_grants s now d))
                 (cancellation_nodes s now d)
                 (update_subscription (sb_id s)
                    (\<lambda>t. t\<lparr>sb_status := SubCancelled, sb_cancelledAt := Some now\<rparr>) d) of
               Inl e \<Rightarrow> Inl e
             | Inr d1 \<Rightarrow> Inr (Cancelled, write_audit None ''subscription.cancelled'' ''Subscription'' (sb_id s) d1)))"

section \<open>Natural expiry\<close>

definition user_node_grants :: "uuid \<Rightarrow> uuid \<Rightarrow> db \<Rightarrow> grant list" where
  "user_node_grants userId nodeId d = sort_key gr_id
     (filter (\<lambda>g. gr_nodeId g = nodeId \<and> user_device userId d (gr_deviceId g) \<and> live_grant g) (grants d))"

definition expiry_job_key :: "uuid \<Rightarrow> uuid \<Rightarrow> string" where
  "expiry_job_key sid nodeId = ''subscription-expiry:'' @ sid @ '':'' @ nodeId"

definition expiry_event_key :: "uuid \<Rightarrow> uuid \<Rightarrow> string" where
  "expiry_event_key sid nodeId = ''subscription-expiry-outbox:'' @ sid @ '':'' @ nodeId"

text \<open>\<open>replacementExpiry ?? subscription.expiresAt\<close>.\<close>

definition desired_expiry :: "uuid \<Rightarrow> instant \<Rightarrow> instant \<Rightarrow> db \<Rightarrow> instant" where
  "desired_expiry userId now expiresAt d =
     (case findEffectiveExpiry userId now d of None \<Rightarrow> expiresAt | Some e \<Rightarrow> e)"

definition scheduleExpiredSubscriptionOnNode ::
    "uuid \<Rightarrow> uuid \<Rightarrow> uuid \<Rightarrow> uuid \<Rightarrow> instant \<Rightarrow> bool tx" where
  "scheduleExpiredSubscriptionOnNode subscriptionId nodeId jid eid now d =
     (case find (\<lambda>s. sb_id s = subscriptionId \<and> sb_status s \<in> {SubActive, SubExpired}
               \<and> sb_expiresAt s \<noteq> None) (subscriptions d) of
        None \<Rightarrow> Inr (False, d)
      | Some s \<Rightarrow> (case find (\<lambda>n. nd_id n = nodeId \<and> nd_status n \<in> {NodeHealthy, NodeDraining, NodeDisabled})
               (nodes d) of
          None \<Rightarrow> Inr (False, d)
        | Some _ \<Rightarrow>
            if the (sb_expiresAt s) > now then Inr (False, d)
            else
              let desiredExpiry = desired_expiry (sb_userId s) now (the (sb_expiresAt s)) d;
                  gs = user_node_grants (sb_userId s) nodeId d;
                  lead = gr_id (hd gs)
              in if gs = [] then Inr (False, d)
                 else case hasMatchingNodeSyncOperation nodeId lead (expiry_job_key (sb_id s) nodeId)
                        (expiry_event_key (sb_id s) nodeId) d of
                   Inl e \<Rightarrow> Inl e
                 | Inr True \<Rightarrow> Inr (False, d)
                 | Inr False \<Rightarrow>
                     let (target, d1) = incrementNodeVersion nodeId d;
                         d2 = update_grants (map gr_id gs)
                           (\<lambda>g. g\<lparr>gr_expiresAt := desiredExpiry, gr_desiredVersion := target\<rparr>) d1
                     in (case createNodeSyncOperation jid eid nodeId lead target (expiry_job_key (sb_id s) nodeId)
                            (expiry_event_key (sb_id s) nodeId) now d2 of
                           Inl e \<Rightarrow> Inl e
                         | Inr d3 \<Rightarrow> Inr (True, write_audit None ''subscription-expiry.access-scheduled''
                             ''Subscription'' (sb_id s) d3))))"

definition materializeExpiredSubscriptionStatus :: "uuid \<Rightarrow> instant \<Rightarrow> bool tx" where
  "materializeExpiredSubscriptionStatus subscriptionId now d =
     (case find (\<lambda>s. sb_id s = subscriptionId \<and> sb_status s = SubActive \<and> sb_expiresAt s \<noteq> None)
             (subscriptions d) of
        None \<Rightarrow> Inr (False, d)
      | Some s \<Rightarrow>
          if the (sb_expiresAt s) > now then Inr (False, d)
          else Inr (True, write_audit None ''subscription.expired'' ''Subscription'' (sb_id s)
            (update_subscription (sb_id s) (\<lambda>t. t\<lparr>sb_status := SubExpired\<rparr>) d)))"

section \<open>Reconciling a node\<close>

datatype access_change =
  CreateAccess expected_device | UpdateAccess grant instant | RepairRevoke grant

text \<open>\<open>networkChanges\<close> is keyed by device, \<open>localActivations\<close> by grant; both keep the order of insertion.\<close>

type_synonym repair_plan = "(uuid \<times> access_change) list \<times> (uuid \<times> grant) list"

definition awaits_activation :: "grant \<Rightarrow> bool" where
  "awaits_activation g \<longleftrightarrow> gr_status g = GrantPending \<and> gr_appliedVersion g \<ge> gr_desiredVersion g"

definition delivery_lost :: "version list \<Rightarrow> grant \<Rightarrow> bool" where
  "delivery_lost live g \<longleftrightarrow> gr_appliedVersion g < gr_desiredVersion g \<and> gr_desiredVersion g \<notin> set live"

definition plan_expected ::
    "bool \<Rightarrow> (uuid \<times> grant) list \<Rightarrow> version list \<Rightarrow> expected_device \<Rightarrow> repair_plan \<Rightarrow> repair_plan" where
  "plan_expected mayCreateMissing existingByDevice live x plan =
     (case map_of existingByDevice (ed_deviceId x) of
        None \<Rightarrow> if mayCreateMissing then (map_put (ed_deviceId x) (CreateAccess x) (fst plan), snd plan) else plan
      | Some g \<Rightarrow>
          if gr_status g = GrantRevoked then plan
          else
            let activations = (if awaits_activation g then map_put (gr_id g) g (snd plan) else snd plan);
                changes = (if gr_expiresAt g \<noteq> ed_expiresAt x \<or> delivery_lost live g
                  then map_put (ed_deviceId x) (UpdateAccess g (ed_expiresAt x)) (fst plan) else fst plan)
            in (changes, activations))"

definition plan_revoked ::
    "version list \<Rightarrow> grant \<Rightarrow> (uuid \<times> access_change) list \<Rightarrow> (uuid \<times> access_change) list" where
  "plan_revoked live g changes =
     (if gr_status g = GrantRevoked \<and> delivery_lost live g then map_put (gr_deviceId g) (RepairRevoke g) changes
      else changes)"

definition repair_plan_of ::
    "bool \<Rightarrow> expected_device list \<Rightarrow> grant list \<Rightarrow> version list \<Rightarrow> repair_plan" where
  "repair_plan_of mayCreateMissing expected existing live =
     (let existingByDevice = fold (\<lambda>g. map_put (gr_deviceId g) g) existing [];
          (changes, activations) = fold (plan_expected mayCreateMissing existingByDevice live) expected ([], [])
      in (fold (plan_revoked live) existing changes, activations))"

definition activate_grant :: "uuid \<Rightarrow> db \<Rightarrow> db" where
  "activate_grant gid = update_grants [gid] (\<lambda>g. g\<lparr>gr_status := GrantActive\<rparr>)"

text \<open>One change of \<open>networkChanges\<close>, with the identifier it adds to \<open>changedGrantIds\<close>.\<close>

definition change_access ::
    "(string \<Rightarrow> string \<Rightarrow> byte list) \<times> string \<Rightarrow> (uuid \<Rightarrow> uuid) \<Rightarrow> uuid \<Rightarrow> version \<Rightarrow> access_change \<Rightarrow> uuid tx" where
  "change_access credentials grantIdOf nodeId target change d =
     (case change of
        RepairRevoke g \<Rightarrow> Inr (gr_id g, update_grants [gr_id g] (\<lambda>h. h\<lparr>gr_desiredVersion := target\<rparr>) d)
      | UpdateAccess g e \<Rightarrow> Inr (gr_id g, update_grants [gr_id g]
          (\<lambda>h. h\<lparr>gr_status := (if awaits_activation g then GrantActive else gr_status h),
             gr_expiresAt := e, gr_desiredVersion := target\<rparr>) d)
      | CreateAccess x \<Rightarrow>
          let gid = grantIdOf (ed_deviceId x)
          in case provide_credential (Some credentials)
                 \<lparr>cb_grantId = gid, cb_deviceId = ed_deviceId x, cb_nodeId = nodeId\<rparr> of
               Inl e \<Rightarrow> Inl e
             | Inr (_, hash) \<Rightarrow> map_sum id (\<lambda>d'. (gid, d')) (create_grant
                 \<lparr>gr_id = gid, gr_nodeId = nodeId, gr_deviceId = ed_deviceId x, gr_status = GrantPending,
                  gr_credentialHash = hash, gr_derivationVersion = Some DATA_PLANE_CREDENTIAL_DERIVATION_VERSION,
                  gr_expiresAt = ed_expiresAt x, gr_desiredVersion = target, gr_appliedVersion = 0,
                  gr_revokedAt = None\<rparr> d))"

fun change_all :: "('c \<Rightarrow> uuid tx) \<Rightarrow> 'c list \<Rightarrow> uuid list tx" where
  "change_all f [] d = Inr ([], d)"
| "change_all f (c # cs) d = (case f c d of
     Inl e \<Rightarrow> Inl e
   | Inr (gid, d1) \<Rightarrow> map_sum id (\<lambda>(gids, d2). (gid # gids, d2)) (change_all f cs d1))"

definition reconcileOneNode ::
    "(string \<Rightarrow> string \<Rightarrow> byte list) \<times> string \<Rightarrow> uuid \<Rightarrow> bool \<Rightarrow> (uuid \<Rightarrow> uuid) \<Rightarrow> uuid \<Rightarrow> uuid \<Rightarrow> instant \<Rightarrow> bool tx" where
  "reconcileOneNode credentials nodeId includeMissingGrants grantIdOf jid eid now d =
     (case find (\<lambda>n. nd_id n = nodeId \<and> nd_status n \<in> {NodeHealthy, NodeDraining, NodeDisabled}) (nodes d) of
        None \<Rightarrow> Inr (False, d)
      | Some n \<Rightarrow>
          let (networkChanges, localActivations) = repair_plan_of (nd_status n = NodeHealthy \<or> includeMissingGrants)
                (expectedDevices now d) (existingGrants nodeId d) (liveDeliveryVersions nodeId d)
          in if networkChanges = [] \<and> localActivations = [] then Inr (False, d)
             else
               let d1 = fold (\<lambda>(gid, _). activate_grant gid) localActivations d
               in if networkChanges = []
                  then Inr (True, write_audit None ''node-access.reconciled'' ''Node'' nodeId d1)
                  else
                    let (target, d2) = incrementNodeVersion nodeId d1
                    in case change_all (change_access credentials grantIdOf nodeId target)
                          (map snd networkChanges) d2 of
                         Inl e \<Rightarrow> Inl e
                       | Inr (changedGrantIds, d3) \<Rightarrow>
                           (case createNodeSyncOperation jid eid nodeId (hd changedGrantIds) target
                                (''reconcile:'' @ nodeId @ '':'' @ version_text target)
                                (''reconcile-outbox:'' @ nodeId @ '':'' @ version_text target) now d3 of
                              Inl e \<Rightarrow> Inl e
                            | Inr d4 \<Rightarrow>
                                Inr (True, write_audit None ''node-access.reconciled'' ''Node'' nodeId d4)))"

definition reconcileNodeBeforeHealthy ::
    "(string \<Rightarrow> string \<Rightarrow> byte list) \<times> string \<Rightarrow> uuid \<Rightarrow> (uuid \<Rightarrow> uuid) \<Rightarrow> uuid \<Rightarrow> uuid \<Rightarrow> instant \<Rightarrow> bool tx" where
  "reconcileNodeBeforeHealthy credentials nodeId = reconcileOneNode credentials nodeId True"

text \<open>\<open>OrchestrationService.restoreNodeToHealthy\<close>: two transactions; a reconciliation that changed
  something has to be delivered first.\<close>

datatype restore_result = ReconciliationRequired | Restored NodeStatus

definition restoreNodeToHealthy ::
    "(string \<Rightarrow> string \<Rightarrow> byte list) \<times> string \<Rightarrow> uuid \<Rightarrow> uuid option \<Rightarrow> (uuid \<Rightarrow> uuid) \<Rightarrow> uuid \<Rightarrow> uuid \<Rightarrow> instant \<Rightarrow>
     restore_result tx" where
  "restoreNodeToHealthy credentials nodeId actor grantIdOf jid eid now d =
     (case reconcileNodeBeforeHealthy credentials nodeId grantIdOf jid eid now d of
        Inl e \<Rightarrow> Inl e
      | Inr (True, d1) \<Rightarrow> Inr (ReconciliationRequired, d1)
      | Inr (False, d1) \<Rightarrow> map_sum id (\<lambda>(st, d2). (Restored st, d2)) (restoreHealthy nodeId actor d1))"

section \<open>Candidates\<close>

definition on_node :: "uuid \<Rightarrow> uuid \<Rightarrow> grant \<Rightarrow> bool" where
  "on_node nodeId deviceId g \<longleftrightarrow> gr_nodeId g = nodeId \<and> gr_deviceId g = deviceId"

text \<open>\<open>appliedVersion < desiredVersion\<close> and no live delivery of the desired version.\<close>

definition undelivered :: "db \<Rightarrow> uuid \<Rightarrow> grant \<Rightarrow> bool" where
  "undelivered d nodeId g \<longleftrightarrow> gr_appliedVersion g < gr_desiredVersion g
     \<and> \<not> (\<exists>j \<in> set (jobs d). jb_nodeId j = nodeId \<and> jb_targetVersion j = gr_desiredVersion g \<and> delivery_live d j)"

definition entitled_device_stale :: "bool \<Rightarrow> instant \<Rightarrow> db \<Rightarrow> uuid \<Rightarrow> device \<Rightarrow> bool" where
  "entitled_device_stale mayCreateMissing now d nodeId v \<longleftrightarrow> dv_status v = DeviceActive
     \<and> (case findEffectiveExpiry (dv_userId v) now d of
          None \<Rightarrow> False
        | Some e \<Rightarrow>
            mayCreateMissing \<and> \<not> (\<exists>g \<in> set (grants d). on_node nodeId (dv_id v) g)
          \<or> (\<exists>g \<in> set (grants d). on_node nodeId (dv_id v) g \<and> live_grant g
               \<and> (gr_expiresAt g \<noteq> e \<or> awaits_activation g \<or> undelivered d nodeId g)))"

definition node_needs_repair :: "bool \<Rightarrow> instant \<Rightarrow> db \<Rightarrow> uuid \<Rightarrow> bool" where
  "node_needs_repair mayCreateMissing now d nodeId \<longleftrightarrow>
     (\<exists>v \<in> set (devices d). entitled_device_stale mayCreateMissing now d nodeId v)
   \<or> (\<exists>g \<in> set (grants d). gr_nodeId g = nodeId \<and> gr_status g = GrantRevoked \<and> undelivered d nodeId g)"

definition reconciliation_candidate :: "instant \<Rightarrow> db \<Rightarrow> node \<Rightarrow> bool" where
  "reconciliation_candidate now d n \<longleftrightarrow> nd_status n \<in> {NodeHealthy, NodeDraining, NodeDisabled}
     \<and> node_needs_repair (nd_status n = NodeHealthy) now d (nd_id n)"

text \<open>A live grant of the user on a node under access control without the expiry job of the
  subscription.\<close>

definition expiry_pending_on :: "db \<Rightarrow> subscription \<Rightarrow> node \<Rightarrow> bool" where
  "expiry_pending_on d s n \<longleftrightarrow> nd_status n \<in> {NodeHealthy, NodeDraining, NodeDisabled}
     \<and> (\<exists>g \<in> set (grants d). gr_nodeId g = nd_id n \<and> user_device (sb_userId s) d (gr_deviceId g) \<and> live_grant g)
     \<and> \<not> (\<exists>j \<in> set (jobs d). jb_key j = expiry_job_key (sb_id s) (nd_id n))"

definition past_expiry :: "instant \<Rightarrow> subscription \<Rightarrow> bool" where
  "past_expiry now s \<longleftrightarrow> (case sb_expiresAt s of None \<Rightarrow> False | Some e \<Rightarrow> e \<le> now)"

definition expired_candidate :: "instant \<Rightarrow> db \<Rightarrow> subscription \<Rightarrow> bool" where
  "expired_candidate now d s \<longleftrightarrow> past_expiry now s
     \<and> (sb_status s = SubActive
        \<or> sb_status s = SubExpired \<and> (\<exists>n \<in> set (nodes d). expiry_pending_on d s n))"

definition findPendingExpiryNodes :: "uuid \<Rightarrow> instant \<Rightarrow> db \<Rightarrow> uuid list" where
  "findPendingExpiryNodes subscriptionId now d = sort (remdups (map nd_id (filter
     (\<lambda>n. \<exists>s \<in> set (subscriptions d). sb_id s = subscriptionId \<and> past_expiry now s \<and> expiry_pending_on d s n)
     (nodes d))))"

text \<open>A keyset query: \<open>WHERE ... AND id > afterId AND id <= throughId ORDER BY id LIMIT limit\<close>.\<close>

definition keyset_query ::
    "('r \<Rightarrow> uuid) \<Rightarrow> 'r list \<Rightarrow> nat \<Rightarrow> uuid option \<Rightarrow> uuid option \<Rightarrow> 'r list" where
  "keyset_query key rows limit afterId throughId = take limit (sort_key key (filter
     (\<lambda>r. (case afterId of None \<Rightarrow> True | Some a \<Rightarrow> a < key r)
        \<and> (case throughId of None \<Rightarrow> True | Some b \<Rightarrow> key r \<le> b)) rows))"

definition queryReconciliationCandidates ::
    "nat \<Rightarrow> uuid option \<Rightarrow> uuid option \<Rightarrow> instant \<Rightarrow> db \<Rightarrow> node list" where
  "queryReconciliationCandidates limit afterId throughId now d =
     keyset_query nd_id (filter (reconciliation_candidate now d) (nodes d)) limit afterId throughId"

definition queryExpiredSubscriptionCandidates ::
    "nat \<Rightarrow> uuid option \<Rightarrow> uuid option \<Rightarrow> instant \<Rightarrow> db \<Rightarrow> subscription list" where
  "queryExpiredSubscriptionCandidates limit afterId throughId now d =
     keyset_query sb_id (filter (expired_candidate now d) (subscriptions d)) limit afterId throughId"

section \<open>Batches\<close>

datatype tx_fate = Committed | RolledBack | ReplyLost

record maintenance_env =
  me_now :: "nat \<Rightarrow> instant"
  me_fate :: "nat \<Rightarrow> tx_fate"
  me_others :: "nat \<Rightarrow> db \<Rightarrow> db"
  me_jobId :: "nat \<Rightarrow> uuid"
  me_eventId :: "nat \<Rightarrow> uuid"
  me_grantId :: "nat \<Rightarrow> uuid \<Rightarrow> uuid"

text \<open>The store during a batch: its two cursors, the number of statements sent, the database.\<close>

record access_store =
  as_expiryCursor :: "uuid option"
  as_reconciliationCursor :: "uuid option"
  as_statement :: nat
  as_db :: db

definition run_tx :: "maintenance_env \<Rightarrow> (nat \<Rightarrow> 'a tx) \<Rightarrow> access_store \<Rightarrow> 'a option \<times> access_store" where
  "run_tx env tx s =
     (let k = as_statement s; d = me_others env k (as_db s); s1 = s\<lparr>as_statement := k + 1, as_db := d\<rparr>
      in case (me_fate env k, tx k d) of
           (RolledBack, _) \<Rightarrow> (None, s1)
         | (_, Inl _) \<Rightarrow> (None, s1)
         | (Committed, Inr (x, d')) \<Rightarrow> (Some x, s1\<lparr>as_db := d'\<rparr>)
         | (ReplyLost, Inr (x, d')) \<Rightarrow> (None, s1\<lparr>as_db := d'\<rparr>))"

definition run_query :: "maintenance_env \<Rightarrow> (instant \<Rightarrow> db \<Rightarrow> 'a) \<Rightarrow> access_store \<Rightarrow> 'a option \<times> access_store" where
  "run_query env q = run_tx env (\<lambda>k d. Inr (q (me_now env k) d, d))"

text \<open>\<open>findReconciliationCandidates\<close> and \<open>findExpiredSubscriptionCandidates\<close> have the same shape: the
  rows after the cursor, then from the start up to the cursor while the batch is not full.\<close>

definition find_candidates ::
    "maintenance_env \<Rightarrow> (nat \<Rightarrow> uuid option \<Rightarrow> uuid option \<Rightarrow> instant \<Rightarrow> db \<Rightarrow> 'r list) \<Rightarrow> nat \<Rightarrow> uuid option \<Rightarrow>
     access_store \<Rightarrow> 'r list option \<times> access_store" where
  "find_candidates env query limit cursor s =
     (case run_query env (query limit cursor None) s of
        (None, s1) \<Rightarrow> (None, s1)
      | (Some candidates, s1) \<Rightarrow>
          if length candidates < limit \<and> cursor \<noteq> None
          then (case run_query env (query (limit - length candidates) None cursor) s1 of
              (None, s2) \<Rightarrow> (None, s2)
            | (Some wrapped, s2) \<Rightarrow> (Some (candidates @ wrapped), s2))
          else (Some candidates, s1))"

definition next_cursor :: "('r \<Rightarrow> uuid) \<Rightarrow> 'r list \<Rightarrow> uuid option \<Rightarrow> uuid option" where
  "next_cursor key candidates cursor = (if candidates = [] then cursor else Some (key (last candidates)))"

definition findReconciliationCandidates ::
    "maintenance_env \<Rightarrow> nat \<Rightarrow> access_store \<Rightarrow> node list option \<times> access_store" where
  "findReconciliationCandidates env limit s =
     (case find_candidates env queryReconciliationCandidates limit (as_reconciliationCursor s) s of
        (None, s1) \<Rightarrow> (None, s1)
      | (Some candidates, s1) \<Rightarrow> (Some candidates,
          s1\<lparr>as_reconciliationCursor := next_cursor nd_id candidates (as_reconciliationCursor s1)\<rparr>))"

definition findExpiredSubscriptionCandidates ::
    "maintenance_env \<Rightarrow> nat \<Rightarrow> access_store \<Rightarrow> subscription list option \<times> access_store" where
  "findExpiredSubscriptionCandidates env limit s =
     (case find_candidates env queryExpiredSubscriptionCandidates limit (as_expiryCursor s) s of
        (None, s1) \<Rightarrow> (None, s1)
      | (Some candidates, s1) \<Rightarrow> (Some candidates,
          s1\<lparr>as_expiryCursor := next_cursor sb_id candidates (as_expiryCursor s1)\<rparr>))"

text \<open>\<open>AccessMaintenanceBatchResult\<close> is the pair of \<open>processed\<close> and \<open>failed\<close>; \<open>None\<close> is a batch that
  throws because a candidate query failed.\<close>

definition reconcile_candidate ::
    "maintenance_env \<Rightarrow> (string \<Rightarrow> string \<Rightarrow> byte list) \<times> string \<Rightarrow> node \<Rightarrow>
     (nat \<times> nat) \<times> access_store \<Rightarrow> (nat \<times> nat) \<times> access_store" where
  "reconcile_candidate env credentials candidate = (\<lambda>((repaired, failed), s).
     (case run_tx env (\<lambda>k. reconcileOneNode credentials (nd_id candidate) False (me_grantId env k)
               (me_jobId env k) (me_eventId env k) (me_now env k)) s of
        (None, s1) \<Rightarrow> ((repaired, failed + 1), s1)
      | (Some changed, s1) \<Rightarrow> ((if changed then repaired + 1 else repaired, failed), s1)))"

definition reconcileAccess ::
    "maintenance_env \<Rightarrow> (string \<Rightarrow> string \<Rightarrow> byte list) \<times> string \<Rightarrow> nat \<Rightarrow> access_store \<Rightarrow>
     (nat \<times> nat) option \<times> access_store" where
  "reconcileAccess env credentials limit s =
     (case findReconciliationCandidates env limit s of
        (None, s1) \<Rightarrow> (None, s1)
      | (Some candidates, s1) \<Rightarrow>
          (case fold (reconcile_candidate env credentials) candidates ((0, 0), s1) of
             (counts, s2) \<Rightarrow> (Some counts, s2)))"

definition expire_on_node ::
    "maintenance_env \<Rightarrow> uuid \<Rightarrow> uuid \<Rightarrow> (bool \<times> nat) \<times> access_store \<Rightarrow> (bool \<times> nat) \<times> access_store" where
  "expire_on_node env subscriptionId nodeId = (\<lambda>((changed, failed), s).
     (case run_tx env (\<lambda>k. scheduleExpiredSubscriptionOnNode subscriptionId nodeId
               (me_jobId env k) (me_eventId env k) (me_now env k)) s of
        (None, s1) \<Rightarrow> ((changed, failed + 1), s1)
      | (Some scheduled, s1) \<Rightarrow> ((changed \<or> scheduled, failed), s1)))"

definition expire_candidate ::
    "maintenance_env \<Rightarrow> subscription \<Rightarrow> (nat \<times> nat) \<times> access_store \<Rightarrow> (nat \<times> nat) \<times> access_store" where
  "expire_candidate env candidate = (\<lambda>((processed, failed), s).
     (case run_query env (findPendingExpiryNodes (sb_id candidate)) s of
        (None, s1) \<Rightarrow> ((processed, failed + 1), s1)
      | (Some nodeIds, s1) \<Rightarrow>
          (case fold (expire_on_node env (sb_id candidate)) nodeIds ((False, failed), s1) of
             ((changed, failed1), s2) \<Rightarrow>
               (case run_tx env (\<lambda>k. materializeExpiredSubscriptionStatus (sb_id candidate) (me_now env k)) s2 of
                  (None, s3) \<Rightarrow> ((if changed then processed + 1 else processed, failed1 + 1), s3)
                | (Some materialized, s3) \<Rightarrow>
                    ((if changed \<or> materialized then processed + 1 else processed, failed1), s3)))))"

definition materializeExpiredSubscriptions ::
    "maintenance_env \<Rightarrow> nat \<Rightarrow> access_store \<Rightarrow> (nat \<times> nat) option \<times> access_store" where
  "materializeExpiredSubscriptions env limit s =
     (case findExpiredSubscriptionCandidates env limit s of
        (None, s1) \<Rightarrow> (None, s1)
      | (Some candidates, s1) \<Rightarrow>
          (case fold (expire_candidate env) candidates ((0, 0), s1) of
             (counts, s2) \<Rightarrow> (Some counts, s2)))"

text \<open>\<open>SubscriptionAccessMaintenance.runOnce\<close>: the number of expired subscriptions, of repaired nodes and
  of failures.\<close>

definition maintenance_runOnce ::
    "maintenance_env \<Rightarrow> (string \<Rightarrow> string \<Rightarrow> byte list) \<times> string \<Rightarrow> nat \<Rightarrow> access_store \<Rightarrow>
     (nat \<times> nat \<times> nat) option \<times> access_store" where
  "maintenance_runOnce env credentials batchSize s =
     (case materializeExpiredSubscriptions env batchSize s of
        (None, s1) \<Rightarrow> (None, s1)
      | (Some (expired, failed), s1) \<Rightarrow>
          (case reconcileAccess env credentials batchSize s1 of
             (None, s2) \<Rightarrow> (None, s2)
           | (Some (repaired, failed'), s2) \<Rightarrow> (Some (expired, repaired, failed + failed'), s2)))"

end
