(* ===== verification/Bot_Requests.thy ===== *)
theory Bot_Requests
  imports Control_Plane_Db
begin

text \<open>
  Requests of the bot (\<open>apps/api/src/auth/bot-request-execution.service.ts\<close>): an authenticated request runs
  its operation at most once; its response is stored in the same transaction and answers every repeat.

  A world is the pair of the bot's tables and the state the operations work on.  An operation is a
  function of that state that fails or returns a response; a failure rolls everything back.
\<close>

section \<open>Tables\<close>

record bot_credential =
  bc_id :: uuid
  bc_principalId :: uuid
  bc_keyVersion :: int
  bc_keyCiphertext :: string
  bc_nonce :: string
  bc_revokedAt :: "instant option"

record bot_request =
  br_credentialId :: uuid
  br_idempotencyKey :: string
  br_method :: string
  br_path :: string
  br_principalId :: uuid
  br_requestHash :: string
  br_telegramUserId :: string

type_synonym bot_scope = "uuid \<times> string \<times> string \<times> string \<times> string"

record 'b bot_idempotency =
  bi_id :: uuid
  bi_scope :: bot_scope
  bi_requestHash :: string
  bi_responseStatus :: "int option"
  bi_responseBody :: "'b option"
  bi_completedAt :: "instant option"

record 'b bot_tables =
  bt_credentials :: "bot_credential list"
  bt_idempotency :: "'b bot_idempotency list"

definition idempotencyScope :: "bot_request \<Rightarrow> bot_scope" where
  "idempotencyScope r = (br_principalId r, br_method r, br_path r, br_telegramUserId r, br_idempotencyKey r)"

section \<open>Execution\<close>

record 'b execution =
  ex_statusCode :: int
  ex_body :: 'b
  ex_replayed :: bool

type_synonym ('b, 's) bot_operation = "'s \<Rightarrow> cp_error + ((int \<times> 'b) \<times> 's)"

definition active_credential :: "bot_request \<Rightarrow> bot_credential \<Rightarrow> bool" where
  "active_credential r c \<longleftrightarrow> bc_id c = br_credentialId r \<and> bc_principalId c = br_principalId r \<and> bc_revokedAt c = None"

definition stored_response :: "bot_request \<Rightarrow> 'b bot_idempotency \<Rightarrow> cp_error + 'b execution" where
  "stored_response r row =
     (if bi_requestHash row \<noteq> br_requestHash r
      then Inl (Thrown ''Idempotency key conflicts with another request'')
      else case (bi_completedAt row, bi_responseStatus row, bi_responseBody row) of
        (Some _, Some st, Some b) \<Rightarrow> Inr \<lparr>ex_statusCode = st, ex_body = b, ex_replayed = True\<rparr>
      | _ \<Rightarrow> Inl (Thrown ''Bot request result is unavailable''))"

definition create_pending :: "uuid \<Rightarrow> bot_request \<Rightarrow> 'b bot_tables \<Rightarrow> cp_error + 'b bot_tables" where
  "create_pending rid r t =
     (if \<exists>row \<in> set (bt_idempotency t). bi_id row = rid \<or> bi_scope row = idempotencyScope r
      then Inl (DbError ''Unique constraint failed on BotRequestIdempotency'')
      else Inr (t\<lparr>bt_idempotency := bt_idempotency t @
        [\<lparr>bi_id = rid, bi_scope = idempotencyScope r, bi_requestHash = br_requestHash r,
          bi_responseStatus = None, bi_responseBody = None, bi_completedAt = None\<rparr>]\<rparr>))"

definition complete_pending :: "uuid \<Rightarrow> int \<Rightarrow> 'b \<Rightarrow> instant \<Rightarrow> 'b bot_tables \<Rightarrow> 'b bot_tables" where
  "complete_pending rid st b now t = t\<lparr>bt_idempotency := update_rows (\<lambda>row. bi_id row = rid)
     (\<lambda>row. row\<lparr>bi_responseStatus := Some st, bi_responseBody := Some b, bi_completedAt := Some now\<rparr>)
     (bt_idempotency t)\<rparr>"

definition bot_execute ::
    "bot_request \<Rightarrow> uuid \<Rightarrow> instant \<Rightarrow> ('b, 's) bot_operation \<Rightarrow> 'b bot_tables \<times> 's \<Rightarrow>
     cp_error + ('b execution \<times> 'b bot_tables \<times> 's)" where
  "bot_execute r rid now operation w =
     (let (t, s) = w
      in if length (filter (active_credential r) (bt_credentials t)) \<noteq> 1
         then Inl (Thrown ''Bot request is invalid'')
         else case find (\<lambda>row. bi_scope row = idempotencyScope r) (bt_idempotency t) of
           Some row \<Rightarrow> map_sum id (\<lambda>x. (x, w)) (stored_response r row)
         | None \<Rightarrow> (case create_pending rid r t of
             Inl e \<Rightarrow> Inl e
           | Inr t1 \<Rightarrow> (case operation s of
               Inl e \<Rightarrow> Inl e
             | Inr ((st, b), s1) \<Rightarrow>
                 if st < 100 \<or> 599 < st then Inl (Thrown ''Bot operation returned an invalid HTTP status'')
                 else Inr (\<lparr>ex_statusCode = st, ex_body = b, ex_replayed = False\<rparr>,
                   complete_pending rid st b now t1, s1))))"

section \<open>What an execution leaves\<close>

text \<open>The stored response of a request, and the histories in which it is looked for again: executions of
  other requests, changes of credentials, and any change of the state the operations work on.\<close>

definition answered :: "bot_request \<Rightarrow> int \<Rightarrow> 'b \<Rightarrow> 'b bot_tables \<Rightarrow> bool" where
  "answered r st b t \<longleftrightarrow> (\<exists>row at. find (\<lambda>row. bi_scope row = idempotencyScope r) (bt_idempotency t) = Some row
     \<and> bi_requestHash row = br_requestHash r \<and> bi_responseStatus row = Some st \<and> bi_responseBody row = Some b
     \<and> bi_completedAt row = Some at)"

definition bot_ids_ok :: "'b bot_tables \<Rightarrow> bool" where
  "bot_ids_ok t \<longleftrightarrow> distinct (map bi_id (bt_idempotency t)) \<and> distinct (map bi_scope (bt_idempotency t))"

inductive bot_step :: "'b bot_tables \<times> 's \<Rightarrow> 'b bot_tables \<times> 's \<Rightarrow> bool" where
  bot_executed: "bot_execute r rid now operation w = Inr (x, w') \<Longrightarrow> bot_step w w'"
| bot_credentials_changed: "bot_step (t, s) (t\<lparr>bt_credentials := cs\<rparr>, s)"
| bot_state_changed: "bot_step (t, s) (t, s')"

lemma bot_execute_run:
  assumes "bot_execute r rid now operation (t, s) = Inr (x, w')"
  obtains (stored) row where "w' = (t, s)" "find (\<lambda>row. bi_scope row = idempotencyScope r) (bt_idempotency t) = Some row"
      "stored_response r row = Inr x"
  | (fresh) t1 st b s1 where "find (\<lambda>row. bi_scope row = idempotencyScope r) (bt_idempotency t) = None"
      "create_pending rid r t = Inr t1" "operation s = Inr ((st, b), s1)" "100 \<le> st" "st \<le> 599"
      "x = \<lparr>ex_statusCode = st, ex_body = b, ex_replayed = False\<rparr>" "w' = (complete_pending rid st b now t1, s1)"
  using assms by (auto simp: bot_execute_def map_sum_def split: if_splits option.splits sum.splits)

lemma find_completed:
  assumes "find p rows = Some row" "\<And>row. p (f row) = p row" "\<And>row. p row \<Longrightarrow> \<not> q row"
  shows "find p (update_rows q f rows) = Some row"
  using assms find_member [OF assms(1)] by (simp add: find_update_rows)

lemma fresh_answered:
  assumes ids: "bot_ids_ok t" and new: "create_pending rid r t = Inr t1"
  shows "answered r st b (complete_pending rid st b now t1)" "bot_ids_ok (complete_pending rid st b now t1)"
proof -
  let ?row = "\<lparr>bi_id = rid, bi_scope = idempotencyScope r, bi_requestHash = br_requestHash r,
          bi_responseStatus = None, bi_responseBody = None, bi_completedAt = None\<rparr>"
  have t1: "bt_idempotency t1 = bt_idempotency t @ [?row]"
    and free: "\<forall>row \<in> set (bt_idempotency t). bi_id row \<noteq> rid \<and> bi_scope row \<noteq> idempotencyScope r"
    using new by (auto simp: create_pending_def split: if_splits)
  have "find (\<lambda>row. bi_scope row = idempotencyScope r) (bt_idempotency t1) = Some ?row"
    using free by (auto simp: t1 find_append find_None_iff split: option.split dest: find_member)
  then show "answered r st b (complete_pending rid st b now t1)"
    by (simp add: answered_def complete_pending_def find_update_rows)
  show "bot_ids_ok (complete_pending rid st b now t1)"
    using ids free by (auto simp: bot_ids_ok_def complete_pending_def map_update_rows_key t1)
qed

lemma answered_step:
  assumes "bot_step w w'" "bot_ids_ok (fst w)"
  shows "bot_ids_ok (fst w') \<and> (answered r st b (fst w) \<longrightarrow> answered r st b (fst w'))"
  using assms
proof (induction rule: bot_step.induct)
  case (bot_executed q rid now operation w x w')
  obtain t s where w: "w = (t, s)" by fastforce
  from bot_executed(1) [unfolded w] show ?case
  proof (cases rule: bot_execute_run)
    case (fresh t1 st' b' s1)
    have "answered r st b (complete_pending rid st' b' now t1)" if a: "answered r st b t"
    proof -
      obtain row at where row: "find (\<lambda>row. bi_scope row = idempotencyScope r) (bt_idempotency t) = Some row"
        "bi_requestHash row = br_requestHash r" "bi_responseStatus row = Some st" "bi_responseBody row = Some b"
        "bi_completedAt row = Some at"
        using a unfolding answered_def by blast
      obtain new where t1: "bt_idempotency t1 = bt_idempotency t @ [new]"
        and free: "\<forall>row \<in> set (bt_idempotency t). bi_id row \<noteq> rid"
        using fresh(2) by (auto simp: create_pending_def split: if_splits)
      have "bi_id row \<noteq> rid" using free find_member [OF row(1)] by blast
      then have "find (\<lambda>row. bi_scope row = idempotencyScope r) (bt_idempotency (complete_pending rid st' b' now t1)) = Some row"
        using row(1) by (simp add: complete_pending_def find_update_rows find_append t1)
      then show ?thesis using row unfolding answered_def by blast
    qed
    then show ?thesis using fresh_answered(2) [OF _ fresh(2)] bot_executed(2) by (simp add: w fresh(7))
  next
    case (stored row)
    then show ?thesis using bot_executed(2) w by simp
  qed
next
  case (bot_credentials_changed t s cs)
  then show ?case by (simp add: answered_def bot_ids_ok_def)
next
  case (bot_state_changed t s s')
  then show ?case by simp
qed

lemma answered_history:
  assumes "bot_step\<^sup>*\<^sup>* w w'" "bot_ids_ok (fst w)" "answered r st b (fst w)"
  shows "answered r st b (fst w')"
proof -
  have "bot_ids_ok (fst w') \<and> answered r st b (fst w')" using assms(1)
  proof (induction rule: rtranclp_induct)
    case base
    show ?case using assms(2,3) by simp
  next
    case (step x y)
    then show ?case using answered_step [OF step(2)] by simp
  qed
  then show ?thesis by (rule conjunct2)
qed

lemma answered_replay:
  assumes a: "answered r st b (fst w)" and c: "length (filter (active_credential r) (bt_credentials (fst w))) = 1"
  shows "bot_execute r rid now operation w = Inr (\<lparr>ex_statusCode = st, ex_body = b, ex_replayed = True\<rparr>, w)"
  using a c by (auto simp: answered_def bot_execute_def stored_response_def split: prod.split)

lemma execution_answered:
  assumes run: "bot_execute r rid now operation w = Inr (x, w')" and ids: "bot_ids_ok (fst w)"
  shows "answered r (ex_statusCode x) (ex_body x) (fst w')" "bot_ids_ok (fst w')"
proof -
  obtain t s where w: "w = (t, s)" by fastforce
  from run [unfolded w] have "answered r (ex_statusCode x) (ex_body x) (fst w') \<and> bot_ids_ok (fst w')"
  proof (cases rule: bot_execute_run)
    case (stored row)
    then show ?thesis using ids
      by (auto simp: w answered_def stored_response_def split: if_splits option.splits)
  next
    case (fresh t1 st b s1)
    then show ?thesis using fresh_answered [OF _ fresh(2)] ids by (simp add: w)
  qed
  then show "answered r (ex_statusCode x) (ex_body x) (fst w')" "bot_ids_ok (fst w')" by simp_all
qed

text \<open>C22. A request of the bot takes effect at most once: once it was answered, then whatever happens
  afterwards (other requests, changes of credentials, changes of the state the operations work on), as
  long as one credential of its principal is active, repeating it returns the same response from the
  record and runs nothing; the same key with another content is refused.\<close>

theorem bot_request_runs_once:
  fixes operation operation' :: "('b, 's) bot_operation"
  assumes "bot_execute r rid now operation w = Inr (x, w')" "bot_ids_ok (fst w)" "bot_step\<^sup>*\<^sup>* w' w''"
    and "length (filter (active_credential q) (bt_credentials (fst w''))) = 1" "idempotencyScope q = idempotencyScope r"
  shows "bot_execute q rid' now' operation' w'' =
    (if br_requestHash q = br_requestHash r
     then Inr (\<lparr>ex_statusCode = ex_statusCode x, ex_body = ex_body x, ex_replayed = True\<rparr>, w'')
     else Inl (Thrown ''Idempotency key conflicts with another request''))"
proof -
  have a: "answered r (ex_statusCode x) (ex_body x) (fst w'')"
    using execution_answered [OF assms(1,2)] answered_history [OF assms(3)] by blast
  show ?thesis
  proof (cases "br_requestHash q = br_requestHash r")
    case True
    then have "answered q (ex_statusCode x) (ex_body x) (fst w'')" using a assms(5) by (simp add: answered_def)
    then show ?thesis using answered_replay [OF _ assms(4)] True by simp
  next
    case False
    then show ?thesis
      using a assms(4,5) by (auto simp: answered_def bot_execute_def stored_response_def split: prod.split)
  qed
qed

definition sample_bot_request :: bot_request where
  "sample_bot_request = \<lparr>br_credentialId = ''key'', br_idempotencyKey = ''once'', br_method = ''POST'', br_path = ''/trial'',
     br_principalId = ''bot'', br_requestHash = ''h1'', br_telegramUserId = ''7''\<rparr>"

definition sample_bot_tables :: "nat bot_tables" where
  "sample_bot_tables = \<lparr>bt_credentials = [\<lparr>bc_id = ''key'', bc_principalId = ''bot'', bc_keyVersion = 1,
     bc_keyCiphertext = [], bc_nonce = [], bc_revokedAt = None\<rparr>], bt_idempotency = []\<rparr>"

definition counting :: "(nat, nat) bot_operation" where
  "counting n = Inr ((200, n), Suc n)"

text \<open>An operation that counts its runs: the repeat does not run it.\<close>

theorem bot_request_runs_once_witness:
  "\<exists>w. bot_execute sample_bot_request ''r1'' 10 counting (sample_bot_tables, 5) =
       Inr (\<lparr>ex_statusCode = 200, ex_body = 5, ex_replayed = False\<rparr>, w) \<and> snd w = 6
     \<and> bot_execute sample_bot_request ''r2'' 20 counting w = Inr (\<lparr>ex_statusCode = 200, ex_body = 5, ex_replayed = True\<rparr>, w)"
proof -
  obtain w where run: "bot_execute sample_bot_request ''r1'' 10 counting (sample_bot_tables, 5) =
       Inr (\<lparr>ex_statusCode = 200, ex_body = 5, ex_replayed = False\<rparr>, w)" "snd w = 6"
      "bt_credentials (fst w) = bt_credentials sample_bot_tables"
    by (simp add: bot_execute_def sample_bot_tables_def active_credential_def sample_bot_request_def create_pending_def
        counting_def complete_pending_def)
  have one: "length (filter (active_credential sample_bot_request) (bt_credentials sample_bot_tables)) = 1" by code_simp
  have "bot_ids_ok (fst (sample_bot_tables, 5::nat))" by code_simp
  then have "bot_execute sample_bot_request ''r2'' 20 counting w = Inr (\<lparr>ex_statusCode = 200, ex_body = 5, ex_replayed = True\<rparr>, w)"
    using bot_request_runs_once [OF run(1), of w sample_bot_request] run(3) one by simp
  then show ?thesis using run by blast
qed

end
