(* ===== verification/Trial_Activation.thy ===== *)
theory Trial_Activation
  imports Subscription_Access Bot_Requests
begin

text \<open>
  Trial activation (\<open>apps/api/src/trials/trial-activation.service.ts\<close>): the bot activates a trial for a
  Telegram user, at most once per user and within the limit of the campaign; the subscription it creates
  gives access to the devices the user already has.

  \<open>account_db\<close> adds to the control-plane tables those of users, plans, campaigns and activations, and the
  column \<open>Subscription.planId\<close>, which nothing else reads.  Days have 24 hours (the session runs in UTC).
  Identifiers of new rows are arguments, the one of a grant or job a function of its node and device.
\<close>

section \<open>Tables\<close>

record user =
  us_id :: uuid
  us_telegramUserId :: string
  us_role :: string

record plan =
  pl_id :: uuid
  pl_deviceLimit :: int
  pl_isActive :: bool

record campaign =
  cg_id :: uuid
  cg_planId :: uuid
  cg_durationDays :: int
  cg_maxActivations :: "int option"
  cg_startsAt :: "instant option"
  cg_endsAt :: "instant option"
  cg_isActive :: bool
  cg_archivedAt :: "instant option"

record activation =
  ta_id :: uuid
  ta_trialCampaignId :: uuid
  ta_userId :: uuid
  ta_subscriptionId :: uuid
  ta_planId :: uuid
  ta_durationDays :: int
  ta_activatedAt :: instant
  ta_startsAt :: instant
  ta_expiresAt :: instant

record account_db =
  ac_users :: "user list"
  ac_plans :: "plan list"
  ac_campaigns :: "campaign list"
  ac_activations :: "activation list"
  ac_planOf :: "(uuid \<times> uuid) list"
  ac_core :: db

type_synonym 'a account_tx = "account_db \<Rightarrow> cp_error + ('a \<times> account_db)"

section \<open>Lookups\<close>

text \<open>\<open>user.upsert\<close>.\<close>

definition upsert_user :: "uuid \<Rightarrow> string \<Rightarrow> user account_tx" where
  "upsert_user newId telegramUserId a =
     (case find (\<lambda>u. us_telegramUserId u = telegramUserId) (ac_users a) of
        Some u \<Rightarrow> Inr (u, a)
      | None \<Rightarrow>
          if \<exists>u \<in> set (ac_users a). us_id u = newId then Inl (DbError ''Unique constraint failed on User'')
          else let u = \<lparr>us_id = newId, us_telegramUserId = telegramUserId, us_role = ''CUSTOMER''\<rparr>
               in Inr (u, a\<lparr>ac_users := ac_users a @ [u]\<rparr>))"

definition findExistingActivation :: "uuid \<Rightarrow> account_db \<Rightarrow> activation option" where
  "findExistingActivation userId a = find (\<lambda>t. ta_userId t = userId
     \<and> (\<exists>s \<in> set (subscriptions (ac_core a)). sb_id s = ta_subscriptionId t \<and> sb_userId s = ta_userId t
          \<and> map_of (ac_planOf a) (sb_id s) = Some (ta_planId t))) (ac_activations a)"

definition eligible_campaign :: "instant \<Rightarrow> account_db \<Rightarrow> campaign \<Rightarrow> bool" where
  "eligible_campaign now a c \<longleftrightarrow> cg_isActive c \<and> cg_archivedAt c = None
     \<and> (case cg_startsAt c of None \<Rightarrow> True | Some t \<Rightarrow> t \<le> now)
     \<and> (case cg_endsAt c of None \<Rightarrow> True | Some t \<Rightarrow> now < t)
     \<and> (\<exists>p \<in> set (ac_plans a). pl_id p = cg_planId c \<and> pl_isActive p)"

definition eligible_campaigns :: "instant \<Rightarrow> account_db \<Rightarrow> campaign list" where
  "eligible_campaigns now a = take 2 (sort_key cg_id (filter (eligible_campaign now a) (ac_campaigns a)))"

definition device_limit :: "campaign \<Rightarrow> account_db \<Rightarrow> int" where
  "device_limit c a = (case find (\<lambda>p. pl_id p = cg_planId c) (ac_plans a) of None \<Rightarrow> 0 | Some p \<Rightarrow> pl_deviceLimit p)"

definition active_devices :: "uuid \<Rightarrow> db \<Rightarrow> device list" where
  "active_devices userId d = sort_key dv_id (filter (\<lambda>v. dv_userId v = userId \<and> dv_status v = DeviceActive) (devices d))"

definition activation_count :: "uuid \<Rightarrow> account_db \<Rightarrow> int" where
  "activation_count cid a = int (count_rows (\<lambda>t. ta_trialCampaignId t = cid) (ac_activations a))"

section \<open>Access of the devices the user has\<close>

definition trial_nodes :: "uuid \<Rightarrow> db \<Rightarrow> node list" where
  "trial_nodes userId d = sort_key nd_id (filter (\<lambda>n. nd_status n = NodeHealthy
     \<or> (nd_status n \<in> {NodeDraining, NodeDisabled}
        \<and> (\<exists>g \<in> set (grants d). gr_nodeId g = nd_id n \<and> user_device userId d (gr_deviceId g) \<and> live_grant g))) (nodes d))"

definition grantsByDevice :: "uuid \<Rightarrow> uuid \<Rightarrow> db \<Rightarrow> (uuid \<times> grant) list" where
  "grantsByDevice userId nodeId d = fold (\<lambda>g. map_put (gr_deviceId g) g)
     (sort_key gr_id (filter (\<lambda>g. gr_nodeId g = nodeId \<and> user_device userId d (gr_deviceId g)) (grants d))) []"

definition eligible_device :: "node \<Rightarrow> (uuid \<times> grant) list \<Rightarrow> device \<Rightarrow> bool" where
  "eligible_device n byDevice v \<longleftrightarrow> (case map_of byDevice (dv_id v) of
       None \<Rightarrow> nd_status n = NodeHealthy | Some g \<Rightarrow> gr_status g \<noteq> GrantRevoked)"

definition trial_grant ::
    "(string \<Rightarrow> string \<Rightarrow> byte list) \<times> string \<Rightarrow> (uuid \<Rightarrow> uuid \<Rightarrow> uuid) \<Rightarrow> (uuid \<times> grant) list \<Rightarrow> uuid \<Rightarrow> instant \<Rightarrow> version \<Rightarrow>
     device \<Rightarrow> uuid tx" where
  "trial_grant credentials grantIdOf byDevice nodeId expiresAt target v d =
     (case map_of byDevice (dv_id v) of
        Some g \<Rightarrow> Inr (gr_id g, update_grants [gr_id g] (\<lambda>h. h\<lparr>gr_expiresAt := expiresAt, gr_desiredVersion := target\<rparr>) d)
      | None \<Rightarrow>
          let gid = grantIdOf nodeId (dv_id v)
          in case provide_credential (Some credentials)
                 \<lparr>cb_grantId = gid, cb_deviceId = dv_id v, cb_nodeId = nodeId\<rparr> of
               Inl e \<Rightarrow> Inl e
             | Inr (_, hash) \<Rightarrow> map_sum id (\<lambda>d'. (gid, d')) (create_grant
                 \<lparr>gr_id = gid, gr_nodeId = nodeId, gr_deviceId = dv_id v, gr_status = GrantPending,
                  gr_credentialHash = hash, gr_derivationVersion = Some DATA_PLANE_CREDENTIAL_DERIVATION_VERSION,
                  gr_expiresAt = expiresAt, gr_desiredVersion = target, gr_appliedVersion = 0,
                  gr_revokedAt = None\<rparr> d))"

definition trial_on_node ::
    "(string \<Rightarrow> string \<Rightarrow> byte list) \<times> string \<Rightarrow> (uuid \<Rightarrow> uuid \<Rightarrow> uuid) \<Rightarrow> (uuid \<Rightarrow> uuid) \<Rightarrow> (uuid \<Rightarrow> uuid) \<Rightarrow> instant \<Rightarrow>
     uuid \<Rightarrow> uuid \<Rightarrow> instant \<Rightarrow> device list \<Rightarrow> node \<Rightarrow> db \<Rightarrow> cp_error + db" where
  "trial_on_node credentials grantIdOf jobIdOf eventIdOf now activationId userId expiresAt vs n d =
     (let byDevice = grantsByDevice userId (nd_id n) d;
          eligible = filter (eligible_device n byDevice) vs
      in if eligible = [] then Inr d
         else
           let (target, d1) = incrementNodeVersion (nd_id n) d
           in case change_all (trial_grant credentials grantIdOf byDevice (nd_id n) expiresAt target) eligible d1 of
                Inl e \<Rightarrow> Inl e
              | Inr (changedGrantIds, d2) \<Rightarrow>
                  map_sum id (write_audit (Some userId) ''trial.access-scheduled'' ''TrialActivation'' activationId)
                    (createNodeSyncOperation (jobIdOf (nd_id n)) (eventIdOf (nd_id n)) (nd_id n) (hd changedGrantIds) target
                       (''trial:'' @ activationId @ '':'' @ nd_id n) (''trial-outbox:'' @ activationId @ '':'' @ nd_id n) now d2))"

definition scheduleExistingDeviceAccess ::
    "(string \<Rightarrow> string \<Rightarrow> byte list) \<times> string \<Rightarrow> (uuid \<Rightarrow> uuid \<Rightarrow> uuid) \<Rightarrow> (uuid \<Rightarrow> uuid) \<Rightarrow> (uuid \<Rightarrow> uuid) \<Rightarrow> instant \<Rightarrow>
     uuid \<Rightarrow> uuid \<Rightarrow> instant \<Rightarrow> db \<Rightarrow> cp_error + db" where
  "scheduleExistingDeviceAccess credentials grantIdOf jobIdOf eventIdOf now activationId userId expiresAt d =
     (let vs = active_devices userId d
      in if vs = [] then Inr d
         else each_row (trial_on_node credentials grantIdOf jobIdOf eventIdOf now activationId userId expiresAt vs)
           (trial_nodes userId d) d)"

section \<open>Activation\<close>

record trial_response =
  tr_id :: uuid
  tr_trialCampaignId :: uuid
  tr_subscriptionId :: uuid
  tr_planId :: uuid
  tr_startsAt :: instant
  tr_expiresAt :: instant
  tr_activatedAt :: instant

definition serialize :: "activation \<Rightarrow> trial_response" where
  "serialize t = \<lparr>tr_id = ta_id t, tr_trialCampaignId = ta_trialCampaignId t, tr_subscriptionId = ta_subscriptionId t,
     tr_planId = ta_planId t, tr_startsAt = ta_startsAt t, tr_expiresAt = ta_expiresAt t, tr_activatedAt = ta_activatedAt t\<rparr>"

definition expire_subscriptions :: "uuid list \<Rightarrow> db \<Rightarrow> db" where
  "expire_subscriptions sids d = d\<lparr>subscriptions := update_rows (\<lambda>s. sb_id s \<in> set sids)
     (\<lambda>s. s\<lparr>sb_status := SubExpired\<rparr>) (subscriptions d)\<rparr>"

text \<open>\<open>subscription.create\<close>; a user has one active subscription (\<open>Subscription_one_active_per_user\<close>).\<close>

definition create_subscription :: "subscription \<Rightarrow> db \<Rightarrow> cp_error + db" where
  "create_subscription s d =
     (if \<exists>t \<in> set (subscriptions d). sb_id t = sb_id s
           \<or> (sb_status s = SubActive \<and> sb_status t = SubActive \<and> sb_userId t = sb_userId s)
      then Inl (DbError ''Unique constraint failed on Subscription'')
      else Inr (d\<lparr>subscriptions := subscriptions d @ [s]\<rparr>))"

definition insert_activation :: "activation \<Rightarrow> account_db \<Rightarrow> cp_error + account_db" where
  "insert_activation t a =
     (if \<exists>u \<in> set (ac_activations a). ta_id u = ta_id t \<or> ta_userId u = ta_userId t \<or> ta_subscriptionId u = ta_subscriptionId t
      then Inl (DbError ''Unique constraint failed on TrialActivation'')
      else if ta_durationDays t \<notin> {1, 3, 5} then Inl (DbError ''TrialActivation_durationDays_check'')
      else Inr (a\<lparr>ac_activations := ac_activations a @ [t]\<rparr>))"

record trial_ids =
  ti_user :: uuid
  ti_subscription :: uuid
  ti_activation :: uuid
  ti_grant :: "uuid \<Rightarrow> uuid \<Rightarrow> uuid"
  ti_job :: "uuid \<Rightarrow> uuid"
  ti_event :: "uuid \<Rightarrow> uuid"

definition day_ms :: int where
  "day_ms = 86400000"

definition trial_expiry :: "campaign \<Rightarrow> instant \<Rightarrow> instant" where
  "trial_expiry c now = now + cg_durationDays c * day_ms"

definition trial_subscription :: "trial_ids \<Rightarrow> uuid \<Rightarrow> campaign \<Rightarrow> instant \<Rightarrow> subscription" where
  "trial_subscription ids userId c now = \<lparr>sb_id = ti_subscription ids, sb_userId = userId, sb_status = SubActive,
     sb_expiresAt = Some (trial_expiry c now), sb_cancelledAt = None\<rparr>"

definition trial_activation :: "trial_ids \<Rightarrow> uuid \<Rightarrow> campaign \<Rightarrow> instant \<Rightarrow> activation" where
  "trial_activation ids userId c now = \<lparr>ta_id = ti_activation ids, ta_trialCampaignId = cg_id c, ta_userId = userId,
     ta_subscriptionId = ti_subscription ids, ta_planId = cg_planId c, ta_durationDays = cg_durationDays c,
     ta_activatedAt = now, ta_startsAt = now, ta_expiresAt = trial_expiry c now\<rparr>"

definition create_trial ::
    "(string \<Rightarrow> string \<Rightarrow> byte list) \<times> string \<Rightarrow> trial_ids \<Rightarrow> uuid \<Rightarrow> campaign \<Rightarrow> instant \<Rightarrow> (int \<times> trial_response) account_tx" where
  "create_trial credentials ids userId c now a =
     (case create_subscription (trial_subscription ids userId c now) (ac_core a) of
        Inl e \<Rightarrow> Inl e
      | Inr d1 \<Rightarrow> (case insert_activation (trial_activation ids userId c now)
            (a\<lparr>ac_core := d1, ac_planOf := (ti_subscription ids, cg_planId c) # ac_planOf a\<rparr>) of
          Inl e \<Rightarrow> Inl e
        | Inr a1 \<Rightarrow> (case scheduleExistingDeviceAccess credentials (ti_grant ids) (ti_job ids) (ti_event ids) now
              (ti_activation ids) userId (trial_expiry c now) (ac_core a1) of
            Inl e \<Rightarrow> Inl e
          | Inr d2 \<Rightarrow> Inr ((200, serialize (trial_activation ids userId c now)),
              a1\<lparr>ac_core := write_audit (Some userId) ''trial.activated'' ''TrialActivation'' (ti_activation ids) d2\<rparr>))))"

text \<open>The checks in the order of the code, up to the creation.\<close>

definition live_subscription :: "instant \<Rightarrow> subscription \<Rightarrow> bool" where
  "live_subscription now s \<longleftrightarrow> (case sb_expiresAt s of None \<Rightarrow> False | Some e \<Rightarrow> e > now)"

definition active_subscriptions :: "uuid \<Rightarrow> db \<Rightarrow> subscription list" where
  "active_subscriptions userId d = filter (\<lambda>s. sb_userId s = userId \<and> sb_status s = SubActive) (subscriptions d)"

definition trial_for_campaign ::
    "(string \<Rightarrow> string \<Rightarrow> byte list) \<times> string \<Rightarrow> trial_ids \<Rightarrow> uuid \<Rightarrow> instant \<Rightarrow> campaign list \<Rightarrow> (int \<times> trial_response) account_tx" where
  "trial_for_campaign credentials ids userId now cs a =
     (case cs of
        [c] \<Rightarrow>
          if int (length (active_devices userId (ac_core a))) > device_limit c a
          then Inl (Thrown ''Trial activation is unavailable'')
          else if (case cg_maxActivations c of None \<Rightarrow> False | Some m \<Rightarrow> activation_count (cg_id c) a \<ge> m)
          then Inl (Thrown ''Trial activation is unavailable'')
          else create_trial credentials ids userId c now a
      | _ \<Rightarrow> Inl (Thrown ''Trial activation is unavailable''))"

definition activateInTransaction ::
    "(string \<Rightarrow> string \<Rightarrow> byte list) \<times> string \<Rightarrow> trial_ids \<Rightarrow> string \<Rightarrow> instant \<Rightarrow> (int \<times> trial_response) account_tx" where
  "activateInTransaction credentials ids telegramUserId now a0 =
     (case upsert_user (ti_user ids) telegramUserId a0 of
        Inl e \<Rightarrow> Inl e
      | Inr (u, a) \<Rightarrow> (case findExistingActivation (us_id u) a of
          Some t \<Rightarrow> Inr ((200, serialize t), a)
        | None \<Rightarrow>
            let active = active_subscriptions (us_id u) (ac_core a)
            in if \<exists>s \<in> set active. live_subscription now s then Inl (Thrown ''Trial activation is unavailable'')
               else let a1 = a\<lparr>ac_core := expire_subscriptions (map sb_id active) (ac_core a)\<rparr>
                 in trial_for_campaign credentials ids (us_id u) now (eligible_campaigns now a1) a1))"

text \<open>The request of the bot; the rate limiter counts in Redis and may refuse before the transaction does
  anything (\<open>attempts\<close> is its answer, \<open>None\<close> when Redis is unavailable).\<close>

definition assertAllowed :: "int \<Rightarrow> int option \<Rightarrow> cp_error + unit" where
  "assertAllowed limit attempts = (case attempts of
       None \<Rightarrow> Inl (Thrown ''Trial activation is unavailable'')
     | Some n \<Rightarrow> if n > limit then Inl (Thrown ''Too many trial activation requests'') else Inr ())"

definition activate ::
    "(string \<Rightarrow> string \<Rightarrow> byte list) \<times> string \<Rightarrow> int \<Rightarrow> int option \<Rightarrow> bot_request \<Rightarrow> uuid \<Rightarrow> trial_ids \<Rightarrow> instant \<Rightarrow>
     trial_response bot_tables \<times> account_db \<Rightarrow> cp_error + (trial_response execution \<times> trial_response bot_tables \<times> account_db)" where
  "activate credentials limit attempts r rid ids now =
     bot_execute r rid now (\<lambda>a. case assertAllowed limit attempts of
       Inl e \<Rightarrow> Inl e
     | Inr _ \<Rightarrow> activateInTransaction credentials ids (br_telegramUserId r) now a)"

end
