(* ===== verification/Outbox_Store.thy ===== *)
theory Outbox_Store
  imports Control_Plane_Db Lease_Protocol
begin

text \<open>
  The transactional outbox (\<open>packages/orchestration-store/src/outbox-store.ts\<close>).

  Each operation is one SQL statement on the \<open>OutboxEvent\<close> table, evaluated at the database instant
  \<open>now\<close>.  A \<open>NULL\<close> column never satisfies a comparison, so the comparisons on optional columns are
  written with the value present.  \<open>eventIds\<close> is the optional scope of a store; \<open>locked\<close> are the rows
  that other transactions hold when \<open>SKIP LOCKED\<close> looks for a candidate.
\<close>

section \<open>Operations\<close>

record outbox_store =
  os_lease :: lease_config
  os_eventIds :: "uuid list option"

definition eventScope :: "outbox_store \<Rightarrow> outbox_event \<Rightarrow> bool" where
  "eventScope st e = (case os_eventIds st of None \<Rightarrow> True | Some ids \<Rightarrow> ob_id e \<in> set ids)"

definition event_exhausted :: "outbox_store \<Rightarrow> outbox_event \<Rightarrow> bool" where
  "event_exhausted st e \<longleftrightarrow> ob_attempts e \<ge> maxAttempts (os_lease st)"

definition reclaimable_event :: "outbox_store \<Rightarrow> instant \<Rightarrow> outbox_event \<Rightarrow> bool" where
  "reclaimable_event st now e \<longleftrightarrow>
     ((ob_status e = OutboxProcessing \<and> (\<exists>t \<in> set_option (ob_leaseExpiresAt e). t \<le> now))
      \<or> (ob_status e = OutboxPending \<and> event_exhausted st e))
   \<and> eventScope st e"

definition reclaim_event :: "outbox_store \<Rightarrow> instant \<Rightarrow> outbox_event \<Rightarrow> outbox_event" where
  "reclaim_event st now e = e\<lparr>
     ob_status := (if event_exhausted st e then OutboxFailed else OutboxPending),
     ob_nextAttemptAt := (if event_exhausted st e then None else Some now),
     ob_lastErrorCode := (if event_exhausted st e
       then (case ob_lastErrorCode e of None \<Rightarrow> Some ''OUTBOX_LEASE_EXPIRED'' | Some c \<Rightarrow> Some c)
       else ob_lastErrorCode e),
     ob_leaseOwner := None, ob_leaseToken := None, ob_leaseExpiresAt := None\<rparr>"

definition outbox_reclaimExpiredLeases ::
    "outbox_store \<Rightarrow> instant \<Rightarrow> outbox_event list \<Rightarrow> nat \<times> outbox_event list" where
  "outbox_reclaimExpiredLeases st now es =
     (count_rows (reclaimable_event st now) es,
      update_rows (reclaimable_event st now) (reclaim_event st now) es)"

definition claimable_event :: "outbox_store \<Rightarrow> instant \<Rightarrow> outbox_event \<Rightarrow> bool" where
  "claimable_event st now e \<longleftrightarrow>
     ob_status e = OutboxPending
   \<and> \<not> event_exhausted st e
   \<and> (case ob_nextAttemptAt e of None \<Rightarrow> True | Some t \<Rightarrow> t \<le> now)
   \<and> eventScope st e"

definition claim_event :: "outbox_store \<Rightarrow> instant \<Rightarrow> string \<Rightarrow> uuid \<Rightarrow> outbox_event \<Rightarrow> outbox_event" where
  "claim_event st now leaseOwner leaseToken e = e\<lparr>
     ob_status := OutboxProcessing,
     ob_attempts := ob_attempts e + 1,
     ob_nextAttemptAt := None,
     ob_leaseOwner := Some leaseOwner,
     ob_leaseToken := Some leaseToken,
     ob_leaseExpiresAt := Some (now + leaseDurationMs (os_lease st))\<rparr>"

text \<open>\<open>ORDER BY "createdAt", id FOR UPDATE SKIP LOCKED LIMIT 1\<close>.\<close>

definition next_candidate ::
    "outbox_store \<Rightarrow> instant \<Rightarrow> uuid list \<Rightarrow> outbox_event list \<Rightarrow> outbox_event option" where
  "next_candidate st now locked es =
     (case sort_key (\<lambda>e. (ob_createdAt e, ob_id e))
        (filter (\<lambda>e. claimable_event st now e \<and> ob_id e \<notin> set locked) es) of
        [] \<Rightarrow> None | e # _ \<Rightarrow> Some e)"

definition outbox_claimNext ::
    "outbox_store \<Rightarrow> instant \<Rightarrow> uuid list \<Rightarrow> string \<Rightarrow> uuid \<Rightarrow> outbox_event list \<Rightarrow>
     outbox_event option \<times> outbox_event list" where
  "outbox_claimNext st now locked leaseOwner leaseToken es =
     (case next_candidate st now locked es of
        None \<Rightarrow> (None, es)
      | Some c \<Rightarrow> (Some (claim_event st now leaseOwner leaseToken c),
          update_rows (\<lambda>e. ob_id e = ob_id c) (claim_event st now leaseOwner leaseToken) es))"

definition holds_event_lease :: "instant \<Rightarrow> uuid \<Rightarrow> string \<Rightarrow> uuid \<Rightarrow> outbox_event \<Rightarrow> bool" where
  "holds_event_lease now eid leaseOwner leaseToken e \<longleftrightarrow>
     ob_id e = eid
   \<and> ob_status e = OutboxProcessing
   \<and> ob_leaseOwner e = Some leaseOwner
   \<and> ob_leaseToken e = Some leaseToken
   \<and> (\<exists>t \<in> set_option (ob_leaseExpiresAt e). t > now)"

definition publish_event :: "instant \<Rightarrow> outbox_event \<Rightarrow> outbox_event" where
  "publish_event now e = e\<lparr>ob_status := OutboxPublished, ob_publishedAt := Some now,
     ob_leaseOwner := None, ob_leaseToken := None, ob_leaseExpiresAt := None\<rparr>"

definition outbox_markPublished ::
    "instant \<Rightarrow> uuid \<Rightarrow> string \<Rightarrow> uuid \<Rightarrow> outbox_event list \<Rightarrow> bool \<times> outbox_event list" where
  "outbox_markPublished now eid leaseOwner leaseToken es =
     (count_rows (holds_event_lease now eid leaseOwner leaseToken) es = 1,
      update_rows (holds_event_lease now eid leaseOwner leaseToken) (publish_event now) es)"

definition retry_event :: "outbox_store \<Rightarrow> instant \<Rightarrow> string \<Rightarrow> outbox_event \<Rightarrow> outbox_event" where
  "retry_event st now errorCode e = e\<lparr>
     ob_status := (if event_exhausted st e then OutboxFailed else OutboxPending),
     ob_nextAttemptAt := (if event_exhausted st e then None
       else Some (now + retryDelayMs (os_lease st))),
     ob_lastErrorCode := Some errorCode,
     ob_leaseOwner := None, ob_leaseToken := None, ob_leaseExpiresAt := None\<rparr>"

definition outbox_retry ::
    "outbox_store \<Rightarrow> instant \<Rightarrow> uuid \<Rightarrow> string \<Rightarrow> uuid \<Rightarrow> string \<Rightarrow> outbox_event list \<Rightarrow>
     bool \<times> outbox_event list" where
  "outbox_retry st now eid leaseOwner leaseToken errorCode es =
     (count_rows (holds_event_lease now eid leaseOwner leaseToken) es = 1,
      update_rows (holds_event_lease now eid leaseOwner leaseToken) (retry_event st now errorCode) es)"

section \<open>The store as a state machine\<close>

datatype outbox_op =
  OReclaim
| OClaim "uuid list" string uuid
| OPublish uuid string uuid
| ORetry uuid string uuid string

fun outbox_exec :: "outbox_store \<Rightarrow> instant \<Rightarrow> outbox_op \<Rightarrow> outbox_event list \<Rightarrow> outbox_event list" where
  "outbox_exec st now OReclaim es = snd (outbox_reclaimExpiredLeases st now es)"
| "outbox_exec st now (OClaim locked owner token) es = snd (outbox_claimNext st now locked owner token es)"
| "outbox_exec st now (OPublish eid owner token) es = snd (outbox_markPublished now eid owner token es)"
| "outbox_exec st now (ORetry eid owner token code) es = snd (outbox_retry st now eid owner token code es)"

section \<open>The database constraints\<close>

text \<open>The check constraints of the table: a lease exists exactly while an event is being processed, a
  retry is scheduled only while it waits, and a published event carries its publication instant.\<close>

definition event_row_ok :: "outbox_event \<Rightarrow> bool" where
  "event_row_ok e \<longleftrightarrow>
     (if ob_status e = OutboxProcessing
      then ob_leaseOwner e \<noteq> None \<and> ob_leaseToken e \<noteq> None \<and> ob_leaseExpiresAt e \<noteq> None
      else ob_leaseOwner e = None \<and> ob_leaseToken e = None \<and> ob_leaseExpiresAt e = None)
   \<and> (ob_status e = OutboxPending \<or> ob_nextAttemptAt e = None)
   \<and> (ob_status e = OutboxPublished \<longrightarrow> ob_publishedAt e \<noteq> None)
   \<and> 0 \<le> ob_attempts e"

lemma event_row_ok_exec:
  assumes "\<forall>e \<in> set es. event_row_ok e"
  shows "\<forall>e \<in> set (outbox_exec st now op es). event_row_ok e"
  using assms
  by (cases op)
    (auto simp: outbox_reclaimExpiredLeases_def outbox_claimNext_def outbox_markPublished_def
      outbox_retry_def ball_update_rows event_row_ok_def reclaim_event_def claim_event_def
      publish_event_def retry_event_def holds_event_lease_def reclaimable_event_def
      event_exhausted_def split: option.splits)

section \<open>Refinement of the lease protocol\<close>

fun event_phase :: "OutboxStatus \<Rightarrow> outbox_event \<Rightarrow> lease_phase" where
  "event_phase OutboxPending e = Waiting (ob_nextAttemptAt e)"
| "event_phase OutboxProcessing e = Leased (ob_leaseOwner e) (ob_leaseToken e) (ob_leaseExpiresAt e)"
| "event_phase OutboxPublished e = Done"
| "event_phase OutboxFailed e = Dead"

definition event_lease :: "outbox_event \<Rightarrow> lease" where
  "event_lease e = \<lparr>l_attempts = ob_attempts e, l_phase = event_phase (ob_status e) e\<rparr>"

lemma event_exhausted_lease: "event_exhausted st e = exhausted (os_lease st) (event_lease e)"
  by (simp add: event_exhausted_def exhausted_def event_lease_def)

lemma reclaim_event_refines:
  assumes "reclaimable_event st now e"
  shows "lease_step (os_lease st) now (event_lease e) (event_lease (reclaim_event st now e))"
proof (cases "ob_status e = OutboxProcessing")
  case True
  then show ?thesis
    using assms
    by (auto simp: reclaimable_event_def reclaim_event_def event_exhausted_def exhausted_def
        event_lease_def intro: lease_step.reclaim)
next
  case False
  then show ?thesis
    using assms
    by (auto simp: reclaimable_event_def reclaim_event_def event_exhausted_def exhausted_def
        event_lease_def intro: lease_step.bury)
qed

lemma claim_event_refines:
  assumes "claimable_event st now e"
  shows "lease_step (os_lease st) now (event_lease e) (event_lease (claim_event st now owner token e))"
  using assms
  by (auto simp: claimable_event_def claim_event_def event_exhausted_def exhausted_def
      event_lease_def intro!: lease_step.claim)

lemma publish_event_refines:
  assumes "holds_event_lease now eid owner token e"
  shows "lease_step c now (event_lease e) (event_lease (publish_event now e))"
  using assms
  by (auto simp: holds_event_lease_def publish_event_def event_lease_def intro!: lease_step.complete)

lemma retry_event_refines:
  assumes "holds_event_lease now eid owner token e"
  shows "lease_step (os_lease st) now (event_lease e) (event_lease (retry_event st now code e))"
  using assms
  by (auto simp: holds_event_lease_def retry_event_def event_exhausted_def exhausted_def
      event_lease_def intro!: lease_step.retry)

lemma event_ids_kept [simp]:
  "ob_id (reclaim_event st now e) = ob_id e" "ob_id (claim_event st now owner token e) = ob_id e"
  "ob_id (publish_event now e) = ob_id e" "ob_id (retry_event st now code e) = ob_id e"
  by (simp_all add: reclaim_event_def claim_event_def publish_event_def retry_event_def)

lemma next_candidate_claimable:
  "next_candidate st now locked es = Some c \<Longrightarrow>
     claimable_event st now c \<and> c \<in> set es \<and> ob_id c \<notin> set locked"
  by (auto simp: next_candidate_def split: list.splits dest!: sort_key_hd)

definition outbox_ok :: "outbox_event list \<Rightarrow> bool" where
  "outbox_ok es \<longleftrightarrow> distinct (map ob_id es) \<and> (\<forall>e \<in> set es. event_row_ok e)"

lemma outbox_exec_keys: "map ob_id (outbox_exec st now op es) = map ob_id es"
  by (cases op)
    (simp_all add: outbox_reclaimExpiredLeases_def outbox_claimNext_def outbox_markPublished_def
      outbox_retry_def map_update_rows_key split: option.split)

lemma outbox_exec_ok: "outbox_ok es \<Longrightarrow> outbox_ok (outbox_exec st now op es)"
  unfolding outbox_ok_def outbox_exec_keys using event_row_ok_exec by blast

lemma outbox_exec_refines:
  assumes "outbox_ok es"
  shows "list_all2 (row_refines (os_lease st) now ob_id event_lease) es (outbox_exec st now op es)"
proof (cases op)
  case (OClaim locked owner token)
  show ?thesis
  proof (cases "next_candidate st now locked es")
    case (Some c)
    then have c: "claimable_event st now c" "c \<in> set es" by (auto dest: next_candidate_claimable)
    then have "claimable_event st now e" if "e \<in> set es" "ob_id e = ob_id c" for e
      using distinct_key_eq [of ob_id es e c] assms that by (simp add: outbox_ok_def)
    with Some OClaim show ?thesis
      by (auto simp: outbox_claimNext_def row_refines_def
          intro!: list_all2_update_rows claim_event_refines)
  qed (simp add: OClaim outbox_claimNext_def row_refines_def list_all2_refl)
qed (auto simp: outbox_reclaimExpiredLeases_def outbox_markPublished_def outbox_retry_def
    row_refines_def intro!: list_all2_update_rows
    intro: reclaim_event_refines publish_event_refines retry_event_refines)

interpretation outbox_table:
  leased_table "os_lease st" ob_id event_lease "\<lambda>es. es" outbox_ok "outbox_exec st" for st
  by unfold_locales (simp_all add: outbox_exec_ok outbox_exec_refines)

end
