(* ===== verification/Control_Plane_Writes.thy ===== *)
theory Control_Plane_Writes
  imports Orchestration Outbox_Store
begin

text \<open>
  The invariant of the control-plane database and its preservation by the transactions of the
  orchestration services and the statements of the queues.

  \<open>cp_ok\<close> says what the services rely on: identifiers are unique, a node has applied at most what it
  desires, every grant, job and route activation belongs to a node that already desires its version,
  live grants are never found on a quarantined node and routes are activated on healthy nodes only.
  There is one lemma per write, then one per transaction; \<open>Control_Plane_Invariant\<close> collects the
  transactions into histories.
\<close>

section \<open>The invariant\<close>

definition node_ok :: "node \<Rightarrow> bool" where
  "node_ok n \<longleftrightarrow> 0 \<le> appliedConfigVersion n \<and> appliedConfigVersion n \<le> desiredConfigVersion n"

text \<open>What a node must satisfy for a grant, a job or an activated route that names it.\<close>

definition admits_grant :: "grant \<Rightarrow> node \<Rightarrow> bool" where
  "admits_grant g n \<longleftrightarrow> nd_id n = gr_nodeId g \<and> gr_desiredVersion g \<le> desiredConfigVersion n
     \<and> (nd_status n = NodeQuarantined \<longrightarrow> gr_status g = GrantRevoked)"

definition admits_job :: "job \<Rightarrow> node \<Rightarrow> bool" where
  "admits_job j n \<longleftrightarrow> nd_id n = jb_nodeId j \<and> jb_targetVersion j \<le> desiredConfigVersion n"

definition admits_route :: "route \<Rightarrow> node \<Rightarrow> bool" where
  "admits_route r n \<longleftrightarrow> nd_id n = rt_nodeId r \<and> nd_status n = NodeHealthy
     \<and> (case rt_activationVersion r of None \<Rightarrow> True | Some v \<Rightarrow> v \<le> desiredConfigVersion n)"

definition grant_row_ok :: "grant \<Rightarrow> bool" where
  "grant_row_ok g \<longleftrightarrow> 0 \<le> gr_appliedVersion g \<and> gr_appliedVersion g \<le> gr_desiredVersion g
     \<and> (gr_status g = GrantRevoked \<longleftrightarrow> gr_revokedAt g \<noteq> None)"

definition grant_ok :: "node list \<Rightarrow> grant \<Rightarrow> bool" where
  "grant_ok ns g \<longleftrightarrow> (\<exists>n \<in> set ns. admits_grant g n) \<and> grant_row_ok g"

definition job_target_ok :: "node list \<Rightarrow> job \<Rightarrow> bool" where
  "job_target_ok ns j \<longleftrightarrow> (\<exists>n \<in> set ns. admits_job j n) \<and> job_row_ok j"

definition route_ok :: "node list \<Rightarrow> route \<Rightarrow> bool" where
  "route_ok ns r \<longleftrightarrow> rt_activationVersion r = None \<or> (\<exists>n \<in> set ns. admits_route r n)"

lemmas admits = admits_grant_def admits_job_def admits_route_def

definition cp_rows_ok :: "node list \<Rightarrow> grant list \<Rightarrow> job list \<Rightarrow> route list \<Rightarrow> bool" where
  "cp_rows_ok ns gs js rs \<longleftrightarrow>
     distinct (map nd_id ns) \<and> distinct (map gr_id gs) \<and> distinct (map jb_id js)
   \<and> (\<forall>n \<in> set ns. node_ok n) \<and> (\<forall>g \<in> set gs. grant_ok ns g)
   \<and> (\<forall>j \<in> set js. job_target_ok ns j) \<and> (\<forall>r \<in> set rs. route_ok ns r)"

definition cp_ok :: "db \<Rightarrow> bool" where
  "cp_ok d = cp_rows_ok (nodes d) (grants d) (jobs d) (routes d)"

lemma find_node_Some:
  "find_node nid d = Some n \<Longrightarrow> n \<in> set (nodes d) \<and> nd_id n = nid"
  by (auto simp: find_node_def find_Some_iff)

lemma node_unique:
  "cp_ok d \<Longrightarrow> n \<in> set (nodes d) \<Longrightarrow> m \<in> set (nodes d) \<Longrightarrow> nd_id n = nd_id m \<Longrightarrow> n = m"
  by (auto simp: cp_ok_def cp_rows_ok_def intro: distinct_key_eq [of nd_id])

section \<open>Writes that keep it\<close>

lemma node_transfer:
  assumes "\<exists>n \<in> set ns. P n" "\<And>n. n \<in> set ns \<Longrightarrow> P n \<Longrightarrow> Q (if p n then f n else n)"
  shows "\<exists>n \<in> set (update_rows p f ns). Q n"
  using assms unfolding set_update_rows by blast

definition node_grows :: "node \<Rightarrow> node \<Rightarrow> bool" where
  "node_grows n m \<longleftrightarrow> nd_id m = nd_id n \<and> nd_status m = nd_status n
     \<and> desiredConfigVersion n \<le> desiredConfigVersion m \<and> (node_ok n \<longrightarrow> node_ok m)"

lemma node_grows_admits:
  assumes "node_grows n m"
  shows "admits_grant g n \<Longrightarrow> admits_grant g m" "admits_job j n \<Longrightarrow> admits_job j m"
    "admits_route r n \<Longrightarrow> admits_route r m"
  using assms by (auto simp: node_grows_def admits split: option.splits)

text \<open>Nodes may grow in place.\<close>

lemma nodes_grow_ok:
  assumes ok: "cp_rows_ok ns gs js rs" and grow: "\<And>n. n \<in> set ns \<Longrightarrow> p n \<Longrightarrow> node_grows n (f n)"
  shows "cp_rows_ok (update_rows p f ns) gs js rs"
proof -
  have step: "node_grows n (if p n then f n else n)" if "n \<in> set ns" for n
    using grow [OF that] by (simp add: node_grows_def)
  have "map nd_id (update_rows p f ns) = map nd_id ns"
    using step by (simp add: update_rows_def node_grows_def)
  moreover have "grant_ok (update_rows p f ns) g" if "grant_ok ns g" for g
    using that unfolding grant_ok_def
    by (blast intro: node_transfer [of ns "admits_grant g"] node_grows_admits step)
  moreover have "job_target_ok (update_rows p f ns) j" if "job_target_ok ns j" for j
    using that unfolding job_target_ok_def
    by (blast intro: node_transfer [of ns "admits_job j"] node_grows_admits step)
  moreover have "route_ok (update_rows p f ns) r" if "route_ok ns r" for r
    using that unfolding route_ok_def
    by (blast intro: node_transfer [of ns "admits_route r"] node_grows_admits step)
  moreover have "node_ok (if p n then f n else n)" if "n \<in> set ns" for n
    using step [OF that] ok that unfolding node_grows_def cp_rows_ok_def by blast
  then have "\<forall>n \<in> set (update_rows p f ns). node_ok n" unfolding set_update_rows by blast
  ultimately show ?thesis using ok by (simp add: cp_rows_ok_def)
qed

lemma cp_ok_bump [intro]: "cp_ok d \<Longrightarrow> cp_ok (bump_desired nid d)"
  unfolding cp_ok_def bump_desired_def by (auto intro!: nodes_grow_ok simp: node_grows_def node_ok_def)

lemma cp_ok_set_applied:
  assumes "cp_ok d" "set_applied nid v d = Inr d'" "0 \<le> v"
  shows "cp_ok d'"
proof -
  have "v \<le> desiredConfigVersion n" if "n \<in> set (nodes d)" "nd_id n = nid" for n
    using assms(2) that by (force simp: set_applied_def split: if_splits)
  then show ?thesis
    using assms unfolding cp_ok_def set_applied_def
    by (auto intro!: nodes_grow_ok simp: node_grows_def node_ok_def split: if_splits)
qed

text \<open>Grants may change in place, jobs may be added, routes closed.\<close>

lemma grants_change_ok:
  assumes "cp_rows_ok ns gs js rs" "\<And>g. g \<in> set gs \<Longrightarrow> p g \<Longrightarrow> gr_id (f g) = gr_id g \<and> grant_ok ns (f g)"
  shows "cp_rows_ok ns (update_rows p f gs) js rs"
proof -
  have "map gr_id (update_rows p f gs) = map gr_id gs"
    using assms(2) by (simp add: update_rows_def)
  then show ?thesis using assms by (auto simp: cp_rows_ok_def ball_update_rows)
qed

lemma cp_ok_grant: "cp_ok d \<Longrightarrow> g \<in> set (grants d) \<Longrightarrow> grant_ok (nodes d) g"
  by (simp add: cp_ok_def cp_rows_ok_def)

definition revoke_row :: "instant \<Rightarrow> version option \<Rightarrow> grant \<Rightarrow> grant" where
  "revoke_row now target g = g\<lparr>gr_status := GrantRevoked, gr_revokedAt := Some now,
     gr_desiredVersion := (case target of None \<Rightarrow> gr_desiredVersion g | Some v \<Rightarrow> v)\<rparr>"

lemma revoke_grant_row: "revoke_grant gid now target d =
    d\<lparr>grants := update_rows (\<lambda>g. gr_id g = gid) (revoke_row now target) (grants d)\<rparr>"
  unfolding revoke_grant_def revoke_row_def [abs_def] ..

definition target_fits :: "version option \<Rightarrow> grant \<Rightarrow> db \<Rightarrow> bool" where
  "target_fits target g d \<longleftrightarrow> (case target of None \<Rightarrow> True | Some v \<Rightarrow>
     \<forall>n \<in> set (nodes d). nd_id n = gr_nodeId g \<longrightarrow> v = desiredConfigVersion n)"

lemma grant_ok_revoke_row:
  assumes "grant_ok (nodes d) g" "target_fits target g d"
  shows "grant_ok (nodes d) (revoke_row now target g)"
proof -
  obtain n where n: "n \<in> set (nodes d)" "admits_grant g n" and row: "grant_row_ok g"
    using assms(1) by (auto simp: grant_ok_def)
  then have "admits_grant (revoke_row now target g) n" "grant_row_ok (revoke_row now target g)"
    using assms(2)
    by (auto simp: admits grant_row_ok_def revoke_row_def target_fits_def split: option.splits)
  with n show ?thesis by (auto simp: grant_ok_def)
qed

lemma cp_ok_revoke:
  assumes "cp_ok d" "\<And>g. g \<in> set (grants d) \<Longrightarrow> gr_id g = gid \<Longrightarrow> target_fits target g d"
  shows "cp_ok (revoke_grant gid now target d)"
  using assms grant_ok_revoke_row cp_ok_grant unfolding revoke_grant_row
  by (simp add: cp_ok_def) (intro grants_change_ok, auto simp: revoke_row_def cp_rows_ok_def)

lemma grant_ok_settle:
  assumes "grant_ok ns g" "live_grant g \<Longrightarrow> \<not> (\<exists>n \<in> set ns. nd_id n = gr_nodeId g \<and> nd_status n = NodeQuarantined)"
  shows "grant_ok ns (settle_grant g)"
  using assms
  by (fastforce simp: grant_ok_def admits_grant_def grant_row_ok_def settle_grant_def live_grant_def)

lemma cp_ok_settle:
  assumes "cp_ok d" "settle_grants nid v d = Inr d'"
  shows "cp_ok d'"
proof -
  have d': "d' = d\<lparr>grants := update_rows (settles_grant nid v) settle_grant (grants d)\<rparr>"
    and free: "\<And>g n. g \<in> set (grants d) \<Longrightarrow> settles_grant nid v g \<Longrightarrow> live_grant g \<Longrightarrow>
      n \<in> set (nodes d) \<Longrightarrow> nd_id n = nid \<Longrightarrow> nd_status n \<noteq> NodeQuarantined"
    using assms(2) by (auto simp: settle_grants_def split: if_splits)
  have "grant_ok (nodes d) (settle_grant g)" if "g \<in> set (grants d)" "settles_grant nid v g" for g
    using grant_ok_settle [OF cp_ok_grant [OF assms(1) that(1)]] free [OF that] that(2)
    by (auto simp: settles_grant_def)
  then show ?thesis
    using assms(1) unfolding cp_ok_def d' by (auto intro!: grants_change_ok simp: settle_grant_def)
qed

lemma cp_ok_create_grant:
  assumes "cp_ok d" "create_grant g d = Inr d'" "gr_appliedVersion g = 0" "0 \<le> gr_desiredVersion g"
    and "gr_status g = GrantPending" "gr_revokedAt g = None"
    and "n \<in> set (nodes d)" "nd_id n = gr_nodeId g" "gr_desiredVersion g \<le> desiredConfigVersion n"
  shows "cp_ok d'"
proof -
  have d': "d' = d\<lparr>grants := grants d @ [g]\<rparr>" and fresh: "gr_id g \<notin> gr_id ` set (grants d)"
    and "nd_status n \<noteq> NodeQuarantined"
    using assms by (auto simp: create_grant_def live_grant_def split: if_splits)
  then have "admits_grant g n" "grant_row_ok g"
    using assms by (auto simp: admits_grant_def grant_row_ok_def)
  then show ?thesis
    using assms(1,7) fresh by (auto simp: cp_ok_def cp_rows_ok_def grant_ok_def d')
qed

lemma cp_ok_create_job:
  assumes "cp_ok d" "create_job (new_job jid nid gid epid pfid v k) d = Inr d'"
    and "n \<in> set (nodes d)" "nd_id n = nid" "v \<le> desiredConfigVersion n"
  shows "cp_ok d'"
proof -
  let ?j = "new_job jid nid gid epid pfid v k"
  have d': "d' = d\<lparr>jobs := jobs d @ [?j]\<rparr>" and fresh: "jb_id ?j \<notin> jb_id ` set (jobs d)"
    using assms(2) by (auto simp: create_job_def split: if_splits)
  have "admits_job ?j n" "job_row_ok ?j"
    using assms by (simp_all add: admits_job_def job_row_ok_def new_job_def)
  then show ?thesis
    using assms(1,3) fresh by (auto simp: cp_ok_def cp_rows_ok_def job_target_ok_def d')
qed

lemma cp_ok_create_event: "cp_ok d \<Longrightarrow> create_event e d = Inr d' \<Longrightarrow> cp_ok d'"
  by (auto simp: create_event_def cp_ok_def split: if_splits)

lemma cp_ok_audit [simp]: "cp_ok (write_audit a b c e d) = cp_ok d"
  by (simp add: write_audit_def cp_ok_def)

lemma cp_ok_request:
  assumes "cp_ok d" "request_grant_sync jid eid nid gid v jk ek now d = Inr d'"
    and "n \<in> set (nodes d)" "nd_id n = nid" "v \<le> desiredConfigVersion n"
  shows "cp_ok d'"
proof -
  obtain d1 where "create_job (new_job jid nid (Some gid) None None v jk) d = Inr d1"
    and "create_event (new_event eid ''NodeAccessGrant'' gid (grant_payload gid jid v) ek now) d1 = Inr d'"
    using assms(2) by (auto simp: request_grant_sync_def split: sum.splits)
  with cp_ok_create_job [OF assms(1) _ assms(3-5)] cp_ok_create_event show ?thesis by blast
qed

lemma still_active:
  assumes "r \<in> set (update_rows (\<lambda>r. rt_nodeId r = nid) (\<lambda>r. r\<lparr>rt_activationVersion := None\<rparr>) rs)"
    and "rt_activationVersion r \<noteq> None"
  shows "r \<in> set rs \<and> rt_nodeId r \<noteq> nid"
  using assms by (auto simp: set_update_rows split: if_splits)

text \<open>A status change keeps the invariant because of the three triggers.\<close>

lemma set_node_status_Inr:
  assumes "set_node_status nid st d = Inr d'"
  obtains n where "find_node nid d = Some n"
    "nodes d' = update_rows (\<lambda>m. nd_id m = nid) (\<lambda>m. m\<lparr>nd_status := st\<rparr>) (nodes d)"
    "routes d' = (if st \<noteq> nd_status n then update_rows (\<lambda>r. rt_nodeId r = nid)
       (\<lambda>r. r\<lparr>rt_activationVersion := None\<rparr>) (routes d) else routes d)"
    "grants d' = grants d" "jobs d' = jobs d" "deliveries d' = deliveries d"
    "st = NodeHealthy \<Longrightarrow> nd_status n \<noteq> NodeHealthy \<Longrightarrow> desiredConfigVersion n \<le> appliedConfigVersion n"
    "st = NodeQuarantined \<Longrightarrow> nd_status n \<noteq> NodeQuarantined \<Longrightarrow>
       \<forall>g \<in> set (grants d). gr_nodeId g = nid \<longrightarrow> gr_status g = GrantRevoked"
  using assms
  by (auto simp: set_node_status_def close_node_routes_def live_grant_def Let_def
      split: option.splits if_splits)

lemma cp_ok_set_status:
  assumes ok: "cp_ok d" and st: "set_node_status nid st d = Inr d'"
  shows "cp_ok d'"
  using st
proof (cases rule: set_node_status_Inr)
  case (1 n)
  let ?ns = "update_rows (\<lambda>m. nd_id m = nid) (\<lambda>m. m\<lparr>nd_status := st\<rparr>) (nodes d)"
  have uniq: "m = n" if "m \<in> set (nodes d)" "nd_id m = nid" for m
    using node_unique [OF ok that(1), of n] find_node_Some [OF 1(1)] that(2) by metis
  have quar: "gr_status g = GrantRevoked"
    if "st = NodeQuarantined" "g \<in> set (grants d)" "m \<in> set (nodes d)" "nd_id m = nid" "admits_grant g m" for g m
    using 1(8) that uniq [OF that(3,4)] by (cases "nd_status n = NodeQuarantined") (auto simp: admits_grant_def)
  have "admits_grant g (if nd_id m = nid then m\<lparr>nd_status := st\<rparr> else m)"
    if "g \<in> set (grants d)" "m \<in> set (nodes d)" "admits_grant g m" for g m
    using quar [OF _ that(1,2) _ that(3)] that(3) by (simp add: admits_grant_def)
  then have "grant_ok ?ns g" if "g \<in> set (grants d)" for g
    using cp_ok_grant [OF ok that] that unfolding grant_ok_def
    by (blast intro: node_transfer [of "nodes d" "admits_grant g"])
  moreover have "job_target_ok ?ns j" if "job_target_ok (nodes d) j" for j
    using that unfolding job_target_ok_def
    by (auto intro!: node_transfer [of "nodes d" "admits_job j"] simp: admits)
  moreover have "route_ok ?ns r" if "r \<in> set (routes d')" for r
  proof (cases "rt_activationVersion r = None")
    case False
    then have r: "r \<in> set (routes d)" and same: "st = nd_status n \<or> rt_nodeId r \<noteq> nid"
      using that still_active [of r nid "routes d"] unfolding 1(3) by (auto split: if_splits)
    then have "\<exists>m \<in> set (nodes d). admits_route r m"
      using ok False by (auto simp: cp_ok_def cp_rows_ok_def route_ok_def)
    moreover have "admits_route r (if nd_id m = nid then m\<lparr>nd_status := st\<rparr> else m)"
      if "m \<in> set (nodes d)" "admits_route r m" for m
    proof (cases "nd_id m = nid")
      case True
      then have "rt_nodeId r = nid" "m = n" using uniq that by (simp_all add: admits_route_def)
      with same that(2) show ?thesis by (auto simp: admits_route_def split: option.splits)
    qed (use that in simp)
    ultimately have "\<exists>m \<in> set ?ns. admits_route r m"
      by (blast intro: node_transfer [of "nodes d" "admits_route r"])
    then show ?thesis by (simp add: route_ok_def)
  qed (simp add: route_ok_def)
  moreover have "\<forall>m \<in> set ?ns. node_ok m"
    using ok by (auto simp: cp_ok_def cp_rows_ok_def ball_update_rows node_ok_def)
  ultimately show ?thesis
    using ok by (simp add: cp_ok_def cp_rows_ok_def 1(2,4,5) map_update_rows_key)
qed

section \<open>The transactions keep it\<close>

lemma cp_ok_change_status:
  assumes "cp_ok d" "change_status nid actor st src action refusal d = Inr (r, d')"
  shows "cp_ok d'"
  using assms
  by (auto simp: change_status_def split: option.splits if_splits sum.splits intro: cp_ok_set_status)

lemma nodes_bump: "nodes (bump_desired nid d) = update_rows (\<lambda>n. nd_id n = nid)
    (\<lambda>n. n\<lparr>desiredConfigVersion := desiredConfigVersion n + 1\<rparr>) (nodes d)"
  by (simp add: bump_desired_def)

lemma tables_bump [simp]:
  "grants (bump_desired nid d) = grants d" "jobs (bump_desired nid d) = jobs d"
  "outbox (bump_desired nid d) = outbox d" "routes (bump_desired nid d) = routes d"
  "devices (bump_desired nid d) = devices d" "deliveries (bump_desired nid d) = deliveries d"
  "acknowledgements (bump_desired nid d) = acknowledgements d"
  by (simp_all add: bump_desired_def)

lemma bumped_node:
  assumes "find_node nid d = Some n"
  shows "n\<lparr>desiredConfigVersion := desiredConfigVersion n + 1\<rparr> \<in> set (nodes (bump_desired nid d))"
  using find_node_Some [OF assms] unfolding nodes_bump
  by (intro update_rows_hit [of n "nodes d" "\<lambda>n. nd_id n = nid"]) auto

lemma bumped_desired:
  assumes "cp_ok d" "find_node nid d = Some n" "m \<in> set (nodes (bump_desired nid d))" "nd_id m = nid"
  shows "desiredConfigVersion m = desiredConfigVersion n + 1"
proof -
  obtain k where "k \<in> set (nodes d)" "nd_id k = nid" "m = k\<lparr>desiredConfigVersion := desiredConfigVersion k + 1\<rparr>"
    using assms(3,4) by (auto simp: nodes_bump set_update_rows split: if_splits)
  with node_unique [OF assms(1), of k n] find_node_Some [OF assms(2)] show ?thesis by simp
qed

lemma find_node_bump:
  "find_node nid (bump_desired nid d) =
     map_option (\<lambda>n. n\<lparr>desiredConfigVersion := desiredConfigVersion n + 1\<rparr>) (find_node nid d)"
proof -
  have "find (\<lambda>n. nd_id n = nid) (update_rows (\<lambda>n. nd_id n = nid)
      (\<lambda>n. n\<lparr>desiredConfigVersion := desiredConfigVersion n + 1\<rparr>) ns) =
    map_option (\<lambda>n. n\<lparr>desiredConfigVersion := desiredConfigVersion n + 1\<rparr>) (find (\<lambda>n. nd_id n = nid) ns)" for ns
    by (induction ns) (simp_all add: update_rows_def)
  then show ?thesis by (simp add: find_node_def nodes_bump)
qed

lemma revoke_row_twice [simp]: "revoke_row now (Some v) (revoke_row now (Some v) g) = revoke_row now (Some v) g"
  by (simp add: revoke_row_def)

lemma revoke_row_keys [simp]:
  "gr_id (revoke_row now target g) = gr_id g" "gr_nodeId (revoke_row now target g) = gr_nodeId g"
  "gr_deviceId (revoke_row now target g) = gr_deviceId g"
  "gr_status (revoke_row now target g) = GrantRevoked"
  by (simp_all add: revoke_row_def)

lemma revoke_all_rows: "revoke_all gs now v d =
    d\<lparr>grants := update_rows (\<lambda>g. gr_id g \<in> gr_id ` set gs) (revoke_row now (Some v)) (grants d)\<rparr>"
proof (induction gs arbitrary: d)
  case (Cons g gs)
  then show ?case
    by (auto simp: revoke_all_def revoke_grant_row update_rows_def intro!: arg_cong [of _ _ "\<lambda>x. d\<lparr>grants := x\<rparr>"])
qed (simp add: revoke_all_def update_rows_none)

lemma live_grants_of_set: "set (live_grants_of nid d) = {g \<in> set (grants d). gr_nodeId g = nid \<and> live_grant g}"
  by (auto simp: live_grants_of_def)

lemma live_grant_ids:
  assumes "cp_ok d" "g \<in> set (grants d)"
  shows "gr_id g \<in> gr_id ` set (live_grants_of nid d) \<longleftrightarrow> gr_nodeId g = nid \<and> live_grant g"
  using assms distinct_key_eq [of gr_id "grants d" g]
  by (auto simp: live_grants_of_set cp_ok_def cp_rows_ok_def image_iff)

lemma cp_ok_revoke_all:
  assumes "cp_ok d" "find_node nid d = Some n"
  shows "cp_ok (revoke_all (live_grants_of nid d) now (desiredConfigVersion n + 1) (bump_desired nid d))"
proof -
  let ?d = "bump_desired nid d"
  have "grant_ok (nodes ?d) (revoke_row now (Some (desiredConfigVersion n + 1)) g)"
    if "g \<in> set (grants d)" "gr_id g \<in> gr_id ` set (live_grants_of nid d)" for g
  proof (rule grant_ok_revoke_row)
    show "grant_ok (nodes ?d) g" using cp_ok_grant [OF cp_ok_bump [OF assms(1)], of g nid] that(1) by simp
    show "target_fits (Some (desiredConfigVersion n + 1)) g ?d"
      using live_grant_ids [OF assms(1) that(1)] that(2) bumped_desired [OF assms]
      by (auto simp: target_fits_def)
  qed
  then show ?thesis
    using cp_ok_bump [OF assms(1), of nid] unfolding revoke_all_rows cp_ok_def
    by (auto intro!: grants_change_ok)
qed

lemma cp_ok_quarantine:
  assumes ok: "cp_ok d" and q: "quarantine i jid eid now d = Inr (r, d')"
  shows "cp_ok d'"
proof (cases "d' = d")
  case False
  let ?nid = "qi_nodeId i" and ?gs = "live_grants_of (qi_nodeId i) d"
  obtain n d1 d2 where n: "find_node ?nid d = Some n" and st: "set_node_status ?nid NodeQuarantined d1 = Inr d2"
    and d': "cp_ok d' = cp_ok d2"
    and d1: "d1 = d \<or> request_grant_sync jid eid ?nid (gr_id (hd ?gs)) (desiredConfigVersion n + 1)
      (qi_syncJobIdempotencyKey i) (qi_outboxEventIdempotencyKey i) now
      (revoke_all ?gs now (desiredConfigVersion n + 1) (bump_desired ?nid d)) = Inr d1"
    using q False
    by (auto simp: quarantine_def Let_def map_sum_def split: if_splits option.splits sum.splits)
  have "cp_ok d1"
    using d1
  proof
    assume req: "request_grant_sync jid eid ?nid (gr_id (hd ?gs)) (desiredConfigVersion n + 1)
      (qi_syncJobIdempotencyKey i) (qi_outboxEventIdempotencyKey i) now
      (revoke_all ?gs now (desiredConfigVersion n + 1) (bump_desired ?nid d)) = Inr d1"
    show ?thesis
      by (rule cp_ok_request [OF cp_ok_revoke_all [OF ok n] req])
        (use bumped_node [OF n] find_node_Some [OF n] in \<open>auto simp: revoke_all_rows\<close>)
  qed (simp add: ok)
  then show ?thesis using cp_ok_set_status st d' by blast
qed (use ok in simp)

lemma cp_ok_schedule:
  assumes ok: "cp_ok d" and s: "scheduleInTransaction provider i gid jid eid now d = Inr (r, d')"
  shows "cp_ok d'"
proof (cases "d' = d")
  case False
  let ?nid = "si_nodeId i"
  obtain n hash d1 d2 where n: "find_node ?nid d = Some n"
    and cg: "create_grant \<lparr>gr_id = gid, gr_nodeId = ?nid, gr_deviceId = si_deviceId i,
        gr_status = GrantPending, gr_credentialHash = hash,
        gr_derivationVersion = Some DATA_PLANE_CREDENTIAL_DERIVATION_VERSION,
        gr_expiresAt = si_expiresAt i, gr_desiredVersion = desiredConfigVersion n + 1, gr_appliedVersion = 0,
        gr_revokedAt = None\<rparr> (bump_desired ?nid d) = Inr d1"
    and req: "request_grant_sync jid eid ?nid gid (desiredConfigVersion n + 1)
        (si_syncJobIdempotencyKey i) (si_outboxEventIdempotencyKey i) now d1 = Inr d2"
    and d': "cp_ok d' = cp_ok d2"
    using s False
    by (auto simp: scheduleInTransaction_def Let_def map_sum_def split: if_splits option.splits sum.splits)
  have pos: "0 \<le> desiredConfigVersion n"
    using ok find_node_Some [OF n] by (fastforce simp: cp_ok_def cp_rows_ok_def node_ok_def)
  have "cp_ok d1"
    by (rule cp_ok_create_grant [OF cp_ok_bump [OF ok] cg]) (use pos bumped_node [OF n] find_node_Some [OF n] in auto)
  moreover have "nodes d1 = nodes (bump_desired ?nid d)"
    using cg by (auto simp: create_grant_def split: if_splits)
  ultimately show ?thesis
    using cp_ok_request [OF _ req] bumped_node [OF n] find_node_Some [OF n] d' by fastforce
qed (use ok in simp)

lemma each_row_inv:
  assumes "each_row f rs d = Inr d'" "Q d" "\<And>r x y. r \<in> set rs \<Longrightarrow> Q x \<Longrightarrow> f r x = Inr y \<Longrightarrow> Q y"
  shows "Q d'"
  using assms
proof (induction rs arbitrary: d)
  case (Cons r rs)
  then obtain x where "f r d = Inr x" "each_row f rs x = Inr d'" by (auto split: sum.splits)
  with Cons show ?case by (metis list.set_intros)
qed simp

lemma cp_ok_revoke_device_grant:
  assumes ok: "cp_ok d" and g: "\<And>h. h \<in> set (grants d) \<Longrightarrow> gr_id h = gr_id g \<Longrightarrow> gr_nodeId h = gr_nodeId g"
    and f: "revoke_device_grant u v jf ef now sf g d = Inr d'" and sf: "sf (gr_nodeId g) \<noteq> None \<Longrightarrow> find_node (gr_nodeId g) d \<noteq> None"
  shows "cp_ok d'"
proof -
  let ?nid = "gr_nodeId g" and ?b = "bump_desired (gr_nodeId g) d"
  have none: "cp_ok (revoke_grant (gr_id g) now None d)"
    by (rule cp_ok_revoke [OF ok]) (simp add: target_fits_def)
  show ?thesis
  proof (cases "sf ?nid")
    case (Some st)
    then obtain n where n: "find_node ?nid d = Some n" using sf by auto
    have target: "desired_of ?nid ?b = desiredConfigVersion n + 1"
      by (simp add: desired_of_def find_node_bump n)
    have rev: "cp_ok (revoke_grant (gr_id g) now (Some (desiredConfigVersion n + 1)) ?b)"
      by (rule cp_ok_revoke [OF cp_ok_bump [OF ok]])
        (use g bumped_desired [OF ok n] in \<open>auto simp: target_fits_def\<close>)
    show ?thesis
      using f Some none target cp_ok_request [OF rev] bumped_node [OF n] find_node_Some [OF n]
      by (fastforce simp: revoke_device_grant_def Let_def map_sum_def revoke_grant_row split: if_splits sum.splits)
  qed (use f none in \<open>auto simp: revoke_device_grant_def\<close>)
qed

definition same_keys :: "db \<Rightarrow> db \<Rightarrow> bool" where
  "same_keys d d' \<longleftrightarrow> map nd_id (nodes d') = map nd_id (nodes d)
     \<and> map (\<lambda>g. (gr_id g, gr_nodeId g)) (grants d') = map (\<lambda>g. (gr_id g, gr_nodeId g)) (grants d)"

lemma same_keys_refl [simp]: "same_keys d d"
  by (simp add: same_keys_def)

lemma same_keys_find: "same_keys d d' \<Longrightarrow> find_node nid d \<noteq> None \<Longrightarrow> find_node nid d' \<noteq> None"
  unfolding same_keys_def find_node_def find_None_iff by (metis (mono_tags, lifting) image_iff list.set_map)

lemma same_keys_grant:
  assumes "same_keys d d'" "h \<in> set (grants d')"
  shows "\<exists>g \<in> set (grants d). gr_id g = gr_id h \<and> gr_nodeId g = gr_nodeId h"
proof -
  have "(gr_id h, gr_nodeId h) \<in> set (map (\<lambda>g. (gr_id g, gr_nodeId g)) (grants d))"
    using assms unfolding same_keys_def by (metis (mono_tags, lifting) image_eqI list.set_map)
  then show ?thesis by auto
qed

lemma request_grants: "request_grant_sync jid eid nid gid v jk ek now d = Inr d' \<Longrightarrow>
    grants d' = grants d \<and> nodes d' = nodes d \<and> routes d' = routes d \<and> devices d' = devices d"
  by (auto simp: request_grant_sync_def create_job_def create_event_def split: sum.splits if_splits)

lemma audit_tables [simp]:
  "nodes (write_audit a b c e d) = nodes d" "grants (write_audit a b c e d) = grants d"
  "jobs (write_audit a b c e d) = jobs d" "routes (write_audit a b c e d) = routes d"
  "devices (write_audit a b c e d) = devices d" "outbox (write_audit a b c e d) = outbox d"
  "deliveries (write_audit a b c e d) = deliveries d"
  "acknowledgements (write_audit a b c e d) = acknowledgements d"
  by (simp_all add: write_audit_def)

lemma same_keys_revoke_device_grant:
  assumes "revoke_device_grant u v jf ef now sf g d = Inr d'"
  shows "same_keys d d'"
  using assms
  by (auto simp: revoke_device_grant_def Let_def map_sum_def same_keys_def revoke_grant_row nodes_bump
      update_rows_def dest!: request_grants split: option.splits if_splits sum.splits)

lemma same_keys_trans: "same_keys a b \<Longrightarrow> same_keys b c \<Longrightarrow> same_keys a c"
  by (simp add: same_keys_def)

lemma device_live_grants_set:
  "set (device_live_grants did d) = {g \<in> set (grants d). gr_deviceId g = did \<and> live_grant g}"
  by (auto simp: device_live_grants_def)

lemma cp_ok_revoke_device:
  assumes ok: "cp_ok d" and r: "revoke u v jf ef now d = Inr (res, d')"
  shows "cp_ok d'"
proof (cases "res = Revoked")
  case True
  let ?d1 = "d\<lparr>devices := update_rows (\<lambda>w. dv_id w = v)
     (\<lambda>w. w\<lparr>dv_status := DeviceRevoked, dv_revokedAt := Some now\<rparr>) (devices d)\<rparr>"
  let ?sf = "\<lambda>nid. map_option nd_status (find_node nid d)"
  obtain d2 where each: "each_row (revoke_device_grant u v jf ef now ?sf) (device_live_grants v d) ?d1 = Inr d2"
    and d': "cp_ok d' = cp_ok d2"
    using r True by (auto simp: revoke_def Let_def split: option.splits if_splits sum.splits)
  have "cp_ok d2 \<and> same_keys d d2"
  proof (rule each_row_inv [OF each])
    show "cp_ok ?d1 \<and> same_keys d ?d1" using ok by (simp add: cp_ok_def same_keys_def)
  next
    fix g x y assume g: "g \<in> set (device_live_grants v d)" and x: "cp_ok x \<and> same_keys d x"
      and f: "revoke_device_grant u v jf ef now ?sf g x = Inr y"
    have keep: "gr_nodeId h = gr_nodeId g" if h: "h \<in> set (grants x)" "gr_id h = gr_id g" for h
    proof -
      obtain k where k: "k \<in> set (grants d)" "gr_id k = gr_id h" "gr_nodeId k = gr_nodeId h"
        using same_keys_grant x h(1) by blast
      then have "k = g"
        using distinct_key_eq [of gr_id "grants d" k g] ok g h(2)
        by (simp add: device_live_grants_set cp_ok_def cp_rows_ok_def)
      with k show ?thesis by simp
    qed
    have "cp_ok y"
      by (rule cp_ok_revoke_device_grant [OF _ keep f]) (use x same_keys_find in auto)
    then show "cp_ok y \<and> same_keys d y"
      using x same_keys_trans same_keys_revoke_device_grant [OF f] by blast
  qed
  then show ?thesis using d' by simp
qed (use assms in \<open>auto simp: revoke_def Let_def split: option.splits if_splits sum.splits\<close>)

text \<open>Publication adds material that is not yet active, then activates the route on its healthy node.\<close>

lemma cp_ok_publish_material: "cp_ok d \<Longrightarrow> cp_ok (publish_material i d)"
  by (auto simp: publish_material_def cp_ok_def cp_rows_ok_def route_ok_def)

lemma nodes_publish_material [simp]: "nodes (publish_material i d) = nodes d"
  by (simp add: publish_material_def)

lemma cp_ok_activate:
  assumes "cp_ok d" "activate_route i v d = Inr d'"
    and "n \<in> set (nodes d)" "nd_status n = NodeHealthy" "v \<le> desiredConfigVersion n"
    and "\<And>r. r \<in> set (routes d) \<Longrightarrow> is_route i r \<Longrightarrow> rt_nodeId r = nd_id n"
  shows "cp_ok d'"
proof -
  have d': "d' = d\<lparr>routes := update_rows (is_route i)
      (\<lambda>r. r\<lparr>rt_activationVersion := Some v, rt_lastActivationVersion := v\<rparr>) (routes d)\<rparr>"
    using assms(2) by (auto simp: activate_route_def split: if_splits)
  have "admits_route (r\<lparr>rt_activationVersion := Some v, rt_lastActivationVersion := v\<rparr>) n"
    if "r \<in> set (routes d)" "is_route i r" for r
    using assms(4-6) that by (simp add: admits_route_def)
  then show ?thesis
    using assms(1,3) by (auto simp: cp_ok_def cp_rows_ok_def route_ok_def ball_update_rows d')
qed

text \<open>Endpoints and profiles belong to one node, so a stored route of an endpoint lies on its node.\<close>

definition routes_placed :: "db \<Rightarrow> bool" where
  "routes_placed d \<longleftrightarrow>
     distinct (map ep_id (endpoints d))
   \<and> (\<forall>r \<in> set (routes d). \<exists>e \<in> set (endpoints d). ep_id e = rt_endpointId r \<and> ep_nodeId e = rt_nodeId r)"

lemma cp_ok_publish:
  assumes ok: "cp_ok d" and placed: "routes_placed d"
    and p: "publishConnectionRoute is_uuid i jid eid now d = Inr (r, d')"
  shows "cp_ok d'"
proof (cases "d' = d")
  case False
  let ?nid = "pi_nodeId i"
  obtain n d2 d3 d4 v where n: "find_node ?nid d = Some n" "nd_status n = NodeHealthy"
    and ep: "\<exists>e \<in> set (endpoints d). ep_id e = pi_endpointId i \<and> ep_nodeId e = ?nid"
    and v: "v = desiredConfigVersion n + 1"
    and job: "create_job (new_job jid ?nid None (Some (pi_endpointId i)) (Some (pi_connectionProfileId i)) v
        (pi_syncJobIdempotencyKey i)) (bump_desired ?nid (publish_material i d)) = Inr d2"
    and ev: "create_event (new_event eid ''ConnectionRoute'' (pi_endpointId i)
        (route_payload (pi_endpointId i) (pi_connectionProfileId i) jid v) (pi_outboxEventIdempotencyKey i) now) d2 = Inr d3"
    and act: "activate_route i v d3 = Inr d4" and d': "cp_ok d' = cp_ok d4"
    using p False
    by (auto simp: publishConnectionRoute_def Let_def map_sum_def split: if_splits option.splits sum.splits)
  let ?d1 = "bump_desired ?nid (publish_material i d)"
  have find1: "find_node ?nid (publish_material i d) = Some n" using n by (simp add: find_node_def)
  let ?m = "n\<lparr>desiredConfigVersion := desiredConfigVersion n + 1\<rparr>"
  have m: "?m \<in> set (nodes ?d1)" "nd_id ?m = ?nid" "nd_status ?m = NodeHealthy" "v \<le> desiredConfigVersion ?m"
    using bumped_node [OF find1] find_node_Some [OF n(1)] n(2) v by auto
  have ok2: "cp_ok d2"
    by (rule cp_ok_create_job [OF cp_ok_bump [OF cp_ok_publish_material [OF ok]] job m(1,2,4)])
  have same: "nodes d3 = nodes ?d1" "routes d3 = routes (publish_material i d)"
    using job ev by (auto simp: create_job_def create_event_def split: if_splits)
  have "rt_nodeId r = ?nid" if "r \<in> set (routes d3)" "is_route i r" for r
    using that ep placed distinct_key_eq [of ep_id "endpoints d"] unfolding same
    by (auto simp: publish_material_def routes_placed_def is_route_def split: if_splits) (metis)+
  then have "cp_ok d4"
    using cp_ok_activate [OF cp_ok_create_event [OF ok2 ev] act, of ?m] m same by simp
  then show ?thesis using d' by simp
qed (use ok in simp)

lemma cp_ok_acknowledge:
  assumes ok: "cp_ok d" and a: "acknowledgeNodeConfigInTransaction i now d = Inr (r, d')"
  shows "cp_ok d'"
proof (cases "find (\<lambda>a. ak_jobId a = ai_nodeSyncJobId i) (acknowledgements d)")
  case (Some b)
  then show ?thesis
    using a ok by (auto simp: acknowledgeNodeConfigInTransaction_def split: if_splits option.splits sum.splits
        intro: cp_ok_settle)
next
  case None
  let ?ack = "\<lparr>ak_nodeId = ai_nodeId i, ak_jobId = ai_nodeSyncJobId i, ak_targetVersion = ai_targetVersion i,
    ak_snapshotHash = ai_snapshotHash i, ak_acknowledgedAt = now\<rparr>"
  let ?d1 = "d\<lparr>acknowledgements := acknowledgements d @ [?ack]\<rparr>"
  obtain n where n: "find_node (ai_nodeId i) d = Some n"
    using a None by (auto simp: acknowledgeNodeConfigInTransaction_def split: if_splits option.splits)
  then obtain d2 d3 where sa: "(if ai_targetVersion i > appliedConfigVersion n
        then set_applied (ai_nodeId i) (ai_targetVersion i) ?d1 else Inr ?d1) = Inr d2"
    and st: "settle_grants (ai_nodeId i) (ai_targetVersion i) d2 = Inr d3" and d': "cp_ok d' = cp_ok d3"
    using a None
    by (auto simp: acknowledgeNodeConfigInTransaction_def create_acknowledgement_def
        split: if_splits sum.splits)
  have "cp_ok ?d1" using ok by (simp add: cp_ok_def)
  moreover have "0 \<le> appliedConfigVersion n"
    using ok find_node_Some [OF n] by (auto simp: cp_ok_def cp_rows_ok_def node_ok_def)
  ultimately have "cp_ok d2" using sa cp_ok_set_applied by (auto split: if_splits)
  then show ?thesis using cp_ok_settle [OF _ st] d' by simp
qed

lemma cp_ok_node_sync:
  assumes "cp_ok d"
  shows "cp_ok (node_sync_exec c now op d)"
proof -
  let ?d = "node_sync_exec c now op d"
  have same: "nodes ?d = nodes d" "grants ?d = grants d" "routes ?d = routes d"
    by (cases op; simp add: job_statements)+
  have target: "map (\<lambda>j. (jb_nodeId j, jb_targetVersion j)) (jobs ?d) = map (\<lambda>j. (jb_nodeId j, jb_targetVersion j)) (jobs d)"
    by (cases op) (simp_all add: job_statements map_update_rows_key job_rows)
  have "jobs_ok ?d" using assms by (intro node_sync_exec_ok)
      (auto simp: cp_ok_def cp_rows_ok_def jobs_ok_def job_target_ok_def)
  moreover have "\<exists>n \<in> set (nodes d). admits_job j n" if "j \<in> set (jobs ?d)" for j
  proof -
    have "(jb_nodeId j, jb_targetVersion j) \<in> set (map (\<lambda>j. (jb_nodeId j, jb_targetVersion j)) (jobs d))"
      using that unfolding target [symmetric] by auto
    then show ?thesis
      using assms by (auto simp: cp_ok_def cp_rows_ok_def job_target_ok_def admits_job_def)
  qed
  ultimately show ?thesis
    using assms by (auto simp: cp_ok_def cp_rows_ok_def job_target_ok_def jobs_ok_def same)
qed

text \<open>The node a row names is the one that admits it.\<close>

lemma admitting_node:
  assumes "cp_ok d" "n \<in> set (nodes d)"
  shows "g \<in> set (grants d) \<Longrightarrow> nd_id n = gr_nodeId g \<Longrightarrow> admits_grant g n \<and> grant_row_ok g"
    and "j \<in> set (jobs d) \<Longrightarrow> nd_id n = jb_nodeId j \<Longrightarrow> admits_job j n"
    and "r \<in> set (routes d) \<Longrightarrow> nd_id n = rt_nodeId r \<Longrightarrow> rt_activationVersion r \<noteq> None \<Longrightarrow> admits_route r n"
proof -
  have uniq: "m = n" if "m \<in> set (nodes d)" "nd_id m = nd_id n" for m
    using node_unique [OF assms(1) that(1) assms(2) that(2)] .
  show "admits_grant g n \<and> grant_row_ok g" if "g \<in> set (grants d)" "nd_id n = gr_nodeId g"
  proof -
    have "grant_ok (nodes d) g" using assms(1) that(1) by (simp add: cp_ok_def cp_rows_ok_def)
    then obtain m where "m \<in> set (nodes d)" "admits_grant g m" "grant_row_ok g"
      unfolding grant_ok_def by blast
    with uniq [of m] that(2) show ?thesis by (metis admits_grant_def)
  qed
  show "admits_job j n" if "j \<in> set (jobs d)" "nd_id n = jb_nodeId j"
  proof -
    have "job_target_ok (nodes d) j" using assms(1) that(1) by (simp add: cp_ok_def cp_rows_ok_def)
    then obtain m where "m \<in> set (nodes d)" "admits_job j m" unfolding job_target_ok_def by blast
    with uniq [of m] that(2) show ?thesis by (metis admits_job_def)
  qed
  show "admits_route r n" if "r \<in> set (routes d)" "nd_id n = rt_nodeId r" "rt_activationVersion r \<noteq> None"
  proof -
    have "route_ok (nodes d) r" using assms(1) that(1) by (simp add: cp_ok_def cp_rows_ok_def)
    then have "\<exists>m \<in> set (nodes d). admits_route r m" using that(3) unfolding route_ok_def by blast
    then obtain m where "m \<in> set (nodes d)" "admits_route r m" by blast
    with uniq [of m] that(2) show ?thesis by (metis admits_route_def)
  qed
qed

text \<open>No transaction moves a route or an endpoint; publication adds a route on the node of its endpoint.\<close>

definition same_places :: "db \<Rightarrow> db \<Rightarrow> bool" where
  "same_places d d' \<longleftrightarrow> endpoints d' = endpoints d
     \<and> map (\<lambda>r. (rt_endpointId r, rt_nodeId r)) (routes d') = map (\<lambda>r. (rt_endpointId r, rt_nodeId r)) (routes d)"

lemma same_places_refl [simp]: "same_places d d"
  by (simp add: same_places_def)

lemma same_places_trans: "same_places a b \<Longrightarrow> same_places b c \<Longrightarrow> same_places a c"
  by (simp add: same_places_def)

lemma routes_placed_keys: "routes_placed d \<longleftrightarrow> distinct (map ep_id (endpoints d))
   \<and> (\<forall>(e, n) \<in> set (map (\<lambda>r. (rt_endpointId r, rt_nodeId r)) (routes d)).
        (e, n) \<in> set (map (\<lambda>e. (ep_id e, ep_nodeId e)) (endpoints d)))"
  by (auto simp: routes_placed_def image_iff) metis+

lemma same_places_placed: "same_places d d' \<Longrightarrow> routes_placed d \<Longrightarrow> routes_placed d'"
  by (simp add: same_places_def routes_placed_keys del: set_map)

lemma places_set_status: "set_node_status nid st d = Inr d' \<Longrightarrow> same_places d d'"
  by (auto simp: set_node_status_def close_node_routes_def same_places_def Let_def map_update_rows_key
      split: option.splits if_splits)

lemma places_request: "request_grant_sync jid eid nid gid v jk ek now d = Inr d' \<Longrightarrow> same_places d d'"
  by (auto simp: request_grant_sync_def create_job_def create_event_def same_places_def
      split: sum.splits if_splits)

lemma places_writes [simp]:
  "same_places x (write_audit a b c e d) = same_places x d"
  "same_places (bump_desired nid d) x = same_places d x"
  "same_places (revoke_grant gid now target d) x = same_places d x"
  "same_places x (bump_desired nid d) = same_places x d"
  "same_places x (revoke_grant gid now target d) = same_places x d"
  by (simp_all add: same_places_def write_audit_def bump_desired_def revoke_grant_def)

lemma places_revoke_all [simp]: "same_places (revoke_all gs now v d) x = same_places d x"
  by (simp add: revoke_all_rows same_places_def)

lemma places_change_status: "change_status nid actor st src action refusal d = Inr (r, d') \<Longrightarrow> same_places d d'"
  by (auto simp: change_status_def split: option.splits if_splits sum.splits dest: places_set_status)

lemma places_quarantine: "quarantine i jid eid now d = Inr (r, d') \<Longrightarrow> same_places d d'"
  by (auto simp: quarantine_def Let_def map_sum_def split: if_splits option.splits sum.splits
      dest!: places_set_status places_request intro: same_places_trans)

lemma places_create_grant: "create_grant g d = Inr d' \<Longrightarrow> same_places d d'"
  by (auto simp: create_grant_def same_places_def split: if_splits)

lemma places_schedule: "scheduleInTransaction provider i gid jid eid now d = Inr (r, d') \<Longrightarrow> same_places d d'"
  by (auto 0 4 simp: scheduleInTransaction_def Let_def map_sum_def split: if_splits option.splits sum.splits
      dest!: places_create_grant places_request dest: same_places_trans)

lemma places_revoke_device_grant: "revoke_device_grant u v jf ef now sf g d = Inr d' \<Longrightarrow> same_places d d'"
  by (auto simp: revoke_device_grant_def Let_def map_sum_def split: option.splits if_splits sum.splits
      dest!: places_request)

lemma places_revoke_device: "revoke u v jf ef now d = Inr (r, d') \<Longrightarrow> same_places d d'"
proof -
  assume r: "revoke u v jf ef now d = Inr (r, d')"
  have each: "each_row (revoke_device_grant u v jf ef now sf) gs x = Inr y \<Longrightarrow> same_places x y" for sf gs x y
    by (erule each_row_inv [where Q = "same_places x"])
      (auto intro: same_places_trans places_revoke_device_grant)
  then have "each_row (revoke_device_grant u v jf ef now sf) gs (d\<lparr>devices := ds\<rparr>) = Inr y \<Longrightarrow> same_places d y"
    for sf gs ds y
    by (fastforce simp: same_places_def)
  with r show ?thesis
    by (auto simp: revoke_def Let_def split: option.splits if_splits sum.splits)
qed

lemma places_acknowledge: "acknowledgeNodeConfigInTransaction i now d = Inr (r, d') \<Longrightarrow> same_places d d'"
  by (auto simp: acknowledgeNodeConfigInTransaction_def settle_grants_def set_applied_def
      create_acknowledgement_def same_places_def write_audit_def split: option.splits if_splits sum.splits)

lemma places_node_sync: "same_places d (node_sync_exec c now op d)"
  by (cases op) (simp_all add: job_statements same_places_def)

lemma places_publish_material:
  assumes "routes_placed d" "\<exists>e \<in> set (endpoints d). ep_id e = pi_endpointId i \<and> ep_nodeId e = pi_nodeId i"
  shows "routes_placed (publish_material i d)"
proof -
  let ?d = "publish_material i d"
  have keys: "map (\<lambda>e. (ep_id e, ep_nodeId e)) (endpoints ?d) = map (\<lambda>e. (ep_id e, ep_nodeId e)) (endpoints d)"
    "map ep_id (endpoints ?d) = map ep_id (endpoints d)"
    by (simp_all add: publish_material_def Let_def map_update_rows_key)
  have "set (routes ?d) = set (routes d) \<or> (\<exists>r. set (routes ?d) = insert r (set (routes d))
      \<and> rt_endpointId r = pi_endpointId i \<and> rt_nodeId r = pi_nodeId i)"
    by (auto simp: publish_material_def Let_def)
  moreover have "(pi_endpointId i, pi_nodeId i) \<in> set (map (\<lambda>e. (ep_id e, ep_nodeId e)) (endpoints d))"
    using assms(2) by force
  ultimately show ?thesis
    using assms(1) unfolding routes_placed_keys keys by (elim disjE exE conjE) (simp_all del: set_map add: set_map [of _ "routes _"])
qed

lemma placed_publish:
  assumes placed: "routes_placed d" and p: "publishConnectionRoute is_uuid i jid eid now d = Inr (r, d')"
  shows "routes_placed d'"
proof (cases "d' = d")
  case False
  obtain d2 d3 d4 v where ep: "\<exists>e \<in> set (endpoints d). ep_id e = pi_endpointId i \<and> ep_nodeId e = pi_nodeId i"
    and job: "create_job (new_job jid (pi_nodeId i) None (Some (pi_endpointId i)) (Some (pi_connectionProfileId i)) v
        (pi_syncJobIdempotencyKey i)) (bump_desired (pi_nodeId i) (publish_material i d)) = Inr d2"
    and ev: "create_event (new_event eid ''ConnectionRoute'' (pi_endpointId i)
        (route_payload (pi_endpointId i) (pi_connectionProfileId i) jid v) (pi_outboxEventIdempotencyKey i) now) d2 = Inr d3"
    and act: "activate_route i v d3 = Inr d4" and d': "\<And>x. same_places x d' = same_places x d4"
    using p False
    by (auto simp: publishConnectionRoute_def Let_def map_sum_def split: if_splits option.splits sum.splits)
  have "same_places (publish_material i d) d2"
    using job by (auto simp: create_job_def same_places_def bump_desired_def split: if_splits)
  moreover have "same_places d2 d3"
    using ev by (auto simp: create_event_def same_places_def split: if_splits)
  moreover have "same_places d3 d4"
    using act by (auto simp: activate_route_def same_places_def map_update_rows_key split: if_splits)
  ultimately have "same_places (publish_material i d) d'"
    unfolding d' by (blast intro: same_places_trans)
  then show ?thesis using places_publish_material [OF placed ep] same_places_placed by blast
qed (use placed in simp)

section \<open>Progress\<close>

text \<open>What no write ever takes back: versions, the fence of a quarantined node, a revocation and the
  identity of a grant.\<close>

definition rows_progress :: "('r \<Rightarrow> 'r \<Rightarrow> bool) \<Rightarrow> 'r list \<Rightarrow> 'r list \<Rightarrow> bool" where
  "rows_progress P xs ys \<longleftrightarrow> (\<forall>x \<in> set xs. \<exists>y \<in> set ys. P x y)"

definition node_le :: "node \<Rightarrow> node \<Rightarrow> bool" where
  "node_le n m \<longleftrightarrow> nd_id m = nd_id n \<and> desiredConfigVersion n \<le> desiredConfigVersion m
     \<and> appliedConfigVersion n \<le> appliedConfigVersion m
     \<and> (nd_status n = NodeQuarantined \<longrightarrow> nd_status m = NodeQuarantined)"

definition grant_le :: "grant \<Rightarrow> grant \<Rightarrow> bool" where
  "grant_le g h \<longleftrightarrow> gr_id h = gr_id g \<and> gr_nodeId h = gr_nodeId g \<and> gr_deviceId h = gr_deviceId g
     \<and> gr_credentialHash h = gr_credentialHash g \<and> gr_desiredVersion g \<le> gr_desiredVersion h
     \<and> gr_appliedVersion g \<le> gr_appliedVersion h
     \<and> (gr_status g = GrantRevoked \<longrightarrow> gr_status h = GrantRevoked)"

definition db_progress :: "db \<Rightarrow> db \<Rightarrow> bool" where
  "db_progress d d' \<longleftrightarrow> rows_progress node_le (nodes d) (nodes d') \<and> rows_progress grant_le (grants d) (grants d')"

lemma le_refl [simp]: "node_le n n" "grant_le g g"
  by (simp_all add: node_le_def grant_le_def)

lemma rows_progress_refl [simp]:
  "rows_progress node_le ns ns" "rows_progress grant_le gs gs"
  by (auto simp: rows_progress_def intro: le_refl)

lemma db_progress_refl [simp]: "db_progress d d"
  by (simp add: db_progress_def)

lemma rows_progress_trans:
  assumes "\<And>x y z. P x y \<Longrightarrow> P y z \<Longrightarrow> P x z" "rows_progress P xs ys" "rows_progress P ys zs"
  shows "rows_progress P xs zs"
  using assms unfolding rows_progress_def by meson

lemma db_progress_trans: "db_progress a b \<Longrightarrow> db_progress b c \<Longrightarrow> db_progress a c"
  unfolding db_progress_def
  by (auto elim!: rows_progress_trans [rotated] simp: node_le_def grant_le_def)

lemma rows_progress_update:
  assumes "\<And>x. P x x" "\<And>x. x \<in> set xs \<Longrightarrow> p x \<Longrightarrow> P x (f x)"
  shows "rows_progress P xs (update_rows p f xs)"
  unfolding rows_progress_def set_update_rows
proof
  fix x assume "x \<in> set xs"
  with assms show "\<exists>y \<in> (\<lambda>r. if p r then f r else r) ` set xs. P x y"
    by (intro bexI [of _ "if p x then f x else x"]) auto
qed

lemma db_progress_same: "nodes d' = nodes d \<Longrightarrow> grants d' = grants d \<Longrightarrow> db_progress d d'"
  by (simp add: db_progress_def)

lemma db_progress_audit [simp]: "db_progress d (write_audit a b c e x) = db_progress d x"
  by (simp add: db_progress_def)

lemma db_progress_bump: "db_progress d (bump_desired nid d)"
  by (auto simp: db_progress_def nodes_bump node_le_def intro!: rows_progress_update)

lemma db_progress_status:
  assumes "cp_ok d" "set_node_status nid st d = Inr d'"
    and "\<And>n. find_node nid d = Some n \<Longrightarrow> nd_status n = NodeQuarantined \<Longrightarrow> st = NodeQuarantined"
  shows "db_progress d d'"
  using assms(2)
proof (cases rule: set_node_status_Inr)
  case (1 n)
  have "node_le m (m\<lparr>nd_status := st\<rparr>)" if "m \<in> set (nodes d)" "nd_id m = nid" for m
    using node_unique [OF assms(1) that(1), of n] find_node_Some [OF 1(1)] that(2) assms(3) [OF 1(1)]
    by (auto simp: node_le_def)
  then show ?thesis
    by (auto simp: db_progress_def 1(2,4) intro!: rows_progress_update)
qed

lemma db_progress_request: "request_grant_sync jid eid nid gid v jk ek now d = Inr d' \<Longrightarrow> db_progress d d'"
  by (auto dest!: request_grants intro: db_progress_same)

lemma db_progress_create_grant: "create_grant g d = Inr d' \<Longrightarrow> db_progress d d'"
  by (auto simp: create_grant_def db_progress_def rows_progress_def intro: le_refl split: if_splits)

lemma grant_le_revoke_row:
  assumes "grant_ok (nodes d) g" "target_fits target g d"
  shows "grant_le g (revoke_row now target g)"
  using assms by (auto simp: grant_le_def revoke_row_def grant_ok_def admits target_fits_def split: option.splits)

lemma db_progress_revoke:
  assumes "cp_ok d" "\<And>g. g \<in> set (grants d) \<Longrightarrow> gr_id g = gid \<Longrightarrow> target_fits target g d"
  shows "db_progress d (revoke_grant gid now target d)"
  using assms
  by (auto simp: db_progress_def revoke_grant_row cp_ok_grant intro!: rows_progress_update grant_le_revoke_row)

lemma db_progress_settle: "cp_ok d \<Longrightarrow> settle_grants nid v d = Inr d' \<Longrightarrow> db_progress d d'"
  by (auto simp: settle_grants_def db_progress_def settle_grant_def settles_grant_def grant_le_def
      intro!: rows_progress_update split: if_splits)

lemma db_progress_change_status:
  assumes "cp_ok d" "change_status nid actor st src action refusal d = Inr (r, d')" "NodeQuarantined \<notin> src"
  shows "db_progress d d'"
proof (cases "d' = d")
  case False
  then obtain n x where "find_node nid d = Some n" "nd_status n \<in> src" "set_node_status nid st d = Inr x"
    "d' = write_audit actor action ''Node'' nid x"
    using assms(2) by (auto simp: change_status_def split: option.splits if_splits sum.splits)
  then show ?thesis using db_progress_status [OF assms(1)] assms(3) by fastforce
qed simp

lemma db_progress_revoke_all:
  assumes "cp_ok d" "find_node nid d = Some n"
  shows "db_progress d (revoke_all (live_grants_of nid d) now (desiredConfigVersion n + 1) (bump_desired nid d))"
proof -
  let ?d = "bump_desired nid d"
  have "grant_le g (revoke_row now (Some (desiredConfigVersion n + 1)) g)"
    if "g \<in> set (grants d)" "gr_id g \<in> gr_id ` set (live_grants_of nid d)" for g
  proof (rule grant_le_revoke_row)
    show "grant_ok (nodes ?d) g" using cp_ok_grant [OF cp_ok_bump [OF assms(1)], of g nid] that(1) by simp
    show "target_fits (Some (desiredConfigVersion n + 1)) g ?d"
      using live_grant_ids [OF assms(1) that(1)] that(2) bumped_desired [OF assms]
      by (auto simp: target_fits_def)
  qed
  then show ?thesis
    using db_progress_bump [of d nid] by (auto simp: revoke_all_rows db_progress_def intro!: rows_progress_update)
qed

end
