(* ===== verification/Subscription_Access_Writes.thy ===== *)
theory Subscription_Access_Writes
  imports Control_Plane_Writes Subscription_Access
begin

text \<open>
  The transactions of the subscription access store keep the invariant of the control plane.

  \<open>kept d x\<close> says that \<open>x\<close> satisfies the invariant, takes nothing back that \<open>d\<close> had and moves no route.
  There is one rule per write; the loops over nodes and grants carry it from row to row.  Rows that a
  transaction read at its start are found again through \<open>grant_successor\<close>.
\<close>

section \<open>Rules for writes\<close>

named_theorems kept_intros \<open>writes that keep the invariant\<close>

definition kept :: "db \<Rightarrow> db \<Rightarrow> bool" where
  "kept d x \<longleftrightarrow> cp_ok x \<and> db_progress d x \<and> same_places d x"

lemma kept_refl: "cp_ok d \<Longrightarrow> kept d d"
  by (simp add: kept_def)

lemma kept_trans: "kept d x \<Longrightarrow> kept x y \<Longrightarrow> kept d y"
  unfolding kept_def by (blast intro: db_progress_trans same_places_trans)

lemma grant_successor:
  assumes "kept d x" "g \<in> set (grants d)" "h \<in> set (grants x)" "gr_id h = gr_id g"
  shows "grant_le g h"
proof -
  obtain k where "k \<in> set (grants x)" "grant_le g k"
    using assms(1,2) by (auto simp: kept_def db_progress_def rows_progress_def)
  with assms distinct_key_eq [of gr_id "grants x" k h] show ?thesis
    by (auto simp: kept_def cp_ok_def cp_rows_ok_def grant_le_def)
qed

lemma node_successor:
  assumes "kept d x" "n \<in> set (nodes d)"
  obtains m where "m \<in> set (nodes x)" "nd_id m = nd_id n"
  using assms by (auto simp: kept_def db_progress_def rows_progress_def node_le_def)

lemma kept_bump [kept_intros]: "kept d x \<Longrightarrow> kept d (bump_desired nid x)"
  unfolding kept_def by (auto intro: db_progress_trans db_progress_bump)

lemma kept_audit [simp]: "kept d (write_audit a b c e x) = kept d x"
  by (simp add: kept_def)

lemma kept_subscription [simp]: "kept d (update_subscription sid f x) = kept d x"
  by (simp add: kept_def update_subscription_def cp_ok_def db_progress_def same_places_def)

lemma subscription_tables [simp]:
  "nodes (update_subscription sid f d) = nodes d" "grants (update_subscription sid f d) = grants d"
  "jobs (update_subscription sid f d) = jobs d" "devices (update_subscription sid f d) = devices d"
  "outbox (update_subscription sid f d) = outbox d" "routes (update_subscription sid f d) = routes d"
  "acknowledgements (update_subscription sid f d) = acknowledgements d"
  "deliveries (update_subscription sid f d) = deliveries d" "endpoints (update_subscription sid f d) = endpoints d"
  by (simp_all add: update_subscription_def)

lemma update_grants_tables [simp]:
  "nodes (update_grants gids f d) = nodes d" "jobs (update_grants gids f d) = jobs d"
  "devices (update_grants gids f d) = devices d" "subscriptions (update_grants gids f d) = subscriptions d"
  "outbox (update_grants gids f d) = outbox d" "routes (update_grants gids f d) = routes d"
  "acknowledgements (update_grants gids f d) = acknowledgements d"
  "endpoints (update_grants gids f d) = endpoints d"
  "grants (update_grants gids f d) = update_rows (\<lambda>g. gr_id g \<in> set gids) f (grants d)"
  by (simp_all add: update_grants_def)

text \<open>A grant may be revoked, activated or left in its status, and asked for a version its node desires.\<close>

definition version_fits :: "node list \<Rightarrow> grant \<Rightarrow> version \<Rightarrow> bool" where
  "version_fits ns g v \<longleftrightarrow> v = gr_desiredVersion g
     \<or> (\<forall>n \<in> set ns. nd_id n = gr_nodeId g \<longrightarrow> v = desiredConfigVersion n)"

definition retargeted :: "version \<Rightarrow> grant \<Rightarrow> grant \<Rightarrow> bool" where
  "retargeted v g h \<longleftrightarrow> gr_id h = gr_id g \<and> gr_nodeId h = gr_nodeId g \<and> gr_deviceId h = gr_deviceId g
     \<and> gr_credentialHash h = gr_credentialHash g \<and> gr_desiredVersion h = v
     \<and> gr_appliedVersion h = gr_appliedVersion g
     \<and> (gr_status h = gr_status g \<and> gr_revokedAt h = gr_revokedAt g
        \<or> gr_status h = GrantRevoked \<and> gr_revokedAt h \<noteq> None
        \<or> gr_status g \<noteq> GrantRevoked \<and> gr_status h = GrantActive \<and> gr_revokedAt h = gr_revokedAt g)"

lemma retargeted_ok:
  assumes "grant_ok ns g" "version_fits ns g v" "retargeted v g h"
  shows "grant_ok ns h \<and> grant_le g h"
proof -
  obtain n where n: "n \<in> set ns" "admits_grant g n" and row: "grant_row_ok g"
    using assms(1) by (auto simp: grant_ok_def)
  have v: "gr_desiredVersion g \<le> v" "v \<le> desiredConfigVersion n"
    using assms(2) n by (auto simp: version_fits_def admits_grant_def)
  have "admits_grant h n" using n(2) v(2) assms(3) by (auto simp: admits_grant_def retargeted_def)
  moreover have "grant_row_ok h" using row v(1) assms(3) by (auto simp: grant_row_ok_def retargeted_def)
  moreover have "grant_le g h"
    using v(1) assms(3) row by (auto simp: grant_le_def retargeted_def)
  ultimately show ?thesis using n(1) by (auto simp: grant_ok_def)
qed

lemma kept_update_grants:
  assumes "kept d x"
    and "\<And>g. g \<in> set (grants x) \<Longrightarrow> gr_id g \<in> set gids \<Longrightarrow>
           \<exists>v. version_fits (nodes x) g v \<and> retargeted v g (f g)"
  shows "kept d (update_grants gids f x)"
proof -
  have ok: "cp_ok x" using assms(1) by (simp add: kept_def)
  have good: "grant_ok (nodes x) (f g) \<and> grant_le g (f g)" if "g \<in> set (grants x)" "gr_id g \<in> set gids" for g
    using assms(2) [OF that] retargeted_ok [OF cp_ok_grant [OF ok that(1)]] by blast
  then have "cp_ok (update_grants gids f x)"
    using ok unfolding cp_ok_def by (auto intro!: grants_change_ok simp: grant_le_def)
  moreover have "db_progress x (update_grants gids f x)"
    using good by (auto simp: db_progress_def intro!: rows_progress_update)
  moreover have "same_places x (update_grants gids f x)" by (simp add: same_places_def)
  ultimately show ?thesis
    using assms(1) kept_trans [of d x] by (simp add: kept_def)
qed

lemma incremented_fits:
  assumes "kept d x" "incrementNodeVersion nid x = (v, y)" "n \<in> set (nodes y)" "nd_id n = nid"
  shows "v = desiredConfigVersion n"
proof -
  have y: "y = bump_desired nid x" and v: "v = desired_of nid y"
    using assms(2) by (auto simp: incrementNodeVersion_def)
  have ok: "cp_ok y" using kept_bump [OF assms(1)] y by (simp add: kept_def)
  have "find_node nid y \<noteq> None" using assms(3,4) by (auto simp: find_node_def find_None_iff)
  then obtain m where m: "find_node nid y = Some m" by blast
  then show ?thesis
    using find_node_Some [OF m] node_unique [OF ok, of m n] assms(3,4) v by (simp add: desired_of_def)
qed

lemma kept_increment:
  assumes "kept d x" "incrementNodeVersion nid x = (v, y)"
  shows "kept d y" "grants y = grants x" "jobs y = jobs x" "devices y = devices x" "outbox y = outbox x"
    "subscriptions y = subscriptions x" "acknowledgements y = acknowledgements x"
  using assms kept_bump by (auto simp: incrementNodeVersion_def bump_desired_def)

lemma createNodeSyncOperation_request [simp]: "createNodeSyncOperation = request_grant_sync"
  by (intro ext) (simp add: createNodeSyncOperation_def request_grant_sync_def)

lemma kept_request:
  assumes "kept d x" "request_grant_sync jid eid nid gid v jk ek now x = Inr y"
    and "n \<in> set (nodes x)" "nd_id n = nid" "v \<le> desiredConfigVersion n"
  shows "kept d y"
proof -
  have "cp_ok y" using cp_ok_request [OF _ assms(2-5)] assms(1) by (simp add: kept_def)
  moreover have "db_progress x y" "same_places x y"
    using assms(2) db_progress_request places_request by blast+
  ultimately show ?thesis using assms(1) kept_trans [of d x y] by (simp add: kept_def)
qed

text \<open>The command for the version a node was just raised to.\<close>

lemma kept_deliver:
  assumes "kept d x" "incrementNodeVersion nid x = (v, y)" "kept d z" "nodes z = nodes y"
    and "request_grant_sync jid eid nid gid v jk ek now z = Inr w" "\<exists>n \<in> set (nodes x). nd_id n = nid"
  shows "kept d w"
proof -
  obtain m where m: "m \<in> set (nodes x)" "nd_id m = nid" using assms(6) by blast
  let ?n = "m\<lparr>desiredConfigVersion := desiredConfigVersion m + 1\<rparr>"
  have "nodes y = update_rows (\<lambda>n. nd_id n = nid) (\<lambda>n. n\<lparr>desiredConfigVersion := desiredConfigVersion n + 1\<rparr>) (nodes x)"
    using assms(2) by (auto simp: incrementNodeVersion_def nodes_bump)
  then have "?n \<in> set (nodes y)" "nd_id ?n = nid"
    using update_rows_hit [OF m(1), of "\<lambda>n. nd_id n = nid"] m(2) by auto
  with incremented_fits [OF assms(1,2)] show ?thesis
    using kept_request [OF assms(3,5)] assms(4) by auto
qed

lemma kept_each_row:
  assumes "each_row f rs x = Inr y" "kept d x"
    and "\<And>r a b. r \<in> set rs \<Longrightarrow> kept d a \<Longrightarrow> f r a = Inr b \<Longrightarrow> kept d b"
  shows "kept d y"
  using assms by (rule each_row_inv)

section \<open>Cancellation\<close>

lemma kept_cancel_on_node:
  assumes x: "kept d x" and gs: "set gs \<subseteq> set (grants d)" and n: "n \<in> set (nodes d)"
    and f: "cancel_on_node sid jf ef now gs n x = Inr y"
  shows "kept d y"
proof (cases "filter (\<lambda>g. gr_nodeId g = nd_id n) gs = []")
  case False
  let ?ids = "map gr_id (filter (\<lambda>g. gr_nodeId g = nd_id n) gs)"
  have rows: "gr_nodeId g = nd_id n" if g: "g \<in> set (grants x)" "gr_id g \<in> set ?ids" for g
  proof -
    obtain h where "h \<in> set gs" "gr_nodeId h = nd_id n" "gr_id g = gr_id h" using g(2) by auto
    with grant_successor [OF x, of h g] gs g(1) show ?thesis by (auto simp: grant_le_def)
  qed
  show ?thesis
  proof (cases "nd_status n \<in> {NodeHealthy, NodeDraining, NodeDisabled}")
    case True
    obtain v z where inc: "incrementNodeVersion (nd_id n) x = (v, z)" by fastforce
    note z = kept_increment [OF x inc]
    let ?f = "\<lambda>g. g\<lparr>gr_status := GrantRevoked, gr_revokedAt := Some now, gr_desiredVersion := v\<rparr>"
    have "kept d (update_grants ?ids ?f z)"
      by (rule kept_update_grants [OF z(1)])
        (use rows incremented_fits [OF x inc] z(2) in \<open>auto simp: version_fits_def retargeted_def\<close>)
    moreover obtain w jk ek where "request_grant_sync (jf (nd_id n)) (ef (nd_id n)) (nd_id n)
        (gr_id (hd (filter (\<lambda>g. gr_nodeId g = nd_id n) gs))) v jk ek now (update_grants ?ids ?f z) = Inr w"
      "kept d y = kept d w"
      using f False True inc by (auto simp: cancel_on_node_def Let_def map_sum_def split: sum.splits)
    moreover have "\<exists>m \<in> set (nodes x). nd_id m = nd_id n" using node_successor [OF x n] by blast
    ultimately show ?thesis using kept_deliver [OF x inc, of "update_grants ?ids ?f z"] by simp
  next
    case other: False
    let ?f = "\<lambda>g. g\<lparr>gr_status := GrantRevoked, gr_revokedAt := Some now, gr_desiredVersion := gr_desiredVersion g\<rparr>"
    have "kept d (update_grants ?ids ?f x)"
      by (rule kept_update_grants [OF x]) (simp add: version_fits_def retargeted_def)
    moreover have "kept d y = kept d (update_grants ?ids ?f x)"
      using f False other by (auto simp: cancel_on_node_def Let_def)
    ultimately show ?thesis by simp
  qed
qed (use f x in \<open>simp add: cancel_on_node_def\<close>)

lemma user_live_grants_set:
  "set (user_live_grants u d) = {g \<in> set (grants d). user_device u d (gr_deviceId g) \<and> live_grant g}"
  by (auto simp: user_live_grants_def)

lemma cancel_run:
  assumes "cancelSubscriptionAccess sid jf ef now d = Inr (r, d')"
  obtains "d' = d" "r \<noteq> Cancelled"
  | s x where "r = Cancelled" "find (\<lambda>s. sb_id s = sid) (subscriptions d) = Some s" "sb_status s \<noteq> SubCancelled"
      "each_row (cancel_on_node sid jf ef now (cancellation_grants s now d)) (cancellation_nodes s now d)
         (update_subscription sid (\<lambda>t. t\<lparr>sb_status := SubCancelled, sb_cancelledAt := Some now\<rparr>) d) = Inr x"
      "d' = write_audit None ''subscription.cancelled'' ''Subscription'' sid x"
  using assms
  by (auto simp: cancelSubscriptionAccess_def find_Some_iff split: option.splits if_splits sum.splits)

lemma cancellation_sets:
  "set (cancellation_grants s now d) \<subseteq> set (grants d)" "set (cancellation_nodes s now d) \<subseteq> set (nodes d)"
  by (auto simp: cancellation_grants_def cancellation_nodes_def user_live_grants_set)

lemma kept_cancel:
  assumes ok: "cp_ok d" and c: "cancelSubscriptionAccess sid jf ef now d = Inr (r, d')"
  shows "kept d d'"
  using c
proof (cases rule: cancel_run)
  case (2 s x)
  have "kept d x"
    by (rule kept_each_row [OF 2(4)])
      (use kept_refl [OF ok] in simp, meson kept_cancel_on_node cancellation_sets subsetD)
  then show ?thesis using 2(5) by simp
qed (simp add: kept_refl ok)

section \<open>Natural expiry\<close>

lemma user_node_grants_set: "set (user_node_grants u nid d) =
    {g \<in> set (grants d). gr_nodeId g = nid \<and> user_device u d (gr_deviceId g) \<and> live_grant g}"
  by (auto simp: user_node_grants_def)

lemma expiry_run:
  assumes "scheduleExpiredSubscriptionOnNode sid nid jid eid now d = Inr (r, d')"
  obtains "d' = d" "\<not> r"
  | s n e v d1 d3 where "r" "sb_id s = sid" "s \<in> set (subscriptions d)" "sb_status s \<in> {SubActive, SubExpired}"
      "sb_expiresAt s = Some e" "e \<le> now"
      "n \<in> set (nodes d)" "nd_id n = nid" "nd_status n \<in> {NodeHealthy, NodeDraining, NodeDisabled}"
      "user_node_grants (sb_userId s) nid d \<noteq> []"
      "hasMatchingNodeSyncOperation nid (gr_id (hd (user_node_grants (sb_userId s) nid d)))
         (expiry_job_key sid nid) (expiry_event_key sid nid) d = Inr False"
      "incrementNodeVersion nid d = (v, d1)"
      "request_grant_sync jid eid nid (gr_id (hd (user_node_grants (sb_userId s) nid d))) v
         (expiry_job_key sid nid) (expiry_event_key sid nid) now
         (update_grants (map gr_id (user_node_grants (sb_userId s) nid d))
            (\<lambda>g. g\<lparr>gr_expiresAt := desired_expiry (sb_userId s) now e d, gr_desiredVersion := v\<rparr>) d1) = Inr d3"
      "d' = write_audit None ''subscription-expiry.access-scheduled'' ''Subscription'' sid d3"
      "find (\<lambda>s. sb_id s = sid \<and> sb_status s \<in> {SubActive, SubExpired} \<and> sb_expiresAt s \<noteq> None) (subscriptions d) = Some s"
proof (cases "r")
  case False
  then have "d' = d"
    using assms
    by (auto simp: scheduleExpiredSubscriptionOnNode_def Let_def split: option.splits if_splits sum.splits
        bool.splits prod.splits)
  with that(1) False show thesis by blast
next
  case True
  let ?P = "\<lambda>s. sb_id s = sid \<and> sb_status s \<in> {SubActive, SubExpired} \<and> sb_expiresAt s \<noteq> None"
  let ?N = "\<lambda>n. nd_id n = nid \<and> nd_status n \<in> {NodeHealthy, NodeDraining, NodeDisabled}"
  obtain s where fs: "find ?P (subscriptions d) = Some s"
    using assms True by (cases "find ?P (subscriptions d)") (simp_all add: scheduleExpiredSubscriptionOnNode_def)
  obtain n where fn: "find ?N (nodes d) = Some n"
    using assms True fs by (cases "find ?N (nodes d)") (simp_all add: scheduleExpiredSubscriptionOnNode_def)
  obtain e where e: "sb_expiresAt s = Some e" using find_member [OF fs] by blast
  obtain v d1 where inc: "incrementNodeVersion nid d = (v, d1)" by fastforce
  let ?gs = "user_node_grants (sb_userId s) nid d"
  have sid: "sb_id s = sid" and s: "s \<in> set (subscriptions d)" "sb_status s \<in> {SubActive, SubExpired}"
    and n: "n \<in> set (nodes d)" "nd_id n = nid" "nd_status n \<in> {NodeHealthy, NodeDraining, NodeDisabled}"
    using find_member [OF fs] find_member [OF fn] by blast+
  have late: "e \<le> now" and gs: "?gs \<noteq> []"
    and new: "hasMatchingNodeSyncOperation nid (gr_id (hd ?gs)) (expiry_job_key sid nid) (expiry_event_key sid nid) d = Inr False"
    using assms True fs fn e sid
    by (auto simp: scheduleExpiredSubscriptionOnNode_def Let_def split: if_splits sum.splits bool.splits)
  let ?req = "request_grant_sync jid eid nid (gr_id (hd ?gs)) v (expiry_job_key sid nid) (expiry_event_key sid nid)
    now (update_grants (map gr_id ?gs)
       (\<lambda>g. g\<lparr>gr_expiresAt := desired_expiry (sb_userId s) now e d, gr_desiredVersion := v\<rparr>) d1)"
  have run: "(case ?req of Inl x \<Rightarrow> Inl x
      | Inr d3 \<Rightarrow> Inr (True, write_audit None ''subscription-expiry.access-scheduled'' ''Subscription'' (sb_id s) d3)) = Inr (r, d')"
    using assms True fs fn e sid inc late gs new
    by (simp add: scheduleExpiredSubscriptionOnNode_def Let_def)
  then obtain d3 where "?req = Inr d3"
    "d' = write_audit None ''subscription-expiry.access-scheduled'' ''Subscription'' sid d3"
    using sid by (cases ?req) simp_all
  with that(2) True sid s e late n gs new inc fs show thesis by blast
qed

lemma kept_expiry:
  assumes ok: "cp_ok d" and s: "scheduleExpiredSubscriptionOnNode sid nid jid eid now d = Inr (r, d')"
  shows "kept d d'"
  using s
proof (cases rule: expiry_run)
  case (2 s n e v d1 d3)
  let ?gs = "user_node_grants (sb_userId s) nid d"
  note d = kept_refl [OF ok] and d1 = kept_increment [OF kept_refl [OF ok] 2(12)]
  let ?x = "update_grants (map gr_id ?gs)
    (\<lambda>g. g\<lparr>gr_expiresAt := desired_expiry (sb_userId s) now e d, gr_desiredVersion := v\<rparr>) d1"
  have "kept d ?x"
  proof (rule kept_update_grants [OF d1(1)])
    fix g assume g: "g \<in> set (grants d1)" "gr_id g \<in> set (map gr_id ?gs)"
    then obtain h where "h \<in> set ?gs" "gr_id g = gr_id h" by auto
    then have "gr_nodeId g = nid"
      using grant_successor [OF d, of h g] g(1) d1(2) by (auto simp: user_node_grants_set grant_le_def)
    then show "\<exists>v'. version_fits (nodes d1) g v' \<and>
        retargeted v' g (g\<lparr>gr_expiresAt := desired_expiry (sb_userId s) now e d, gr_desiredVersion := v\<rparr>)"
      using incremented_fits [OF d 2(12)] by (auto simp: version_fits_def retargeted_def)
  qed
  then have "kept d d3" using kept_deliver [OF d 2(12) _ _ 2(13)] 2(7,8) by auto
  then show ?thesis using 2(14) by simp
qed (simp add: kept_refl ok)

lemma kept_expired_status:
  "cp_ok d \<Longrightarrow> materializeExpiredSubscriptionStatus sid now d = Inr (r, d') \<Longrightarrow> kept d d'"
  by (auto simp: materializeExpiredSubscriptionStatus_def kept_refl split: option.splits if_splits)

section \<open>Reconciliation\<close>

lemma change_all_inv:
  assumes "change_all f cs x = Inr (gids, y)" "Q x"
    and "\<And>c a gid b. c \<in> set cs \<Longrightarrow> Q a \<Longrightarrow> f c a = Inr (gid, b) \<Longrightarrow> Q b"
  shows "Q y"
  using assms
proof (induction cs arbitrary: x gids)
  case (Cons c cs)
  then obtain gid a gs where "f c x = Inr (gid, a)" "change_all f cs a = Inr (gs, y)"
    by (auto simp: map_sum_def split: sum.splits)
  with Cons show ?case by (metis list.set_intros)
qed simp

text \<open>The grants a plan names are rows of the database it was made for.\<close>

fun change_grant :: "access_change \<Rightarrow> grant option" where
  "change_grant (RepairRevoke g) = Some g"
| "change_grant (UpdateAccess g _) = Some g"
| "change_grant (CreateAccess _) = None"

definition plan_from :: "grant list \<Rightarrow> repair_plan \<Rightarrow> bool" where
  "plan_from gs plan \<longleftrightarrow> (\<forall>(k, c) \<in> set (fst plan). \<forall>g. change_grant c = Some g \<longrightarrow> g \<in> set gs)
     \<and> (\<forall>(k, g) \<in> set (snd plan). g \<in> set gs \<and> gr_id g = k \<and> gr_status g = GrantPending)"

lemma set_fold_map_put: "set (fold (\<lambda>g. map_put (key g) g) gs m) \<subseteq> (\<lambda>g. (key g, g)) ` set gs \<union> set m"
proof (induction gs arbitrary: m)
  case (Cons g gs)
  then show ?case using set_map_put [of "key g" g m] by fastforce
qed simp

lemma plan_from_expected:
  assumes "snd ` set byDevice \<subseteq> set gs" "plan_from gs plan"
  shows "plan_from gs (plan_expected may byDevice live x plan)"
proof (cases "map_of byDevice (ed_deviceId x)")
  case None
  then show ?thesis
    using assms(2) set_map_put [of "ed_deviceId x" "CreateAccess x" "fst plan"]
    by (fastforce simp: plan_expected_def plan_from_def)
next
  case (Some g)
  then have g: "g \<in> set gs" using assms(1) by (force dest: map_of_SomeD)
  show ?thesis
    using Some g assms(2) set_map_put [of "ed_deviceId x" "UpdateAccess g (ed_expiresAt x)" "fst plan"]
      set_map_put [of "gr_id g" g "snd plan"]
    by (fastforce simp: plan_expected_def plan_from_def awaits_activation_def Let_def)
qed

lemma plan_from_revoked:
  assumes "plan_from gs (changes, acts)" "g \<in> set gs"
  shows "plan_from gs (plan_revoked live g changes, acts)"
  using assms set_map_put [of "gr_deviceId g" "RepairRevoke g" changes]
  by (fastforce simp: plan_revoked_def plan_from_def)

lemma plan_from_repair: "plan_from gs (repair_plan_of may expected gs live)"
proof -
  define byDevice where "byDevice = fold (\<lambda>g. map_put (gr_deviceId g) g) gs []"
  have dev: "snd ` set byDevice \<subseteq> set gs"
    using set_fold_map_put [of gr_deviceId gs "[]"] unfolding byDevice_def by fastforce
  have exp: "plan_from gs (fold (plan_expected may byDevice live) xs plan)" if "plan_from gs plan" for xs plan
    using that by (induction xs arbitrary: plan) (simp_all add: plan_from_expected [OF dev])
  have rev: "plan_from gs (fold (plan_revoked live) hs changes, acts)"
    if "plan_from gs (changes, acts)" "set hs \<subseteq> set gs" for hs changes acts
    using that by (induction hs arbitrary: changes) (simp_all add: plan_from_revoked)
  obtain changes acts where fold: "fold (plan_expected may byDevice live) expected ([], []) = (changes, acts)"
    by fastforce
  have "plan_from gs (changes, acts)" using exp [of "([], [])" expected] fold by (simp add: plan_from_def)
  then show ?thesis
    using rev [of changes acts gs] fold by (simp add: repair_plan_of_def Let_def byDevice_def)
qed

text \<open>The activations are one update.\<close>

definition activated :: "(uuid \<times> grant) list \<Rightarrow> db \<Rightarrow> db" where
  "activated acts d = update_grants (map fst acts) (\<lambda>g. g\<lparr>gr_status := GrantActive\<rparr>) d"

lemma fold_activate: "fold (\<lambda>(gid, _). activate_grant gid) acts d = activated acts d"
proof (induction acts arbitrary: d)
  case (Cons a acts)
  then show ?case
    by (cases a) (auto simp: activate_grant_def activated_def update_grants_def update_rows_def
        intro!: arg_cong [of _ _ "\<lambda>x. d\<lparr>grants := x\<rparr>"])
qed (simp add: activated_def update_grants_def update_rows_def)

lemma kept_activated:
  assumes ok: "cp_ok d" and plan: "plan_from gs (changes, acts)" and gs: "set gs \<subseteq> set (grants d)"
  shows "kept d (activated acts d)"
  unfolding activated_def
proof (rule kept_update_grants [OF kept_refl [OF ok]])
  fix g assume g: "g \<in> set (grants d)" "gr_id g \<in> set (map fst acts)"
  then obtain h where "h \<in> set gs" "gr_id h = gr_id g" "gr_status h = GrantPending"
    using plan by (fastforce simp: plan_from_def)
  then have "gr_status g = GrantPending"
    using gs g(1) ok distinct_key_eq [of gr_id "grants d" h g] by (auto simp: cp_ok_def cp_rows_ok_def)
  then show "\<exists>v. version_fits (nodes d) g v \<and> retargeted v g (g\<lparr>gr_status := GrantActive\<rparr>)"
    by (auto simp: version_fits_def retargeted_def)
qed

lemma reconcile_run:
  assumes "reconcileOneNode cr nid inc gf jid eid now d = Inr (r, d')"
  obtains "d' = d" "\<not> r"
      "\<And>n. find (\<lambda>n. nd_id n = nid \<and> nd_status n \<in> {NodeHealthy, NodeDraining, NodeDisabled}) (nodes d) = Some n \<Longrightarrow>
         repair_plan_of (nd_status n = NodeHealthy \<or> inc) (expectedDevices now d) (existingGrants nid d)
         (liveDeliveryVersions nid d) = ([], [])"
  | n changes acts where "r" "n \<in> set (nodes d)" "nd_id n = nid" "nd_status n \<in> {NodeHealthy, NodeDraining, NodeDisabled}"
      "repair_plan_of (nd_status n = NodeHealthy \<or> inc) (expectedDevices now d) (existingGrants nid d)
         (liveDeliveryVersions nid d) = (changes, acts)"
      "changes = []" "acts \<noteq> []" "d' = write_audit None ''node-access.reconciled'' ''Node'' nid (activated acts d)"
  | n changes acts v d2 gids d3 d4 where "r" "n \<in> set (nodes d)" "nd_id n = nid"
      "nd_status n \<in> {NodeHealthy, NodeDraining, NodeDisabled}"
      "repair_plan_of (nd_status n = NodeHealthy \<or> inc) (expectedDevices now d) (existingGrants nid d)
         (liveDeliveryVersions nid d) = (changes, acts)"
      "changes \<noteq> []" "incrementNodeVersion nid (activated acts d) = (v, d2)"
      "change_all (change_access cr gf nid v) (map snd changes) d2 = Inr (gids, d3)"
      "request_grant_sync jid eid nid (hd gids) v (''reconcile:'' @ nid @ '':'' @ version_text v)
         (''reconcile-outbox:'' @ nid @ '':'' @ version_text v) now d3 = Inr d4"
      "d' = write_audit None ''node-access.reconciled'' ''Node'' nid d4"
proof -
  let ?N = "\<lambda>n. nd_id n = nid \<and> nd_status n \<in> {NodeHealthy, NodeDraining, NodeDisabled}"
  show thesis
  proof (cases "find ?N (nodes d)")
    case None
    then show thesis using assms that(1) by (simp add: reconcileOneNode_def)
  next
    case (Some n)
    note n = find_member [OF Some]
    obtain changes acts where plan: "repair_plan_of (nd_status n = NodeHealthy \<or> inc) (expectedDevices now d)
        (existingGrants nid d) (liveDeliveryVersions nid d) = (changes, acts)" by fastforce
    obtain v d2 where inc': "incrementNodeVersion nid (activated acts d) = (v, d2)" by fastforce
    show thesis
    proof (cases "changes = []")
      case True
      then have run: "(if acts = [] then Inr (False, d)
          else Inr (True, write_audit None ''node-access.reconciled'' ''Node'' nid (activated acts d))) = Inr (r, d')"
        using assms Some plan by (simp add: reconcileOneNode_def fold_activate split: if_splits)
      show thesis
        using that(1) that(2) [OF _ _ _ _ plan True] n run True plan Some by (cases "acts = []") auto
    next
      case False
      let ?change = "change_all (change_access cr gf nid v) (map snd changes) d2"
      let ?req = "\<lambda>gids d3. createNodeSyncOperation jid eid nid (hd gids) v (''reconcile:'' @ nid @ '':'' @ version_text v)
         (''reconcile-outbox:'' @ nid @ '':'' @ version_text v) now d3"
      have run: "(case ?change of Inl e \<Rightarrow> Inl e | Inr (gids, d3) \<Rightarrow> (case ?req gids d3 of Inl e \<Rightarrow> Inl e
          | Inr d4 \<Rightarrow> Inr (True, write_audit None ''node-access.reconciled'' ''Node'' nid d4))) = Inr (r, d')"
        using assms Some plan False inc' by (simp add: reconcileOneNode_def fold_activate)
      then obtain gids d3 where change: "?change = Inr (gids, d3)" by (cases ?change) auto
      with run obtain d4 where req: "?req gids d3 = Inr d4" by (cases "?req gids d3") auto
      show thesis
        using that(3) [OF _ _ _ _ plan False inc' change] n run change req by simp
    qed
  qed
qed

text \<open>The database while the changes are written: live grants stay live.\<close>

definition changing :: "db \<Rightarrow> db \<Rightarrow> db \<Rightarrow> bool" where
  "changing d d2 x \<longleftrightarrow> kept d x \<and> nodes x = nodes d2
     \<and> (\<forall>g \<in> set (grants d). \<forall>h \<in> set (grants x). gr_id h = gr_id g \<longrightarrow> live_grant g \<longrightarrow> live_grant h)"

lemma retargeted_live: "retargeted v h k \<Longrightarrow> live_grant h \<Longrightarrow> gr_status k \<noteq> GrantRevoked \<Longrightarrow> live_grant k"
  by (simp add: live_grant_def)

lemma changing_update:
  assumes x: "changing d d2 x" and g: "g \<in> set (grants d)"
    and fits: "\<And>n. n \<in> set (nodes d2) \<Longrightarrow> nd_id n = gr_nodeId g \<Longrightarrow> desiredConfigVersion n = v"
    and f: "\<And>h. h \<in> set (grants x) \<Longrightarrow> gr_id h = gr_id g \<Longrightarrow>
      retargeted v h (f h) \<and> (live_grant h \<longrightarrow> live_grant (f h))"
  shows "changing d d2 (update_grants [gr_id g] f x)"
proof -
  have k: "kept d x" and nodes: "nodes x = nodes d2"
    and live: "\<And>a h. a \<in> set (grants d) \<Longrightarrow> h \<in> set (grants x) \<Longrightarrow> gr_id h = gr_id a \<Longrightarrow> live_grant a \<Longrightarrow> live_grant h"
    using x by (auto simp: changing_def)
  have "kept d (update_grants [gr_id g] f x)"
  proof (rule kept_update_grants [OF k])
    fix h assume h: "h \<in> set (grants x)" "gr_id h \<in> set [gr_id g]"
    then have "gr_nodeId h = gr_nodeId g" using grant_successor [OF k g] by (simp add: grant_le_def)
    then show "\<exists>v. version_fits (nodes x) h v \<and> retargeted v h (f h)"
      using f [of h] h fits by (auto simp: version_fits_def nodes)
  qed
  moreover have "live_grant h'"
    if h': "h' \<in> set (update_rows (\<lambda>h. gr_id h \<in> set [gr_id g]) f (grants x))" "a \<in> set (grants d)"
      "gr_id h' = gr_id a" "live_grant a" for a h'
    using h'(1)
  proof (cases rule: update_rows_cases)
    case (2 h)
    then have "gr_id h' = gr_id h" using f [of h] by (simp add: retargeted_def)
    with 2 live [of a h] f [of h] h' show ?thesis by simp
  qed (use live h' in blast)
  ultimately show ?thesis by (simp add: changing_def nodes)
qed

lemma kept_create_grant:
  assumes "kept d x" "create_grant g x = Inr y" "gr_appliedVersion g = 0" "0 \<le> gr_desiredVersion g"
    and "gr_status g = GrantPending" "gr_revokedAt g = None"
    and "n \<in> set (nodes x)" "nd_id n = gr_nodeId g" "gr_desiredVersion g \<le> desiredConfigVersion n"
  shows "kept d y"
proof -
  have "cp_ok y" using cp_ok_create_grant [OF _ assms(2-9)] assms(1) by (simp add: kept_def)
  moreover have "db_progress x y" "same_places x y"
    using db_progress_create_grant [OF assms(2)] places_create_grant [OF assms(2)] .
  ultimately show ?thesis using assms(1) kept_trans [of d x y] by (simp add: kept_def)
qed

lemma create_access_run:
  assumes "change_access cr gf nid v (CreateAccess x) d = Inr (gid, d')"
  obtains hash where "gid = gf (ed_deviceId x)" "create_grant \<lparr>gr_id = gf (ed_deviceId x), gr_nodeId = nid,
      gr_deviceId = ed_deviceId x, gr_status = GrantPending, gr_credentialHash = hash,
      gr_derivationVersion = Some DATA_PLANE_CREDENTIAL_DERIVATION_VERSION, gr_expiresAt = ed_expiresAt x,
      gr_desiredVersion = v, gr_appliedVersion = 0, gr_revokedAt = None\<rparr> d = Inr d'"
  using assms by (auto simp: change_access_def Let_def map_sum_def split: sum.splits)

text \<open>One change keeps the database in order; \<open>v\<close> is the version its node was raised to.\<close>

lemma changing_change:
  assumes x: "changing d d2 x" and f: "change_access cr gf nid v c x = Inr (gid, y)"
    and g: "\<And>g. change_grant c = Some g \<Longrightarrow> g \<in> set (grants d) \<and> gr_nodeId g = nid
        \<and> (awaits_activation g \<longrightarrow> live_grant g)"
    and n: "n \<in> set (nodes d2)" "nd_id n = nid" "0 \<le> v"
    and fits: "\<And>n. n \<in> set (nodes d2) \<Longrightarrow> nd_id n = nid \<Longrightarrow> desiredConfigVersion n = v"
  shows "changing d d2 y"
proof (cases c)
  case (CreateAccess e)
  from f [unfolded CreateAccess] show ?thesis
  proof (rule create_access_run)
    fix hash
    let ?g = "\<lparr>gr_id = gf (ed_deviceId e), gr_nodeId = nid,
      gr_deviceId = ed_deviceId e, gr_status = GrantPending, gr_credentialHash = hash,
      gr_derivationVersion = Some DATA_PLANE_CREDENTIAL_DERIVATION_VERSION, gr_expiresAt = ed_expiresAt e,
      gr_desiredVersion = v, gr_appliedVersion = 0, gr_revokedAt = None\<rparr>"
    assume create: "create_grant ?g x = Inr y"
    have "kept d y"
      by (rule kept_create_grant [OF _ create, of _ n])
        (use x n fits [OF n(1,2)] in \<open>auto simp: changing_def\<close>)
    moreover have "nodes y = nodes x" "grants y = grants x @ [?g]"
      using create by (auto simp: create_grant_def split: if_splits)
    ultimately show ?thesis using x by (auto simp: changing_def live_grant_def)
  qed
next
  case (UpdateAccess g e)
  have "y = update_grants [gr_id g] (\<lambda>h. h\<lparr>gr_status := (if awaits_activation g then GrantActive else gr_status h),
             gr_expiresAt := e, gr_desiredVersion := v\<rparr>) x"
    using f UpdateAccess by (auto simp: change_access_def)
  moreover have "live_grant h" if "h \<in> set (grants x)" "gr_id h = gr_id g" "awaits_activation g" for h
    using x g UpdateAccess that by (auto simp: changing_def)
  ultimately show ?thesis
    using g UpdateAccess fits
    by (auto intro!: changing_update [OF x] simp: retargeted_def live_grant_def)
next
  case (RepairRevoke g)
  have "y = update_grants [gr_id g] (\<lambda>h. h\<lparr>gr_desiredVersion := v\<rparr>) x"
    using f RepairRevoke by (auto simp: change_access_def)
  then show ?thesis
    using g RepairRevoke fits by (auto intro!: changing_update [OF x] simp: retargeted_def live_grant_def)
qed

lemma kept_reconcile:
  assumes ok: "cp_ok d" and run: "reconcileOneNode cr nid inc gf jid eid now d = Inr (r, d')"
  shows "kept d d'"
  using run
proof (cases rule: reconcile_run)
  case (2 n changes acts)
  have "plan_from (existingGrants nid d) (changes, acts)" using plan_from_repair [of "existingGrants nid d"] 2(5) by metis
  then show ?thesis using kept_activated [OF ok] 2(8) by (auto simp: existingGrants_def)
next
  case (3 n changes acts v d2 gids d3 d4)
  have plan: "plan_from (existingGrants nid d) (changes, acts)"
    using plan_from_repair [of "existingGrants nid d"] 3(5) by metis
  let ?d1 = "activated acts d"
  have k1: "kept d ?d1" using kept_activated [OF ok plan] by (auto simp: existingGrants_def)
  note d2 = kept_increment [OF k1 3(7)]
  obtain m where m: "m \<in> set (nodes d2)" "nd_id m = nid" using node_successor [OF d2(1) 3(2)] 3(3) by metis
  have fits: "desiredConfigVersion k = v" if "k \<in> set (nodes d2)" "nd_id k = nid" for k
    using incremented_fits [OF k1 3(7) that] by simp
  have "0 \<le> v" using d2(1) m fits [OF m] by (force simp: kept_def cp_ok_def cp_rows_ok_def node_ok_def)
  have "changing d d2 d2"
    using d2(1,2) ok distinct_key_eq [of gr_id "grants d"]
    by (auto simp: changing_def activated_def live_grant_def set_update_rows cp_ok_def cp_rows_ok_def)
  then have "changing d d2 d3"
  proof (rule change_all_inv [OF 3(8), where Q = "changing d d2"])
    fix c a gid b assume c: "c \<in> set (map snd changes)" and a: "changing d d2 a"
      and f: "change_access cr gf nid v c a = Inr (gid, b)"
    show "changing d d2 b"
      by (rule changing_change [OF a f _ m \<open>0 \<le> v\<close> fits])
        (use c plan in \<open>auto simp: plan_from_def existingGrants_def awaits_activation_def live_grant_def\<close>)
  qed
  then have "kept d d4"
    using kept_request [OF _ 3(9), of d m] m fits [OF m] by (auto simp: changing_def)
  then show ?thesis using 3(10) by simp
qed (simp add: kept_refl ok)

end
