(* ===== verification/Trial_Writes.thy ===== *)
theory Trial_Writes
  imports Trial_Activation Subscription_Access_Writes
begin

text \<open>
  What a trial activation keeps of the control plane, and what it does to the grants: on every node it
  touches, the eligible devices of the user get the expiry of the trial and the new version of the node,
  and no other grant changes.
\<close>

section \<open>The grants of one device\<close>

definition granted :: "uuid \<Rightarrow> uuid \<Rightarrow> instant \<Rightarrow> version \<Rightarrow> db \<Rightarrow> bool" where
  "granted nid did e v d \<longleftrightarrow> (\<exists>g \<in> set (grants d). gr_nodeId g = nid \<and> gr_deviceId g = did \<and> live_grant g
     \<and> gr_expiresAt g = e \<and> gr_desiredVersion g = v)"

definition elsewhere :: "uuid \<Rightarrow> uuid set \<Rightarrow> grant \<Rightarrow> bool" where
  "elsewhere nid dids g \<longleftrightarrow> \<not> (gr_nodeId g = nid \<and> gr_deviceId g \<in> dids)"

definition untouched :: "uuid \<Rightarrow> uuid set \<Rightarrow> db \<Rightarrow> db \<Rightarrow> bool" where
  "untouched nid dids d x \<longleftrightarrow> filter (elsewhere nid dids) (grants x) = filter (elsewhere nid dids) (grants d)"

lemma untouched_refl [simp]: "untouched nid dids d d"
  by (simp add: untouched_def)

lemma untouched_same: "grants x = grants y \<Longrightarrow> untouched nid dids d x = untouched nid dids d y"
  by (simp add: untouched_def)

lemma untouched_trans: "untouched nid dids d x \<Longrightarrow> untouched nid dids x y \<Longrightarrow> untouched nid dids d y"
  by (simp add: untouched_def)

lemma untouched_mono:
  assumes "untouched nid dids d x" "dids \<subseteq> dids'"
  shows "untouched nid dids' d x"
proof -
  have "filter (elsewhere nid dids') gs = filter (elsewhere nid dids') (filter (elsewhere nid dids) gs)" for gs :: "grant list"
    using assms(2) by (auto simp: elsewhere_def intro!: filter_cong)
  then show ?thesis using assms(1) unfolding untouched_def by metis
qed

lemma untouched_row:
  "untouched nid dids d x \<Longrightarrow> elsewhere nid dids g \<Longrightarrow> g \<in> set (grants d) \<longleftrightarrow> g \<in> set (grants x)"
  by (drule arg_cong [of _ _ set, OF untouched_def [THEN iffD1]]) auto

lemma granted_untouched:
  assumes "granted n did e v d" "untouched nid dids d x" "n \<noteq> nid \<or> did \<notin> dids"
  shows "granted n did e v x"
  using assms untouched_row [OF assms(2)] unfolding granted_def elsewhere_def by metis

lemma untouched_update:
  assumes "\<And>h. h \<in> set (grants d) \<Longrightarrow> gr_id h \<in> set gids \<Longrightarrow> gr_nodeId h = nid \<and> gr_deviceId h \<in> dids"
    and "\<And>h. gr_nodeId (f h) = gr_nodeId h \<and> gr_deviceId (f h) = gr_deviceId h"
  shows "untouched nid dids d (update_grants gids f d)"
proof -
  have "filter (elsewhere nid dids) (update_rows (\<lambda>g. gr_id g \<in> set gids) f gs) = filter (elsewhere nid dids) gs"
    if "set gs \<subseteq> set (grants d)" for gs
    using that assms by (induction gs) (auto simp: update_rows_def elsewhere_def)
  then show ?thesis by (simp add: untouched_def)
qed

section \<open>One device on one node\<close>

lemma grantsByDevice_rows:
  assumes "map_of (grantsByDevice u nid d) did = Some g"
  shows "g \<in> set (grants d) \<and> gr_nodeId g = nid \<and> gr_deviceId g = did"
proof -
  have "(did, g) \<in> set (grantsByDevice u nid d)" using assms by (rule map_of_SomeD)
  then show ?thesis using set_fold_map_put [of gr_deviceId _ "[]"] unfolding grantsByDevice_def by fastforce
qed

lemma trial_create_run:
  assumes "trial_grant cr gf m nid e v dev d = Inr (gid, d')" "map_of m (dv_id dev) = None"
  obtains hash where "create_grant \<lparr>gr_id = gf nid (dv_id dev), gr_nodeId = nid, gr_deviceId = dv_id dev,
      gr_status = GrantPending, gr_credentialHash = hash,
      gr_derivationVersion = Some DATA_PLANE_CREDENTIAL_DERIVATION_VERSION, gr_expiresAt = e,
      gr_desiredVersion = v, gr_appliedVersion = 0, gr_revokedAt = None\<rparr> d = Inr d'"
  using assms by (auto simp: trial_grant_def Let_def map_sum_def split: sum.splits)

text \<open>The state while the devices of a node are served: \<open>d\<close> is the database before, \<open>d1\<close> after the node was
  raised to version \<open>v\<close>, \<open>x\<close> now.\<close>

lemma trial_device:
  assumes x: "changing d d1 x" and run: "trial_grant cr gf (grantsByDevice u nid d) nid e v dev x = Inr (gid, y)"
    and elig: "eligible_device n (grantsByDevice u nid d) dev"
    and n: "m \<in> set (nodes d1)" "nd_id m = nid" "0 \<le> v"
    and fits: "\<And>k. k \<in> set (nodes d1) \<Longrightarrow> nd_id k = nid \<Longrightarrow> desiredConfigVersion k = v"
  shows "changing d d1 y \<and> untouched nid {dv_id dev} x y \<and> granted nid (dv_id dev) e v y"
proof (cases "map_of (grantsByDevice u nid d) (dv_id dev)")
  case None
  from run None show ?thesis
  proof (rule trial_create_run)
    fix hash
    let ?g = "\<lparr>gr_id = gf nid (dv_id dev), gr_nodeId = nid, gr_deviceId = dv_id dev,
      gr_status = GrantPending, gr_credentialHash = hash,
      gr_derivationVersion = Some DATA_PLANE_CREDENTIAL_DERIVATION_VERSION, gr_expiresAt = e,
      gr_desiredVersion = v, gr_appliedVersion = 0, gr_revokedAt = None\<rparr>"
    assume create: "create_grant ?g x = Inr y"
    have "kept d y"
      by (rule kept_create_grant [OF _ create, of _ m]) (use x n fits [OF n(1,2)] in \<open>auto simp: changing_def\<close>)
    moreover have y: "nodes y = nodes x" "grants y = grants x @ [?g]"
      using create by (auto simp: create_grant_def split: if_splits)
    ultimately have "changing d d1 y" using x by (auto simp: changing_def live_grant_def)
    then show ?thesis by (auto simp: untouched_def elsewhere_def granted_def live_grant_def y)
  qed
next
  case (Some g)
  note g = grantsByDevice_rows [OF Some]
  let ?f = "\<lambda>h. h\<lparr>gr_expiresAt := e, gr_desiredVersion := v\<rparr>"
  have y: "y = update_grants [gr_id g] ?f x" using run Some by (auto simp: trial_grant_def)
  have k: "kept d x" and live: "\<And>h. h \<in> set (grants x) \<Longrightarrow> gr_id h = gr_id g \<Longrightarrow> live_grant h"
    using x g elig Some by (auto simp: changing_def eligible_device_def live_grant_def)
  have place: "gr_nodeId h = nid \<and> gr_deviceId h = dv_id dev" if "h \<in> set (grants x)" "gr_id h = gr_id g" for h
    using grant_successor [OF k, of g h] g that by (simp add: grant_le_def)
  obtain h where h: "h \<in> set (grants x)" "gr_id h = gr_id g"
    using k g by (auto simp: kept_def db_progress_def rows_progress_def grant_le_def)
  have "changing d d1 y"
    unfolding y by (rule changing_update [OF x]) (use g fits in \<open>auto simp: retargeted_def live_grant_def\<close>)
  moreover have "untouched nid {dv_id dev} x y" unfolding y by (rule untouched_update) (use place in auto)
  moreover have "?f h \<in> set (grants y)" using update_rows_hit [OF h(1), of "\<lambda>r. gr_id r \<in> set [gr_id g]" ?f] h(2) by (simp add: y)
  then have "granted nid (dv_id dev) e v y"
    using place [OF h] live [OF h] unfolding granted_def by (intro bexI [of _ "?f h"]) (simp_all add: live_grant_def)
  ultimately show ?thesis by blast
qed

lemma trial_devices_changing:
  assumes run: "change_all (trial_grant cr gf (grantsByDevice u nid d) nid e v) vs x = Inr (gids, y)"
    and x: "changing d d1 x" and vs: "\<forall>dev \<in> set vs. eligible_device n (grantsByDevice u nid d) dev"
    and n: "m \<in> set (nodes d1)" "nd_id m = nid" "0 \<le> v"
    and fits: "\<And>k. k \<in> set (nodes d1) \<Longrightarrow> nd_id k = nid \<Longrightarrow> desiredConfigVersion k = v"
  shows "changing d d1 y"
  by (rule change_all_inv [OF run, of "changing d d1", OF x]) (use trial_device [OF _ _ _ n fits] vs in blast)

text \<open>All devices of a node.\<close>

lemma trial_devices:
  assumes run: "change_all (trial_grant cr gf (grantsByDevice u nid d) nid e v) vs x = Inr (gids, y)"
    and x: "changing d d1 x" and vs: "\<forall>dev \<in> set vs. eligible_device n (grantsByDevice u nid d) dev" "distinct (map dv_id vs)"
    and n: "m \<in> set (nodes d1)" "nd_id m = nid" "0 \<le> v"
    and fits: "\<And>k. k \<in> set (nodes d1) \<Longrightarrow> nd_id k = nid \<Longrightarrow> desiredConfigVersion k = v"
  shows "changing d d1 y \<and> untouched nid (dv_id ` set vs) x y \<and> (\<forall>dev \<in> set vs. granted nid (dv_id dev) e v y)"
  using run x vs
proof (induction vs arbitrary: x gids)
  case Nil
  then show ?case by simp
next
  case (Cons dev vs)
  obtain gid z gs where step: "trial_grant cr gf (grantsByDevice u nid d) nid e v dev x = Inr (gid, z)"
    and rest: "change_all (trial_grant cr gf (grantsByDevice u nid d) nid e v) vs z = Inr (gs, y)"
    using Cons.prems(1) by (auto simp: map_sum_def split: sum.splits)
  have z: "changing d d1 z" "untouched nid {dv_id dev} x z" "granted nid (dv_id dev) e v z"
    using trial_device [OF Cons.prems(2) step _ n fits] Cons.prems(3) by auto
  have y: "changing d d1 y" "untouched nid (dv_id ` set vs) z y" "\<forall>dev \<in> set vs. granted nid (dv_id dev) e v y"
    using Cons.IH [OF rest z(1)] Cons.prems(3,4) by auto
  have "untouched nid (dv_id ` set (dev # vs)) x y"
    using untouched_trans [OF untouched_mono [OF z(2)] untouched_mono [OF y(2)]] by auto
  moreover have "granted nid (dv_id dev) e v y"
    by (rule granted_untouched [OF z(3) y(2)]) (use Cons.prems(4) in auto)
  ultimately show ?case using y(1,3) by simp
qed

lemma trial_grant_tables:
  assumes "change_all (trial_grant cr gf m nid e v) vs x = Inr (gids, y)"
  shows "devices y = devices x \<and> jobs y = jobs x"
  by (rule change_all_inv [OF assms, of "\<lambda>z. devices z = devices x \<and> jobs z = jobs x"])
    (auto simp: trial_grant_def create_grant_def Let_def map_sum_def split: option.splits sum.splits if_splits)

lemma grantsByDevice_None:
  assumes "map_of (grantsByDevice u nid d) did = None" "user_device u d did" "g \<in> set (grants d)"
  shows "\<not> (gr_nodeId g = nid \<and> gr_deviceId g = did)"
proof
  assume g: "gr_nodeId g = nid \<and> gr_deviceId g = did"
  let ?gs = "sort_key gr_id (filter (\<lambda>g. gr_nodeId g = nid \<and> user_device u d (gr_deviceId g)) (grants d))"
  have keys: "fst ` set (fold (\<lambda>g. map_put (gr_deviceId g) g) gs m) = gr_deviceId ` set gs \<union> fst ` set m" for gs m
    by (induction gs arbitrary: m) auto
  have "did \<in> gr_deviceId ` set ?gs" using assms(2,3) g by auto
  then have "did \<in> fst ` set (grantsByDevice u nid d)" unfolding grantsByDevice_def keys by blast
  then show False using assms(1) by (simp add: map_of_eq_None_iff)
qed

section \<open>One node\<close>

definition commanded :: "uuid \<Rightarrow> version \<Rightarrow> db \<Rightarrow> bool" where
  "commanded nid v d \<longleftrightarrow> (\<exists>j \<in> set (jobs d). jb_nodeId j = nid \<and> jb_targetVersion j = v \<and> jb_status j = JobPending)
     \<and> (\<forall>k \<in> set (nodes d). nd_id k = nid \<longrightarrow> desiredConfigVersion k = v)"

definition provisioned :: "uuid \<Rightarrow> uuid \<Rightarrow> instant \<Rightarrow> db \<Rightarrow> bool" where
  "provisioned nid did e d \<longleftrightarrow> (\<exists>v. granted nid did e v d \<and> commanded nid v d)"

definition refused :: "uuid \<Rightarrow> uuid \<Rightarrow> db \<Rightarrow> bool" where
  "refused nid did d \<longleftrightarrow> (\<exists>g \<in> set (grants d). gr_nodeId g = nid \<and> gr_deviceId g = did \<and> gr_status g = GrantRevoked)"

lemma refused_kept: "kept d x \<Longrightarrow> refused nid did d \<Longrightarrow> refused nid did x"
  unfolding refused_def kept_def db_progress_def rows_progress_def grant_le_def by metis

definition other_nodes :: "uuid \<Rightarrow> node list \<Rightarrow> node list" where
  "other_nodes nid ns = filter (\<lambda>k. nd_id k \<noteq> nid) ns"

lemma trial_node_run:
  assumes "trial_on_node cr gf jf ef now aid u e vs n x = Inr y"
  obtains (idle) "y = x" "filter (eligible_device n (grantsByDevice u (nd_id n) x)) vs = []"
  | (served) v d1 gids d2 d3 where "filter (eligible_device n (grantsByDevice u (nd_id n) x)) vs \<noteq> []"
      "incrementNodeVersion (nd_id n) x = (v, d1)"
      "change_all (trial_grant cr gf (grantsByDevice u (nd_id n) x) (nd_id n) e v)
         (filter (eligible_device n (grantsByDevice u (nd_id n) x)) vs) d1 = Inr (gids, d2)"
      "request_grant_sync (jf (nd_id n)) (ef (nd_id n)) (nd_id n) (hd gids) v (''trial:'' @ aid @ '':'' @ nd_id n)
         (''trial-outbox:'' @ aid @ '':'' @ nd_id n) now d2 = Inr d3"
      "y = write_audit (Some u) ''trial.access-scheduled'' ''TrialActivation'' aid d3"
  using assms
  by (auto simp: trial_on_node_def Let_def map_sum_def split: if_splits prod.splits sum.splits)

lemma audit_settled [simp]:
  "provisioned nid did e (write_audit p q r s d) = provisioned nid did e d"
  "untouched nid dids x (write_audit p q r s d) = untouched nid dids x d"
  by (simp_all add: provisioned_def granted_def commanded_def untouched_def)

lemma request_job: "request_grant_sync jid eid nid gid v jk ek now d = Inr d' \<Longrightarrow>
    jobs d' = jobs d @ [new_job jid nid (Some gid) None None v jk]"
  by (auto simp: request_grant_sync_def create_job_def create_event_def split: sum.splits if_splits)

text \<open>A node that is served, up to the command.\<close>

lemma trial_node_start:
  assumes ok: "cp_ok x" and n: "\<exists>m \<in> set (nodes x). nd_id m = nid" and inc: "incrementNodeVersion nid x = (v, d1)"
  obtains m where "m \<in> set (nodes d1)" "nd_id m = nid" "0 \<le> v" "changing x d1 d1"
    "\<And>k. k \<in> set (nodes d1) \<Longrightarrow> nd_id k = nid \<Longrightarrow> desiredConfigVersion k = v"
proof -
  note d1 = kept_increment [OF kept_refl [OF ok] inc]
  obtain m where m: "m \<in> set (nodes d1)" "nd_id m = nid" using n node_successor [OF d1(1)] by metis
  have fits: "desiredConfigVersion k = v" if "k \<in> set (nodes d1)" "nd_id k = nid" for k
    using incremented_fits [OF kept_refl [OF ok] inc that] by simp
  have "0 \<le> v" using d1(1) m fits [OF m] by (force simp: kept_def cp_ok_def cp_rows_ok_def node_ok_def)
  moreover have "changing x d1 d1"
    using d1(1,2) ok distinct_key_eq [of gr_id "grants x"] by (auto simp: changing_def cp_ok_def cp_rows_ok_def)
  ultimately show thesis using that m fits by blast
qed

lemma trial_node_kept:
  assumes ok: "cp_ok x" and n: "\<exists>m \<in> set (nodes x). nd_id m = nd_id n"
    and run: "trial_on_node cr gf jf ef now aid u e vs n x = Inr y"
  shows "kept x y"
  using run
proof (cases rule: trial_node_run)
  case idle
  then show ?thesis using kept_refl [OF ok] by simp
next
  case (served v d1 gids d2 d3)
  from ok n served(2) show ?thesis
  proof (rule trial_node_start)
    fix m assume m: "m \<in> set (nodes d1)" "nd_id m = nd_id n" "0 \<le> v" "changing x d1 d1"
      and fits: "\<And>k. k \<in> set (nodes d1) \<Longrightarrow> nd_id k = nd_id n \<Longrightarrow> desiredConfigVersion k = v"
    have "changing x d1 d2"
      by (rule trial_devices_changing [where n = n, OF served(3) m(4) _ m(1-3) fits]) simp_all
    then have "kept x d3" using kept_deliver [OF kept_refl [OF ok] served(2) _ _ served(4) n] by (auto simp: changing_def)
    then show ?thesis by (simp add: served(5))
  qed
qed

lemma trial_node:
  assumes ok: "cp_ok x" and n: "\<exists>m \<in> set (nodes x). nd_id m = nd_id n" and vs: "distinct (map dv_id vs)"
    and run: "trial_on_node cr gf jf ef now aid u e vs n x = Inr y"
  shows "kept x y" "devices y = devices x" "set (jobs x) \<subseteq> set (jobs y)"
    and "other_nodes (nd_id n) (nodes y) = other_nodes (nd_id n) (nodes x)"
    and "untouched (nd_id n) (dv_id ` set vs) x y"
    and "\<forall>dev \<in> set (filter (eligible_device n (grantsByDevice u (nd_id n) x)) vs). provisioned (nd_id n) (dv_id dev) e y"
proof -
  have "kept x y \<and> devices y = devices x \<and> set (jobs x) \<subseteq> set (jobs y)
    \<and> other_nodes (nd_id n) (nodes y) = other_nodes (nd_id n) (nodes x) \<and> untouched (nd_id n) (dv_id ` set vs) x y
    \<and> (\<forall>dev \<in> set (filter (eligible_device n (grantsByDevice u (nd_id n) x)) vs). provisioned (nd_id n) (dv_id dev) e y)"
    using run
  proof (cases rule: trial_node_run)
    case idle
    then show ?thesis using kept_refl [OF ok] by simp
  next
    case (served v d1 gids d2 d3)
    let ?el = "filter (eligible_device n (grantsByDevice u (nd_id n) x)) vs"
    note d1 = kept_increment [OF kept_refl [OF ok] served(2)]
    obtain m where m: "m \<in> set (nodes d1)" "nd_id m = nd_id n" and v: "0 \<le> v" and start: "changing x d1 d1"
      and fits: "\<And>k. k \<in> set (nodes d1) \<Longrightarrow> nd_id k = nd_id n \<Longrightarrow> desiredConfigVersion k = v"
      using trial_node_start [OF ok n served(2)] by blast
    have all: "changing x d1 d2 \<and> untouched (nd_id n) (dv_id ` set ?el) d1 d2
        \<and> (\<forall>dev \<in> set ?el. granted (nd_id n) (dv_id dev) e v d2)"
      by (rule trial_devices [where n = n, OF served(3) start _ _ m v fits]) (use vs in \<open>simp_all add: distinct_map_filter\<close>)
    have same: "grants d3 = grants d2" "nodes d3 = nodes d1" "devices d3 = devices x"
      "jobs d3 = jobs x @ [new_job (jf (nd_id n)) (nd_id n) (Some (hd gids)) None None v (''trial:'' @ aid @ '':'' @ nd_id n)]"
      using request_grants [OF served(4)] request_job [OF served(4)] trial_grant_tables [OF served(3)] all d1(3,4)
      by (simp_all add: changing_def)
    have "kept x y" by (rule trial_node_kept [OF ok n run])
    moreover have "other_nodes (nd_id n) (nodes d1) = other_nodes (nd_id n) (nodes x)"
      using served(2) by (auto simp: incrementNodeVersion_def nodes_bump other_nodes_def update_rows_def filter_map o_def
          intro!: map_idI cong: filter_cong)
    moreover have "untouched (nd_id n) (dv_id ` set vs) x d2"
      using untouched_mono [of _ "dv_id ` set ?el" d1 d2 "dv_id ` set vs"] all d1(2) by (auto simp: untouched_def)
    moreover have "commanded (nd_id n) v d3" using fits by (auto simp: commanded_def same new_job_def)
    moreover have "granted (nd_id n) (dv_id dev) e v d3" if "dev \<in> set ?el" for dev
      using all that by (simp add: granted_def same)
    ultimately have "\<forall>dev \<in> set ?el. provisioned (nd_id n) (dv_id dev) e d3" "untouched (nd_id n) (dv_id ` set vs) x d3"
      "kept x y" "other_nodes (nd_id n) (nodes d3) = other_nodes (nd_id n) (nodes x)"
      using provisioned_def by (auto simp: untouched_def same)
    then show ?thesis using served(5) by (auto simp: same)
  qed
  then show "kept x y" "devices y = devices x" "set (jobs x) \<subseteq> set (jobs y)"
    "other_nodes (nd_id n) (nodes y) = other_nodes (nd_id n) (nodes x)" "untouched (nd_id n) (dv_id ` set vs) x y"
    "\<forall>dev \<in> set (filter (eligible_device n (grantsByDevice u (nd_id n) x)) vs). provisioned (nd_id n) (dv_id dev) e y"
    by blast+
qed

section \<open>All nodes\<close>

lemma provisioned_later:
  assumes "provisioned nid did e x" "untouched k dids x y" "k \<noteq> nid" "set (jobs x) \<subseteq> set (jobs y)"
    and "other_nodes k (nodes y) = other_nodes k (nodes x)"
  shows "provisioned nid did e y"
proof -
  obtain v where g: "granted nid did e v x" and c: "commanded nid v x" using assms(1) by (auto simp: provisioned_def)
  have "m \<in> set (nodes x)" if "m \<in> set (nodes y)" "nd_id m = nid" for m
    using arg_cong [OF assms(5), of set] that assms(3) by (auto simp: other_nodes_def)
  then have "commanded nid v y" using c assms(4) by (auto simp: commanded_def)
  moreover have "granted nid did e v y" by (rule granted_untouched [OF g assms(2)]) (use assms(3) in simp)
  ultimately show ?thesis by (auto simp: provisioned_def)
qed

text \<open>What the trial has to settle: a healthy node, or a grant the device has.\<close>

definition concerns :: "node \<Rightarrow> uuid \<Rightarrow> db \<Rightarrow> bool" where
  "concerns n did d \<longleftrightarrow> nd_status n = NodeHealthy \<or> (\<exists>g \<in> set (grants d). gr_nodeId g = nd_id n \<and> gr_deviceId g = did)"

lemma concerns_kept: "kept d x \<Longrightarrow> concerns n did d \<Longrightarrow> concerns n did x"
  unfolding concerns_def kept_def db_progress_def rows_progress_def grant_le_def by metis

lemma trial_node_settles:
  assumes ok: "cp_ok x" and n: "\<exists>m \<in> set (nodes x). nd_id m = nd_id n" and vs: "distinct (map dv_id vs)"
    and run: "trial_on_node cr gf jf ef now aid u e vs n x = Inr y"
    and dev: "dev \<in> set vs" "user_device u x (dv_id dev)" "concerns n (dv_id dev) x"
  shows "provisioned (nd_id n) (dv_id dev) e y \<or> refused (nd_id n) (dv_id dev) y"
proof (cases "eligible_device n (grantsByDevice u (nd_id n) x) dev")
  case True
  then show ?thesis using trial_node(6) [OF ok n vs run] dev(1) by simp
next
  case False
  have "refused (nd_id n) (dv_id dev) x"
  proof (cases "map_of (grantsByDevice u (nd_id n) x) (dv_id dev)")
    case None
    then show ?thesis using False dev(3) grantsByDevice_None [OF None dev(2)] by (auto simp: eligible_device_def concerns_def)
  next
    case (Some g)
    then show ?thesis using False grantsByDevice_rows [OF Some] by (auto simp: eligible_device_def refused_def)
  qed
  then show ?thesis using refused_kept [OF trial_node(1) [OF ok n vs run]] by blast
qed

definition present :: "node list \<Rightarrow> db \<Rightarrow> bool" where
  "present ns d \<longleftrightarrow> (\<forall>n \<in> set ns. \<exists>m \<in> set (nodes d). nd_id m = nd_id n)"

lemma present_kept: "kept d x \<Longrightarrow> present ns d \<Longrightarrow> present ns x"
  unfolding present_def using node_successor by metis

definition trial_frame :: "device list \<Rightarrow> db \<Rightarrow> db \<Rightarrow> bool" where
  "trial_frame vs x y \<longleftrightarrow> kept x y \<and> devices y = devices x \<and> set (jobs x) \<subseteq> set (jobs y)
     \<and> (\<forall>g. gr_deviceId g \<notin> dv_id ` set vs \<longrightarrow> (g \<in> set (grants y) \<longleftrightarrow> g \<in> set (grants x)))"

lemma trial_frame_trans: "trial_frame vs x y \<Longrightarrow> trial_frame vs y z \<Longrightarrow> trial_frame vs x z"
  unfolding trial_frame_def by (auto intro: kept_trans)

lemma trial_node_frame:
  assumes "cp_ok x" "\<exists>m \<in> set (nodes x). nd_id m = nd_id n" "distinct (map dv_id vs)"
    and "trial_on_node cr gf jf ef now aid u e vs n x = Inr y"
  shows "trial_frame vs x y"
  using trial_node [OF assms] untouched_row [OF trial_node(5) [OF assms]]
  by (auto simp: trial_frame_def elsewhere_def)

lemma trial_nodes_frame:
  assumes run: "each_row (trial_on_node cr gf jf ef now aid u e vs) ns x = Inr y"
    and ok: "cp_ok x" "present ns x" and vs: "distinct (map dv_id vs)"
  shows "trial_frame vs x y"
proof (rule each_row_inv [OF run, of "trial_frame vs x"])
  show "trial_frame vs x x" using kept_refl [OF ok(1)] by (simp add: trial_frame_def)
  fix n a b assume n: "n \<in> set ns" and a: "trial_frame vs x a" and f: "trial_on_node cr gf jf ef now aid u e vs n a = Inr b"
  have "kept x a" using a by (simp add: trial_frame_def)
  then have "cp_ok a" "\<exists>m \<in> set (nodes a). nd_id m = nd_id n"
    using present_kept [OF _ ok(2)] n by (auto simp: kept_def present_def)
  then show "trial_frame vs x b" using trial_frame_trans [OF a] trial_node_frame [OF _ _ vs f] by blast
qed

lemma trial_nodes_kept:
  assumes run: "each_row (trial_on_node cr gf jf ef now aid u e vs) ns x = Inr y" and ok: "cp_ok x" "present ns x"
  shows "kept x y"
proof (rule each_row_inv [OF run, of "kept x"])
  show "kept x x" using ok(1) by (rule kept_refl)
  fix n a b assume n: "n \<in> set ns" and a: "kept x a" and f: "trial_on_node cr gf jf ef now aid u e vs n a = Inr b"
  have "cp_ok a" "\<exists>m \<in> set (nodes a). nd_id m = nd_id n"
    using a present_kept [OF a ok(2)] n by (auto simp: kept_def present_def)
  then show "kept x b" using kept_trans [OF a] trial_node_kept [OF _ _ f] by blast
qed

lemma trial_nodes_stay:
  assumes run: "each_row (trial_on_node cr gf jf ef now aid u e vs) ns x = Inr y"
    and ok: "cp_ok x" "present ns x" and vs: "distinct (map dv_id vs)"
    and p: "provisioned nid did e x" "nid \<notin> nd_id ` set ns"
  shows "provisioned nid did e y"
proof -
  have "kept x y \<and> provisioned nid did e y"
  proof (rule each_row_inv [OF run, of "\<lambda>a. kept x a \<and> provisioned nid did e a"])
    show "kept x x \<and> provisioned nid did e x" using kept_refl [OF ok(1)] p(1) by simp
    fix n a b assume n: "n \<in> set ns" and a: "kept x a \<and> provisioned nid did e a"
      and f: "trial_on_node cr gf jf ef now aid u e vs n a = Inr b"
    have "cp_ok a" "\<exists>m \<in> set (nodes a). nd_id m = nd_id n"
      using a present_kept [OF _ ok(2)] n by (auto simp: kept_def present_def)
    note b = trial_node [OF this vs f]
    have "provisioned nid did e b"
      by (rule provisioned_later [OF _ b(5) _ b(3,4)]) (use a n p(2) in auto)
    then show "kept x b \<and> provisioned nid did e b" using a kept_trans [OF _ b(1)] by blast
  qed
  then show ?thesis by blast
qed

lemma trial_nodes_settle:
  assumes "each_row (trial_on_node cr gf jf ef now aid u e vs) ns x = Inr y"
    and "cp_ok x" "present ns x" "distinct (map nd_id ns)"
    and vs: "distinct (map dv_id vs)" and dev: "dev \<in> set vs" "user_device u x (dv_id dev)"
    and "n \<in> set ns" "concerns n (dv_id dev) x"
  shows "provisioned (nd_id n) (dv_id dev) e y \<or> refused (nd_id n) (dv_id dev) y"
  using assms(1-4,7-9)
proof (induction ns arbitrary: x)
  case (Cons k ks)
  obtain z where step: "trial_on_node cr gf jf ef now aid u e vs k x = Inr z"
    and rest: "each_row (trial_on_node cr gf jf ef now aid u e vs) ks z = Inr y"
    using Cons.prems(1) by (auto split: sum.splits)
  have k: "\<exists>m \<in> set (nodes x). nd_id m = nd_id k" using Cons.prems(3) by (simp add: present_def)
  note z = trial_node [OF Cons.prems(2) k vs step]
  have ok: "cp_ok z" "present ks z"
    using z(1) present_kept [OF z(1), of ks] Cons.prems(3) by (auto simp: kept_def present_def)
  show ?case
  proof (cases "n = k")
    case True
    then have "provisioned (nd_id n) (dv_id dev) e z \<or> refused (nd_id n) (dv_id dev) z"
      using trial_node_settles [OF Cons.prems(2) k vs step dev(1) Cons.prems(5)] Cons.prems(7) by simp
    moreover have "nd_id n \<notin> nd_id ` set ks" using Cons.prems(4) True by auto
    moreover have "kept z y" using trial_nodes_frame [OF rest ok vs] by (simp add: trial_frame_def)
    ultimately show ?thesis using trial_nodes_stay [OF rest ok vs] refused_kept by blast
  next
    case False
    have "user_device u z (dv_id dev)" using Cons.prems(5) z(2) by (simp add: user_device_def)
    then show ?thesis
      using Cons.IH [OF rest ok _ _ _ concerns_kept [OF z(1) Cons.prems(7)]] False Cons.prems(4,6) by simp
  qed
qed simp

section \<open>The transaction\<close>

lemma schedule_existing_run:
  assumes "scheduleExistingDeviceAccess cr gf jf ef now aid u e d = Inr y"
  obtains "y = d" "active_devices u d = []"
  | "each_row (trial_on_node cr gf jf ef now aid u e (active_devices u d)) (trial_nodes u d) d = Inr y"
proof (cases "active_devices u d = []")
  case True
  then show thesis using assms that(1) by (simp add: scheduleExistingDeviceAccess_def)
next
  case False
  then show thesis using assms that(2) by (simp add: scheduleExistingDeviceAccess_def Let_def)
qed

lemma trial_nodes_present [simp]: "present (trial_nodes u d) d"
  by (auto simp: present_def trial_nodes_def)

lemma create_trial_run:
  assumes "create_trial cr ids u c now a = Inr (r, a')"
  obtains d1 a1 d2 where "create_subscription (trial_subscription ids u c now) (ac_core a) = Inr d1"
    "insert_activation (trial_activation ids u c now)
       (a\<lparr>ac_core := d1, ac_planOf := (ti_subscription ids, cg_planId c) # ac_planOf a\<rparr>) = Inr a1"
    "scheduleExistingDeviceAccess cr (ti_grant ids) (ti_job ids) (ti_event ids) now (ti_activation ids) u
       (trial_expiry c now) (ac_core a1) = Inr d2"
    "a' = a1\<lparr>ac_core := write_audit (Some u) ''trial.activated'' ''TrialActivation'' (ti_activation ids) d2\<rparr>"
    "r = (200, serialize (trial_activation ids u c now))"
  using assms by (auto simp: create_trial_def split: sum.splits)

lemma insert_activation_core: "insert_activation t a = Inr a' \<Longrightarrow> ac_core a' = ac_core a"
  by (auto simp: insert_activation_def split: if_splits)

text \<open>Subscriptions are no part of the invariant.\<close>

lemma kept_frame:
  "nodes x = nodes d \<Longrightarrow> grants x = grants d \<Longrightarrow> jobs x = jobs d \<Longrightarrow> routes x = routes d \<Longrightarrow> endpoints x = endpoints d \<Longrightarrow>
   cp_ok d \<Longrightarrow> kept d x"
  by (auto simp: kept_def cp_ok_def same_places_def db_progress_same)

lemma kept_create_subscription:
  assumes "cp_ok d" "create_subscription s d = Inr x"
  shows "kept d x"
proof -
  have "x = d\<lparr>subscriptions := subscriptions d @ [s]\<rparr>" using assms(2) by (auto simp: create_subscription_def split: if_splits)
  then show ?thesis by (intro kept_frame assms(1)) simp_all
qed

lemma kept_schedule_existing:
  assumes ok: "cp_ok d" and e: "scheduleExistingDeviceAccess cr gf jf ef now aid u e d = Inr y"
  shows "kept d y"
  using e
proof (rule schedule_existing_run)
  assume "y = d"
  then show ?thesis using ok by (simp add: kept_refl)
next
  assume "each_row (trial_on_node cr gf jf ef now aid u e (active_devices u d)) (trial_nodes u d) d = Inr y"
  then show ?thesis by (rule trial_nodes_kept) (use ok in simp_all)
qed

lemma kept_create_trial:
  assumes ok: "cp_ok (ac_core a)" and run: "create_trial cr ids u c now a = Inr (r, a')"
  shows "kept (ac_core a) (ac_core a')"
  using run
proof (rule create_trial_run)
  fix d1 a1 d2
  assume s: "create_subscription (trial_subscription ids u c now) (ac_core a) = Inr d1"
    and t: "insert_activation (trial_activation ids u c now)
       (a\<lparr>ac_core := d1, ac_planOf := (ti_subscription ids, cg_planId c) # ac_planOf a\<rparr>) = Inr a1"
    and e: "scheduleExistingDeviceAccess cr (ti_grant ids) (ti_job ids) (ti_event ids) now (ti_activation ids) u
       (trial_expiry c now) (ac_core a1) = Inr d2"
    and a': "a' = a1\<lparr>ac_core := write_audit (Some u) ''trial.activated'' ''TrialActivation'' (ti_activation ids) d2\<rparr>"
  have k: "kept (ac_core a) d1" by (rule kept_create_subscription [OF ok s])
  have "ac_core a1 = d1" using insert_activation_core [OF t] by simp
  then have "kept d1 d2" using kept_schedule_existing [OF _ e] k by (simp add: kept_def)
  then show ?thesis using kept_trans [OF k] by (simp add: a')
qed

lemma trial_for_campaign_run:
  assumes "trial_for_campaign cr ids u now cs a = Inr (r, a')"
  obtains c where "cs = [c]" "int (length (active_devices u (ac_core a))) \<le> device_limit c a"
    "\<forall>m. cg_maxActivations c = Some m \<longrightarrow> activation_count (cg_id c) a < m" "create_trial cr ids u c now a = Inr (r, a')"
proof -
  obtain c where cs: "cs = [c]" using assms by (auto simp: trial_for_campaign_def split: list.splits)
  then show thesis
    using assms that by (auto simp: trial_for_campaign_def split: if_splits option.splits)
qed

lemma activate_run:
  assumes "activateInTransaction cr ids tg now a0 = Inr (r, a')"
  obtains (existing) u a t where "upsert_user (ti_user ids) tg a0 = Inr (u, a)" "findExistingActivation (us_id u) a = Some t"
      "r = (200, serialize t)" "a' = a"
  | (created) u a a1 c where "upsert_user (ti_user ids) tg a0 = Inr (u, a)" "findExistingActivation (us_id u) a = None"
      "\<forall>s \<in> set (active_subscriptions (us_id u) (ac_core a)). \<not> live_subscription now s"
      "a1 = a\<lparr>ac_core := expire_subscriptions (map sb_id (active_subscriptions (us_id u) (ac_core a))) (ac_core a)\<rparr>"
      "eligible_campaigns now a1 = [c]" "int (length (active_devices (us_id u) (ac_core a1))) \<le> device_limit c a1"
      "\<forall>m. cg_maxActivations c = Some m \<longrightarrow> activation_count (cg_id c) a1 < m"
      "create_trial cr ids (us_id u) c now a1 = Inr (r, a')"
proof -
  obtain u a where u: "upsert_user (ti_user ids) tg a0 = Inr (u, a)"
    using assms by (auto simp: activateInTransaction_def split: sum.splits)
  show thesis
  proof (cases "findExistingActivation (us_id u) a")
    case (Some t)
    then show thesis using existing [OF u Some] assms u by (simp add: activateInTransaction_def)
  next
    case None
    let ?a1 = "a\<lparr>ac_core := expire_subscriptions (map sb_id (active_subscriptions (us_id u) (ac_core a))) (ac_core a)\<rparr>"
    have run: "trial_for_campaign cr ids (us_id u) now (eligible_campaigns now ?a1) ?a1 = Inr (r, a')"
      and quiet: "\<forall>s \<in> set (active_subscriptions (us_id u) (ac_core a)). \<not> live_subscription now s"
      using assms u None by (auto simp: activateInTransaction_def Let_def split: if_splits)
    from run show thesis by (rule trial_for_campaign_run) (rule created [OF u None quiet refl])
  qed
qed

lemma upsert_core: "upsert_user newId tg a0 = Inr (u, a) \<Longrightarrow> ac_core a = ac_core a0 \<and> ac_activations a = ac_activations a0
    \<and> ac_campaigns a = ac_campaigns a0 \<and> ac_planOf a = ac_planOf a0 \<and> us_telegramUserId u = tg \<and> u \<in> set (ac_users a)"
  by (auto simp: upsert_user_def Let_def split: option.splits if_splits dest: find_member)

lemma kept_activate:
  assumes ok: "cp_ok (ac_core a)" and run: "activateInTransaction cr ids tg now a = Inr (r, a')"
  shows "kept (ac_core a) (ac_core a')"
  using run
proof (cases rule: activate_run)
  case (existing u x t)
  then show ?thesis using upsert_core [OF existing(1)] kept_refl [OF ok] by simp
next
  case (created u x a1 c)
  have core: "ac_core a1 = expire_subscriptions (map sb_id (active_subscriptions (us_id u) (ac_core a))) (ac_core a)"
    using upsert_core [OF created(1)] created(4) by simp
  have k: "kept (ac_core a) (ac_core a1)"
    unfolding core by (rule kept_frame [OF _ _ _ _ _ ok]) (simp_all add: expire_subscriptions_def)
  have "cp_ok (ac_core a1)" using k by (simp add: kept_def)
  then show ?thesis using kept_trans [OF k kept_create_trial [OF _ created(8)]] by simp
qed

end
