(* ===== verification/Control_Plane_Invariant.thy ===== *)
theory Control_Plane_Invariant
  imports Trial_Writes
begin

text \<open>
  The histories of the control plane: \<open>cp_step\<close> is one transaction of an orchestration service, of the
  subscription access store or of the trial service (on its control-plane tables), or one statement of a queue, and the interpretation of
  \<open>invariant_system\<close> carries the invariant over every sequence of them.
\<close>

section \<open>Every history\<close>

text \<open>The transactions of the orchestration services and the statements of the two queues, in any order
  and with any arguments.\<close>

inductive cp_step :: "db \<Rightarrow> db \<Rightarrow> bool" where
  cp_restore: "restoreHealthy nid actor d = Inr (r, d') \<Longrightarrow> cp_step d d'"
| cp_drain: "drain nid actor d = Inr (r, d') \<Longrightarrow> cp_step d d'"
| cp_disable: "disable nid actor d = Inr (r, d') \<Longrightarrow> cp_step d d'"
| cp_quarantine: "quarantine qi jid eid now d = Inr (q, d') \<Longrightarrow> cp_step d d'"
| cp_schedule: "scheduleInTransaction provider si gid jid eid now d = Inr (s, d') \<Longrightarrow> cp_step d d'"
| cp_revoke: "revoke u v jf ef now d = Inr (x, d') \<Longrightarrow> cp_step d d'"
| cp_publish: "publishConnectionRoute is_uuid pi jid eid now d = Inr (p, d') \<Longrightarrow> cp_step d d'"
| cp_acknowledge: "acknowledgeNodeConfigInTransaction ai now d = Inr (a, d') \<Longrightarrow> cp_step d d'"
| cp_cancel: "cancelSubscriptionAccess sid jf ef now d = Inr (c, d') \<Longrightarrow> cp_step d d'"
| cp_expire: "scheduleExpiredSubscriptionOnNode sid nid jid eid now d = Inr (b, d') \<Longrightarrow> cp_step d d'"
| cp_expired: "materializeExpiredSubscriptionStatus sid now d = Inr (b, d') \<Longrightarrow> cp_step d d'"
| cp_reconcile: "reconcileOneNode cr nid inc gf jid eid now d = Inr (b, d') \<Longrightarrow> cp_step d d'"
| cp_trial: "activateInTransaction cr ids tg now a = Inr (r, a') \<Longrightarrow> cp_step (ac_core a) (ac_core a')"
| cp_node_sync: "d' = node_sync_exec c now op d \<Longrightarrow> cp_step d d'"
| cp_outbox: "d' = d\<lparr>outbox := outbox_exec st now oop (outbox d)\<rparr> \<Longrightarrow> cp_step d d'"

inductive_cases cp_stepE: "cp_step d d'"

definition cp_inv :: "db \<Rightarrow> bool" where
  "cp_inv d \<longleftrightarrow> cp_ok d \<and> routes_placed d"

lemmas access_kept = kept_cancel kept_expiry kept_expired_status kept_reconcile kept_activate

lemma cp_step_ok: "cp_step d d' \<Longrightarrow> cp_inv d \<Longrightarrow> cp_ok d'"
  unfolding cp_inv_def
  by (induction rule: cp_step.induct)
    (auto simp: restoreHealthy_def drain_def disable_def intro: cp_ok_change_status cp_ok_quarantine
      cp_ok_schedule cp_ok_revoke_device cp_ok_publish cp_ok_acknowledge cp_ok_node_sync
      dest: access_kept simp: kept_def,
     simp add: cp_ok_def)

lemma placed_kept: "kept d d' \<Longrightarrow> routes_placed d \<Longrightarrow> routes_placed d'"
  using same_places_placed by (auto simp: kept_def)

lemma cp_step_placed: "cp_step d d' \<Longrightarrow> cp_ok d \<Longrightarrow> routes_placed d \<Longrightarrow> routes_placed d'"
proof (induction rule: cp_step.induct)
  case (cp_outbox d' d st now oop)
  then show ?case by (simp add: routes_placed_def)
next
  case (cp_node_sync d' c now op d)
  then show ?case using same_places_placed [OF places_node_sync] by simp
qed (auto simp: restoreHealthy_def drain_def disable_def
    intro: same_places_placed [OF places_change_status] same_places_placed [OF places_quarantine]
      same_places_placed [OF places_schedule] same_places_placed [OF places_revoke_device]
      same_places_placed [OF places_acknowledge] placed_publish
      placed_kept [OF kept_cancel] placed_kept [OF kept_expiry] placed_kept [OF kept_expired_status]
      placed_kept [OF kept_reconcile] placed_kept [OF kept_activate])

interpretation control_plane: invariant_system cp_step cp_inv
  by unfold_locales (simp add: cp_inv_def cp_step_ok cp_step_placed)

text \<open>C11. In every state the control plane reaches, whatever the order of schedulings, revocations,
  publications, acknowledgements, lifecycle changes and queue statements: no live grant is left on a
  quarantined node, no node has applied more than it desires, no grant or job is ahead of its node,
  and an activated route lies on a healthy node.\<close>

theorem control_plane_safe:
  assumes "cp_inv d0" "cp_step\<^sup>*\<^sup>* d0 d"
  shows "(\<forall>g \<in> set (grants d). \<forall>n \<in> set (nodes d). nd_id n = gr_nodeId g \<longrightarrow>
       (nd_status n = NodeQuarantined \<longrightarrow> gr_status g = GrantRevoked)
       \<and> gr_appliedVersion g \<le> gr_desiredVersion g \<and> gr_desiredVersion g \<le> desiredConfigVersion n)
   \<and> (\<forall>n \<in> set (nodes d). appliedConfigVersion n \<le> desiredConfigVersion n)
   \<and> (\<forall>j \<in> set (jobs d). \<forall>n \<in> set (nodes d). nd_id n = jb_nodeId j \<longrightarrow> jb_targetVersion j \<le> desiredConfigVersion n)
   \<and> (\<forall>r \<in> set (routes d). \<forall>n \<in> set (nodes d). nd_id n = rt_nodeId r \<and> rt_activationVersion r \<noteq> None \<longrightarrow>
       nd_status n = NodeHealthy)"
proof -
  have ok: "cp_ok d" using control_plane.reachable_inv [OF assms(2,1)] by (simp add: cp_inv_def)
  then have "\<forall>n \<in> set (nodes d). appliedConfigVersion n \<le> desiredConfigVersion n"
    by (auto simp: cp_ok_def cp_rows_ok_def node_ok_def)
  moreover note admitting_node [OF ok]
  ultimately show ?thesis unfolding admits grant_row_ok_def by blast
qed

text \<open>The sample database after a quarantine of its node.\<close>

definition sample_quarantine :: quarantine_input where
  "sample_quarantine = \<lparr>qi_nodeId = ''n1'', qi_syncJobIdempotencyKey = ''q-job'',
     qi_outboxEventIdempotencyKey = ''q-event'', qi_actorUserId = None\<rparr>"

definition quarantined_db :: db where
  "quarantined_db = (case quarantine sample_quarantine ''j2'' ''e2'' 500 sample_db of
     Inl _ \<Rightarrow> sample_db | Inr (_, d) \<Rightarrow> d)"

lemma sample_cp_inv: "cp_inv sample_db"
  by (simp add: cp_inv_def cp_ok_def cp_rows_ok_def sample_db_def empty_db_def sample_node_def sample_grant_def
      node_ok_def grant_ok_def admits grant_row_ok_def job_target_ok_def job_row_ok_def new_job_def routes_placed_def)

lemma sample_quarantine_run:
  "quarantine sample_quarantine ''j2'' ''e2'' 500 sample_db =
     Inr (\<lparr>qr_nodeId = ''n1'', qr_nodeSyncJobId = Some ''j2'', qr_outboxEventId = Some ''e2'',
       qr_targetVersion = 4\<rparr>, quarantined_db)"
  by code_simp

theorem control_plane_safe_witness:
  "nd_status (hd (nodes quarantined_db)) = NodeQuarantined
   \<and> gr_status (hd (grants quarantined_db)) = GrantRevoked \<and> gr_desiredVersion (hd (grants quarantined_db)) = 4"
proof -
  have step: "cp_step\<^sup>*\<^sup>* sample_db quarantined_db"
    using cp_step.cp_quarantine [OF sample_quarantine_run] by blast
  have facts: "hd (grants quarantined_db) \<in> set (grants quarantined_db)
    \<and> hd (nodes quarantined_db) \<in> set (nodes quarantined_db)
    \<and> nd_id (hd (nodes quarantined_db)) = gr_nodeId (hd (grants quarantined_db))
    \<and> nd_status (hd (nodes quarantined_db)) = NodeQuarantined
    \<and> gr_desiredVersion (hd (grants quarantined_db)) = 4"
    by code_simp
  then show ?thesis using control_plane_safe [OF sample_cp_inv step] by blast
qed

end
