(* ===== verification/Trial_Properties.thy ===== *)
theory Trial_Properties
  imports Control_Plane_Invariant
begin

text \<open>
  What a trial gives and what limits it: the grants of the devices the user has, one trial per user,
  the limit of a campaign, and the same answer whenever the user asks again.
\<close>

section \<open>Histories\<close>

text \<open>\<open>TrialActivation_subscriptionId_userId_planId_fkey\<close>: the subscription of an activation stays.\<close>

definition backed :: "account_db \<Rightarrow> activation \<Rightarrow> bool" where
  "backed a t \<longleftrightarrow> (\<exists>s \<in> set (subscriptions (ac_core a)). sb_id s = ta_subscriptionId t \<and> sb_userId s = ta_userId t
     \<and> map_of (ac_planOf a) (sb_id s) = Some (ta_planId t))"

definition within_limit :: "account_db \<Rightarrow> campaign \<Rightarrow> bool" where
  "within_limit a c \<longleftrightarrow> (\<forall>m. cg_maxActivations c = Some m \<longrightarrow> activation_count (cg_id c) a \<le> m)"

text \<open>Activations, and between them: other transactions on the control plane, new users, and operators who
  edit plans and campaigns without lowering a limit below what was used.\<close>

inductive account_step :: "account_db \<Rightarrow> account_db \<Rightarrow> bool" where
  account_activate: "activateInTransaction cr ids tg now a = Inr (r, a') \<Longrightarrow> account_step a a'"
| account_core: "\<forall>t \<in> set (ac_activations a). backed (a\<lparr>ac_core := d\<rparr>) t \<Longrightarrow> account_step a (a\<lparr>ac_core := d\<rparr>)"
| account_users: "account_step a (a\<lparr>ac_users := ac_users a @ us\<rparr>)"
| account_operators: "distinct (map cg_id cs) \<Longrightarrow> \<forall>c \<in> set cs. within_limit a c \<Longrightarrow>
    account_step a (a\<lparr>ac_plans := ps, ac_campaigns := cs\<rparr>)"

definition activation_ok :: "activation \<Rightarrow> bool" where
  "activation_ok t \<longleftrightarrow> ta_durationDays t \<in> {1, 3, 5} \<and> ta_startsAt t = ta_activatedAt t
     \<and> ta_expiresAt t = ta_startsAt t + ta_durationDays t * day_ms"

definition trials_ok :: "account_db \<Rightarrow> bool" where
  "trials_ok a \<longleftrightarrow> distinct (map cg_id (ac_campaigns a)) \<and> distinct (map ta_id (ac_activations a))
     \<and> distinct (map ta_userId (ac_activations a)) \<and> (\<forall>c \<in> set (ac_campaigns a). within_limit a c)
     \<and> (\<forall>t \<in> set (ac_activations a). activation_ok t \<and> backed a t)"

lemma backed_keys: "backed a t \<longleftrightarrow>
    (ta_subscriptionId t, ta_userId t) \<in> set (map (\<lambda>s. (sb_id s, sb_userId s)) (subscriptions (ac_core a)))
    \<and> map_of (ac_planOf a) (ta_subscriptionId t) = Some (ta_planId t)"
  by (auto simp: backed_def image_iff intro: sym)

lemma existing_is_activation:
  assumes "\<forall>t \<in> set (ac_activations a). backed a t"
  shows "findExistingActivation u a = find (\<lambda>t. ta_userId t = u) (ac_activations a)"
  unfolding findExistingActivation_def backed_def [symmetric]
  using assms by (intro find_cong refl) (auto simp: backed_def)

lemma insert_activation_run:
  "insert_activation t a = Inr a' \<longleftrightarrow> a' = a\<lparr>ac_activations := ac_activations a @ [t]\<rparr> \<and> ta_durationDays t \<in> {1, 3, 5}
   \<and> (\<forall>u \<in> set (ac_activations a). ta_id u \<noteq> ta_id t \<and> ta_userId u \<noteq> ta_userId t \<and> ta_subscriptionId u \<noteq> ta_subscriptionId t)"
  by (auto simp: insert_activation_def)

lemma create_subscription_run:
  "create_subscription s d = Inr x \<longleftrightarrow> x = d\<lparr>subscriptions := subscriptions d @ [s]\<rparr>
   \<and> (\<forall>t \<in> set (subscriptions d). sb_id t \<noteq> sb_id s
        \<and> \<not> (sb_status s = SubActive \<and> sb_status t = SubActive \<and> sb_userId t = sb_userId s))"
  by (auto simp: create_subscription_def)

lemma trial_node_subscriptions:
  "trial_on_node cr gf jf ef now aid u e vs n x = Inr y \<Longrightarrow> subscriptions y = subscriptions x"
proof (erule trial_node_run)
  fix v d1 gids d2 d3
  assume inc: "incrementNodeVersion (nd_id n) x = (v, d1)"
    and all: "change_all (trial_grant cr gf (grantsByDevice u (nd_id n) x) (nd_id n) e v)
       (filter (eligible_device n (grantsByDevice u (nd_id n) x)) vs) d1 = Inr (gids, d2)"
    and req: "request_grant_sync (jf (nd_id n)) (ef (nd_id n)) (nd_id n) (hd gids) v (''trial:'' @ aid @ '':'' @ nd_id n)
       (''trial-outbox:'' @ aid @ '':'' @ nd_id n) now d2 = Inr d3"
    and y: "y = write_audit (Some u) ''trial.access-scheduled'' ''TrialActivation'' aid d3"
  have "subscriptions d1 = subscriptions x" using inc by (auto simp: incrementNodeVersion_def bump_desired_def)
  moreover have "subscriptions d2 = subscriptions d1"
    by (rule change_all_inv [OF all, of "\<lambda>z. subscriptions z = subscriptions d1"])
      (auto simp: trial_grant_def create_grant_def Let_def map_sum_def split: option.splits sum.splits if_splits)
  moreover have "subscriptions d3 = subscriptions d2"
    using req by (auto simp: request_grant_sync_def create_job_def create_event_def split: sum.splits if_splits)
  ultimately show ?thesis by (simp add: y write_audit_def)
qed simp

lemma schedule_subscriptions:
  "scheduleExistingDeviceAccess cr gf jf ef now aid u e d = Inr y \<Longrightarrow> subscriptions y = subscriptions d"
proof (erule schedule_existing_run)
  assume run: "each_row (trial_on_node cr gf jf ef now aid u e (active_devices u d)) (trial_nodes u d) d = Inr y"
  show ?thesis
    by (rule each_row_inv [OF run, of "\<lambda>z. subscriptions z = subscriptions d"]) (simp_all add: trial_node_subscriptions)
qed simp

text \<open>What a new trial leaves in the account tables.\<close>

lemma create_trial_tables:
  assumes "create_trial cr ids u c now a = Inr (r, a')"
  shows "ac_activations a' = ac_activations a @ [trial_activation ids u c now]"
    "subscriptions (ac_core a') = subscriptions (ac_core a) @ [trial_subscription ids u c now]"
    "ac_users a' = ac_users a" "ac_campaigns a' = ac_campaigns a" "ac_planOf a' = (ti_subscription ids, cg_planId c) # ac_planOf a"
    "ti_subscription ids \<notin> sb_id ` set (subscriptions (ac_core a))" "cg_durationDays c \<in> {1, 3, 5}"
    "\<forall>t \<in> set (ac_activations a). ta_id t \<noteq> ti_activation ids \<and> ta_userId t \<noteq> u"
proof -
  obtain d1 a1 d2 where s: "create_subscription (trial_subscription ids u c now) (ac_core a) = Inr d1"
    and t: "insert_activation (trial_activation ids u c now)
       (a\<lparr>ac_core := d1, ac_planOf := (ti_subscription ids, cg_planId c) # ac_planOf a\<rparr>) = Inr a1"
    and e: "scheduleExistingDeviceAccess cr (ti_grant ids) (ti_job ids) (ti_event ids) now (ti_activation ids) u
       (trial_expiry c now) (ac_core a1) = Inr d2"
    and a': "a' = a1\<lparr>ac_core := write_audit (Some u) ''trial.activated'' ''TrialActivation'' (ti_activation ids) d2\<rparr>"
    using assms by (rule create_trial_run)
  note s = s [unfolded create_subscription_run] and t = t [unfolded insert_activation_run]
  have keys: "ta_durationDays (trial_activation ids u c now) = cg_durationDays c" "ta_id (trial_activation ids u c now) = ti_activation ids"
    "ta_userId (trial_activation ids u c now) = u" "sb_id (trial_subscription ids u c now) = ti_subscription ids"
    by (simp_all add: trial_activation_def trial_subscription_def)
  have "subscriptions d2 = subscriptions d1" using schedule_subscriptions [OF e] conjunct1 [OF t] by simp
  then show "subscriptions (ac_core a') = subscriptions (ac_core a) @ [trial_subscription ids u c now]"
    using s by (simp add: a' write_audit_def)
  show "ac_activations a' = ac_activations a @ [trial_activation ids u c now]"
    "ac_users a' = ac_users a" "ac_campaigns a' = ac_campaigns a" "ac_planOf a' = (ti_subscription ids, cg_planId c) # ac_planOf a"
    by (simp_all add: a' conjunct1 [OF t])
  show "ti_subscription ids \<notin> sb_id ` set (subscriptions (ac_core a))" using s keys by auto
  show "cg_durationDays c \<in> {1, 3, 5}" using conjunct1 [OF conjunct2 [OF t]] unfolding keys .
  show "\<forall>t \<in> set (ac_activations a). ta_id t \<noteq> ti_activation ids \<and> ta_userId t \<noteq> u"
    using conjunct2 [OF conjunct2 [OF t]] by (simp add: keys)
qed

lemma create_trial_response: "create_trial cr ids u c now a = Inr (r, a') \<Longrightarrow> r = (200, serialize (trial_activation ids u c now))"
  by (erule create_trial_run)

section \<open>The invariant\<close>

lemma activation_count_mono: "ac_activations a' = ac_activations a \<Longrightarrow> within_limit a' c = within_limit a c"
  by (simp add: within_limit_def activation_count_def)

lemma backed_same:
  "subscriptions (ac_core a') = subscriptions (ac_core a) \<Longrightarrow> ac_planOf a' = ac_planOf a \<Longrightarrow> backed a' t = backed a t"
  by (simp add: backed_def)

lemma trials_ok_create:
  assumes inv: "trials_ok a" and c: "c \<in> set (ac_campaigns a)"
    and limit: "\<forall>m. cg_maxActivations c = Some m \<longrightarrow> activation_count (cg_id c) a < m"
    and run: "create_trial cr ids u c now a = Inr (r, a')"
  shows "trials_ok a'"
proof -
  note n = create_trial_tables [OF run]
  let ?t = "trial_activation ids u c now"
  have keys: "ta_id ?t = ti_activation ids" "ta_userId ?t = u" "ta_trialCampaignId ?t = cg_id c" by (simp_all add: trial_activation_def)
  have "activation_ok ?t" using n(7) by (simp add: activation_ok_def trial_activation_def trial_expiry_def)
  moreover have "backed a' ?t" by (simp add: backed_keys n(2,5) trial_activation_def trial_subscription_def)
  moreover have "backed a' t" if "backed a t" for t
    using that n(6) by (auto simp: backed_keys n(2,5))
  moreover have "within_limit a' k" if k: "k \<in> set (ac_campaigns a)" for k
  proof (cases "cg_id k = cg_id c")
    case True
    then have "k = c" using inv c k distinct_key_eq [of cg_id "ac_campaigns a" k c] by (simp add: trials_ok_def)
    then show ?thesis using limit by (auto simp: within_limit_def activation_count_def count_rows_def n(1) keys)
  next
    case False
    then show ?thesis using inv k by (auto simp: trials_ok_def within_limit_def activation_count_def count_rows_def n(1) keys)
  qed
  moreover have "distinct (map ta_id (ac_activations a'))" "distinct (map ta_userId (ac_activations a'))"
    using inv n(8) by (auto simp: trials_ok_def n(1) keys)
  ultimately show ?thesis using inv by (auto simp: trials_ok_def n(1,4))
qed

lemma trials_ok_frame:
  assumes "trials_ok a" "ac_activations a' = ac_activations a" "ac_campaigns a' = ac_campaigns a"
    and "\<forall>t \<in> set (ac_activations a). backed a t \<longrightarrow> backed a' t"
  shows "trials_ok a'"
  using assms activation_count_mono [of a' a] by (auto simp: trials_ok_def)

lemma upserted:
  assumes "upsert_user newId tg a0 = Inr (u, a)" "trials_ok a0"
  shows "trials_ok a"
  by (rule trials_ok_frame [OF assms(2)]) (use upsert_core [OF assms(1)] in \<open>simp_all add: backed_def\<close>)

lemma expired_backed:
  "backed (a\<lparr>ac_core := expire_subscriptions sids (ac_core a)\<rparr>) t \<longleftrightarrow> backed a t"
  by (simp add: backed_keys expire_subscriptions_def map_update_rows_key del: set_map)

lemma eligible_campaign_row: "eligible_campaigns now a = [c] \<Longrightarrow> c \<in> set (ac_campaigns a)"
proof -
  assume "eligible_campaigns now a = [c]"
  then have "c \<in> set (take 2 (sort_key cg_id (filter (eligible_campaign now a) (ac_campaigns a))))"
    unfolding eligible_campaigns_def by simp
  then show ?thesis by (auto dest: in_set_takeD)
qed

lemma account_step_inv: "account_step a a' \<Longrightarrow> trials_ok a \<Longrightarrow> trials_ok a'"
proof (induction rule: account_step.induct)
  case (account_activate cr ids tg now a r a')
  from account_activate(1) show ?case
  proof (cases rule: activate_run)
    case (existing u x t)
    then show ?thesis using upserted [OF existing(1) account_activate(2)] by simp
  next
    case (created u x a1 c)
    have "trials_ok a1"
      by (rule trials_ok_frame [OF upserted [OF created(1) account_activate(2)]]) (simp_all add: created(4) expired_backed)
    then show ?thesis using trials_ok_create [OF _ eligible_campaign_row [OF created(5)] created(7,8)] by simp
  qed
next
  case (account_core a d)
  then show ?case by (intro trials_ok_frame [OF account_core(2)]) simp_all
next
  case (account_users a us)
  then show ?case by (intro trials_ok_frame [OF account_users]) (simp_all add: backed_def)
next
  case (account_operators cs a ps)
  then show ?case
    using activation_count_mono [of "a\<lparr>ac_plans := ps, ac_campaigns := cs\<rparr>" a] by (auto simp: trials_ok_def backed_def)
qed

interpretation trials: invariant_system account_step trials_ok
  by unfold_locales (rule account_step_inv)

section \<open>The user is answered the same again\<close>

definition remembered :: "string \<Rightarrow> activation \<Rightarrow> account_db \<Rightarrow> bool" where
  "remembered tg t a \<longleftrightarrow> (\<exists>u. find (\<lambda>u. us_telegramUserId u = tg) (ac_users a) = Some u
     \<and> findExistingActivation (us_id u) a = Some t)"

lemma remembered_answer:
  "remembered tg t a \<Longrightarrow> activateInTransaction cr ids tg now a = Inr ((200, serialize t), a)"
  by (auto simp: remembered_def activateInTransaction_def upsert_user_def)

lemma remembered_grows:
  assumes "trials_ok a" "trials_ok a'" "remembered tg t a"
    and users: "\<exists>us. ac_users a' = ac_users a @ us" and acts: "\<exists>ts. ac_activations a' = ac_activations a @ ts"
  shows "remembered tg t a'"
proof -
  obtain u where u: "find (\<lambda>u. us_telegramUserId u = tg) (ac_users a) = Some u"
    "find (\<lambda>t. ta_userId t = us_id u) (ac_activations a) = Some t"
    using assms(1,3) existing_is_activation [of a] by (auto simp: remembered_def trials_ok_def)
  have "findExistingActivation (us_id u) a' = find (\<lambda>t. ta_userId t = us_id u) (ac_activations a')"
    using assms(2) by (intro existing_is_activation) (simp add: trials_ok_def)
  then show ?thesis using u users acts by (auto simp: remembered_def find_append)
qed

lemma upsert_grows:
  assumes "upsert_user newId tg a0 = Inr (u, a)"
  shows "\<exists>us. ac_users a = ac_users a0 @ us" "find (\<lambda>u. us_telegramUserId u = tg) (ac_users a) = Some u"
proof -
  show "\<exists>us. ac_users a = ac_users a0 @ us"
    using assms by (auto simp: upsert_user_def Let_def split: option.splits if_splits)
  show "find (\<lambda>u. us_telegramUserId u = tg) (ac_users a) = Some u"
    using assms by (auto simp: upsert_user_def Let_def find_append split: option.splits if_splits)
qed

lemma activation_grows:
  assumes "activateInTransaction cr ids tg now a = Inr (r, a')"
  shows "(\<exists>us. ac_users a' = ac_users a @ us) \<and> (\<exists>ts. ac_activations a' = ac_activations a @ ts)"
  using assms
proof (cases rule: activate_run)
  case (existing u x t)
  then show ?thesis using upsert_grows(1) [OF existing(1)] upsert_core [OF existing(1)] by simp
next
  case (created u x a1 c)
  have "ac_users a1 = ac_users x" "ac_activations a1 = ac_activations x" by (simp_all add: created(4))
  then show ?thesis
    using upsert_grows(1) [OF created(1)] upsert_core [OF created(1)] create_trial_tables(1,3) [OF created(8)] by simp
qed

lemma account_step_remembers: "account_step a a' \<Longrightarrow> trials_ok a \<Longrightarrow> remembered tg t a \<Longrightarrow> remembered tg t a'"
proof -
  assume s: "account_step a a'" and inv: "trials_ok a" and r: "remembered tg t a"
  from s have "(\<exists>us. ac_users a' = ac_users a @ us) \<and> (\<exists>ts. ac_activations a' = ac_activations a @ ts)"
    by cases (use activation_grows in auto)
  then show ?thesis using remembered_grows [OF inv account_step_inv [OF s inv] r] by blast
qed

lemma activation_remembered:
  assumes inv: "trials_ok a" and run: "activateInTransaction cr ids tg now a = Inr (r, a')"
  obtains t where "remembered tg t a'" "r = (200, serialize t)" "t \<in> set (ac_activations a')"
  using run
proof (cases rule: activate_run)
  case (existing u x t)
  have "t \<in> set (ac_activations x)" using existing(2) find_member by (fastforce simp: findExistingActivation_def)
  then show thesis using that [of t] existing upsert_grows(2) [OF existing(1)] by (auto simp: remembered_def)
next
  case (created u x a1 c)
  let ?t = "trial_activation ids (us_id u) c now"
  note n = create_trial_tables [OF created(8)]
  have key: "ta_userId ?t = us_id u" by (simp add: trial_activation_def)
  have users: "ac_users a' = ac_users x" using n(3) by (simp add: created(4))
  have "trials_ok a'" by (rule account_step_inv [OF account_activate [OF run] inv])
  then have "findExistingActivation (us_id u) a' = find (\<lambda>t. ta_userId t = us_id u) (ac_activations a')"
    by (intro existing_is_activation) (simp add: trials_ok_def)
  also have "\<dots> = Some ?t" using n(8) by (auto simp: n(1) find_append key split: option.split dest!: find_member)
  finally have "remembered tg ?t a'" using upsert_grows(2) [OF created(1)] users by (simp add: remembered_def)
  then show thesis using that [of ?t] create_trial_response [OF created(8)] n(1) by simp
qed

text \<open>C21. One trial per user, for good: once a user got a trial, then after any history (other activations,
  transactions of the control plane, new users, edited plans and campaigns) asking again, at any time and
  with whatever fresh identifiers, returns the same activation and changes nothing.\<close>

theorem trial_returned_again:
  assumes "trials_ok a" "activateInTransaction cr ids tg now a = Inr (r, a')" "account_step\<^sup>*\<^sup>* a' a''"
  shows "activateInTransaction cr' ids' tg now' a'' = Inr (r, a'')"
proof -
  obtain t where t: "remembered tg t a'" "r = (200, serialize t)" by (rule activation_remembered [OF assms(1,2)])
  have inv: "trials_ok a'" by (rule account_step_inv [OF account_activate [OF assms(2)] assms(1)])
  have "remembered tg t a'' \<and> trials_ok a''"
    using assms(3)
  proof (induction rule: rtranclp_induct)
    case base
    show ?case using t(1) inv by simp
  next
    case (step y z)
    then show ?case using account_step_remembers [OF step(2)] account_step_inv [OF step(2)] by simp
  qed
  then show ?thesis using remembered_answer t(2) by simp
qed

text \<open>C20. Trials stay within their limits: in every state the account tables reach, a user has at most one
  activation, a campaign with a limit has at most that many, and an activation lasts 1, 3 or 5 days from
  the instant it was made, with a subscription of its user and plan behind it.\<close>

theorem trial_limits:
  assumes "trials_ok a0" "account_step\<^sup>*\<^sup>* a0 a"
  shows "(\<forall>t \<in> set (ac_activations a). \<forall>t' \<in> set (ac_activations a). ta_userId t' = ta_userId t \<longrightarrow> t' = t)
    \<and> (\<forall>c \<in> set (ac_campaigns a). \<forall>m. cg_maxActivations c = Some m \<longrightarrow> activation_count (cg_id c) a \<le> m)
    \<and> (\<forall>t \<in> set (ac_activations a). ta_durationDays t \<in> {1, 3, 5} \<and> ta_startsAt t = ta_activatedAt t
         \<and> ta_expiresAt t = ta_startsAt t + ta_durationDays t * day_ms \<and> backed a t)"
proof -
  have inv: "trials_ok a" by (rule trials.reachable_inv [OF assms(2,1)])
  then have "t' = t" if "t \<in> set (ac_activations a)" "t' \<in> set (ac_activations a)" "ta_userId t' = ta_userId t" for t t'
    using distinct_key_eq [of ta_userId "ac_activations a" t' t] that by (simp add: trials_ok_def)
  then show ?thesis using inv unfolding trials_ok_def activation_ok_def within_limit_def by blast
qed

section \<open>What the devices get\<close>

text \<open>A trial concerns a device of the user on the healthy nodes, and on draining and disabled nodes where
  it has a live grant.\<close>

definition trial_place :: "db \<Rightarrow> node \<Rightarrow> device \<Rightarrow> bool" where
  "trial_place d n dev \<longleftrightarrow> nd_status n = NodeHealthy \<or> (nd_status n \<in> {NodeDraining, NodeDisabled}
     \<and> (\<exists>g \<in> set (grants d). gr_nodeId g = nd_id n \<and> gr_deviceId g = dv_id dev \<and> live_grant g))"

lemma trial_place_concerns: "trial_place d n dev \<Longrightarrow> concerns n (dv_id dev) d"
  by (auto simp: trial_place_def concerns_def)

lemma active_device_user: "dev \<in> set (active_devices u d) \<longleftrightarrow> dev \<in> set (devices d) \<and> dv_userId dev = u \<and> dv_status dev = DeviceActive"
  by (auto simp: active_devices_def)

lemma trial_place_node:
  assumes "n \<in> set (nodes d)" "dev \<in> set (active_devices u d)" "trial_place d n dev"
  shows "n \<in> set (trial_nodes u d)"
proof -
  have "user_device u d (dv_id dev)" using assms(2) by (auto simp: active_device_user user_device_def)
  then show ?thesis using assms(1,3) by (auto simp: trial_nodes_def trial_place_def)
qed

lemma schedule_existing_access:
  assumes ok: "cp_ok d" and keys: "distinct (map dv_id (devices d))"
    and run: "scheduleExistingDeviceAccess cr gf jf ef now aid u e d = Inr y"
  shows "trial_frame (active_devices u d) d y"
    and "\<And>n dev. n \<in> set (nodes d) \<Longrightarrow> dev \<in> set (active_devices u d) \<Longrightarrow> trial_place d n dev \<Longrightarrow>
      provisioned (nd_id n) (dv_id dev) e y \<or> refused (nd_id n) (dv_id dev) y"
proof -
  have vs: "distinct (map dv_id (active_devices u d))"
    using keys by (simp add: active_devices_def distinct_map distinct_sort inj_on_def)
  have ns: "distinct (map nd_id (trial_nodes u d))"
    using ok by (auto simp: trial_nodes_def distinct_map distinct_sort inj_on_def cp_ok_def cp_rows_ok_def)
  have "trial_frame (active_devices u d) d y
    \<and> (\<forall>n dev. n \<in> set (nodes d) \<longrightarrow> dev \<in> set (active_devices u d) \<longrightarrow> trial_place d n dev \<longrightarrow>
      provisioned (nd_id n) (dv_id dev) e y \<or> refused (nd_id n) (dv_id dev) y)"
    using run
  proof (rule schedule_existing_run)
    assume "y = d" "active_devices u d = []"
    then show ?thesis using kept_refl [OF ok] by (simp add: trial_frame_def)
  next
    assume each: "each_row (trial_on_node cr gf jf ef now aid u e (active_devices u d)) (trial_nodes u d) d = Inr y"
    have "provisioned (nd_id n) (dv_id dev) e y \<or> refused (nd_id n) (dv_id dev) y"
      if "n \<in> set (nodes d)" "dev \<in> set (active_devices u d)" "trial_place d n dev" for n dev
      by (rule trial_nodes_settle [OF each ok trial_nodes_present ns vs that(2)])
        (use that trial_place_node trial_place_concerns in \<open>auto simp: active_device_user user_device_def\<close>)
    then show ?thesis using trial_nodes_frame [OF each ok trial_nodes_present vs] by blast
  qed
  then show "trial_frame (active_devices u d) d y"
    "\<And>n dev. n \<in> set (nodes d) \<Longrightarrow> dev \<in> set (active_devices u d) \<Longrightarrow> trial_place d n dev \<Longrightarrow>
      provisioned (nd_id n) (dv_id dev) e y \<or> refused (nd_id n) (dv_id dev) y" by blast+
qed

lemma trial_tables_before:
  assumes "create_subscription s d = Inr x"
  shows "cp_ok d \<Longrightarrow> cp_ok x" "nodes x = nodes d" "grants x = grants d" "devices x = devices d" "jobs x = jobs d"
proof -
  have x: "x = d\<lparr>subscriptions := subscriptions d @ [s]\<rparr>" using assms by (simp add: create_subscription_run)
  then show "nodes x = nodes d" "grants x = grants d" "devices x = devices d" "jobs x = jobs d" by simp_all
  show "cp_ok d \<Longrightarrow> cp_ok x" using kept_create_subscription [OF _ assms] by (simp add: kept_def)
qed

lemma trial_settled [simp]:
  "refused nid did (write_audit p q r s d) = refused nid did d"
  "trial_frame vs x (write_audit p q r s d) = trial_frame vs x d"
  by (simp_all add: refused_def trial_frame_def)

text \<open>The devices, nodes and grants a trial starts from are those of the state before it.\<close>

definition same_access :: "db \<Rightarrow> db \<Rightarrow> bool" where
  "same_access d x \<longleftrightarrow> nodes x = nodes d \<and> grants x = grants d \<and> devices x = devices d"

lemma same_access_active: "same_access d x \<Longrightarrow> active_devices u x = active_devices u d"
  by (simp add: same_access_def active_devices_def)

lemma same_access_place: "same_access d x \<Longrightarrow> trial_place x n dev = trial_place d n dev"
  by (simp add: same_access_def trial_place_def)

lemma create_trial_access:
  assumes ok: "cp_ok (ac_core a)" and keys: "distinct (map dv_id (devices (ac_core a)))"
    and run: "create_trial cr ids u c now a = Inr (r, a')"
  shows "\<And>g. gr_deviceId g \<notin> dv_id ` set (active_devices u (ac_core a)) \<Longrightarrow>
      g \<in> set (grants (ac_core a')) \<longleftrightarrow> g \<in> set (grants (ac_core a))"
    and "\<And>n dev. n \<in> set (nodes (ac_core a)) \<Longrightarrow> dev \<in> set (active_devices u (ac_core a)) \<Longrightarrow> trial_place (ac_core a) n dev \<Longrightarrow>
      provisioned (nd_id n) (dv_id dev) (trial_expiry c now) (ac_core a') \<or> refused (nd_id n) (dv_id dev) (ac_core a')"
proof -
  obtain d1 a1 d2 where s: "create_subscription (trial_subscription ids u c now) (ac_core a) = Inr d1"
    and t: "insert_activation (trial_activation ids u c now)
       (a\<lparr>ac_core := d1, ac_planOf := (ti_subscription ids, cg_planId c) # ac_planOf a\<rparr>) = Inr a1"
    and e: "scheduleExistingDeviceAccess cr (ti_grant ids) (ti_job ids) (ti_event ids) now (ti_activation ids) u
       (trial_expiry c now) (ac_core a1) = Inr d2"
    and a': "a' = a1\<lparr>ac_core := write_audit (Some u) ''trial.activated'' ''TrialActivation'' (ti_activation ids) d2\<rparr>"
    using run by (rule create_trial_run)
  note d1 = trial_tables_before [OF s]
  have a1: "ac_core a1 = d1" using insert_activation_core [OF t] by simp
  have same: "same_access (ac_core a) d1" using d1 by (simp add: same_access_def)
  have keys1: "distinct (map dv_id (devices d1))" using keys d1 by simp
  note res = schedule_existing_access [OF d1(1) [OF ok] keys1 e [unfolded a1]]
  show "g \<in> set (grants (ac_core a')) \<longleftrightarrow> g \<in> set (grants (ac_core a))"
    if "gr_deviceId g \<notin> dv_id ` set (active_devices u (ac_core a))" for g
    using res(1) that d1 same_access_active [OF same, of u] by (simp add: trial_frame_def a' write_audit_def)
  show "provisioned (nd_id n) (dv_id dev) (trial_expiry c now) (ac_core a') \<or> refused (nd_id n) (dv_id dev) (ac_core a')"
    if "n \<in> set (nodes (ac_core a))" "dev \<in> set (active_devices u (ac_core a))" "trial_place (ac_core a) n dev" for n dev
    using res(2) [of n dev] that d1(2) same_access_active [OF same] same_access_place [OF same] by (simp add: a')
qed

text \<open>C19. A new trial opens the access of the devices the user has: when an activation creates a trial, the user
  has an active subscription until its expiry; every active device of the user, on every healthy node and on
  every draining or disabled node where it has a live grant, has a live grant with the expiry of the
  trial, at the desired version of the node and with the command that delivers it, unless its grant there
  is revoked, which stays so; and the grants of all other devices are the ones before.\<close>

theorem trial_grants_access:
  assumes "cp_ok (ac_core a)" "distinct (map dv_id (devices (ac_core a)))"
    and "activateInTransaction cr ids tg now a = Inr ((200, t), a')"
    and "tr_id t \<notin> ta_id ` set (ac_activations a)"
    and "x \<in> set (ac_activations a')" "ta_id x = tr_id t"
  shows "(\<exists>s \<in> set (subscriptions (ac_core a')). sb_userId s = ta_userId x \<and> sb_status s = SubActive
      \<and> sb_expiresAt s = Some (tr_expiresAt t))
    \<and> (\<forall>n \<in> set (nodes (ac_core a)). \<forall>dev \<in> set (active_devices (ta_userId x) (ac_core a)). trial_place (ac_core a) n dev \<longrightarrow>
         provisioned (nd_id n) (dv_id dev) (tr_expiresAt t) (ac_core a') \<or> refused (nd_id n) (dv_id dev) (ac_core a'))
    \<and> (\<forall>g. gr_deviceId g \<notin> dv_id ` set (active_devices (ta_userId x) (ac_core a)) \<longrightarrow>
         (g \<in> set (grants (ac_core a')) \<longleftrightarrow> g \<in> set (grants (ac_core a))))"
  using assms(3)
proof (cases rule: activate_run)
  case (existing u b y)
  have "y \<in> set (ac_activations a)"
    using existing(2) find_member upsert_core [OF existing(1)] by (fastforce simp: findExistingActivation_def)
  then show ?thesis using existing(3) assms(4) by (force simp: serialize_def)
next
  case (created u b a1 c)
  note n = create_trial_tables [OF created(8)]
  have core: "ac_core a1 = expire_subscriptions (map sb_id (active_subscriptions (us_id u) (ac_core a))) (ac_core a)"
    "ac_activations a1 = ac_activations a"
    using upsert_core [OF created(1)] created(4) by simp_all
  have same: "same_access (ac_core a) (ac_core a1)" by (simp add: core(1) same_access_def expire_subscriptions_def)
  have t: "t = serialize (trial_activation ids (us_id u) c now)" using create_trial_response [OF created(8)] by simp
  have "x = trial_activation ids (us_id u) c now" using assms(4-6) n(1) core(2) by (auto simp: t serialize_def intro: rev_image_eqI)
  then have x: "ta_userId x = us_id u" "tr_expiresAt t = trial_expiry c now"
    by (simp_all add: t serialize_def trial_activation_def)
  have ok: "cp_ok (ac_core a1)"
    using kept_frame [OF _ _ _ _ _ assms(1)] by (simp add: core(1) kept_def expire_subscriptions_def)
  have "distinct (map dv_id (devices (ac_core a1)))" using assms(2) same by (simp add: same_access_def)
  note res = create_trial_access [OF ok this created(8)]
  have "trial_subscription ids (us_id u) c now \<in> set (subscriptions (ac_core a'))" using n(2) by simp
  then have "\<exists>s \<in> set (subscriptions (ac_core a')). sb_userId s = us_id u \<and> sb_status s = SubActive \<and> sb_expiresAt s = Some (trial_expiry c now)"
    by (rule rev_bexI) (simp add: trial_subscription_def)
  then show ?thesis
    using res same same_access_active [OF same] same_access_place [OF same] unfolding x same_access_def by auto
qed

section \<open>Concrete runs\<close>

definition trial_credentials :: "(string \<Rightarrow> string \<Rightarrow> byte list) \<times> string" where
  "trial_credentials = (\<lambda>pepper text. map (\<lambda>k. word_of_nat k) [length text..<length text + 32], replicate 32 CHR ''p'')"

text \<open>The user \<open>u1\<close> has two devices, one with a grant; the second user has none.\<close>

definition sample_accounts :: account_db where
  "sample_accounts = \<lparr>ac_users = [\<lparr>us_id = ''u1'', us_telegramUserId = ''71'', us_role = ''CUSTOMER''\<rparr>],
     ac_plans = [\<lparr>pl_id = ''p1'', pl_deviceLimit = 3, pl_isActive = True\<rparr>],
     ac_campaigns = [\<lparr>cg_id = ''c1'', cg_planId = ''p1'', cg_durationDays = 3, cg_maxActivations = Some 1,
       cg_startsAt = Some 100, cg_endsAt = None, cg_isActive = True, cg_archivedAt = None\<rparr>],
     ac_activations = [], ac_planOf = [],
     ac_core = sample_db\<lparr>subscriptions := [], devices := devices sample_db @
       [\<lparr>dv_id = ''d2'', dv_userId = ''u1'', dv_status = DeviceActive, dv_revokedAt = None\<rparr>]\<rparr>\<rparr>"

definition sample_trial_ids :: "string \<Rightarrow> trial_ids" where
  "sample_trial_ids s = \<lparr>ti_user = ''user-'' @ s, ti_subscription = ''sub-'' @ s, ti_activation = ''act-'' @ s,
     ti_grant = (\<lambda>n v. ''grant-'' @ s @ n @ v), ti_job = (\<lambda>n. ''job-'' @ s @ n), ti_event = (\<lambda>n. ''event-'' @ s @ n)\<rparr>"

definition sample_trial :: trial_response where
  "sample_trial = \<lparr>tr_id = ''act-x'', tr_trialCampaignId = ''c1'', tr_subscriptionId = ''sub-x'', tr_planId = ''p1'',
     tr_startsAt = 500, tr_expiresAt = 500 + 3 * day_ms, tr_activatedAt = 500\<rparr>"

definition after_trial :: account_db where
  "after_trial = (case activateInTransaction trial_credentials (sample_trial_ids ''x'') ''71'' 500 sample_accounts of
     Inl _ \<Rightarrow> sample_accounts | Inr (_, a) \<Rightarrow> a)"

lemma sample_trial_run:
  "activateInTransaction trial_credentials (sample_trial_ids ''x'') ''71'' 500 sample_accounts = Inr ((200, sample_trial), after_trial)"
  by code_simp

lemma sample_accounts_ok: "trials_ok sample_accounts"
  by (simp add: trials_ok_def sample_accounts_def within_limit_def activation_count_def count_rows_def)

theorem trial_returned_again_witness:
  "activateInTransaction trial_credentials (sample_trial_ids ''y'') ''71'' 900 after_trial = Inr ((200, sample_trial), after_trial)"
  by (rule trial_returned_again [OF sample_accounts_ok sample_trial_run rtranclp.rtrancl_refl])

text \<open>The only place of the campaign is taken.\<close>

theorem trial_limits_witness:
  "activation_count ''c1'' after_trial = 1
   \<and> activateInTransaction trial_credentials (sample_trial_ids ''y'') ''72'' 900 after_trial
      = Inl (Thrown ''Trial activation is unavailable'')"
proof -
  have "account_step\<^sup>*\<^sup>* sample_accounts after_trial"
    by (intro r_into_rtranclp account_activate [OF sample_trial_run])
  from trial_limits [OF sample_accounts_ok this]
  have "\<forall>c \<in> set (ac_campaigns after_trial). \<forall>m. cg_maxActivations c = Some m \<longrightarrow> activation_count (cg_id c) after_trial \<le> m" by blast
  moreover have "\<exists>c \<in> set (ac_campaigns after_trial). cg_maxActivations c = Some 1 \<and> cg_id c = ''c1''" by code_simp
  ultimately have "activation_count ''c1'' after_trial \<le> 1" by force
  moreover have "activation_count ''c1'' after_trial = 1" by code_simp
  moreover have "activateInTransaction trial_credentials (sample_trial_ids ''y'') ''72'' 900 after_trial
      = Inl (Thrown ''Trial activation is unavailable'')" by code_simp
  ultimately show ?thesis by simp
qed

text \<open>Both devices have the expiry of the trial on the node, which \<open>d2\<close> was not on before.\<close>

theorem trial_grants_access_witness:
  "provisioned ''n1'' ''d1'' (500 + 3 * day_ms) (ac_core after_trial)
   \<and> provisioned ''n1'' ''d2'' (500 + 3 * day_ms) (ac_core after_trial)"
proof -
  let ?d = "ac_core sample_accounts"
  have "kept sample_db ?d" using sample_cp_inv by (intro kept_frame) (simp_all add: sample_accounts_def cp_inv_def)
  then have ok: "cp_ok ?d" by (simp add: kept_def)
  obtain x where x: "x \<in> set (ac_activations after_trial)" "ta_id x = tr_id sample_trial" "ta_userId x = ''u1''"
    by (rule that [of "hd (ac_activations after_trial)"]) code_simp+
  have fresh: "tr_id sample_trial \<notin> ta_id ` set (ac_activations sample_accounts)" by code_simp
  have keys: "distinct (map dv_id (devices ?d))" by code_simp
  have settled: "provisioned (nd_id n) (dv_id dev) (tr_expiresAt sample_trial) (ac_core after_trial) \<or> refused (nd_id n) (dv_id dev) (ac_core after_trial)"
    if "n \<in> set (nodes ?d)" "dev \<in> set (active_devices ''u1'' ?d)" "trial_place ?d n dev" for n dev
    using trial_grants_access [OF ok keys sample_trial_run fresh x(1,2)] that unfolding x(3) by blast
  have "\<not> refused ''n1'' ''d1'' (ac_core after_trial)" "\<not> refused ''n1'' ''d2'' (ac_core after_trial)" by code_simp+
  moreover have "nodes ?d = [sample_node]" "map dv_id (active_devices ''u1'' ?d) = [''d1'', ''d2'']" "nd_id sample_node = ''n1''"
    "tr_expiresAt sample_trial = 500 + 3 * day_ms" "nd_status sample_node = NodeHealthy" by code_simp+
  moreover from this obtain v w where "active_devices ''u1'' ?d = [v, w]" "dv_id v = ''d1''" "dv_id w = ''d2''" by auto
  ultimately show ?thesis using settled [of sample_node v] settled [of sample_node w] by (simp add: trial_place_def)
qed

end
