(* ===== verification/Worker.thy ===== *)
theory Worker
  imports Outbox_Store Node_Sync_Store
begin

text \<open>
  The worker's loops (\<open>apps/worker/src/outbox-publisher.ts\<close>, \<open>apps/worker/src/node-sync-processor.ts\<close>).

  \<open>outbox_processOne\<close> and \<open>node_sync_process\<close> compose the stores' statements the way the worker
  does, every statement at its own instant.  The message queue is third-party code: \<open>add\<close> is a
  parameter that returns the queue with the job, or \<open>None\<close> when it throws.  A database statement can
  fail in transit as well; \<open>markFails\<close> and \<open>completeFails\<close> say that it did.
\<close>

section \<open>Publishing the outbox\<close>

datatype publish_result = Idle | Published | PublishRetried | PublishFenced

definition deliver_event ::
    "(string \<Rightarrow> bool) \<Rightarrow> (uuid \<Rightarrow> NodeSyncRequestedEvent \<Rightarrow> 'q \<Rightarrow> 'q option) \<Rightarrow> outbox_event \<Rightarrow> 'q \<Rightarrow>
     string + 'q" where
  "deliver_event is_uuid add e q =
     (if ob_topic e \<noteq> ''node-sync.requested'' then Inl ''OUTBOX_UNSUPPORTED_TOPIC''
      else case nodeSyncRequestedEventSchema is_uuid (ob_payload e) of
        None \<Rightarrow> Inl ''OUTBOX_INVALID_PAYLOAD''
      | Some payload \<Rightarrow> (case add (ob_id e) payload q of
            None \<Rightarrow> Inl ''OUTBOX_PUBLISH_FAILED''
          | Some q' \<Rightarrow> Inr q'))"

definition outbox_processOne ::
    "(string \<Rightarrow> bool) \<Rightarrow> (uuid \<Rightarrow> NodeSyncRequestedEvent \<Rightarrow> 'q \<Rightarrow> 'q option) \<Rightarrow> outbox_store \<Rightarrow>
     string \<Rightarrow> instant \<times> instant \<times> instant \<times> instant \<Rightarrow> uuid list \<Rightarrow> uuid \<Rightarrow> bool \<Rightarrow>
     outbox_event list \<times> 'q \<Rightarrow> publish_result \<times> outbox_event list \<times> 'q" where
  "outbox_processOne is_uuid add st leaseOwner ts locked leaseToken markFails s =
     (let (t1, t2, t3, t4) = ts;
          (es0, q) = s;
          es1 = snd (outbox_reclaimExpiredLeases st t1 es0);
          (event, es2) = outbox_claimNext st t2 locked leaseOwner leaseToken es1
      in case event of
           None \<Rightarrow> (Idle, es2, q)
         | Some e \<Rightarrow>
             let onError = (\<lambda>code q'. let (retried, es3) = outbox_retry st t4 (ob_id e) leaseOwner leaseToken code es2
                   in (if retried then PublishRetried else PublishFenced, es3, q'))
             in case deliver_event is_uuid add e q of
                  Inl code \<Rightarrow> onError code q
                | Inr q' \<Rightarrow>
                    if markFails then onError ''OUTBOX_PUBLISH_FAILED'' q'
                    else let (published, es3) = outbox_markPublished t3 (ob_id e) leaseOwner leaseToken es2
                         in (if published then Published else PublishFenced, es3, q'))"

section \<open>Processing a node-sync job\<close>

datatype process_outcome = ProcessReturned | ProcessThrew string

definition node_sync_process ::
    "(string \<Rightarrow> bool) \<Rightarrow> lease_config \<Rightarrow> string \<Rightarrow>
     instant \<times> instant \<times> instant \<times> instant \<times> instant \<Rightarrow> uuid \<Rightarrow> bool \<Rightarrow> string \<Rightarrow> json \<Rightarrow> db \<Rightarrow>
     process_outcome \<times> db" where
  "node_sync_process is_uuid c leaseOwner ts leaseToken completeFails name data d0 =
     (if name \<noteq> ''node-sync.requested'' then (ProcessThrew ''Unsupported node-sync job'', d0)
      else case nodeSyncRequestedEventSchema is_uuid data of
        None \<Rightarrow> (ProcessThrew ''Invalid node-sync job payload'', d0)
      | Some cmd \<Rightarrow>
          let (t1, t2, t3, t4, t5) = ts;
              (claimed, d1) = node_sync_claim c (t1, t2, t3) cmd leaseOwner leaseToken d0
          in case claimed of
               AlreadyCompleted \<Rightarrow> (ProcessReturned, d1)
             | Terminal \<Rightarrow> (ProcessReturned, d1)
             | Unavailable \<Rightarrow> (ProcessThrew ''Node-sync job is temporarily unavailable'', d1)
             | Claimed jid token \<Rightarrow>
                 let (completed, d2) = (if completeFails then (False, d1)
                        else node_sync_complete t4 jid leaseOwner token d1)
                 in if completed then (ProcessReturned, d2)
                    else (ProcessThrew (if completeFails then ''Database error''
                                        else ''Node-sync completion was fenced''),
                          snd (node_sync_retry c t5 jid leaseOwner token ''NODE_SYNC_PROCESSING_FAILED'' d2)))"

section \<open>Leases are exclusive\<close>

text \<open>The operations a worker may issue under a lease of its own.\<close>

fun uses_event_lease :: "uuid \<Rightarrow> string \<Rightarrow> uuid \<Rightarrow> outbox_op \<Rightarrow> bool" where
  "uses_event_lease eid owner token (OPublish e ow tk) \<longleftrightarrow> e = eid \<and> ow = owner \<and> tk = token"
| "uses_event_lease eid owner token (ORetry e ow tk _) \<longleftrightarrow> e = eid \<and> ow = owner \<and> tk = token"
| "uses_event_lease eid owner token _ \<longleftrightarrow> False"

fun uses_job_lease :: "uuid \<Rightarrow> string \<Rightarrow> uuid \<Rightarrow> node_sync_op \<Rightarrow> bool" where
  "uses_job_lease jid owner token (NComplete j ow tk) \<longleftrightarrow> j = jid \<and> ow = owner \<and> tk = token"
| "uses_job_lease jid owner token (NRetry j ow tk _) \<longleftrightarrow> j = jid \<and> ow = owner \<and> tk = token"
| "uses_job_lease jid owner token _ \<longleftrightarrow> False"

lemma live_event_kept:
  assumes "outbox_ok es" "e \<in> set es" "holds_event_lease now eid owner token e"
    and "\<not> uses_event_lease eid owner token op"
  shows "e \<in> set (outbox_exec st now op es)"
proof (cases op)
  case (OClaim locked ow tk)
  show ?thesis
  proof (cases "next_candidate st now locked es")
    case (Some c)
    then have "ob_id e \<noteq> ob_id c"
      using assms distinct_key_eq [of ob_id es e c] next_candidate_claimable [OF Some]
      by (auto simp: outbox_ok_def holds_event_lease_def claimable_event_def)
    then show ?thesis
      using Some OClaim assms(2) by (simp add: outbox_claimNext_def update_rows_keeps)
  qed (use OClaim assms in \<open>simp add: outbox_claimNext_def\<close>)
qed (use assms in \<open>auto simp: outbox_reclaimExpiredLeases_def outbox_markPublished_def
    outbox_retry_def holds_event_lease_def reclaimable_event_def intro!: update_rows_keeps\<close>)

lemma live_job_kept:
  assumes "j \<in> set (jobs d)" "holds_job_lease now jid owner token j"
    and "\<not> uses_job_lease jid owner token op"
  shows "j \<in> set (jobs (node_sync_exec c now op d))"
  using assms
  by (cases op) (auto simp: job_statements vpn_simps intro!: update_rows_keeps)

text \<open>An outbox lease is exclusive.  From the moment a worker holds the lease of an event until the
  lease expires, no history of reclaims, claims, publications or retries by other workers changes
  the event in any way.\<close>

theorem outbox_lease_exclusive:
  assumes "outbox_ok es" "e \<in> set es"
    and "\<forall>(now, op) \<in> set history.
           holds_event_lease now eid owner token e \<and> \<not> uses_event_lease eid owner token op"
  shows "e \<in> set (run_ops (outbox_exec st) history es)"
  using assms(3)
proof (induction history rule: rev_induct)
  case (snoc x history)
  obtain now op where x: "x = (now, op)" by fastforce
  have "outbox_ok (run_ops (outbox_exec st) history es)"
    using outbox_table.run_inv [OF assms(1)] .
  with snoc x show ?case by (auto intro!: live_event_kept)
qed (use assms in simp)

text \<open>C8. A node-sync lease is exclusive: until it expires, no other worker's statement (claim, reset,
  route closing, reclaim, completion or retry under another token) changes the leased job.\<close>

theorem node_sync_lease_exclusive:
  assumes "j \<in> set (jobs d)"
    and "\<forall>(now, op) \<in> set history.
           holds_job_lease now jid owner token j \<and> \<not> uses_job_lease jid owner token op"
  shows "j \<in> set (jobs (run_ops (node_sync_exec c) history d))"
  using assms(2)
proof (induction history rule: rev_induct)
  case (snoc x history)
  obtain now op where x: "x = (now, op)" by fastforce
  with snoc show ?case by (auto intro!: live_job_kept)
qed (use assms in simp)

section \<open>Settled work and bounded retries\<close>

text \<open>Published and failed outbox events are final: no history of store operations changes such a
  row again.\<close>

theorem outbox_settled_final:
  assumes "outbox_ok es" "i < length es" "ob_status (es ! i) \<in> {OutboxPublished, OutboxFailed}"
  shows "run_ops (outbox_exec st) history es ! i = es ! i"
  by (rule outbox_table.settled_forever)
    (use assms in \<open>auto simp: settled_def event_lease_def\<close>)

text \<open>Succeeded and failed node-sync jobs are final.\<close>

lemma node_sync_settled_final:
  assumes "jobs_ok d" "i < length (jobs d)" "jb_status (jobs d ! i) \<in> {JobSucceeded, JobFailed}"
  shows "jobs (run_ops (node_sync_exec c) history d) ! i = jobs d ! i"
  by (rule node_sync_table.settled_forever)
    (use assms in \<open>auto simp: settled_def job_lease_def\<close>)

lemma lease_fuel_fresh:
  "0 \<le> l_attempts l \<Longrightarrow> lease_fuel c l \<le> nat (2 * maxAttempts c + 2)"
  by (cases "l_phase l") (auto simp: lease_fuel_def)

text \<open>C9. Work cannot loop for ever.  Whatever workers do, a job whose attempts are within the limit is
  changed at most \<open>2 * maxAttempts + 2\<close> times, and its attempts never exceed the limit: retries and
  reclaims run out and leave the job succeeded, failed or untouched.\<close>

theorem node_sync_retries_bounded:
  assumes "jobs_ok d" "i < length (jobs d)"
    and "0 \<le> jb_attempts (jobs d ! i)" "jb_attempts (jobs d ! i) \<le> maxAttempts c"
  shows "row_changes (node_sync_exec c) jobs i history d \<le> nat (2 * maxAttempts c + 2)
    \<and> jb_attempts (jobs (run_ops (node_sync_exec c) history d) ! i) \<le> maxAttempts c"
proof -
  have ok: "lease_ok c (job_lease (jobs d ! i))"
    using assms by (simp add: lease_ok_def job_lease_def)
  have "row_changes (node_sync_exec c) jobs i history d \<le> lease_fuel c (job_lease (jobs d ! i))"
    by (rule node_sync_table.changes_bounded [OF assms(1,2) ok])
  also have "\<dots> \<le> nat (2 * maxAttempts c + 2)"
    using assms by (intro lease_fuel_fresh) (simp add: job_lease_def)
  finally show ?thesis
    using node_sync_table.attempts_bounded [OF assms(1,2) ok, of history]
    by (simp add: lease_ok_def job_lease_def)
qed

section \<open>What the publisher publishes\<close>

lemma claimNext_event:
  assumes "outbox_claimNext st now locked owner token es = (Some e, es')"
  shows "e \<in> set es'" "holds_event_lease t (ob_id e) owner token e \<longleftrightarrow> t < now + leaseDurationMs (os_lease st)"
proof -
  obtain c where "next_candidate st now locked es = Some c" and e: "e = claim_event st now owner token c"
    and es': "es' = update_rows (\<lambda>x. ob_id x = ob_id c) (claim_event st now owner token) es"
    using assms by (auto simp: outbox_claimNext_def split: option.splits)
  then show "e \<in> set es'" by (auto dest!: next_candidate_claimable intro!: update_rows_hit)
  show "holds_event_lease t (ob_id e) owner token e \<longleftrightarrow> t < now + leaseDurationMs (os_lease st)"
    by (auto simp: e holds_event_lease_def claim_event_def)
qed

text \<open>The rows with which the publisher reaches the queue: reclaimed, then one of them claimed.\<close>

lemma outbox_ok_claimNext:
  "outbox_ok es \<Longrightarrow> outbox_ok (snd (outbox_claimNext st now locked owner token es))"
  using outbox_exec_ok [of es st now "OClaim locked owner token"] by simp

lemma outbox_ok_reclaim: "outbox_ok es \<Longrightarrow> outbox_ok (snd (outbox_reclaimExpiredLeases st now es))"
  using outbox_exec_ok [of es st now OReclaim] by simp

text \<open>Statements other than \<open>markPublished\<close> publish nothing.\<close>

definition published_ids :: "outbox_event list \<Rightarrow> uuid set" where
  "published_ids es = ob_id ` {e \<in> set es. ob_status e = OutboxPublished}"

lemma published_idsI: "e \<in> set es \<Longrightarrow> ob_status e = OutboxPublished \<Longrightarrow> ob_id e \<in> published_ids es"
  by (auto simp: published_ids_def)

lemma published_reclaim: "published_ids (snd (outbox_reclaimExpiredLeases st now es)) \<subseteq> published_ids es"
  by (auto simp: outbox_reclaimExpiredLeases_def reclaim_event_def published_ids_def
      elim!: update_rows_cases split: if_splits)

lemma published_claim: "published_ids (snd (outbox_claimNext st now locked owner token es)) \<subseteq> published_ids es"
  by (auto simp: outbox_claimNext_def claim_event_def published_ids_def
      elim!: update_rows_cases split: option.splits)

lemma published_retry: "published_ids (snd (outbox_retry st now eid owner token code es)) \<subseteq> published_ids es"
  by (auto simp: outbox_retry_def retry_event_def published_ids_def
      elim!: update_rows_cases split: if_splits)

lemma published_mark:
  assumes "outbox_ok es" "e \<in> set es" "e' \<in> set (snd (outbox_markPublished now (ob_id e) owner token es))"
    and "ob_status e' = OutboxPublished" "ob_id e' \<notin> published_ids es"
  shows "e' = publish_event now e \<and> holds_event_lease now (ob_id e) owner token e"
proof -
  obtain x where x: "x \<in> set es" "holds_event_lease now (ob_id e) owner token x" "e' = publish_event now x"
    using assms(3-5) by (auto simp: outbox_markPublished_def elim!: update_rows_cases intro: published_idsI)
  then have "x = e"
    using assms(1,2) by (auto simp: outbox_ok_def holds_event_lease_def intro: distinct_key_eq [of ob_id es])
  with x show ?thesis by simp
qed

lemma lease_count_one:
  assumes "outbox_ok es" "e \<in> set es" "holds_event_lease now (ob_id e) owner token e"
  shows "count_rows (holds_event_lease now (ob_id e) owner token) es = 1"
proof -
  have "count_rows (holds_event_lease now (ob_id e) owner token) es \<le> 1"
    using assms(1) by (intro count_rows_key_le_1 [of ob_id _ _ "ob_id e"])
      (auto simp: outbox_ok_def holds_event_lease_def)
  moreover have "count_rows (holds_event_lease now (ob_id e) owner token) es \<noteq> 0"
    using assms(2,3) count_rows_pos by metis
  ultimately show ?thesis by simp
qed

text \<open>The three ways a pass of the publisher ends, in terms of the rows after the claim.\<close>

definition claimed_rows ::
    "outbox_store \<Rightarrow> string \<Rightarrow> instant \<Rightarrow> instant \<Rightarrow> uuid list \<Rightarrow> uuid \<Rightarrow> outbox_event list \<Rightarrow>
     outbox_event option \<times> outbox_event list" where
  "claimed_rows st owner t1 t2 locked token es =
     outbox_claimNext st t2 locked owner token (snd (outbox_reclaimExpiredLeases st t1 es))"

lemma processOne_cases:
  assumes "outbox_processOne is_uuid add st owner (t1, t2, t3, t4) locked token markFails (es, q) = (res, es', q')"
    and "claimed_rows st owner t1 t2 locked token es = (ev, es2)"
  obtains "ev = None" "res = Idle" "es' = es2" "q' = q"
    | eid code where "es' = snd (outbox_retry st t4 eid owner token code es2)"
    | e where "ev = Some e" "deliver_event is_uuid add e q = Inr q'" "\<not> markFails"
        "es' = snd (outbox_markPublished t3 (ob_id e) owner token es2)"
        "res = (if fst (outbox_markPublished t3 (ob_id e) owner token es2) then Published else PublishFenced)"
proof (cases ev)
  case None
  then show ?thesis
    using assms that(1) by (simp add: outbox_processOne_def claimed_rows_def)
next
  case (Some e)
  note eq = assms(1) [unfolded outbox_processOne_def Let_def, simplified]
    assms(2) [unfolded claimed_rows_def] Some
  show ?thesis
  proof (cases "deliver_event is_uuid add e q")
    case (Inl code)
    then show ?thesis using eq that(2) [of "ob_id e" code] by (auto split: prod.splits)
  next
    case (Inr q1)
    then show ?thesis
      using eq that(2) [of "ob_id e" "''OUTBOX_PUBLISH_FAILED''"] that(3) [of e]
      by (cases markFails) (auto split: prod.splits)
  qed
qed

lemma claimed_rows_ok:
  assumes "outbox_ok es" "claimed_rows st owner t1 t2 locked token es = (ev, es2)"
  shows "outbox_ok es2" "published_ids es2 \<subseteq> published_ids es"
proof -
  let ?es1 = "snd (outbox_reclaimExpiredLeases st t1 es)"
  have es2: "es2 = snd (outbox_claimNext st t2 locked owner token ?es1)"
    using assms(2) by (simp add: claimed_rows_def)
  show "outbox_ok es2" unfolding es2 by (intro outbox_ok_claimNext outbox_ok_reclaim assms(1))
  show "published_ids es2 \<subseteq> published_ids es"
    unfolding es2 using published_claim published_reclaim by (rule subset_trans)
qed

text \<open>C10. The publisher never marks an event published that the queue did not accept: an event that
  \<open>processOne\<close> turns to PUBLISHED has the supported topic and a payload that satisfies the contract,
  and the queue accepted exactly that command under the event's identifier.\<close>

theorem publish_only_after_delivery:
  assumes "outbox_ok es"
    and "outbox_processOne is_uuid add st owner (t1, t2, t3, t4) locked token markFails (es, q) = (res, es', q')"
    and "e' \<in> set es'" "ob_status e' = OutboxPublished" "ob_id e' \<notin> published_ids es"
  shows "res = Published \<and> ob_topic e' = ''node-sync.requested'' \<and>
    (\<exists>cmd. nodeSyncRequestedEventSchema is_uuid (ob_payload e') = Some cmd
         \<and> add (ob_id e') cmd q = Some q')"
proof -
  obtain ev es2 where claim: "claimed_rows st owner t1 t2 locked token es = (ev, es2)" by fastforce
  note ok2 = claimed_rows_ok [OF assms(1) claim]
  from assms(2) claim show ?thesis
  proof (cases rule: processOne_cases)
    case 1
    then show ?thesis using assms(3-5) ok2(2) by (auto dest: published_idsI)
  next
    case (2 eid code)
    then show ?thesis
      using published_retry [of st t4 eid owner token code es2] ok2(2) assms(3-5)
      by (auto dest: published_idsI)
  next
    case (3 e)
    then have e: "e \<in> set es2" using claimNext_event(1) claim by (metis claimed_rows_def)
    have new: "e' = publish_event t3 e" "holds_event_lease t3 (ob_id e) owner token e"
      using published_mark [OF ok2(1) e, of e' t3 owner token] assms(3-5) ok2(2) 3(4) by auto
    then have "res = Published"
      using 3(5) lease_count_one [OF ok2(1) e] by (simp add: outbox_markPublished_def)
    then show ?thesis
      using 3(2) new(1)
      by (auto simp: deliver_event_def publish_event_def split: if_splits option.splits)
  qed
qed

text \<open>The publisher makes progress: when some due event carries a valid command, the queue accepts
  it and the database answers within the lease, one pass publishes an event.\<close>

theorem publisher_progress:
  assumes "outbox_ok es"
    and "claimed_rows st owner t1 t2 locked token es = (Some e, es2)"
    and "ob_topic e = ''node-sync.requested''"
    and "nodeSyncRequestedEventSchema is_uuid (ob_payload e) = Some cmd" "add (ob_id e) cmd q = Some q'"
    and "t3 < t2 + leaseDurationMs (os_lease st)"
  shows "\<exists>es'. outbox_processOne is_uuid add st owner (t1, t2, t3, t4) locked token False (es, q)
           = (Published, es', q') \<and> publish_event t3 e \<in> set es'"
proof -
  note claim = assms(2) [unfolded claimed_rows_def]
  have e: "e \<in> set es2" and lease: "holds_event_lease t3 (ob_id e) owner token e"
    using claimNext_event [OF claim] assms(6) by auto
  have "count_rows (holds_event_lease t3 (ob_id e) owner token) es2 = 1"
    using lease_count_one [OF claimed_rows_ok(1) [OF assms(1,2)] e lease] .
  moreover have "publish_event t3 e \<in> set (update_rows (holds_event_lease t3 (ob_id e) owner token) (publish_event t3) es2)"
    using update_rows_hit [of e es2 "holds_event_lease t3 (ob_id e) owner token"] e lease by simp
  moreover have "deliver_event is_uuid add e q = Inr q'"
    using assms(3-5) by (simp add: deliver_event_def)
  ultimately show ?thesis
    by (simp add: outbox_processOne_def claim outbox_markPublished_def)
qed

section \<open>What the processor acknowledges\<close>

definition needs_no_work :: "NodeSyncRequestedEvent \<Rightarrow> db \<Rightarrow> bool" where
  "needs_no_work cmd d \<longleftrightarrow> (\<exists>j \<in> set (jobs d). jb_id j = cmd_jobId cmd \<and>
     (jb_status j \<in> {JobSucceeded, JobFailed} \<or> resource_mismatch cmd j
      \<or> jb_targetVersion j \<noteq> cmd_target cmd))"

lemma command_matches_id: "command_matches cmd j \<Longrightarrow> jb_id j = cmd_jobId cmd \<and> jb_targetVersion j = cmd_target cmd"
  by (cases cmd) auto

lemma explain_unclaimed_settled:
  assumes "explain_unclaimed cmd d \<in> {AlreadyCompleted, Terminal}"
  shows "needs_no_work cmd d"
proof -
  obtain j where "find (\<lambda>j. jb_id j = cmd_jobId cmd) (jobs d) = Some j"
    using assms by (auto simp: explain_unclaimed_def split: option.splits)
  moreover from this have "j \<in> set (jobs d)" "jb_id j = cmd_jobId cmd"
    by (auto simp: find_Some_iff)
  ultimately show ?thesis
    using assms by (auto simp: explain_unclaimed_def needs_no_work_def split: if_splits)
qed

lemma close_route_job_settled:
  assumes "close_route_job now cmd d = (True, d')"
  shows "needs_no_work cmd d'"
proof -
  from assms obtain j where j: "j \<in> set (jobs d)" "closed_route_job now cmd d j"
    and d': "d' = d\<lparr>jobs := update_rows (closed_route_job now cmd d) (fail_route_job now) (jobs d)\<rparr>"
    using count_rows_pos [of "closed_route_job now cmd d" "jobs d"] by (auto simp: close_route_job_def)
  have "fail_route_job now j \<in> set (jobs d')" using j d' by (simp add: update_rows_hit)
  moreover have "jb_id j = cmd_jobId cmd" using j by (auto simp: closed_route_job_def command_matches_id)
  ultimately show ?thesis
    unfolding needs_no_work_def by (intro bexI [of _ "fail_route_job now j"]) (simp_all add: fail_route_job_def)
qed

lemma claim_settled:
  assumes "node_sync_claim c ts cmd owner token d = (r, d')" "r \<in> {AlreadyCompleted, Terminal}"
  shows "needs_no_work cmd d'"
  using assms explain_unclaimed_settled close_route_job_settled
  by (auto simp: node_sync_claim_def Let_def split: prod.splits if_splits)

lemma complete_settled:
  assumes "node_sync_complete now jid owner token d = (True, d')" "jid = cmd_jobId cmd"
  shows "needs_no_work cmd d'"
proof -
  let ?holds = "holds_job_lease now jid owner token"
  from assms have "count_rows ?holds (jobs d) \<noteq> 0"
    and d': "d' = d\<lparr>jobs := update_rows ?holds (succeed_job now) (jobs d)\<rparr>"
    by (auto simp: node_sync_complete_def)
  then obtain j where j: "j \<in> set (jobs d)" "?holds j" unfolding count_rows_pos by blast
  then have "succeed_job now j \<in> set (jobs d')" using d' by (simp add: update_rows_hit)
  moreover have "jb_id j = cmd_jobId cmd" using j assms(2) by (simp add: holds_job_lease_def)
  ultimately show ?thesis
    unfolding needs_no_work_def by (intro bexI [of _ "succeed_job now j"]) (simp_all add: succeed_job_def)
qed

text \<open>A queue message is acknowledged only when its job needs no more work: if \<open>process\<close> returns
  without throwing, the job it names has succeeded, has failed for good, or does not match the
  message at all.\<close>

theorem process_returns_when_settled:
  assumes "node_sync_process is_uuid c owner ts token completeFails name data d = (ProcessReturned, d')"
  shows "\<exists>cmd. nodeSyncRequestedEventSchema is_uuid data = Some cmd \<and> needs_no_work cmd d'"
proof -
  obtain cmd where cmd: "nodeSyncRequestedEventSchema is_uuid data = Some cmd"
    using assms by (auto simp: node_sync_process_def split: if_splits option.splits)
  obtain t1 t2 t3 t4 t5 where ts: "ts = (t1, t2, t3, t4, t5)" by (cases ts) auto
  obtain r d1 where claim: "node_sync_claim c (t1, t2, t3) cmd owner token d = (r, d1)" by fastforce
  have jid: "jid = cmd_jobId cmd" if "r = Claimed jid tk" for jid tk
    using claim that
    by (auto simp: node_sync_claim_def explain_unclaimed_def Let_def
        split: prod.splits if_splits option.splits)
  note eq = assms [unfolded node_sync_process_def ts Let_def split cmd option.case claim]
  show ?thesis
  proof (cases r)
    case (Claimed jid tk)
    then have "needs_no_work cmd d'"
      using eq complete_settled [OF _ jid [OF Claimed]] by (auto split: if_splits prod.splits)
    then show ?thesis using cmd by blast
  qed (use eq claim_settled [OF claim] cmd in \<open>auto split: if_splits\<close>)
qed

lemma pending_not_reset:
  assumes "j \<in> set (jobs d)" "jb_status j = JobPending"
  shows "j \<in> set (jobs (reset_expired_job c now cmd d))"
  using assms by (auto simp: reset_expired_job_def expired_job_lease_def intro!: update_rows_keeps)

lemma resource_ready_jobs [simp]: "resource_ready (d\<lparr>jobs := js\<rparr>) cmd j = resource_ready d cmd j"
  by (cases cmd) auto

lemma acquire_pending:
  assumes "j \<in> set (jobs d)" "command_matches cmd j" "resource_ready d cmd j" "job_due c now j"
  shows "\<exists>d'. acquire_job c now cmd owner token d = (True, d') \<and> lease_job c now owner token j \<in> set (jobs d')"
proof -
  have "acquirable_job c now cmd d j" using assms by (simp add: acquirable_job_def)
  then show ?thesis
    using assms(1) count_rows_pos [of "acquirable_job c now cmd d" "jobs d"]
    by (auto simp: acquire_job_def intro!: update_rows_hit)
qed

lemma complete_leased:
  assumes "jobs_ok d" "j \<in> set (jobs d)" "holds_job_lease now (jb_id j) owner token j"
  shows "\<exists>d'. node_sync_complete now (jb_id j) owner token d = (True, d') \<and> succeed_job now j \<in> set (jobs d')"
proof -
  let ?holds = "holds_job_lease now (jb_id j) owner token"
  have "count_rows ?holds (jobs d) \<le> 1"
    using assms(1) by (intro count_rows_key_le_1 [of jb_id _ _ "jb_id j"])
      (auto simp: jobs_ok_def holds_job_lease_def)
  moreover have "count_rows ?holds (jobs d) \<noteq> 0" using assms(2,3) count_rows_pos by metis
  ultimately show ?thesis
    using assms(2,3) by (auto simp: node_sync_complete_def intro!: update_rows_hit)
qed

lemma jobs_ok_claim_steps:
  assumes "jobs_ok d"
  shows "jobs_ok (reset_expired_job c now cmd d)" "jobs_ok (snd (acquire_job c now cmd owner token d))"
  using node_sync_exec_ok [OF assms, of c now "NReset cmd"]
    node_sync_exec_ok [OF assms, of c now "NAcquire cmd owner token"] by simp_all

text \<open>A deliverable job is delivered: if the job of a message is due, its grant or route is in place
  and the completion reaches the database before the lease expires, \<open>process\<close> returns and the job has
  succeeded.\<close>

theorem process_completes_due_job:
  assumes "jobs_ok d" "j \<in> set (jobs d)"
    and "nodeSyncRequestedEventSchema is_uuid data = Some cmd"
    and "command_matches cmd j" "resource_ready d cmd j" "job_due c t2 j"
    and "t4 < t2 + leaseDurationMs c"
  shows "\<exists>d' j'. node_sync_process is_uuid c owner (t1, t2, t3, t4, t5) token False
      ''node-sync.requested'' data d = (ProcessReturned, d')
    \<and> j' \<in> set (jobs d') \<and> jb_id j' = jb_id j \<and> jb_status j' = JobSucceeded"
proof -
  let ?d1 = "reset_expired_job c t1 cmd d"
  have "j \<in> set (jobs ?d1)" using pending_not_reset assms(2,6) by (auto simp: job_due_def)
  moreover have "resource_ready ?d1 cmd j" using assms(5) by (simp add: reset_expired_job_def)
  ultimately obtain d2 where acq: "acquire_job c t2 cmd owner token ?d1 = (True, d2)"
    and j2: "lease_job c t2 owner token j \<in> set (jobs d2)"
    using acquire_pending assms(4,6) by blast
  have ok2: "jobs_ok d2"
    using jobs_ok_claim_steps(2) [OF jobs_ok_claim_steps(1) [OF assms(1)], of c t2 cmd owner token c t1 cmd] acq
    by simp
  have "holds_job_lease t4 (jb_id j) owner token (lease_job c t2 owner token j)"
    using assms(7) by (simp add: holds_job_lease_def lease_job_def)
  with complete_leased [OF ok2 j2, of t4 owner token]
  obtain d3 where comp: "node_sync_complete t4 (jb_id j) owner token d2 = (True, d3)"
    and j3: "succeed_job t4 (lease_job c t2 owner token j) \<in> set (jobs d3)" by auto
  have "cmd_jobId cmd = jb_id j" using command_matches_id [OF assms(4)] by simp
  then have "node_sync_process is_uuid c owner (t1, t2, t3, t4, t5) token False
      ''node-sync.requested'' data d = (ProcessReturned, d3)"
    using assms(3) acq comp by (simp add: node_sync_process_def node_sync_claim_def)
  then show ?thesis using j3 by (auto simp: succeed_job_def)
qed

section \<open>Concrete runs\<close>

definition sample_lease :: lease_config where
  "sample_lease = \<lparr>leaseDurationMs = 30000, retryDelayMs = 5000, maxAttempts = 3\<rparr>"

definition sample_store :: outbox_store where
  "sample_store = \<lparr>os_lease = sample_lease, os_eventIds = None\<rparr>"

definition any_text :: "string \<Rightarrow> bool" where
  "any_text s \<longleftrightarrow> s \<noteq> []"

definition list_queue :: "uuid \<Rightarrow> NodeSyncRequestedEvent \<Rightarrow> (uuid \<times> NodeSyncRequestedEvent) list \<Rightarrow>
    (uuid \<times> NodeSyncRequestedEvent) list option" where
  "list_queue eid cmd q = Some (if eid \<in> fst ` set q then q else q @ [(eid, cmd)])"

definition leased_event :: outbox_event where
  "leased_event = claim_event sample_store 1000 ''w1'' ''token'' (hd (outbox sample_db))"

definition leased_job :: job where
  "leased_job = lease_job sample_lease 1000 ''w1'' ''token'' (hd (jobs sample_db))"

theorem outbox_lease_exclusive_witness:
  "leased_event \<in> set (run_ops (outbox_exec sample_store)
     [(2000, OReclaim), (3000, OClaim [] ''w2'' ''other''), (4000, OPublish ''e1'' ''w2'' ''other'')] [leased_event])"
  by (rule outbox_lease_exclusive [where eid = "''e1''" and owner = "''w1''" and token = "''token''"])
    (code_simp, simp, code_simp)

theorem node_sync_lease_exclusive_witness:
  "leased_job \<in> set (jobs (run_ops (node_sync_exec sample_lease)
     [(2000, NReclaim), (3000, NAcquire (GrantCommand ''g1'' ''j1'' 3) ''w2'' ''other''),
      (4000, NComplete ''j1'' ''w2'' ''other'')] (sample_db\<lparr>jobs := [leased_job]\<rparr>)))"
  by (rule node_sync_lease_exclusive [where jid = "''j1''" and owner = "''w1''" and token = "''token''"])
    (simp, code_simp)

theorem outbox_settled_final_witness:
  "run_ops (outbox_exec sample_store) [(2000, OReclaim), (2000, ORetry ''e1'' ''w1'' ''token'' ''X'')]
     [publish_event 1500 leased_event] ! 0 = publish_event 1500 leased_event"
  using outbox_settled_final [of "[publish_event 1500 leased_event]" 0 sample_store
      "[(2000, OReclaim), (2000, ORetry ''e1'' ''w1'' ''token'' ''X'')]"]
  by (simp add: publish_event_def leased_event_def claim_event_def outbox_ok_def event_row_ok_def
      sample_db_def new_event_def)

theorem node_sync_retries_bounded_witness:
  "\<forall>history. row_changes (node_sync_exec sample_lease) jobs 0 history sample_db \<le> 8"
proof -
  have "jobs_ok sample_db" by code_simp
  moreover have "nat (2 * maxAttempts sample_lease + 2) = 8" by code_simp
  ultimately show ?thesis
    using node_sync_retries_bounded [of sample_db 0 sample_lease]
    by (simp add: sample_db_def new_job_def sample_lease_def)
qed

lemma sample_outbox_ok: "outbox_ok (outbox sample_db)"
  by code_simp

lemma sample_jobs_ok: "jobs_ok sample_db"
  by code_simp

theorem publisher_progress_witness:
  "\<exists>es'. outbox_processOne any_text list_queue sample_store ''w1'' (1000, 2000, 3000, 4000) [] ''token''
      False (outbox sample_db, []) = (Published, es', [(''e1'', GrantCommand ''g1'' ''j1'' 3)])"
proof -
  let ?e = "claim_event sample_store 2000 ''w1'' ''token'' (hd (outbox sample_db))"
  have claim: "claimed_rows sample_store ''w1'' 1000 2000 [] ''token'' (outbox sample_db) = (Some ?e, [?e])"
    by code_simp
  have "ob_topic ?e = ''node-sync.requested''"
    "nodeSyncRequestedEventSchema any_text (ob_payload ?e) = Some (GrantCommand ''g1'' ''j1'' 3)"
    "list_queue (ob_id ?e) (GrantCommand ''g1'' ''j1'' 3) [] = Some [(''e1'', GrantCommand ''g1'' ''j1'' 3)]"
    "(3000 :: int) < 2000 + leaseDurationMs (os_lease sample_store)"
    by code_simp+
  from publisher_progress [where add = list_queue, OF sample_outbox_ok claim this] show ?thesis by blast
qed

definition published_run ::
    "publish_result \<times> outbox_event list \<times> (uuid \<times> NodeSyncRequestedEvent) list" where
  "published_run = outbox_processOne any_text list_queue sample_store ''w1'' (1000, 2000, 3000, 4000) [] ''token''
     False (outbox sample_db, [])"

theorem publish_only_after_delivery_witness:
  "\<exists>cmd. nodeSyncRequestedEventSchema any_text (ob_payload (hd (fst (snd published_run)))) = Some cmd
     \<and> list_queue ''e1'' cmd [] = Some (snd (snd published_run))"
proof -
  have hd: "hd (fst (snd published_run)) \<in> set (fst (snd published_run))"
    "ob_status (hd (fst (snd published_run))) = OutboxPublished"
    "ob_id (hd (fst (snd published_run))) \<notin> published_ids (outbox sample_db)"
    "ob_id (hd (fst (snd published_run))) = ''e1''"
    by code_simp+
  show ?thesis
    using publish_only_after_delivery [OF sample_outbox_ok, of any_text list_queue sample_store "''w1''" 1000
        2000 3000 4000 "[]" "''token''" False "[]" "fst published_run" "fst (snd published_run)"
        "snd (snd published_run)", OF _ hd(1-3)] hd(4)
    by (simp add: published_run_def)
qed

theorem process_completes_due_job_witness:
  "\<exists>d' j'. node_sync_process any_text sample_lease ''w1'' (1000, 2000, 3000, 4000, 5000) ''token'' False
      ''node-sync.requested'' (grant_payload ''g1'' ''j1'' 3) sample_db = (ProcessReturned, d')
    \<and> j' \<in> set (jobs d') \<and> jb_id j' = ''j1'' \<and> jb_status j' = JobSucceeded"
proof -
  have "hd (jobs sample_db) \<in> set (jobs sample_db)"
    "nodeSyncRequestedEventSchema any_text (grant_payload ''g1'' ''j1'' 3) = Some (GrantCommand ''g1'' ''j1'' 3)"
    "command_matches (GrantCommand ''g1'' ''j1'' 3) (hd (jobs sample_db))"
    "resource_ready sample_db (GrantCommand ''g1'' ''j1'' 3) (hd (jobs sample_db))"
    "job_due sample_lease 2000 (hd (jobs sample_db))"
    "(4000 :: int) < 2000 + leaseDurationMs sample_lease" "jb_id (hd (jobs sample_db)) = ''j1''"
    by code_simp+
  with process_completes_due_job [OF sample_jobs_ok] show ?thesis by metis
qed

theorem process_returns_when_settled_witness:
  "\<exists>cmd. nodeSyncRequestedEventSchema any_text (grant_payload ''g1'' ''j1'' 3) = Some cmd \<and>
     needs_no_work cmd (snd (node_sync_process any_text sample_lease ''w1'' (1000, 2000, 3000, 4000, 5000)
       ''token'' False ''node-sync.requested'' (grant_payload ''g1'' ''j1'' 3) sample_db))"
proof -
  have "fst (node_sync_process any_text sample_lease ''w1'' (1000, 2000, 3000, 4000, 5000)
       ''token'' False ''node-sync.requested'' (grant_payload ''g1'' ''j1'' 3) sample_db) = ProcessReturned"
    by code_simp
  then show ?thesis by (intro process_returns_when_settled) (simp add: prod_eq_iff)
qed

end
