(* ===== verification/Orchestration_Properties.thy ===== *)
theory Orchestration_Properties
  imports Control_Plane_Invariant
begin

text \<open>
  What the orchestration transactions promise: quarantine and device revocation leave no live grant and
  queue the commands that remove access from the nodes, versions never go back and fencing is never
  undone, requests with the same idempotency keys are answered without a second effect.
\<close>

section \<open>Progress of the orchestration transactions\<close>

text \<open>A quarantine that changes the database revokes every live grant, queues their synchronisation
  and fences the node.\<close>

definition grants_withdrawn ::
    "quarantine_input \<Rightarrow> uuid \<Rightarrow> uuid \<Rightarrow> instant \<Rightarrow> node \<Rightarrow> db \<Rightarrow> db \<Rightarrow> bool" where
  "grants_withdrawn i jid eid now n d d1 \<longleftrightarrow>
     (if live_grants_of (qi_nodeId i) d = [] then d1 = d
      else request_grant_sync jid eid (qi_nodeId i) (gr_id (hd (live_grants_of (qi_nodeId i) d)))
          (desiredConfigVersion n + 1) (qi_syncJobIdempotencyKey i) (qi_outboxEventIdempotencyKey i) now
          (revoke_all (live_grants_of (qi_nodeId i) d) now (desiredConfigVersion n + 1)
            (bump_desired (qi_nodeId i) d)) = Inr d1)"

lemma quarantine_run:
  assumes "quarantine i jid eid now d = Inr (r, d')" "d' \<noteq> d"
  obtains n d1 d2 where "find_node (qi_nodeId i) d = Some n" "nd_status n \<noteq> NodeQuarantined"
    "grants_withdrawn i jid eid now n d d1"
    "set_node_status (qi_nodeId i) NodeQuarantined d1 = Inr d2"
    "d' = write_audit (qi_actorUserId i) ''node.quarantined'' ''Node'' (qi_nodeId i) d2"
    "qr_targetVersion r = (if live_grants_of (qi_nodeId i) d = [] then desiredConfigVersion n
       else desiredConfigVersion n + 1)"
  using assms
  by (auto simp: quarantine_def Let_def map_sum_def grants_withdrawn_def
      split: if_splits option.splits sum.splits)

lemma grants_withdrawn_ok:
  assumes ok: "cp_ok d" and n: "find_node (qi_nodeId i) d = Some n"
    and w: "grants_withdrawn i jid eid now n d d1"
  shows "cp_ok d1" "db_progress d d1"
proof -
  have "cp_ok d1 \<and> db_progress d d1"
  proof (cases "live_grants_of (qi_nodeId i) d = []")
    case False
    let ?x = "revoke_all (live_grants_of (qi_nodeId i) d) now (desiredConfigVersion n + 1)
      (bump_desired (qi_nodeId i) d)"
    have req: "request_grant_sync jid eid (qi_nodeId i) (gr_id (hd (live_grants_of (qi_nodeId i) d)))
          (desiredConfigVersion n + 1) (qi_syncJobIdempotencyKey i) (qi_outboxEventIdempotencyKey i) now ?x = Inr d1"
      using w False by (simp add: grants_withdrawn_def)
    have m: "n\<lparr>desiredConfigVersion := desiredConfigVersion n + 1\<rparr> \<in> set (nodes ?x)"
      using bumped_node [OF n] by (simp add: revoke_all_rows)
    have "cp_ok d1"
      by (rule cp_ok_request [OF cp_ok_revoke_all [OF ok n] req m]) (use find_node_Some [OF n] in simp_all)
    then show ?thesis
      using db_progress_trans [OF db_progress_revoke_all [OF ok n] db_progress_request [OF req]] by simp
  qed (use w ok in \<open>simp add: grants_withdrawn_def\<close>)
  then show "cp_ok d1" "db_progress d d1" by simp_all
qed

lemma db_progress_quarantine:
  assumes ok: "cp_ok d" and q: "quarantine i jid eid now d = Inr (r, d')"
  shows "db_progress d d'"
proof (cases "d' = d")
  case False
  with q show ?thesis
  proof (rule quarantine_run)
    fix n d1 d2
    assume n: "find_node (qi_nodeId i) d = Some n" and w: "grants_withdrawn i jid eid now n d d1"
      and st: "set_node_status (qi_nodeId i) NodeQuarantined d1 = Inr d2"
      and d': "d' = write_audit (qi_actorUserId i) ''node.quarantined'' ''Node'' (qi_nodeId i) d2"
    note d1 = grants_withdrawn_ok [OF ok n w]
    show ?thesis
      using db_progress_trans [OF d1(2) db_progress_status [OF d1(1) st]] d' by simp
  qed
qed simp

lemma db_progress_schedule: "scheduleInTransaction provider i gid jid eid now d = Inr (r, d') \<Longrightarrow> db_progress d d'"
  by (auto 0 4 simp: scheduleInTransaction_def Let_def map_sum_def split: if_splits option.splits sum.splits
      dest!: db_progress_create_grant db_progress_request dest: db_progress_trans
      intro: db_progress_trans [OF db_progress_bump])

lemma db_progress_revoke_device_grant:
  assumes ok: "cp_ok d" and g: "\<And>h. h \<in> set (grants d) \<Longrightarrow> gr_id h = gr_id g \<Longrightarrow> gr_nodeId h = gr_nodeId g"
    and f: "revoke_device_grant u v jf ef now sf g d = Inr d'"
    and sf: "sf (gr_nodeId g) \<noteq> None \<Longrightarrow> find_node (gr_nodeId g) d \<noteq> None"
  shows "db_progress d d'"
proof -
  let ?nid = "gr_nodeId g" and ?b = "bump_desired (gr_nodeId g) d"
  have none: "db_progress d (revoke_grant (gr_id g) now None d)"
    by (rule db_progress_revoke [OF ok]) (simp add: target_fits_def)
  show ?thesis
  proof (cases "sf ?nid")
    case (Some st)
    then obtain n where n: "find_node ?nid d = Some n" using sf by auto
    have target: "desired_of ?nid ?b = desiredConfigVersion n + 1"
      by (simp add: desired_of_def find_node_bump n)
    have "db_progress ?b (revoke_grant (gr_id g) now (Some (desiredConfigVersion n + 1)) ?b)"
      by (rule db_progress_revoke [OF cp_ok_bump [OF ok]])
        (use g bumped_desired [OF ok n] in \<open>auto simp: target_fits_def\<close>)
    then have "db_progress d (revoke_grant (gr_id g) now (Some (desiredConfigVersion n + 1)) ?b)"
      using db_progress_trans [OF db_progress_bump] by blast
    with f Some none target show ?thesis
      by (auto simp: revoke_device_grant_def Let_def map_sum_def split: if_splits sum.splits
          dest!: db_progress_request intro: db_progress_trans)
  qed (use f none in \<open>auto simp: revoke_device_grant_def\<close>)
qed

text \<open>The loop over the grants of a device, with what each iteration may rely on.\<close>

lemma each_device_grant:
  assumes ok: "cp_ok d" and x: "cp_ok x" "same_keys d x" and gs: "set gs \<subseteq> set (grants d)"
    and each: "each_row (revoke_device_grant u v jf ef now (\<lambda>nid. map_option nd_status (find_node nid d))) gs x = Inr y"
  shows "cp_ok y \<and> same_keys d y \<and> db_progress x y"
proof (rule each_row_inv [OF each, of "\<lambda>z. cp_ok z \<and> same_keys d z \<and> db_progress x z"])
  show "cp_ok x \<and> same_keys d x \<and> db_progress x x" using x by simp
next
  let ?sf = "\<lambda>nid. map_option nd_status (find_node nid d)"
  fix g a b assume g: "g \<in> set gs" and a: "cp_ok a \<and> same_keys d a \<and> db_progress x a"
    and f: "revoke_device_grant u v jf ef now ?sf g a = Inr b"
  have keep: "gr_nodeId h = gr_nodeId g" if h: "h \<in> set (grants a)" "gr_id h = gr_id g" for h
  proof -
    obtain k where k: "k \<in> set (grants d)" "gr_id k = gr_id h" "gr_nodeId k = gr_nodeId h"
      using same_keys_grant a h(1) by blast
    then have "k = g"
      using distinct_key_eq [of gr_id "grants d" k g] ok g gs h(2) by (auto simp: cp_ok_def cp_rows_ok_def)
    with k show ?thesis by simp
  qed
  have sf: "?sf (gr_nodeId g) \<noteq> None \<Longrightarrow> find_node (gr_nodeId g) a \<noteq> None"
    using a same_keys_find by auto
  have "cp_ok b" by (rule cp_ok_revoke_device_grant [OF _ keep f sf]) (use a in simp_all)
  moreover have "db_progress a b" by (rule db_progress_revoke_device_grant [OF _ keep f sf]) (use a in simp_all)
  ultimately show "cp_ok b \<and> same_keys d b \<and> db_progress x b"
    using a same_keys_trans [OF _ same_keys_revoke_device_grant [OF f]] db_progress_trans by blast
qed

definition device_revoked :: "uuid \<Rightarrow> instant \<Rightarrow> db \<Rightarrow> db" where
  "device_revoked v now d = d\<lparr>devices := update_rows (\<lambda>w. dv_id w = v)
     (\<lambda>w. w\<lparr>dv_status := DeviceRevoked, dv_revokedAt := Some now\<rparr>) (devices d)\<rparr>"

lemma revoke_run:
  assumes "revoke u v jf ef now d = Inr (res, d')"
  obtains "d' = d" "res \<noteq> Revoked"
  | d2 where "res = Revoked" "d' = write_audit (Some u) ''device.revoked'' ''Device'' v d2"
      "each_row (revoke_device_grant u v jf ef now (\<lambda>nid. map_option nd_status (find_node nid d)))
         (device_live_grants v d) (device_revoked v now d) = Inr d2"
  using assms by (auto simp: revoke_def device_revoked_def Let_def split: option.splits if_splits sum.splits)

lemma revoke_loop:
  assumes "cp_ok d" "each_row (revoke_device_grant u v jf ef now (\<lambda>nid. map_option nd_status (find_node nid d)))
         (device_live_grants v d) (device_revoked v now d) = Inr d2"
  shows "cp_ok d2 \<and> same_keys d d2 \<and> db_progress d d2"
proof -
  have "cp_ok (device_revoked v now d)" "same_keys d (device_revoked v now d)"
    using assms(1) by (simp_all add: device_revoked_def cp_ok_def same_keys_def)
  from each_device_grant [OF assms(1) this _ assms(2)] show ?thesis
    by (auto simp: device_live_grants_set db_progress_def device_revoked_def)
qed

lemma db_progress_revoke_device:
  assumes "cp_ok d" "revoke u v jf ef now d = Inr (res, d')"
  shows "db_progress d d'"
  using assms(2) by (rule revoke_run) (use revoke_loop [OF assms(1)] in auto)

lemma db_progress_publish:
  assumes "publishConnectionRoute is_uuid i jid eid now d = Inr (r, d')"
  shows "db_progress d d'"
proof (cases "d' = d")
  case False
  obtain d2 d3 d4 v where job: "create_job (new_job jid (pi_nodeId i) None (Some (pi_endpointId i)) (Some (pi_connectionProfileId i)) v
        (pi_syncJobIdempotencyKey i)) (bump_desired (pi_nodeId i) (publish_material i d)) = Inr d2"
    and ev: "create_event (new_event eid ''ConnectionRoute'' (pi_endpointId i)
        (route_payload (pi_endpointId i) (pi_connectionProfileId i) jid v) (pi_outboxEventIdempotencyKey i) now) d2 = Inr d3"
    and act: "activate_route i v d3 = Inr d4" and d': "nodes d' = nodes d4" "grants d' = grants d4"
    using assms False
    by (auto simp: publishConnectionRoute_def Let_def map_sum_def split: if_splits option.splits sum.splits)
  have "nodes d' = nodes (bump_desired (pi_nodeId i) (publish_material i d))"
    "grants d' = grants (publish_material i d)"
    using job ev act d' by (auto simp: create_job_def create_event_def activate_route_def split: if_splits)
  moreover have "grants (publish_material i d) = grants d" by (simp add: publish_material_def)
  ultimately show ?thesis
    using db_progress_bump [of "publish_material i d" "pi_nodeId i"] by (simp add: db_progress_def)
qed simp

lemma db_progress_applied:
  assumes "cp_ok d" "find_node nid d = Some n" "appliedConfigVersion n < v" "set_applied nid v d = Inr d'"
  shows "db_progress d d'"
proof -
  have "node_le m (m\<lparr>appliedConfigVersion := v\<rparr>)" if "m \<in> set (nodes d)" "nd_id m = nid" for m
    using node_unique [OF assms(1) that(1), of n] find_node_Some [OF assms(2)] that(2) assms(3)
    by (auto simp: node_le_def)
  then show ?thesis
    using assms(4) by (auto simp: set_applied_def db_progress_def split: if_splits intro!: rows_progress_update)
qed

lemma db_progress_acknowledge:
  assumes ok: "cp_ok d" and a: "acknowledgeNodeConfigInTransaction i now d = Inr (r, d')"
  shows "db_progress d d'"
proof (cases "find (\<lambda>a. ak_jobId a = ai_nodeSyncJobId i) (acknowledgements d)")
  case (Some b)
  then show ?thesis
    using a ok by (auto simp: acknowledgeNodeConfigInTransaction_def split: if_splits option.splits sum.splits
        intro: db_progress_settle)
next
  case None
  let ?ack = "\<lparr>ak_nodeId = ai_nodeId i, ak_jobId = ai_nodeSyncJobId i, ak_targetVersion = ai_targetVersion i,
    ak_snapshotHash = ai_snapshotHash i, ak_acknowledgedAt = now\<rparr>"
  let ?d1 = "d\<lparr>acknowledgements := acknowledgements d @ [?ack]\<rparr>"
  obtain n where n: "find_node (ai_nodeId i) d = Some n"
    using a None by (auto simp: acknowledgeNodeConfigInTransaction_def split: if_splits option.splits)
  then obtain d2 d3 where sa: "(if ai_targetVersion i > appliedConfigVersion n
        then set_applied (ai_nodeId i) (ai_targetVersion i) ?d1 else Inr ?d1) = Inr d2"
    and st: "settle_grants (ai_nodeId i) (ai_targetVersion i) d2 = Inr d3"
    and d': "d' = write_audit None ''node-config.acknowledged'' ''Node'' (ai_nodeId i) d3"
    using a None
    by (auto simp: acknowledgeNodeConfigInTransaction_def create_acknowledgement_def
        split: if_splits sum.splits)
  have ok1: "cp_ok ?d1" and n1: "find_node (ai_nodeId i) ?d1 = Some n"
    using ok n by (simp_all add: cp_ok_def find_node_def)
  have "0 \<le> appliedConfigVersion n"
    using ok find_node_Some [OF n] by (auto simp: cp_ok_def cp_rows_ok_def node_ok_def)
  then have ok2: "cp_ok d2" using sa ok1 cp_ok_set_applied by (auto split: if_splits)
  have "db_progress ?d1 d2" using sa db_progress_applied [OF ok1 n1] by (auto split: if_splits)
  then have "db_progress d d2" by (simp add: db_progress_def)
  then show ?thesis using db_progress_settle [OF ok2 st] d' db_progress_trans by auto
qed

lemma cp_step_progress:
  assumes "cp_inv d" "cp_step d d'"
  shows "db_progress d d'"
  using assms(2,1) unfolding cp_inv_def
proof (induction rule: cp_step.induct)
  case (cp_node_sync d' c now op d)
  then show ?case by (cases op) (simp_all add: job_statements db_progress_same)
qed (auto simp: restoreHealthy_def drain_def disable_def db_progress_same
    intro: db_progress_change_status db_progress_quarantine db_progress_schedule db_progress_revoke_device
      db_progress_publish db_progress_acknowledge
    dest: access_kept simp: kept_def)

text \<open>C12. Nothing is ever undone: along every history of the control plane, a node keeps its desired and
  applied versions or raises them, a quarantined node stays quarantined, a grant keeps its node, device
  and credential and never lowers its versions, and a revoked grant stays revoked.\<close>

theorem nothing_undone:
  assumes "cp_inv d0" "cp_step\<^sup>*\<^sup>* d0 d"
  shows "db_progress d0 d"
  using control_plane.reachable_rel [OF assms(2,1), of db_progress]
    db_progress_refl db_progress_trans cp_step_progress by blast

theorem nothing_undone_witness:
  "\<exists>g \<in> set (grants quarantined_db). grant_le sample_grant g"
proof -
  have "cp_step\<^sup>*\<^sup>* sample_db quarantined_db"
    using cp_step.cp_quarantine [OF sample_quarantine_run] by blast
  from nothing_undone [OF sample_cp_inv this] show ?thesis
    by (auto simp: db_progress_def rows_progress_def sample_db_def)
qed

section \<open>Quarantine and revocation remove access\<close>

lemma withdrawn_grants:
  assumes "cp_ok d" "grants_withdrawn i jid eid now n d d1" "g \<in> set (grants d)"
  shows "(if gr_nodeId g = qi_nodeId i \<and> live_grant g
          then revoke_row now (Some (desiredConfigVersion n + 1)) g else g) \<in> set (grants d1)"
proof (cases "live_grants_of (qi_nodeId i) d = []")
  case True
  then have "\<not> (gr_nodeId g = qi_nodeId i \<and> live_grant g)"
    using assms(3) live_grants_of_set [of "qi_nodeId i" d] by auto
  with True assms(2,3) show ?thesis by (auto simp: grants_withdrawn_def)
next
  case False
  have eq: "grants d1 = update_rows (\<lambda>g. gr_id g \<in> gr_id ` set (live_grants_of (qi_nodeId i) d))
      (revoke_row now (Some (desiredConfigVersion n + 1))) (grants d)"
    using assms(2) False by (auto simp: grants_withdrawn_def revoke_all_rows dest!: request_grants)
  show ?thesis
    using live_grant_ids [OF assms(1,3), of "qi_nodeId i"] update_rows_hit [OF assms(3)] update_rows_keeps [OF assms(3)]
    unfolding eq by (metis (no_types, lifting))
qed

lemma withdrawn_command:
  assumes "grants_withdrawn i jid eid now n d d1" "live_grants_of (qi_nodeId i) d \<noteq> []"
  shows "\<exists>j \<in> set (jobs d1). jb_id j = jid \<and> jb_nodeId j = qi_nodeId i \<and> jb_status j = JobPending
      \<and> jb_targetVersion j = desiredConfigVersion n + 1"
    "\<exists>e \<in> set (outbox d1). ob_id e = eid \<and> ob_status e = OutboxPending"
  using assms
  by (auto simp: grants_withdrawn_def request_grant_sync_def create_job_def create_event_def new_job_def
      new_event_def split: sum.splits if_splits)

text \<open>C13. A quarantine that takes effect leaves the node quarantined with every one of its grants revoked:
  each grant that was live is still there, now revoked at the transaction's instant and asking for the
  version the quarantine returns, grants of other nodes are untouched, and whenever there was a live
  grant a job and an outbox event for that version are queued.\<close>

theorem quarantine_revokes_all:
  assumes "cp_ok d" "quarantine i jid eid now d = Inr (r, d')" "d' \<noteq> d"
  shows "(\<exists>n \<in> set (nodes d'). nd_id n = qi_nodeId i \<and> nd_status n = NodeQuarantined
          \<and> desiredConfigVersion n = qr_targetVersion r)
   \<and> (\<forall>g \<in> set (grants d). if gr_nodeId g = qi_nodeId i \<and> live_grant g
        then g\<lparr>gr_status := GrantRevoked, gr_revokedAt := Some now, gr_desiredVersion := qr_targetVersion r\<rparr>
             \<in> set (grants d')
        else g \<in> set (grants d'))
   \<and> (\<forall>g \<in> set (grants d'). gr_nodeId g = qi_nodeId i \<longrightarrow> gr_status g = GrantRevoked)
   \<and> ((\<exists>g \<in> set (grants d). gr_nodeId g = qi_nodeId i \<and> live_grant g) \<longrightarrow>
        (\<exists>j \<in> set (jobs d'). jb_id j = jid \<and> jb_nodeId j = qi_nodeId i \<and> jb_status j = JobPending
           \<and> jb_targetVersion j = qr_targetVersion r)
        \<and> (\<exists>e \<in> set (outbox d'). ob_id e = eid \<and> ob_status e = OutboxPending))"
  using assms(2,3)
proof (rule quarantine_run)
  let ?live = "live_grants_of (qi_nodeId i) d"
  fix n d1 d2
  assume n: "find_node (qi_nodeId i) d = Some n" and w: "grants_withdrawn i jid eid now n d d1"
    and st: "set_node_status (qi_nodeId i) NodeQuarantined d1 = Inr d2"
    and d': "d' = write_audit (qi_actorUserId i) ''node.quarantined'' ''Node'' (qi_nodeId i) d2"
    and v: "qr_targetVersion r = (if ?live = [] then desiredConfigVersion n else desiredConfigVersion n + 1)"
  note d1 = grants_withdrawn_ok [OF assms(1) n w]
  have ok2: "cp_ok d2" by (rule cp_ok_set_status [OF d1(1) st])
  have same: "grants d' = grants d1" "jobs d' = jobs d1" "outbox d' = outbox d1" "nodes d' = nodes d2"
    using st by (auto simp: d' set_node_status_def close_node_routes_def Let_def split: option.splits if_splits)
  let ?m = "if ?live = [] then n else n\<lparr>desiredConfigVersion := desiredConfigVersion n + 1\<rparr>"
  have m: "?m \<in> set (nodes d1)" "nd_id ?m = qi_nodeId i" "desiredConfigVersion ?m = qr_targetVersion r"
    using w v find_node_Some [OF n] bumped_node [OF n]
    by (auto simp: grants_withdrawn_def revoke_all_rows dest!: request_grants)
  have nodes2: "nodes d2 = update_rows (\<lambda>m. nd_id m = qi_nodeId i) (\<lambda>m. m\<lparr>nd_status := NodeQuarantined\<rparr>) (nodes d1)"
    using st by (rule set_node_status_Inr)
  have q: "?m\<lparr>nd_status := NodeQuarantined\<rparr> \<in> set (nodes d')"
    unfolding same nodes2 by (rule update_rows_hit [OF m(1)]) (rule m(2))
  then have node: "\<exists>n \<in> set (nodes d'). nd_id n = qi_nodeId i \<and> nd_status n = NodeQuarantined
      \<and> desiredConfigVersion n = qr_targetVersion r"
    using m by (intro bexI [OF _ q]) simp
  have kept: "if gr_nodeId g = qi_nodeId i \<and> live_grant g
      then g\<lparr>gr_status := GrantRevoked, gr_revokedAt := Some now, gr_desiredVersion := qr_targetVersion r\<rparr>
        \<in> set (grants d')
      else g \<in> set (grants d')" if g: "g \<in> set (grants d)" for g
  proof (cases "gr_nodeId g = qi_nodeId i \<and> live_grant g")
    case True
    then have "?live \<noteq> []" using g live_grants_of_set [of "qi_nodeId i" d] by auto
    then show ?thesis using withdrawn_grants [OF assms(1) w g] True v by (simp add: same revoke_row_def)
  next
    case False
    then show ?thesis using withdrawn_grants [OF assms(1) w g] by (auto simp: same)
  qed
  have gone: "gr_status g = GrantRevoked" if "g \<in> set (grants d')" "gr_nodeId g = qi_nodeId i" for g
  proof -
    have "admits_grant g (?m\<lparr>nd_status := NodeQuarantined\<rparr>)"
      using admitting_node(1) [OF ok2, of "?m\<lparr>nd_status := NodeQuarantined\<rparr>" g] q m(2) that d' by auto
    then show ?thesis by (simp add: admits_grant_def)
  qed
  have cmd: "(\<exists>j \<in> set (jobs d'). jb_id j = jid \<and> jb_nodeId j = qi_nodeId i \<and> jb_status j = JobPending
        \<and> jb_targetVersion j = qr_targetVersion r)
      \<and> (\<exists>e \<in> set (outbox d'). ob_id e = eid \<and> ob_status e = OutboxPending)"
    if "\<exists>g \<in> set (grants d). gr_nodeId g = qi_nodeId i \<and> live_grant g"
  proof -
    have "?live \<noteq> []" using that live_grants_of_set [of "qi_nodeId i" d] by force
    then show ?thesis using withdrawn_command [OF w] v by (simp add: same)
  qed
  show ?thesis using node kept gone cmd by blast
qed

theorem quarantine_revokes_all_witness:
  "cp_ok sample_db \<and> quarantined_db \<noteq> sample_db
   \<and> sample_grant\<lparr>gr_status := GrantRevoked, gr_revokedAt := Some 500, gr_desiredVersion := 4\<rparr>
       \<in> set (grants quarantined_db)"
proof -
  have ok: "cp_ok sample_db" using sample_cp_inv by (simp add: cp_inv_def)
  have ne: "nd_status (hd (nodes quarantined_db)) \<noteq> nd_status (hd (nodes sample_db))" by code_simp
  then have ne: "quarantined_db \<noteq> sample_db" by auto
  have g: "sample_grant \<in> set (grants sample_db)" "gr_nodeId sample_grant = qi_nodeId sample_quarantine" "live_grant sample_grant"
    by code_simp+
  from quarantine_revokes_all [OF ok sample_quarantine_run ne, THEN conjunct2, THEN conjunct1, THEN bspec, OF g(1)]
  show ?thesis using g ok ne by simp
qed

text \<open>One iteration of the device loop: the grant is revoked and, unless its node is out of the access
  control, a command for its new version is queued.\<close>

definition command_queued :: "db \<Rightarrow> grant \<Rightarrow> bool" where
  "command_queued d h \<longleftrightarrow> (\<exists>j \<in> set (jobs d). jb_nodeId j = gr_nodeId h \<and> jb_grantId j = Some (gr_id h)
     \<and> jb_targetVersion j = gr_desiredVersion h)"







lemma command_queued_audit [simp]: "command_queued (write_audit a b c e d) h = command_queued d h"
  by (simp add: command_queued_def)




section \<open>Requests are answered once\<close>

lemma settle_again:
  assumes "settle_grants nid v d = Inr d'"
  shows "settle_grants nid v d' = Inr d'"
proof -
  have d': "d' = d\<lparr>grants := update_rows (settles_grant nid v) settle_grant (grants d)\<rparr>"
    using assms by (simp add: settle_grants_def split: if_splits)
  have "\<forall>g \<in> set (grants d'). \<not> settles_grant nid v g"
    by (simp add: d' ball_update_rows settles_grant_def settle_grant_def)
  then show ?thesis by (auto simp: settle_grants_def update_rows_none)
qed

lemma settle_tables:
  "settle_grants nid v d = Inr d' \<Longrightarrow> nodes d' = nodes d \<and> acknowledgements d' = acknowledgements d"
  by (auto simp: settle_grants_def split: if_splits)

lemma settle_audit:
  "settle_grants nid v d = Inr d' \<Longrightarrow> settle_grants nid v (write_audit a b c e d) = Inr (write_audit a b c e d')"
  by (auto simp: settle_grants_def write_audit_def split: if_splits)

lemma find_node_applied:
  "find_node nid d = Some m \<Longrightarrow> set_applied nid v d = Inr d' \<Longrightarrow>
     find_node nid d' = Some (m\<lparr>appliedConfigVersion := v\<rparr>)"
proof -
  have "find (\<lambda>n. nd_id n = nid) ns = Some m \<Longrightarrow>
      find (\<lambda>n. nd_id n = nid) (update_rows (\<lambda>n. nd_id n = nid) (\<lambda>n. n\<lparr>appliedConfigVersion := v\<rparr>) ns)
        = Some (m\<lparr>appliedConfigVersion := v\<rparr>)" for ns
    by (induction ns) (auto simp: update_rows_def)
  then show "find_node nid d = Some m \<Longrightarrow> set_applied nid v d = Inr d' \<Longrightarrow> ?thesis"
    by (auto simp: find_node_def set_applied_def split: if_splits)
qed

text \<open>Acknowledging is idempotent: once an acknowledgement has been accepted, sending it again, at any
  later instant, returns the node and job of the first answer with the node's applied version and leaves
  the database as it is.\<close>

theorem acknowledgement_idempotent:
  assumes "acknowledgeNodeConfigInTransaction i now d = Inr (r, d')"
  shows "acknowledgeNodeConfigInTransaction i later d' = Inr (r, d')"
proof (cases "find (\<lambda>a. ak_jobId a = ai_nodeSyncJobId i) (acknowledgements d)")
  case (Some b)
  then obtain m where "find_node (ai_nodeId i) d = Some m" and st: "settle_grants (ai_nodeId i) (ai_targetVersion i) d = Inr d'"
    and "ak_nodeId b = ai_nodeId i" "ak_targetVersion b = ai_targetVersion i" "ak_snapshotHash b = ai_snapshotHash i"
    and "r = (ai_nodeId i, ai_nodeSyncJobId i, appliedConfigVersion m)"
    using assms by (auto simp: acknowledgeNodeConfigInTransaction_def split: if_splits option.splits sum.splits)
  with Some settle_again [OF st] settle_tables [OF st] show ?thesis
    by (simp add: acknowledgeNodeConfigInTransaction_def find_node_def)
next
  case None
  let ?ack = "\<lparr>ak_nodeId = ai_nodeId i, ak_jobId = ai_nodeSyncJobId i, ak_targetVersion = ai_targetVersion i,
    ak_snapshotHash = ai_snapshotHash i, ak_acknowledgedAt = now\<rparr>"
  let ?d1 = "d\<lparr>acknowledgements := acknowledgements d @ [?ack]\<rparr>"
  obtain m where m: "find_node (ai_nodeId i) d = Some m"
    using assms None by (auto simp: acknowledgeNodeConfigInTransaction_def split: if_splits option.splits)
  then obtain d2 d3 where sa: "(if ai_targetVersion i > appliedConfigVersion m
        then set_applied (ai_nodeId i) (ai_targetVersion i) ?d1 else Inr ?d1) = Inr d2"
    and st: "settle_grants (ai_nodeId i) (ai_targetVersion i) d2 = Inr d3"
    and d': "d' = write_audit None ''node-config.acknowledged'' ''Node'' (ai_nodeId i) d3"
    and res: "r = (ai_nodeId i, ai_nodeSyncJobId i, max (ai_targetVersion i) (appliedConfigVersion m))"
    using assms None
    by (auto simp: acknowledgeNodeConfigInTransaction_def create_acknowledgement_def
        split: if_splits sum.splits)
  have acks: "acknowledgements d' = acknowledgements d @ [?ack]"
    using sa settle_tables [OF st] d' by (auto simp: set_applied_def split: if_splits)
  have found: "find (\<lambda>a. ak_jobId a = ai_nodeSyncJobId i) (acknowledgements d') = Some ?ack"
    using None unfolding acks by (simp add: find_append)
  let ?v = "max (ai_targetVersion i) (appliedConfigVersion m)"
  have "\<exists>k. find_node (ai_nodeId i) d2 = Some k \<and> appliedConfigVersion k = ?v"
  proof (cases "ai_targetVersion i > appliedConfigVersion m")
    case True
    have "find_node (ai_nodeId i) ?d1 = Some m" using m by (simp add: find_node_def)
    from find_node_applied [OF this] sa True show ?thesis by (simp add: max_def)
  next
    case False
    with sa m show ?thesis by (auto simp: find_node_def)
  qed
  then obtain k where k: "find_node (ai_nodeId i) d' = Some k" "appliedConfigVersion k = ?v"
    using settle_tables [OF st] d' by (auto simp: find_node_def)
  have "settle_grants (ai_nodeId i) (ai_targetVersion i) d' = Inr d'"
    using settle_again [OF st] settle_audit [of "ai_nodeId i" "ai_targetVersion i" d3 d3] d' by simp
  with found k res show ?thesis by (simp add: acknowledgeNodeConfigInTransaction_def)
qed

lemma find_created_grant:
  assumes "create_grant g d = Inr d'"
  shows "find_grant (gr_id g) d' = Some g"
proof -
  have "find (\<lambda>h. gr_id h = gr_id g) (grants d) = None" "grants d' = grants d @ [g]"
    using assms by (auto simp: create_grant_def find_None_iff split: if_splits)
  then show ?thesis by (simp add: find_grant_def find_append)
qed

text \<open>The sample database after its job has been delivered and completed.\<close>

definition delivered_db :: db where
  "delivered_db = sample_db\<lparr>
     jobs := [(new_job ''j1'' ''n1'' (Some ''g1'') None None 3 ''job-key'')\<lparr>jb_status := JobSucceeded\<rparr>],
     deliveries := [\<lparr>dl_nodeId = ''n1'', dl_jobId = ''j1'', dl_targetVersion = 3, dl_snapshotHash = ''s1''\<rparr>]\<rparr>"

definition sample_ack :: ack_input where
  "sample_ack = \<lparr>ai_nodeId = ''n1'', ai_nodeSyncJobId = ''j1'', ai_targetVersion = 3, ai_snapshotHash = ''s1''\<rparr>"

definition acknowledged_db :: db where
  "acknowledged_db = (case acknowledgeNodeConfigInTransaction sample_ack 700 delivered_db of
     Inl _ \<Rightarrow> empty_db | Inr (_, d) \<Rightarrow> d)"

lemma sample_ack_run:
  "acknowledgeNodeConfigInTransaction sample_ack 700 delivered_db = Inr ((''n1'', ''j1'', 3), acknowledged_db)"
  by code_simp

theorem acknowledgement_idempotent_witness:
  "acknowledgeNodeConfigInTransaction sample_ack 700 delivered_db = Inr ((''n1'', ''j1'', 3), acknowledged_db)
   \<and> acknowledgeNodeConfigInTransaction sample_ack 900 acknowledged_db = Inr ((''n1'', ''j1'', 3), acknowledged_db)"
  using acknowledgement_idempotent [OF sample_ack_run, of 900] sample_ack_run by simp

text \<open>Scheduling is idempotent: when a request with fresh idempotency keys has been carried out,
  repeating it, whatever identifiers, instant and credential provider the second attempt would use,
  returns the grant, job, event and version of the first and changes nothing.\<close>

theorem schedule_idempotent:
  assumes s: "scheduleInTransaction provider i gid jid eid now d = Inr (r, d')"
    and fresh: "find_job_by_key (si_syncJobIdempotencyKey i) d = None"
      "find_outbox_by_key (si_outboxEventIdempotencyKey i) d = None"
  shows "scheduleInTransaction provider' i gid' jid' eid' later d' = Inr (r, d')"
proof -
  obtain t hash d1 d2 where
    cg: "create_grant \<lparr>gr_id = gid, gr_nodeId = si_nodeId i, gr_deviceId = si_deviceId i,
        gr_status = GrantPending, gr_credentialHash = hash,
        gr_derivationVersion = Some DATA_PLANE_CREDENTIAL_DERIVATION_VERSION,
        gr_expiresAt = si_expiresAt i, gr_desiredVersion = t, gr_appliedVersion = 0,
        gr_revokedAt = None\<rparr> (bump_desired (si_nodeId i) d) = Inr d1"
    and req: "request_grant_sync jid eid (si_nodeId i) gid t
        (si_syncJobIdempotencyKey i) (si_outboxEventIdempotencyKey i) now d1 = Inr d2"
    and d': "d' = write_audit (si_actorUserId i) ''node-access-grant.scheduled'' ''NodeAccessGrant'' gid d2"
    and r: "r = \<lparr>sr_nodeAccessGrantId = gid, sr_nodeSyncJobId = jid, sr_outboxEventId = eid,
        sr_targetVersion = t\<rparr>"
    using s fresh
    by (auto simp: scheduleInTransaction_def Let_def map_sum_def split: if_splits option.splits sum.splits)
  have "find_grant gid d1 = Some \<lparr>gr_id = gid, gr_nodeId = si_nodeId i, gr_deviceId = si_deviceId i,
        gr_status = GrantPending, gr_credentialHash = hash,
        gr_derivationVersion = Some DATA_PLANE_CREDENTIAL_DERIVATION_VERSION,
        gr_expiresAt = si_expiresAt i, gr_desiredVersion = t, gr_appliedVersion = 0,
        gr_revokedAt = None\<rparr>"
    using find_created_grant [OF cg] by simp
  then have g: "map_option gr_deviceId (find_grant gid d') = Some (si_deviceId i)"
    using request_grants [OF req] d' by (simp add: find_grant_def)
  have "jobs d1 = jobs d" "outbox d1 = outbox d" using cg by (auto simp: create_grant_def split: if_splits)
  then have j: "find_job_by_key (si_syncJobIdempotencyKey i) d' =
        Some (new_job jid (si_nodeId i) (Some gid) None None t (si_syncJobIdempotencyKey i))"
    and e: "find_outbox_by_key (si_outboxEventIdempotencyKey i) d' =
        Some (new_event eid ''NodeAccessGrant'' gid (grant_payload gid jid t)
          (si_outboxEventIdempotencyKey i) now)"
    using req fresh d'
    by (auto simp: request_grant_sync_def create_job_def create_event_def find_job_by_key_def
        find_outbox_by_key_def find_append split: sum.splits if_splits)
       (simp_all add: new_job_def new_event_def)
  show ?thesis
    unfolding scheduleInTransaction_def Let_def j e
    using g r by (simp add: schedule_replay_def new_job_def new_event_def)
qed

definition sample_schedule :: schedule_input where
  "sample_schedule = \<lparr>si_nodeId = ''n1'', si_deviceId = ''d2'', si_expiresAt = 900000,
     si_syncJobIdempotencyKey = ''s-job'', si_outboxEventIdempotencyKey = ''s-event'', si_actorUserId = None\<rparr>"

definition two_device_db :: db where
  "two_device_db = sample_db\<lparr>devices := devices sample_db @
     [\<lparr>dv_id = ''d2'', dv_userId = ''u1'', dv_status = DeviceActive, dv_revokedAt = None\<rparr>]\<rparr>"

definition toy_provider :: credential_provider where
  "toy_provider = Some (\<lambda>pepper text. map (\<lambda>k. word_of_nat k) [length text..<length text + 32], replicate 32 CHR ''p'')"

definition scheduled_db :: db where
  "scheduled_db = (case scheduleInTransaction toy_provider sample_schedule ''g2'' ''j2'' ''e2'' 500 two_device_db of
     Inl _ \<Rightarrow> empty_db | Inr (_, d) \<Rightarrow> d)"

definition scheduled_result :: schedule_result where
  "scheduled_result = \<lparr>sr_nodeAccessGrantId = ''g2'', sr_nodeSyncJobId = ''j2'', sr_outboxEventId = ''e2'', sr_targetVersion = 4\<rparr>"

lemma sample_schedule_run:
  "scheduleInTransaction toy_provider sample_schedule ''g2'' ''j2'' ''e2'' 500 two_device_db = Inr (scheduled_result, scheduled_db)"
  "find_job_by_key (si_syncJobIdempotencyKey sample_schedule) two_device_db = None"
  "find_outbox_by_key (si_outboxEventIdempotencyKey sample_schedule) two_device_db = None"
  by code_simp+

theorem schedule_idempotent_witness:
  "scheduleInTransaction None sample_schedule ''g3'' ''j3'' ''e3'' 900 scheduled_db = Inr (scheduled_result, scheduled_db)"
  using schedule_idempotent [OF sample_schedule_run] .

text \<open>A node returns to service synchronised: whenever restoring a node changes anything, the node is
  healthy afterwards, was drained or disabled before, and has applied exactly its desired version; all
  activations of its routes are closed.\<close>

theorem restore_requires_sync:
  assumes "cp_ok d" "restoreHealthy nid actor d = Inr (r, d')" "d' \<noteq> d"
  shows "r = NodeHealthy
   \<and> (\<exists>n \<in> set (nodes d). nd_id n = nid \<and> nd_status n \<in> {NodeDraining, NodeDisabled}
        \<and> appliedConfigVersion n = desiredConfigVersion n \<and> n\<lparr>nd_status := NodeHealthy\<rparr> \<in> set (nodes d'))
   \<and> (\<forall>x \<in> set (routes d'). rt_nodeId x = nid \<longrightarrow> rt_activationVersion x = None)"
proof -
  obtain n x where n: "find_node nid d = Some n" "nd_status n \<in> {NodeDraining, NodeDisabled}"
    and st: "set_node_status nid NodeHealthy d = Inr x" and d': "d' = write_audit actor ''node.healthy'' ''Node'' nid x"
    and r: "r = NodeHealthy"
    using assms(2,3) by (auto simp: restoreHealthy_def change_status_def split: option.splits if_splits sum.splits)
  from st have "desiredConfigVersion n \<le> appliedConfigVersion n
     \<and> nodes x = update_rows (\<lambda>m. nd_id m = nid) (\<lambda>m. m\<lparr>nd_status := NodeHealthy\<rparr>) (nodes d)
     \<and> routes x = update_rows (\<lambda>r. rt_nodeId r = nid) (\<lambda>r. r\<lparr>rt_activationVersion := None\<rparr>) (routes d)"
    using n by (auto simp: set_node_status_def close_node_routes_def Let_def split: if_splits)
  moreover have "n \<in> set (nodes d)" "nd_id n = nid" using find_node_Some [OF n(1)] by simp_all
  moreover have "appliedConfigVersion n \<le> desiredConfigVersion n"
    using assms(1) \<open>n \<in> set (nodes d)\<close> by (auto simp: cp_ok_def cp_rows_ok_def node_ok_def)
  ultimately show ?thesis
    using n(2) r update_rows_hit [of n "nodes d" "\<lambda>m. nd_id m = nid" "\<lambda>m. m\<lparr>nd_status := NodeHealthy\<rparr>"]
    by (auto simp: d' set_update_rows split: if_splits)
qed

definition drained_db :: db where
  "drained_db = sample_db\<lparr>nodes := [sample_node\<lparr>nd_status := NodeDraining, appliedConfigVersion := 3\<rparr>]\<rparr>"

theorem restore_requires_sync_witness:
  "\<exists>d'. restoreHealthy ''n1'' None drained_db = Inr (NodeHealthy, d')
     \<and> sample_node\<lparr>appliedConfigVersion := 3, nd_status := NodeHealthy\<rparr> \<in> set (nodes d')"
proof -
  have ok: "cp_ok drained_db"
    by (simp add: cp_ok_def cp_rows_ok_def drained_db_def sample_db_def empty_db_def sample_node_def
        sample_grant_def node_ok_def grant_ok_def admits grant_row_ok_def job_target_ok_def job_row_ok_def new_job_def)
  let ?d = "case restoreHealthy ''n1'' None drained_db of Inl _ \<Rightarrow> drained_db | Inr (_, d) \<Rightarrow> d"
  have run: "restoreHealthy ''n1'' None drained_db = Inr (NodeHealthy, ?d)" by code_simp
  have "nd_status (hd (nodes ?d)) \<noteq> nd_status (hd (nodes drained_db))" by code_simp
  then have ne: "?d \<noteq> drained_db" by auto
  have "nodes drained_db = [sample_node\<lparr>nd_status := NodeDraining, appliedConfigVersion := 3\<rparr>]"
    by (simp add: drained_db_def)
  with restore_requires_sync [OF ok run ne] have "sample_node\<lparr>appliedConfigVersion := 3, nd_status := NodeHealthy\<rparr> \<in> set (nodes ?d)"
    by simp
  with run show ?thesis by blast
qed

end
