(* ===== verification/Subscription_Repair.thy ===== *)
theory Subscription_Repair
  imports Orchestration_Properties
begin

text \<open>
  What the reconciliation of a node does: the repair plan holds exactly the changes the candidate query
  looks for, and once it is carried out nothing is left to repair.
\<close>

section \<open>The repair plan\<close>

text \<open>Schema keys the plan relies on: the primary key of \<open>Device\<close> and one grant per node and device.\<close>

definition access_keys :: "db \<Rightarrow> bool" where
  "access_keys d \<longleftrightarrow> distinct (map dv_id (devices d))
     \<and> distinct (map (\<lambda>g. (gr_nodeId g, gr_deviceId g)) (grants d))"

lemma entries_map_put:
  "distinct (map fst m) \<Longrightarrow> set (map_put k v m) = insert (k, v) {p \<in> set m. fst p \<noteq> k}"
  by (induction k v m rule: map_put.induct) (auto simp: image_iff)

definition put_some :: "('x \<Rightarrow> 'k) \<Rightarrow> ('x \<Rightarrow> 'v option) \<Rightarrow> 'x \<Rightarrow> ('k \<times> 'v) list \<Rightarrow> ('k \<times> 'v) list" where
  "put_some key f x m = (case f x of None \<Rightarrow> m | Some v \<Rightarrow> map_put (key x) v m)"

lemma distinct_put_some: "distinct (map fst m) \<Longrightarrow> distinct (map fst (fold (put_some key f) xs m))"
  by (induction xs arbitrary: m) (auto simp: put_some_def split: option.splits)

lemma entries_put_some:
  assumes "distinct (map key xs)" "distinct (map fst m)"
  shows "set (fold (put_some key f) xs m) = {(key x, v) | x v. x \<in> set xs \<and> f x = Some v}
     \<union> {p \<in> set m. \<not> (\<exists>x \<in> set xs. key x = fst p \<and> f x \<noteq> None)}"
  using assms
proof (induction xs arbitrary: m)
  case (Cons x xs)
  have m: "distinct (map fst (put_some key f x m))"
    using Cons.prems(2) by (auto simp: put_some_def split: option.splits)
  have "set (put_some key f x m) = {(key x, v) | v. f x = Some v} \<union> {p \<in> set m. \<not> (key x = fst p \<and> f x \<noteq> None)}"
    using entries_map_put [OF Cons.prems(2)] by (auto simp: put_some_def split: option.splits)
  moreover have "key y \<noteq> key x" if "y \<in> set xs" for y using Cons.prems(1) that by (metis distinct.simps(2) image_eqI list.set_map list.simps(9))
  ultimately show ?case
    using Cons.IH [OF _ m] Cons.prems(1) by (auto simp: image_iff)
qed simp

text \<open>What one expected device asks for.\<close>

definition wanted_change ::
    "bool \<Rightarrow> (uuid \<times> grant) list \<Rightarrow> version list \<Rightarrow> expected_device \<Rightarrow> access_change option" where
  "wanted_change may byDevice live x = (case map_of byDevice (ed_deviceId x) of
     None \<Rightarrow> if may then Some (CreateAccess x) else None
   | Some g \<Rightarrow> if live_grant g \<and> (gr_expiresAt g \<noteq> ed_expiresAt x \<or> delivery_lost live g)
       then Some (UpdateAccess g (ed_expiresAt x)) else None)"

definition wanted_activation :: "(uuid \<times> grant) list \<Rightarrow> expected_device \<Rightarrow> grant option" where
  "wanted_activation byDevice x = (case map_of byDevice (ed_deviceId x) of
     None \<Rightarrow> None | Some g \<Rightarrow> if awaits_activation g then Some g else None)"

definition wanted_repair :: "version list \<Rightarrow> grant \<Rightarrow> access_change option" where
  "wanted_repair live g = (if gr_status g = GrantRevoked \<and> delivery_lost live g then Some (RepairRevoke g) else None)"

definition put_activation :: "(uuid \<times> grant) list \<Rightarrow> expected_device \<Rightarrow> (uuid \<times> grant) list \<Rightarrow> (uuid \<times> grant) list" where
  "put_activation byDevice x acts = (case wanted_activation byDevice x of
     None \<Rightarrow> acts | Some g \<Rightarrow> map_put (gr_id g) g acts)"

lemma plan_expected_split:
  "plan_expected may byDevice live x (c, a) =
     (put_some ed_deviceId (wanted_change may byDevice live) x c, put_activation byDevice x a)"
  by (auto simp: plan_expected_def put_some_def put_activation_def wanted_change_def wanted_activation_def
      live_grant_def awaits_activation_def Let_def split: option.splits)

lemma fold_plan_expected:
  "fold (plan_expected may byDevice live) xs (c, a) =
     (fold (put_some ed_deviceId (wanted_change may byDevice live)) xs c, fold (put_activation byDevice) xs a)"
  by (induction xs arbitrary: c a) (simp_all add: plan_expected_split)

lemma plan_revoked_put: "plan_revoked live = put_some gr_deviceId (wanted_repair live)"
  by (intro ext) (simp add: plan_revoked_def put_some_def wanted_repair_def)

lemma activation_keys:
  "fst ` set (fold (put_activation byDevice) xs a) =
     {gr_id g | x g. x \<in> set xs \<and> wanted_activation byDevice x = Some g} \<union> fst ` set a"
  by (induction xs arbitrary: a) (auto simp: put_activation_def split: option.splits)

lemma fold_map_put_distinct:
  "distinct (map key gs) \<Longrightarrow> \<forall>g \<in> set gs. key g \<notin> fst ` set m \<Longrightarrow>
     fold (\<lambda>g. map_put (key g) g) gs m = m @ map (\<lambda>g. (key g, g)) gs"
proof (induction gs arbitrary: m)
  case (Cons g gs)
  then have "\<forall>h \<in> set gs. key h \<notin> fst ` set (m @ [(key g, g)])" by (auto simp: image_iff)
  with Cons show ?case by (simp add: map_put_fresh)
qed simp

lemma by_device:
  assumes "distinct (map gr_deviceId gs)"
  shows "map_of (fold (\<lambda>g. map_put (gr_deviceId g) g) gs []) k = Some g \<longleftrightarrow> g \<in> set gs \<and> gr_deviceId g = k"
    "map_of (fold (\<lambda>g. map_put (gr_deviceId g) g) gs []) k = None \<longleftrightarrow> (\<forall>g \<in> set gs. gr_deviceId g \<noteq> k)"
proof -
  have eq: "fold (\<lambda>g. map_put (gr_deviceId g) g) gs [] = map (\<lambda>g. (gr_deviceId g, g)) gs"
    using fold_map_put_distinct [OF assms, of "[]"] by simp
  show "map_of (fold (\<lambda>g. map_put (gr_deviceId g) g) gs []) k = Some g \<longleftrightarrow> g \<in> set gs \<and> gr_deviceId g = k"
    using assms unfolding eq by (subst map_of_eq_Some_iff) (auto simp: comp_def)
  show "map_of (fold (\<lambda>g. map_put (gr_deviceId g) g) gs []) k = None \<longleftrightarrow> (\<forall>g \<in> set gs. gr_deviceId g \<noteq> k)"
    unfolding eq by (auto simp: map_of_eq_None_iff image_iff)
qed

text \<open>The changes of a plan, and the grants it activates.\<close>

definition asks_for :: "bool \<Rightarrow> expected_device list \<Rightarrow> grant list \<Rightarrow> version list \<Rightarrow> access_change \<Rightarrow> bool" where
  "asks_for may expected existing live c \<longleftrightarrow> (case c of
     CreateAccess x \<Rightarrow> may \<and> x \<in> set expected \<and> (\<forall>g \<in> set existing. gr_deviceId g \<noteq> ed_deviceId x)
   | UpdateAccess g e \<Rightarrow> g \<in> set existing \<and> live_grant g \<and> (gr_expiresAt g \<noteq> e \<or> delivery_lost live g)
       \<and> \<lparr>ed_deviceId = gr_deviceId g, ed_expiresAt = e\<rparr> \<in> set expected
   | RepairRevoke g \<Rightarrow> g \<in> set existing \<and> gr_status g = GrantRevoked \<and> delivery_lost live g)"

fun change_device :: "access_change \<Rightarrow> uuid" where
  "change_device (CreateAccess x) = ed_deviceId x"
| "change_device (UpdateAccess g _) = gr_deviceId g"
| "change_device (RepairRevoke g) = gr_deviceId g"

definition from_device :: "access_change \<Rightarrow> expected_device \<Rightarrow> bool" where
  "from_device c x \<longleftrightarrow> (case c of CreateAccess y \<Rightarrow> y = x
     | UpdateAccess g e \<Rightarrow> gr_deviceId g = ed_deviceId x \<and> e = ed_expiresAt x | RepairRevoke g \<Rightarrow> False)"

lemma wanted_change_iff:
  assumes gs: "distinct (map gr_deviceId existing)" and x: "x \<in> set expected"
    and by_dev: "\<And>k g. map_of byDevice k = Some g \<longleftrightarrow> g \<in> set existing \<and> gr_deviceId g = k"
  shows "wanted_change may byDevice live x = Some c \<longleftrightarrow> from_device c x \<and> asks_for may expected existing live c"
proof (cases "map_of byDevice (ed_deviceId x)")
  case None
  then have "gr_deviceId g \<noteq> ed_deviceId x" if "g \<in> set existing" for g using by_dev [of "ed_deviceId x" g] that by auto
  with None x show ?thesis
    by (cases c) (auto simp: wanted_change_def asks_for_def from_device_def)
next
  case (Some g)
  then have g: "g \<in> set existing" "gr_deviceId g = ed_deviceId x" using by_dev by auto
  have only: "h = g" if "h \<in> set existing" "gr_deviceId h = ed_deviceId x" for h
    using distinct_key_eq [OF gs that(1) g(1)] that(2) g(2) by simp
  let ?stale = "live_grant g \<and> (gr_expiresAt g \<noteq> ed_expiresAt x \<or> delivery_lost live g)"
  have w: "wanted_change may byDevice live x = (if ?stale then Some (UpdateAccess g (ed_expiresAt x)) else None)"
    using Some by (simp add: wanted_change_def)
  show ?thesis
  proof (cases c)
    case (UpdateAccess h e)
    have "from_device c x \<and> asks_for may expected existing live c \<longleftrightarrow> h = g \<and> e = ed_expiresAt x \<and> ?stale"
      using g only [of h] x unfolding UpdateAccess
      by (cases x) (auto simp: asks_for_def from_device_def)
    then show ?thesis unfolding w UpdateAccess by auto
  next
    case (CreateAccess y)
    then show ?thesis unfolding w using g by (auto simp: from_device_def asks_for_def)
  qed (simp add: w from_device_def)
qed

lemma asks_from_device:
  "asks_for may expected existing live c \<Longrightarrow> \<forall>g. c \<noteq> RepairRevoke g \<Longrightarrow>
     \<exists>x \<in> set expected. ed_deviceId x = change_device c \<and> from_device c x"
  by (cases c) (force simp: asks_for_def from_device_def)+

lemma from_device_id: "from_device c x \<Longrightarrow> change_device c = ed_deviceId x"
  by (cases c) (auto simp: from_device_def)

lemma wanted_repair_iff:
  "g \<in> set existing \<and> wanted_repair live g = Some c \<longleftrightarrow> c = RepairRevoke g \<and> asks_for may expected existing live c"
  by (auto simp: wanted_repair_def asks_for_def)

lemma no_repair_conflict:
  assumes "distinct (map gr_deviceId existing)" "asks_for may expected existing live c" "from_device c x"
    and g: "g \<in> set existing" "gr_deviceId g = change_device c"
  shows "wanted_repair live g = None"
proof (cases c)
  case (UpdateAccess h e)
  then have "h \<in> set existing" "live_grant h" "gr_deviceId g = gr_deviceId h"
    using assms(2) g(2) by (simp_all add: asks_for_def)
  then have "live_grant g" using distinct_key_eq [OF assms(1) g(1)] by metis
  then show ?thesis by (simp add: wanted_repair_def live_grant_def)
qed (use assms in \<open>auto simp: asks_for_def from_device_def\<close>)

lemma repair_plan_entries:
  assumes plan: "repair_plan_of may expected existing live = (changes, acts)"
    and ex: "distinct (map ed_deviceId expected)" and gs: "distinct (map gr_deviceId existing)"
  shows "distinct (map fst changes)"
    "set changes = {(change_device c, c) | c. asks_for may expected existing live c}"
    "fst ` set acts = {gr_id g | g. g \<in> set existing \<and> awaits_activation g
       \<and> (\<exists>x \<in> set expected. ed_deviceId x = gr_deviceId g)}"
proof -
  define byDevice where "byDevice = fold (\<lambda>g. map_put (gr_deviceId g) g) existing []"
  note by_dev = by_device(1) [OF gs, folded byDevice_def]
  let ?c1 = "fold (put_some ed_deviceId (wanted_change may byDevice live)) expected []"
  have changes: "changes = fold (put_some gr_deviceId (wanted_repair live)) existing ?c1"
    and acts: "acts = fold (put_activation byDevice) expected []"
    using plan by (simp_all add: repair_plan_of_def Let_def byDevice_def fold_plan_expected plan_revoked_put)
  have d1: "distinct (map fst ?c1)" by (intro distinct_put_some) simp
  show "distinct (map fst changes)" unfolding changes by (rule distinct_put_some [OF d1])
  have c1: "(k, c) \<in> set ?c1 \<longleftrightarrow> (\<exists>x \<in> set expected. ed_deviceId x = k \<and> from_device c x)
      \<and> asks_for may expected existing live c" for k c
    using wanted_change_iff [OF gs _ by_dev] unfolding entries_put_some [OF ex, of "[]", simplified] by auto
  show "set changes = {(change_device c, c) | c. asks_for may expected existing live c}" (is "_ = ?R")
  proof (rule set_eqI, clarify)
    fix k c
    have "(k, c) \<in> set changes \<longleftrightarrow> (\<exists>g \<in> set existing. gr_deviceId g = k \<and> wanted_repair live g = Some c)
        \<or> (k, c) \<in> set ?c1 \<and> \<not> (\<exists>g \<in> set existing. gr_deviceId g = k \<and> wanted_repair live g \<noteq> None)"
      unfolding changes entries_put_some [OF gs d1] by auto
    also have "\<dots> \<longleftrightarrow> k = change_device c \<and> asks_for may expected existing live c"
    proof (cases "\<exists>g. c = RepairRevoke g")
      case True
      then have "(k, c) \<notin> set ?c1" unfolding c1 by (auto simp: from_device_def)
      then show ?thesis using True by (auto simp: wanted_repair_def asks_for_def)
    next
      case False
      then have "\<not> (\<exists>g \<in> set existing. gr_deviceId g = k \<and> wanted_repair live g = Some c)"
        by (auto simp: wanted_repair_def)
      then show ?thesis
        using no_repair_conflict [OF gs] asks_from_device [of may expected existing live c] False from_device_id
        unfolding c1 by metis
    qed
    finally show "(k, c) \<in> set changes \<longleftrightarrow> (k, c) \<in> ?R" by auto
  qed
  show "fst ` set acts = {gr_id g | g. g \<in> set existing \<and> awaits_activation g
       \<and> (\<exists>x \<in> set expected. ed_deviceId x = gr_deviceId g)}"
  proof (rule set_eqI)
    fix i
    have act: "wanted_activation byDevice x = Some g \<longleftrightarrow> g \<in> set existing \<and> gr_deviceId g = ed_deviceId x \<and> awaits_activation g"
      for x g
    proof (cases "map_of byDevice (ed_deviceId x)")
      case None
      then show ?thesis using by_dev [of "ed_deviceId x" g] by (auto simp: wanted_activation_def)
    next
      case (Some h)
      then have "h \<in> set existing" "gr_deviceId h = ed_deviceId x" using by_dev by auto
      then show ?thesis
        using Some by_dev [of "ed_deviceId x" g] by (auto simp: wanted_activation_def)
    qed
    show "i \<in> fst ` set acts \<longleftrightarrow> i \<in> {gr_id g | g. g \<in> set existing \<and> awaits_activation g
       \<and> (\<exists>x \<in> set expected. ed_deviceId x = gr_deviceId g)}"
      unfolding acts activation_keys act by force
  qed
qed

section \<open>The plan of a node and the candidate query\<close>

lemma existingGrants_set: "set (existingGrants nid d) = {g \<in> set (grants d). gr_nodeId g = nid}"
  by (auto simp: existingGrants_def)

lemma distinct_filter_node:
  "distinct (map (\<lambda>g. (gr_nodeId g, gr_deviceId g)) gs) \<Longrightarrow>
     distinct (map gr_deviceId (filter (\<lambda>g. gr_nodeId g = nid) gs))"
  by (induction gs) (auto simp: image_iff)

lemma distinct_sort_key: "distinct (map key (sort_key f xs)) = distinct (map key xs)"
  by (metis distinct_count_atmost_1 mset_map mset_sort mset_eq_imp_distinct_iff)

lemma distinct_existing: "access_keys d \<Longrightarrow> distinct (map gr_deviceId (existingGrants nid d))"
  unfolding existingGrants_def distinct_sort_key by (simp add: access_keys_def distinct_filter_node)

lemma expectedDevices_set:
  "x \<in> set (expectedDevices now d) \<longleftrightarrow> (\<exists>v \<in> set (devices d). dv_status v = DeviceActive
     \<and> dv_id v = ed_deviceId x \<and> findEffectiveExpiry (dv_userId v) now d = Some (ed_expiresAt x))"
  by (cases x) (auto simp: expectedDevices_def List.map_filter_def expected_device_of_def image_iff)

lemma distinct_map_filter:
  assumes "distinct (map key xs)" "\<And>x y. x \<in> set xs \<Longrightarrow> f x = Some y \<Longrightarrow> key' y = key x"
  shows "distinct (map key' (List.map_filter f xs))"
  using assms
proof (induction xs)
  case (Cons x xs)
  then have "distinct (map key' (List.map_filter f xs))" by simp
  moreover have "key' z \<noteq> key x" if z: "z \<in> set (List.map_filter f xs)" for z
  proof -
    obtain w where "w \<in> set xs" "f w = Some z" using z by (force simp: List.map_filter_def)
    with Cons.prems show ?thesis by (metis distinct.simps(2) image_eqI list.set_intros(2) list.set_map list.simps(9))
  qed
  ultimately show ?case
    using Cons.prems(2) by (fastforce simp: List.map_filter_simps split: option.splits)
qed (simp add: List.map_filter_simps)

lemma set_map_filter: "set (List.map_filter f xs) = {y. \<exists>x \<in> set xs. f x = Some y}"
  by (force simp: List.map_filter_def)

lemma distinct_filter_map: "distinct (map key xs) \<Longrightarrow> distinct (map key (filter P xs))"
  by (simp add: distinct_map_filter distinct_map inj_on_def)

lemma distinct_expected: "access_keys d \<Longrightarrow> distinct (map ed_deviceId (expectedDevices now d))"
  unfolding expectedDevices_def
  by (rule distinct_map_filter [where key = dv_id])
    (auto simp: distinct_sort_key access_keys_def expected_device_of_def intro: distinct_filter_map)

lemma delivery_lost_iff: "delivery_lost (liveDeliveryVersions nid d) g \<longleftrightarrow> undelivered d nid g"
  by (auto simp: delivery_lost_def undelivered_def liveDeliveryVersions_def image_iff)

definition repair_plan_for :: "bool \<Rightarrow> instant \<Rightarrow> db \<Rightarrow> uuid \<Rightarrow> repair_plan" where
  "repair_plan_for may now d nid =
     repair_plan_of may (expectedDevices now d) (existingGrants nid d) (liveDeliveryVersions nid d)"

definition asked :: "bool \<Rightarrow> instant \<Rightarrow> db \<Rightarrow> uuid \<Rightarrow> access_change \<Rightarrow> bool" where
  "asked may now d nid = asks_for may (expectedDevices now d) (existingGrants nid d) (liveDeliveryVersions nid d)"

lemmas plan_for_entries = repair_plan_entries [of _ "expectedDevices now d" "existingGrants nid d"
    "liveDeliveryVersions nid d" for now d nid, folded repair_plan_for_def asked_def]

lemma asked_simps:
  "asked may now d nid (CreateAccess x) \<longleftrightarrow> may \<and> x \<in> set (expectedDevices now d)
     \<and> \<not> (\<exists>g \<in> set (grants d). on_node nid (ed_deviceId x) g)"
  "asked may now d nid (UpdateAccess g e) \<longleftrightarrow> g \<in> set (grants d) \<and> gr_nodeId g = nid \<and> live_grant g
     \<and> (gr_expiresAt g \<noteq> e \<or> undelivered d nid g)
     \<and> \<lparr>ed_deviceId = gr_deviceId g, ed_expiresAt = e\<rparr> \<in> set (expectedDevices now d)"
  "asked may now d nid (RepairRevoke g) \<longleftrightarrow> g \<in> set (grants d) \<and> gr_nodeId g = nid
     \<and> gr_status g = GrantRevoked \<and> undelivered d nid g"
  by (auto simp: asked_def asks_for_def existingGrants_set delivery_lost_iff on_node_def)

definition awaiting :: "instant \<Rightarrow> db \<Rightarrow> uuid \<Rightarrow> grant \<Rightarrow> bool" where
  "awaiting now d nid g \<longleftrightarrow> g \<in> set (grants d) \<and> gr_nodeId g = nid \<and> awaits_activation g
     \<and> (\<exists>x \<in> set (expectedDevices now d). ed_deviceId x = gr_deviceId g)"

text \<open>The candidate query asks whether the plan holds anything.\<close>

lemma needs_repair_iff:
  "node_needs_repair may now d nid \<longleftrightarrow> (\<exists>c. asked may now d nid c) \<or> (\<exists>g. awaiting now d nid g)"
proof
  assume "node_needs_repair may now d nid"
  then consider (device) v where "v \<in> set (devices d)" "entitled_device_stale may now d nid v"
    | (revoked) g where "g \<in> set (grants d)" "gr_nodeId g = nid" "gr_status g = GrantRevoked" "undelivered d nid g"
    by (auto simp: node_needs_repair_def)
  then show "(\<exists>c. asked may now d nid c) \<or> (\<exists>g. awaiting now d nid g)"
  proof cases
    case device
    then obtain e where e: "findEffectiveExpiry (dv_userId v) now d = Some e" and active: "dv_status v = DeviceActive"
      by (auto simp: entitled_device_stale_def split: option.splits)
    let ?x = "\<lparr>ed_deviceId = dv_id v, ed_expiresAt = e\<rparr>"
    have x: "?x \<in> set (expectedDevices now d)" using device(1) e active by (auto simp: expectedDevices_set)
    consider "may" "\<not> (\<exists>g \<in> set (grants d). on_node nid (dv_id v) g)"
      | g where "g \<in> set (grants d)" "on_node nid (dv_id v) g" "live_grant g"
          "gr_expiresAt g \<noteq> e \<or> awaits_activation g \<or> undelivered d nid g"
      using device(2) e by (auto simp: entitled_device_stale_def)
    then show ?thesis
    proof cases
      case 1
      then have "asked may now d nid (CreateAccess ?x)" using x by (simp add: asked_simps)
      then show ?thesis by blast
    next
      case (2 g)
      then have "asked may now d nid (UpdateAccess g e) \<or> awaiting now d nid g"
        using x by (auto simp: asked_simps on_node_def awaiting_def intro!: bexI [of _ ?x])
      then show ?thesis by blast
    qed
  next
    case revoked
    then have "asked may now d nid (RepairRevoke g)" by (simp add: asked_simps)
    then show ?thesis by blast
  qed
next
  have stale: "node_needs_repair may now d nid"
    if "x \<in> set (expectedDevices now d)" "g \<in> set (grants d)" "gr_nodeId g = nid" "gr_deviceId g = ed_deviceId x"
      "live_grant g" "gr_expiresAt g \<noteq> ed_expiresAt x \<or> awaits_activation g \<or> undelivered d nid g" for x g
    using that by (fastforce simp: expectedDevices_set node_needs_repair_def entitled_device_stale_def on_node_def)
  assume "(\<exists>c. asked may now d nid c) \<or> (\<exists>g. awaiting now d nid g)"
  then consider c where "asked may now d nid c" | g where "awaiting now d nid g" by blast
  then show "node_needs_repair may now d nid"
  proof cases
    case (1 c)
    then show ?thesis
    proof (cases c)
      case (CreateAccess x)
      with 1 show ?thesis
        by (fastforce simp: asked_simps expectedDevices_set node_needs_repair_def entitled_device_stale_def)
    next
      case (UpdateAccess g e)
      with 1 show ?thesis using stale [of "\<lparr>ed_deviceId = gr_deviceId g, ed_expiresAt = e\<rparr>" g] by (auto simp: asked_simps)
    qed (auto simp: asked_simps node_needs_repair_def)
  next
    case (2 g)
    then show ?thesis using stale by (auto simp: awaiting_def awaits_activation_def live_grant_def)
  qed
qed

lemma plan_empty_iff:
  assumes "access_keys d" "repair_plan_for may now d nid = (changes, acts)"
  shows "changes = [] \<and> acts = [] \<longleftrightarrow> \<not> node_needs_repair may now d nid"
proof -
  note entries = plan_for_entries [OF assms(2) distinct_expected [OF assms(1)] distinct_existing [OF assms(1)]]
  have "changes = [] \<longleftrightarrow> \<not> (\<exists>c. asked may now d nid c)" using entries(2) by (cases changes) auto
  moreover have "acts = [] \<longleftrightarrow> fst ` set acts = {}" by simp
  then have "acts = [] \<longleftrightarrow> \<not> (\<exists>g. awaiting now d nid g)"
    unfolding entries(3) by (auto simp: awaiting_def existingGrants_set)
  ultimately show ?thesis by (simp add: needs_repair_iff)
qed

section \<open>Carrying out the plan\<close>

definition targets :: "access_change \<Rightarrow> grant \<Rightarrow> bool" where
  "targets c h \<longleftrightarrow> map_option gr_id (change_grant c) = Some (gr_id h)"

definition change_row :: "version \<Rightarrow> access_change \<Rightarrow> grant \<Rightarrow> grant" where
  "change_row v c h = (case c of
     CreateAccess _ \<Rightarrow> h
   | UpdateAccess g e \<Rightarrow> h\<lparr>gr_status := (if awaits_activation g then GrantActive else gr_status h),
       gr_expiresAt := e, gr_desiredVersion := v\<rparr>
   | RepairRevoke g \<Rightarrow> h\<lparr>gr_desiredVersion := v\<rparr>)"

definition created_row :: "uuid \<Rightarrow> version \<Rightarrow> expected_device \<Rightarrow> grant \<Rightarrow> bool" where
  "created_row nid v x h \<longleftrightarrow> on_node nid (ed_deviceId x) h \<and> gr_status h = GrantPending
     \<and> gr_expiresAt h = ed_expiresAt x \<and> gr_desiredVersion h = v \<and> gr_appliedVersion h = 0"

text \<open>Where a row of the result comes from.\<close>

definition row_origin :: "uuid \<Rightarrow> version \<Rightarrow> access_change list \<Rightarrow> grant list \<Rightarrow> grant \<Rightarrow> bool" where
  "row_origin nid v cs gs h' \<longleftrightarrow>
     (\<exists>h \<in> set gs. (\<exists>c \<in> set cs. targets c h \<and> h' = change_row v c h) \<or> (\<forall>c \<in> set cs. \<not> targets c h) \<and> h' = h)
   \<or> (\<exists>x. CreateAccess x \<in> set cs \<and> created_row nid v x h')"

lemma change_row_keys [simp]:
  "gr_id (change_row v c h) = gr_id h" "gr_nodeId (change_row v c h) = gr_nodeId h"
  "gr_deviceId (change_row v c h) = gr_deviceId h" "gr_appliedVersion (change_row v c h) = gr_appliedVersion h"
  by (cases c; simp add: change_row_def)+

lemma targets_change_row [simp]: "targets c (change_row v c' h) = targets c h"
  by (simp add: targets_def)

definition changed_rows :: "uuid \<Rightarrow> version \<Rightarrow> access_change \<Rightarrow> grant list \<Rightarrow> grant list \<Rightarrow> bool" where
  "changed_rows nid v c gs gs1 \<longleftrightarrow> (case c of
     CreateAccess e \<Rightarrow> \<exists>h. created_row nid v e h \<and> gs1 = gs @ [h] \<and> gr_id h \<notin> gr_id ` set gs
       \<and> \<not> (\<exists>g \<in> set gs. on_node nid (ed_deviceId e) g)
   | _ \<Rightarrow> gs1 = update_rows (targets c) (change_row v c) gs)"

lemma created_rows:
  assumes "create_grant h d = Inr d'" "created_row nid v e h"
  shows "changed_rows nid v (CreateAccess e) (grants d) (grants d')"
proof -
  have "grants d' = grants d @ [h]" "gr_id h \<notin> gr_id ` set (grants d)"
    "\<not> (\<exists>g \<in> set (grants d). on_node (gr_nodeId h) (gr_deviceId h) g)"
    using assms(1) by (auto simp: create_grant_def on_node_def split: if_splits)
  with assms(2) show ?thesis by (auto simp: changed_rows_def created_row_def on_node_def)
qed

lemma change_access_step:
  assumes "change_access cr gf nid v c x = Inr (gid, y)"
  shows "changed_rows nid v c (grants x) (grants y)
    \<and> jobs y = jobs x \<and> outbox y = outbox x \<and> devices y = devices x \<and> subscriptions y = subscriptions x
    \<and> acknowledgements y = acknowledgements x \<and> nodes y = nodes x"
proof (cases c)
  case (CreateAccess e)
  from assms [unfolded CreateAccess] show ?thesis
  proof (rule create_access_run)
    fix hash
    let ?g = "\<lparr>gr_id = gf (ed_deviceId e), gr_nodeId = nid,
      gr_deviceId = ed_deviceId e, gr_status = GrantPending, gr_credentialHash = hash,
      gr_derivationVersion = Some DATA_PLANE_CREDENTIAL_DERIVATION_VERSION, gr_expiresAt = ed_expiresAt e,
      gr_desiredVersion = v, gr_appliedVersion = 0, gr_revokedAt = None\<rparr>"
    assume create: "create_grant ?g x = Inr y"
    have "y = x\<lparr>grants := grants x @ [?g]\<rparr>" using create by (auto simp: create_grant_def split: if_splits)
    then show ?thesis
      using created_rows [OF create, of nid v e] CreateAccess by (simp add: created_row_def on_node_def)
  qed
qed (use assms in \<open>auto simp: change_access_def update_rows_def targets_def change_row_def changed_rows_def\<close>)

lemma changed_rows_cases:
  assumes "changed_rows nid v c gs gs1" "h1 \<in> set gs1"
  obtains h where "h \<in> set gs" "targets c h" "h1 = change_row v c h"
  | "h1 \<in> set gs" "\<not> targets c h1"
  | e where "c = CreateAccess e" "created_row nid v e h1" "gr_id h1 \<notin> gr_id ` set gs"
  using assms by (cases c) (auto simp: changed_rows_def targets_def elim!: update_rows_cases)

lemma changed_rows_keeps:
  assumes "changed_rows nid v c gs gs1" "h \<in> set gs"
  shows "\<exists>h1 \<in> set gs1. gr_id h1 = gr_id h \<and> on_node (gr_nodeId h) (gr_deviceId h) h1"
proof (cases "\<exists>e. c = CreateAccess e")
  case False
  then have "gs1 = update_rows (targets c) (change_row v c) gs"
    using assms(1) by (cases c) (simp_all add: changed_rows_def)
  then have "(if targets c h then change_row v c h else h) \<in> set gs1"
    using assms(2) by (auto simp: set_update_rows)
  then show ?thesis by (rule rev_bexI) (simp add: on_node_def)
next
  case True
  then have "h \<in> set gs1" using assms by (auto simp: changed_rows_def)
  then show ?thesis by (auto simp: on_node_def)
qed

lemma row_origin_step:
  assumes gs1: "changed_rows nid v c gs gs1"
    and once: "\<And>c' h. c' \<in> set cs \<Longrightarrow> targets c h \<Longrightarrow> \<not> targets c' h"
    and known: "\<And>c' h. c' \<in> set cs \<Longrightarrow> targets c' h \<Longrightarrow> gr_id h \<in> gr_id ` set gs"
    and rest: "row_origin nid v cs gs1 h'"
  shows "row_origin nid v (c # cs) gs h'"
proof -
  consider (old) h1 where "h1 \<in> set gs1"
      "(\<exists>c \<in> set cs. targets c h1 \<and> h' = change_row v c h1) \<or> (\<forall>c \<in> set cs. \<not> targets c h1) \<and> h' = h1"
    | (new) x where "CreateAccess x \<in> set cs" "created_row nid v x h'"
    using rest by (auto simp: row_origin_def)
  then show ?thesis
  proof cases
    case old
    from gs1 old(1) show ?thesis
    proof (cases rule: changed_rows_cases)
      case (1 h)
      then have "h' = change_row v c h" using old(2) once by auto
      with 1 show ?thesis by (auto simp: row_origin_def)
    next
      case 2
      then show ?thesis using old(2) by (auto simp: row_origin_def)
    next
      case (3 e)
      then have "h' = h1" using old(2) known by auto
      with 3 show ?thesis by (auto simp: row_origin_def)
    qed
  qed (auto simp: row_origin_def)
qed

definition carried_out :: "uuid \<Rightarrow> version \<Rightarrow> access_change list \<Rightarrow> db \<Rightarrow> db \<Rightarrow> bool" where
  "carried_out nid v cs x y \<longleftrightarrow> (\<forall>h' \<in> set (grants y). row_origin nid v cs (grants x) h')
   \<and> (\<forall>h \<in> set (grants x). \<exists>h' \<in> set (grants y). on_node (gr_nodeId h) (gr_deviceId h) h')
   \<and> (\<forall>e. CreateAccess e \<in> set cs \<longrightarrow> (\<exists>h' \<in> set (grants y). on_node nid (ed_deviceId e) h'))
   \<and> jobs y = jobs x \<and> outbox y = outbox x \<and> devices y = devices x \<and> subscriptions y = subscriptions x
   \<and> acknowledgements y = acknowledgements x \<and> nodes y = nodes x"

lemma carried_out_step:
  assumes c: "change_access cr gf nid v c x = Inr (gid, x1)" and rest: "carried_out nid v cs x1 y"
    and once: "\<And>c' h. c' \<in> set cs \<Longrightarrow> targets c h \<Longrightarrow> \<not> targets c' h"
    and known: "\<And>c' h. c' \<in> set cs \<Longrightarrow> targets c' h \<Longrightarrow> gr_id h \<in> gr_id ` set (grants x)"
  shows "carried_out nid v (c # cs) x y"
proof -
  have rows: "changed_rows nid v c (grants x) (grants x1)"
    and same: "jobs x1 = jobs x \<and> outbox x1 = outbox x \<and> devices x1 = devices x \<and> subscriptions x1 = subscriptions x
      \<and> acknowledgements x1 = acknowledgements x \<and> nodes x1 = nodes x"
    using change_access_step [OF c] by blast+
  have persists: "\<exists>h' \<in> set (grants y). on_node n i h'" if h: "h \<in> set (grants x1)" "on_node n i h" for n i h
    using rest h by (auto simp: carried_out_def on_node_def)
  have "\<forall>h' \<in> set (grants y). row_origin nid v (c # cs) (grants x) h'"
    by (intro ballI row_origin_step [OF rows]) (use once known rest in \<open>auto simp: carried_out_def\<close>)
  moreover have "\<forall>h \<in> set (grants x). \<exists>h' \<in> set (grants y). on_node (gr_nodeId h) (gr_deviceId h) h'"
    using changed_rows_keeps [OF rows] persists by blast
  moreover have "\<exists>h' \<in> set (grants y). on_node nid (ed_deviceId e) h'" if e: "CreateAccess e \<in> set (c # cs)" for e
  proof (cases "c = CreateAccess e")
    case True
    then have "\<exists>h \<in> set (grants x1). on_node nid (ed_deviceId e) h"
      using rows by (auto simp: changed_rows_def created_row_def)
    then show ?thesis using persists by blast
  qed (use e rest in \<open>auto simp: carried_out_def\<close>)
  ultimately show ?thesis using rest same by (simp add: carried_out_def)
qed

lemma change_all_rows:
  assumes "change_all (change_access cr gf nid v) cs x = Inr (gids, y)"
    and "distinct (List.map_filter (\<lambda>c. map_option gr_id (change_grant c)) cs)"
    and "\<forall>c \<in> set cs. \<forall>h. targets c h \<longrightarrow> gr_id h \<in> gr_id ` set (grants x)"
  shows "carried_out nid v cs x y"
  using assms
proof (induction cs arbitrary: x gids)
  case Nil
  then show ?case by (auto simp: carried_out_def row_origin_def on_node_def)
next
  case (Cons c cs)
  obtain gid x1 gs where c: "change_access cr gf nid v c x = Inr (gid, x1)"
    and rest: "change_all (change_access cr gf nid v) cs x1 = Inr (gs, y)"
    using Cons.prems(1) by (auto simp: map_sum_def split: sum.splits)
  have rows: "changed_rows nid v c (grants x) (grants x1)" using change_access_step [OF c] by blast
  have "gr_id ` set (grants x) \<subseteq> gr_id ` set (grants x1)"
  proof clarify
    fix h assume "h \<in> set (grants x)"
    from changed_rows_keeps [OF rows this] show "gr_id h \<in> gr_id ` set (grants x1)" by (metis image_eqI)
  qed
  then have known: "\<forall>c \<in> set cs. \<forall>h. targets c h \<longrightarrow> gr_id h \<in> gr_id ` set (grants x1)"
    using Cons.prems(3) by auto
  have dist: "distinct (List.map_filter (\<lambda>c. map_option gr_id (change_grant c)) cs)"
    using Cons.prems(2) by (auto simp: List.map_filter_simps split: option.splits)
  have once: "\<not> targets c' h" if "c' \<in> set cs" "targets c h" for c' h
  proof
    assume "targets c' h"
    then have "gr_id h \<in> set (List.map_filter (\<lambda>c. map_option gr_id (change_grant c)) cs)"
      using that(1) by (auto simp: set_map_filter targets_def)
    with that(2) Cons.prems(2) show False by (auto simp: List.map_filter_simps targets_def split: option.splits)
  qed
  show ?case
    by (rule carried_out_step [OF c Cons.IH [OF rest dist known] once]) (use Cons.prems(3) in auto)
qed

section \<open>Nothing is left to repair\<close>

lemma changed_rows_distinct:
  assumes "changed_rows nid v c gs gs1" "distinct (map (\<lambda>g. (gr_nodeId g, gr_deviceId g)) gs)"
  shows "distinct (map (\<lambda>g. (gr_nodeId g, gr_deviceId g)) gs1)"
proof (cases "\<exists>e. c = CreateAccess e")
  case False
  then have "gs1 = update_rows (targets c) (change_row v c) gs"
    using assms(1) by (cases c) (simp_all add: changed_rows_def)
  then show ?thesis using assms(2) by (simp add: map_update_rows_key)
next
  case True
  then obtain e h where h: "created_row nid v e h" "gs1 = gs @ [h]"
    and none: "\<not> (\<exists>g \<in> set gs. on_node nid (ed_deviceId e) g)"
    using assms(1) by (auto simp: changed_rows_def)
  then have "(gr_nodeId h, gr_deviceId h) \<notin> set (map (\<lambda>g. (gr_nodeId g, gr_deviceId g)) gs)"
    by (fastforce simp: created_row_def on_node_def)
  then show ?thesis using assms(2) h(2) by simp
qed

lemma access_keys_change_all:
  assumes "change_all (change_access cr gf nid v) cs x = Inr (gids, y)" "access_keys x"
  shows "access_keys y"
  using assms
proof (rule change_all_inv)
  fix c a gid b assume a: "access_keys a" and f: "change_access cr gf nid v c a = Inr (gid, b)"
  have rows: "changed_rows nid v c (grants a) (grants b)" and "devices b = devices a"
    using change_access_step [OF f] by simp_all
  with a changed_rows_distinct [OF rows] show "access_keys b" by (simp add: access_keys_def)
qed

text \<open>The effect of a repair, as far as the candidate query can see it.\<close>

definition repaired :: "uuid \<Rightarrow> version \<Rightarrow> access_change list \<Rightarrow> (uuid \<times> grant) list \<Rightarrow> db \<Rightarrow> db \<Rightarrow> bool" where
  "repaired nid v cs acts d d' \<longleftrightarrow>
     devices d' = devices d \<and> subscriptions d' = subscriptions d
   \<and> (\<forall>g' \<in> set (grants d'). row_origin nid v cs (grants (activated acts d)) g')
   \<and> (\<forall>h \<in> set (grants d). \<exists>h' \<in> set (grants d'). on_node (gr_nodeId h) (gr_deviceId h) h')
   \<and> (\<forall>e. CreateAccess e \<in> set cs \<longrightarrow> (\<exists>h' \<in> set (grants d'). on_node nid (ed_deviceId e) h'))
   \<and> (\<forall>g. undelivered d' nid g \<longrightarrow> undelivered d nid g \<and> (cs = [] \<or> gr_desiredVersion g \<noteq> v))
   \<and> 0 < v \<and> (\<forall>g \<in> set (grants d). gr_nodeId g = nid \<longrightarrow> gr_appliedVersion g < v)"

lemma activated_rows:
  assumes ok: "cp_ok d" and acts: "fst ` set acts = {gr_id g | g. awaiting now d nid g}"
    and h: "h \<in> set (grants (activated acts d))"
  obtains g where "g \<in> set (grants d)" "h = (if awaiting now d nid g then g\<lparr>gr_status := GrantActive\<rparr> else g)"
proof -
  obtain g where g: "g \<in> set (grants d)" and
    h: "h = (if gr_id g \<in> fst ` set acts then g\<lparr>gr_status := GrantActive\<rparr> else g)"
    using h unfolding activated_def update_grants_tables set_update_rows set_map by blast
  have "gr_id g \<in> fst ` set acts \<longleftrightarrow> awaiting now d nid g"
    unfolding acts using g ok distinct_key_eq [of gr_id "grants d"]
    by (auto simp: cp_ok_def cp_rows_ok_def awaiting_def)
  with that [OF g] h show thesis by simp
qed

lemma expected_unique:
  assumes "access_keys d" "x \<in> set (expectedDevices now d)" "y \<in> set (expectedDevices now d)"
    "ed_deviceId x = ed_deviceId y"
  shows "x = y"
  using distinct_key_eq [OF distinct_expected [OF assms(1)] assms(2,3)] assms(4) .

lemma activation_keeps:
  "h = (if awaiting now d nid g then g\<lparr>gr_status := GrantActive\<rparr> else g) \<Longrightarrow>
     gr_id h = gr_id g \<and> gr_nodeId h = gr_nodeId g \<and> gr_deviceId h = gr_deviceId g
   \<and> gr_appliedVersion h = gr_appliedVersion g \<and> (live_grant h \<longleftrightarrow> live_grant g)"
  by (auto simp: live_grant_def awaiting_def awaits_activation_def)

text \<open>Every grant of the node afterwards: asked for the new version with the right expiry, or left alone
  because nothing was wrong with it.\<close>

lemma repaired_row:
  assumes ok: "cp_ok d" and keys: "access_keys d"
    and cs: "set cs = {c. asked may now d nid c}"
    and acts: "fst ` set acts = {gr_id g | g. awaiting now d nid g}"
    and rep: "repaired nid v cs acts d d'"
    and g': "g' \<in> set (grants d')" "gr_nodeId g' = nid"
  shows "(gr_desiredVersion g' = v \<and> cs \<noteq> [] \<and> gr_appliedVersion g' < v
        \<and> (live_grant g' \<longrightarrow> (\<exists>x \<in> set (expectedDevices now d). ed_deviceId x = gr_deviceId g'
             \<and> gr_expiresAt g' = ed_expiresAt x)))
      \<or> (\<exists>g \<in> set (grants d). \<not> (\<exists>c. asked may now d nid c \<and> targets c g)
          \<and> g' = (if awaiting now d nid g then g\<lparr>gr_status := GrantActive\<rparr> else g))"
proof -
  have "row_origin nid v cs (grants (activated acts d)) g'" using rep g' by (simp add: repaired_def)
  then consider (changed) h c where "h \<in> set (grants (activated acts d))" "c \<in> set cs" "targets c h" "g' = change_row v c h"
    | (kept) h where "h \<in> set (grants (activated acts d))" "\<forall>c \<in> set cs. \<not> targets c h" "g' = h"
    | (created) x where "CreateAccess x \<in> set cs" "created_row nid v x g'"
    unfolding row_origin_def by blast
  then show ?thesis
  proof cases
    case changed
    obtain g where g: "g \<in> set (grants d)" and h: "h = (if awaiting now d nid g then g\<lparr>gr_status := GrantActive\<rparr> else g)"
      using activated_rows [OF ok acts changed(1)] by blast
    note same = activation_keeps [OF h]
    have small: "gr_appliedVersion g' < v"
      using rep g g'(2) changed(4) same by (simp add: repaired_def)
    have c: "asked may now d nid c" using changed(2) cs by simp
    have only: "k = g" if "k \<in> set (grants d)" "gr_id k = gr_id h" for k
      using distinct_key_eq [of gr_id "grants d" k g] ok g that same by (simp add: cp_ok_def cp_rows_ok_def)
    show ?thesis
    proof (cases c)
      case (UpdateAccess k e)
      then have "k = g" using only c changed(3) by (auto simp: asked_simps targets_def)
      then have "\<lparr>ed_deviceId = gr_deviceId g', ed_expiresAt = gr_expiresAt g'\<rparr> \<in> set (expectedDevices now d)"
        using c changed(4) same UpdateAccess by (simp add: asked_simps change_row_def)
      moreover have "gr_desiredVersion g' = v" using changed(4) UpdateAccess by (simp add: change_row_def)
      ultimately show ?thesis using small changed(2) by force
    next
      case (RepairRevoke k)
      then have "k = g" using only c changed(3) by (auto simp: asked_simps targets_def)
      then have "\<not> live_grant g'"
        using c changed(4) same RepairRevoke by (simp add: asked_simps change_row_def live_grant_def)
      then show ?thesis using small changed(2,4) RepairRevoke by (auto simp: change_row_def)
    qed (use changed(3) in \<open>simp add: targets_def\<close>)
  next
    case kept
    obtain g where g: "g \<in> set (grants d)" and h: "h = (if awaiting now d nid g then g\<lparr>gr_status := GrantActive\<rparr> else g)"
      using activated_rows [OF ok acts kept(1)] by blast
    then have "\<not> (\<exists>c. asked may now d nid c \<and> targets c g)"
      using kept(2) activation_keeps [OF h] unfolding cs by (simp add: targets_def)
    then show ?thesis using g h kept(3) by blast
  next
    case created
    then have "x \<in> set (expectedDevices now d)" using cs by (simp add: asked_simps)
    then show ?thesis using created rep by (auto simp: created_row_def on_node_def repaired_def)
  qed
qed

lemma repaired_done:
  assumes ok: "cp_ok d" and keys: "access_keys d"
    and cs: "set cs = {c. asked may now d nid c}"
    and acts: "fst ` set acts = {gr_id g | g. awaiting now d nid g}"
    and rep: "repaired nid v cs acts d d'"
  shows "\<not> node_needs_repair may now d' nid"
proof
  have same: "expectedDevices now d' = expectedDevices now d"
  proof -
    have "expected_device_of now d' = expected_device_of now d"
      using rep by (intro ext) (simp add: repaired_def expected_device_of_def findEffectiveExpiry_def)
    then show ?thesis using rep by (simp add: repaired_def expectedDevices_def)
  qed
  note exp = expected_unique [OF keys, of _ now]
  note row = repaired_row [OF ok keys cs acts rep]
  assume "node_needs_repair may now d' nid"
  then consider (create) x where "asked may now d' nid (CreateAccess x)"
    | (update) g e where "asked may now d' nid (UpdateAccess g e)"
    | (revoke) g where "asked may now d' nid (RepairRevoke g)" | (activate) g where "awaiting now d' nid g"
    unfolding needs_repair_iff by (metis access_change.exhaust)
  then show False
  proof cases
    case create
    then have x: "may" "x \<in> set (expectedDevices now d)"
      and none: "\<not> (\<exists>g \<in> set (grants d'). on_node nid (ed_deviceId x) g)" by (simp_all add: asked_simps same)
    have "\<not> (\<exists>g \<in> set (grants d). on_node nid (ed_deviceId x) g)"
      using none rep by (fastforce simp: repaired_def on_node_def)
    then have "CreateAccess x \<in> set cs" unfolding cs using x by (simp add: asked_simps)
    then show False using none rep by (auto simp: repaired_def)
  next
    case update
    then have g: "g \<in> set (grants d')" "gr_nodeId g = nid" "live_grant g"
      and x: "\<lparr>ed_deviceId = gr_deviceId g, ed_expiresAt = e\<rparr> \<in> set (expectedDevices now d)"
      and stale: "gr_expiresAt g \<noteq> e \<or> undelivered d nid g \<and> (cs = [] \<or> gr_desiredVersion g \<noteq> v)"
      using rep by (auto simp: asked_simps same repaired_def)
    from row [OF g(1,2)] show False
    proof (elim disjE conjE bexE)
      assume "gr_desiredVersion g = v" "cs \<noteq> []" and
        "live_grant g \<longrightarrow> (\<exists>x \<in> set (expectedDevices now d). ed_deviceId x = gr_deviceId g
             \<and> gr_expiresAt g = ed_expiresAt x)"
      with g(3) stale exp [OF x] show False by fastforce
    next
      fix h assume h: "h \<in> set (grants d)" "\<not> (\<exists>c. asked may now d nid c \<and> targets c h)"
        "g = (if awaiting now d nid h then h\<lparr>gr_status := GrantActive\<rparr> else h)"
      then have "asked may now d nid (UpdateAccess h e)"
        using g x stale
        by (auto simp: asked_simps undelivered_def live_grant_def awaiting_def awaits_activation_def split: if_splits)
      with h(2) show False by (auto simp: targets_def)
    qed
  next
    case revoke
    then have g: "g \<in> set (grants d')" "gr_nodeId g = nid" "gr_status g = GrantRevoked"
      and stale: "undelivered d nid g \<and> (cs = [] \<or> gr_desiredVersion g \<noteq> v)"
      using rep by (auto simp: asked_simps same repaired_def)
    from row [OF g(1,2)] stale obtain h where h: "h \<in> set (grants d)" "\<not> (\<exists>c. asked may now d nid c \<and> targets c h)"
        "g = (if awaiting now d nid h then h\<lparr>gr_status := GrantActive\<rparr> else h)" by blast
    then have "asked may now d nid (RepairRevoke h)"
      using g stale by (auto simp: asked_simps split: if_splits)
    with h(2) show False by (auto simp: targets_def)
  next
    case activate
    then have g: "g \<in> set (grants d')" "gr_nodeId g = nid" "awaits_activation g"
      and x: "\<exists>x \<in> set (expectedDevices now d). ed_deviceId x = gr_deviceId g"
      by (auto simp: awaiting_def same)
    from row [OF g(1,2)] g(3) obtain h where h: "h \<in> set (grants d)"
        "g = (if awaiting now d nid h then h\<lparr>gr_status := GrantActive\<rparr> else h)"
      by (auto simp: awaits_activation_def)
    show False
    proof (cases "awaiting now d nid h")
      case False
      with h g x have "awaiting now d nid h" by (auto simp: awaiting_def)
      with False show False by blast
    qed (use h g in \<open>auto simp: awaits_activation_def\<close>)
  qed
qed

lemma distinct_map_filter_inj:
  assumes "distinct (map key xs)"
    and "\<And>x y i. x \<in> set xs \<Longrightarrow> y \<in> set xs \<Longrightarrow> f x = Some i \<Longrightarrow> f y = Some i \<Longrightarrow> key x = key y"
  shows "distinct (List.map_filter f xs)"
  using assms
proof (induction xs)
  case (Cons x xs)
  have "distinct (List.map_filter f xs)"
    by (rule Cons.IH) (use Cons.prems in \<open>auto\<close>)
  moreover have "f x \<noteq> Some i" if i: "i \<in> set (List.map_filter f xs)" for i
  proof
    assume x: "f x = Some i"
    obtain y where y: "y \<in> set xs" "f y = Some i" using i by (auto simp: set_map_filter)
    have "key x = key y" by (rule Cons.prems(2) [OF _ _ x y(2)]) (use y(1) in simp_all)
    with y(1) Cons.prems(1) show False by auto
  qed
  ultimately show ?case by (auto simp: List.map_filter_simps split: option.splits)
qed (simp add: List.map_filter_simps)

lemma plan_targets:
  assumes ok: "cp_ok d" and changes: "set changes = {(change_device c, c) | c. asked may now d nid c}"
    and dist: "distinct (map fst changes)"
  shows "distinct (List.map_filter (\<lambda>c. map_option gr_id (change_grant c)) (map snd changes))"
    "\<forall>c \<in> set (map snd changes). \<forall>h. targets c h \<longrightarrow> gr_id h \<in> gr_id ` set (grants d)"
proof -
  have "map change_device (map snd changes) = map fst changes" using changes by auto
  then have keys: "distinct (map change_device (map snd changes))" using dist by (simp only:)
  have grant: "g \<in> set (grants d) \<and> gr_deviceId g = change_device c" if c: "c \<in> set (map snd changes)" "change_grant c = Some g" for c g
  proof -
    have "asked may now d nid c" using c(1) unfolding set_map changes by auto
    with c(2) show ?thesis by (cases c) (auto simp: asked_simps)
  qed
  show "distinct (List.map_filter (\<lambda>c. map_option gr_id (change_grant c)) (map snd changes))"
  proof (rule distinct_map_filter_inj [OF keys])
    fix c c' i assume c: "c \<in> set (map snd changes)" "c' \<in> set (map snd changes)"
      and i: "map_option gr_id (change_grant c) = Some i" "map_option gr_id (change_grant c') = Some i"
    then obtain g g' where g: "change_grant c = Some g" "change_grant c' = Some g'" "gr_id g = gr_id g'" by auto
    with grant [OF c(1)] grant [OF c(2)] have "g = g'"
      using ok distinct_key_eq [of gr_id "grants d" g g'] by (simp add: cp_ok_def cp_rows_ok_def)
    then show "change_device c = change_device c'" using grant [OF c(1) g(1)] grant [OF c(2) g(2)] by simp
  qed
  show "\<forall>c \<in> set (map snd changes). \<forall>h. targets c h \<longrightarrow> gr_id h \<in> gr_id ` set (grants d)"
  proof (intro ballI allI impI)
    fix c h assume c: "c \<in> set (map snd changes)" "targets c h"
    then obtain g where "change_grant c = Some g" "gr_id g = gr_id h" by (auto simp: targets_def)
    with grant [OF c(1)] show "gr_id h \<in> gr_id ` set (grants d)" by (metis image_eqI)
  qed
qed

lemma plan_of_node:
  assumes "access_keys d" "repair_plan_for may now d nid = (changes, acts)"
  shows "distinct (map fst changes)" "set changes = {(change_device c, c) | c. asked may now d nid c}"
    "set (map snd changes) = {c. asked may now d nid c}"
    "fst ` set acts = {gr_id g | g. awaiting now d nid g}"
proof -
  note entries = plan_for_entries [OF assms(2) distinct_expected [OF assms(1)] distinct_existing [OF assms(1)]]
  show "distinct (map fst changes)" "set changes = {(change_device c, c) | c. asked may now d nid c}"
    by (rule entries)+
  show "set (map snd changes) = {c. asked may now d nid c}" unfolding set_map entries(2) by force
  show "fst ` set acts = {gr_id g | g. awaiting now d nid g}"
    unfolding entries(3) by (auto simp: awaiting_def existingGrants_set)
qed

lemma activated_tables [simp]:
  "nodes (activated acts d) = nodes d" "jobs (activated acts d) = jobs d" "outbox (activated acts d) = outbox d"
  "devices (activated acts d) = devices d" "subscriptions (activated acts d) = subscriptions d"
  "acknowledgements (activated acts d) = acknowledgements d"
  by (simp_all add: activated_def)

lemma activated_access_keys: "access_keys d \<Longrightarrow> access_keys (activated acts d)"
  by (simp add: access_keys_def activated_def map_update_rows_key)

lemma activated_keeps: "h \<in> set (grants d) \<Longrightarrow> \<exists>h' \<in> set (grants (activated acts d)). gr_id h' = gr_id h
    \<and> on_node (gr_nodeId h) (gr_deviceId h) h'"
  by (rule bexI [of _ "if gr_id h \<in> set (map fst acts) then h\<lparr>gr_status := GrantActive\<rparr> else h"])
    (auto simp: activated_def set_update_rows on_node_def)

lemma next_version:
  assumes ok: "cp_ok d" and inc: "incrementNodeVersion nid (activated acts d) = (v, d2)"
    and n: "n \<in> set (nodes d)" "nd_id n = nid" and k: "kept d (activated acts d)"
  shows "0 < v" "\<forall>g \<in> set (grants d). gr_nodeId g = nid \<longrightarrow> gr_appliedVersion g < v"
proof -
  let ?m = "n\<lparr>desiredConfigVersion := desiredConfigVersion n + 1\<rparr>"
  have "nodes d2 = update_rows (\<lambda>n. nd_id n = nid) (\<lambda>n. n\<lparr>desiredConfigVersion := desiredConfigVersion n + 1\<rparr>) (nodes d)"
    using inc by (auto simp: incrementNodeVersion_def nodes_bump)
  then have "?m \<in> set (nodes d2)" using update_rows_hit [OF n(1), of "\<lambda>n. nd_id n = nid"] n(2) by simp
  then have v: "v = desiredConfigVersion n + 1" using incremented_fits [OF k inc, of ?m] n(2) by simp
  have "node_ok n" using ok n(1) by (simp add: cp_ok_def cp_rows_ok_def)
  then show "0 < v" unfolding v node_ok_def by simp
  show "\<forall>g \<in> set (grants d). gr_nodeId g = nid \<longrightarrow> gr_appliedVersion g < v"
    using admitting_node(1) [OF ok n(1)] n(2) unfolding v by (fastforce simp: admits_grant_def grant_row_ok_def)
qed

text \<open>A queued command is a live delivery of its version.\<close>

lemma delivery_after_request:
  assumes "request_grant_sync jid eid nid gid v jk ek now x = Inr y"
    and same: "jobs x = jobs d" "outbox x = outbox d" "acknowledgements x = acknowledgements d"
    and u: "undelivered y nid g"
  shows "undelivered d nid g \<and> gr_desiredVersion g \<noteq> v"
proof -
  let ?j = "new_job jid nid (Some gid) None None v jk"
  have y: "jobs y = jobs d @ [?j]" "outbox y = outbox d @ [new_event eid ''NodeAccessGrant'' gid (grant_payload gid jid v) ek now]"
    "acknowledgements y = acknowledgements d"
    using assms(1) same by (auto simp: request_grant_sync_def create_job_def create_event_def split: sum.splits if_splits)
  have "delivery_live y j" if "delivery_live d j" for j
    using that unfolding delivery_live_def y by auto
  moreover have "delivery_live y ?j"
    by (simp add: delivery_live_def y new_job_def new_event_def payload_job_id_def grant_payload_def)
  ultimately show ?thesis
    using u by (auto simp: undelivered_def y new_job_def)
qed

lemma request_access:
  assumes "request_grant_sync jid eid nid gid v jk ek now x = Inr y"
  shows "grants y = grants x" "nodes y = nodes x" "devices y = devices x" "subscriptions y = subscriptions x"
  using assms by (auto simp: request_grant_sync_def create_job_def create_event_def split: sum.splits if_splits)

lemma repair_state_audit [simp]:
  "repaired nid v cs acts d (write_audit a b c e x) = repaired nid v cs acts d x"
  "access_keys (write_audit a b c e x) = access_keys x"
  "subscriptions (write_audit a b c e x) = subscriptions x"
  by (simp_all add: repaired_def access_keys_def undelivered_def delivery_live_def write_audit_def)

lemma reconcile_repairs:
  assumes ok: "cp_ok d" and keys: "access_keys d"
    and run: "reconcileOneNode cr nid inc gf jid eid now d = Inr (True, d')"
  obtains n cs acts v where "n \<in> set (nodes d)" "nd_id n = nid" "nd_status n \<in> {NodeHealthy, NodeDraining, NodeDisabled}"
    "set cs = {c. asked (nd_status n = NodeHealthy \<or> inc) now d nid c}"
    "fst ` set acts = {gr_id g | g. awaiting now d nid g}" "repaired nid v cs acts d d'" "access_keys d'"
    "\<And>m. m \<in> set (nodes d') \<Longrightarrow> nd_id m = nid \<Longrightarrow> nd_status m = nd_status n"
  using run
proof (cases rule: reconcile_run)
  case (2 n changes acts)
  let ?may = "nd_status n = NodeHealthy \<or> inc"
  have plan: "repair_plan_for ?may now d nid = (changes, acts)" using 2(5) by (simp add: repair_plan_for_def)
  note entries = plan_of_node [OF keys plan]
  have next_v: "gr_appliedVersion g < desiredConfigVersion n + 1" if "g \<in> set (grants d)" "gr_nodeId g = nid" for g
    using admitting_node(1) [OF ok 2(2) that(1)] that(2) 2(3) by (simp add: admits_grant_def grant_row_ok_def)
  have "0 < desiredConfigVersion n + 1" using ok 2(2) by (auto simp: cp_ok_def cp_rows_ok_def node_ok_def)
  moreover have "undelivered (activated acts d) nid g = undelivered d nid g" for g
    by (simp add: undelivered_def delivery_live_def)
  moreover have "\<exists>h' \<in> set (grants (activated acts d)). on_node (gr_nodeId h) (gr_deviceId h) h'"
    if "h \<in> set (grants d)" for h using activated_keeps [OF that, of acts] by blast
  ultimately have rep: "repaired nid (desiredConfigVersion n + 1) [] acts d d'"
    using next_v unfolding 2(8) repair_state_audit by (simp add: repaired_def row_origin_def)
  have "nd_status m = nd_status n" if "m \<in> set (nodes d')" "nd_id m = nid" for m
    using node_unique [OF ok _ 2(2), of m] that 2(3,8) by simp
  moreover have "access_keys d'" using activated_access_keys [OF keys] 2(8) by simp
  moreover have "set [] = {c. asked ?may now d nid c}" using entries(3) 2(6) by simp
  ultimately show thesis by (intro that [OF 2(2-4) _ entries(4) rep])
next
  case (3 n changes acts v d2 gids d3 d4)
  let ?may = "nd_status n = NodeHealthy \<or> inc" and ?cs = "map snd changes" and ?d1 = "activated acts d"
  have plan: "repair_plan_for ?may now d nid = (changes, acts)" using 3(5) by (simp add: repair_plan_for_def)
  note entries = plan_of_node [OF keys plan]
  have origin: "plan_from (existingGrants nid d) (changes, acts)"
    using plan_from_repair [of "existingGrants nid d"] 3(5) by metis
  have k1: "kept d ?d1" using kept_activated [OF ok origin] by (auto simp: existingGrants_def)
  note d2 = kept_increment [OF k1 3(7)]
  note targets = plan_targets [OF ok entries(2,1)]
  have "map gr_id (grants d2) = map gr_id (grants d)"
    by (simp add: d2(2) activated_def map_update_rows_key)
  then have ids: "gr_id ` set (grants d2) = gr_id ` set (grants d)" by (metis list.set_map)
  have made: "carried_out nid v ?cs d2 d3"
    by (rule change_all_rows [OF 3(8) targets(1)]) (use targets(2) ids in simp)
  note d4 = request_access [OF 3(9)]
  have "undelivered d nid g \<and> gr_desiredVersion g \<noteq> v" if "undelivered d4 nid g" for g
    by (rule delivery_after_request [OF 3(9) _ _ _ that]) (use made d2 in \<open>simp_all add: carried_out_def\<close>)
  moreover have "\<exists>h' \<in> set (grants d4). on_node (gr_nodeId h) (gr_deviceId h) h'" if "h \<in> set (grants d)" for h
  proof -
    obtain h1 where "h1 \<in> set (grants d2)" "on_node (gr_nodeId h) (gr_deviceId h) h1"
      using activated_keeps [OF \<open>h \<in> set (grants d)\<close>, of acts] d2(2) by metis
    then show ?thesis using made unfolding carried_out_def d4(1) on_node_def by metis
  qed
  moreover have "\<forall>g' \<in> set (grants d4). row_origin nid v ?cs (grants ?d1) g'"
    "\<forall>e. CreateAccess e \<in> set ?cs \<longrightarrow> (\<exists>h' \<in> set (grants d4). on_node nid (ed_deviceId e) h')"
    "devices d4 = devices d" "subscriptions d4 = subscriptions d"
    using made d2 d4 by (simp_all add: carried_out_def)
  ultimately have "repaired nid v ?cs acts d d4"
    using next_version [OF ok 3(7,2,3) k1] unfolding repaired_def by blast
  then have rep: "repaired nid v ?cs acts d d'" by (simp add: 3(10))
  have "access_keys d3"
    using access_keys_change_all [OF 3(8)] activated_access_keys [OF keys] d2(2,4) by (simp add: access_keys_def)
  then have keys': "access_keys d'" using d4 by (simp add: access_keys_def 3(10))
  have status: "nd_status m = nd_status n" if m: "m \<in> set (nodes d')" "nd_id m = nid" for m
  proof -
    have "nodes d4 = update_rows (\<lambda>n. nd_id n = nid) (\<lambda>n. n\<lparr>desiredConfigVersion := desiredConfigVersion n + 1\<rparr>) (nodes d)"
      using d4(2) made 3(7) by (auto simp: carried_out_def incrementNodeVersion_def nodes_bump)
    moreover have "m \<in> set (nodes d4)" using m(1) by (simp only: 3(10) audit_tables)
    ultimately obtain k where k: "k \<in> set (nodes d)" "nd_id k = nd_id m" "nd_status m = nd_status k"
      by (auto simp: set_update_rows split: if_splits)
    have "k = n" by (rule node_unique [OF ok k(1) 3(2)]) (simp add: k(2) m(2) 3(3))
    with k(3) show ?thesis by simp
  qed
  show thesis by (rule that [OF 3(2-4) entries(3,4) rep keys' status])
next
  case 1
  from 1(2) show thesis by simp
qed

lemma node_of_find:
  assumes "find (\<lambda>n. nd_id n = nid \<and> nd_status n \<in> {NodeHealthy, NodeDraining, NodeDisabled}) (nodes d) = Some n"
  shows "n \<in> set (nodes d)" "nd_id n = nid" "nd_status n \<in> {NodeHealthy, NodeDraining, NodeDisabled}"
  using find_member [OF assms] by blast+

lemma nothing_to_reconcile:
  assumes keys: "access_keys d"
    and none: "\<And>n. n \<in> set (nodes d) \<Longrightarrow> nd_id n = nid \<Longrightarrow> \<not> node_needs_repair (nd_status n = NodeHealthy \<or> inc) now d nid"
  shows "reconcileOneNode cr nid inc gf jid eid now d = Inr (False, d)"
proof (cases "find (\<lambda>n. nd_id n = nid \<and> nd_status n \<in> {NodeHealthy, NodeDraining, NodeDisabled}) (nodes d)")
  case None
  then show ?thesis by (simp add: reconcileOneNode_def)
next
  case (Some n)
  note n = node_of_find [OF Some]
  obtain changes acts where plan: "repair_plan_for (nd_status n = NodeHealthy \<or> inc) now d nid = (changes, acts)"
    by fastforce
  then have "changes = []" "acts = []" using plan_empty_iff [OF keys plan] none [OF n(1,2)] by simp_all
  then show ?thesis using Some plan by (simp add: reconcileOneNode_def repair_plan_for_def)
qed

text \<open>C16. The candidate query and the transaction agree: in a database with the schema's keys, a
  reconciliation of a node that completes reports a change exactly if the query, evaluated at the same
  instant, selects the node (for \<open>reconcileNodeBeforeHealthy\<close>: the query that also looks for missing
  grants).  No repair is overlooked by the batches and none is attempted in vain.\<close>

theorem candidate_query_exact:
  assumes "cp_ok d" "access_keys d" "n \<in> set (nodes d)"
    and "reconcileOneNode cr (nd_id n) inc gf jid eid now d = Inr (changed, d')"
  shows "changed \<longleftrightarrow> nd_status n \<in> {NodeHealthy, NodeDraining, NodeDisabled}
    \<and> node_needs_repair (nd_status n = NodeHealthy \<or> inc) now d (nd_id n)"
proof -
  let ?may = "nd_status n = NodeHealthy \<or> inc"
  have only: "m = n" if "m \<in> set (nodes d)" "nd_id m = nd_id n" for m
    using node_unique [OF assms(1) that(1) assms(3) that(2)] .
  show ?thesis
  proof (cases "nd_status n \<in> {NodeHealthy, NodeDraining, NodeDisabled}")
    case False
    then have "find (\<lambda>m. nd_id m = nd_id n \<and> nd_status m \<in> {NodeHealthy, NodeDraining, NodeDisabled}) (nodes d) = None"
      using only by (auto simp: find_None_iff)
    then show ?thesis using assms(4) False by (simp add: reconcileOneNode_def)
  next
    case True
    obtain changes acts where plan: "repair_plan_for ?may now d (nd_id n) = (changes, acts)" by fastforce
    have "changed \<longleftrightarrow> \<not> (changes = [] \<and> acts = [])"
      using assms(4)
    proof (cases rule: reconcile_run)
      case 1
      obtain m where m: "find (\<lambda>m. nd_id m = nd_id n \<and> nd_status m \<in> {NodeHealthy, NodeDraining, NodeDisabled}) (nodes d) = Some m"
        using True assms(3) by (cases "find (\<lambda>m. nd_id m = nd_id n \<and> nd_status m \<in> {NodeHealthy, NodeDraining, NodeDisabled}) (nodes d)")
          (auto simp: find_None_iff)
      then have "m = n" using node_of_find [OF m] only by simp
      then show ?thesis using 1(2) 1(3) [OF m] plan by (simp add: repair_plan_for_def)
    next
      case (2 m)
      then have "m = n" using only by simp
      with 2 plan show ?thesis by (simp add: repair_plan_for_def)
    next
      case (3 m)
      then have "m = n" using only by simp
      with 3 plan show ?thesis by (simp add: repair_plan_for_def)
    qed
    then show ?thesis using True plan_empty_iff [OF assms(2) plan] by simp
  qed
qed

text \<open>C15. Reconciliation converges in one transaction: after a reconciliation of a node that completes,
  another one at the same instant, with whatever credentials and identifiers, finds nothing to do and
  leaves the database as it is.  So every entitled device has its grant with the expiry of its
  entitlement, nothing confirmed is left pending, and every version the node has not applied is on its
  way to it.\<close>

theorem reconciliation_converges:
  assumes "cp_ok d" "access_keys d" "reconcileOneNode cr nid inc gf jid eid now d = Inr (changed, d')"
  shows "reconcileOneNode cr' nid inc gf' jid' eid' now d' = Inr (False, d')"
proof (cases changed)
  case True
  with assms(3) have run: "reconcileOneNode cr nid inc gf jid eid now d = Inr (True, d')" by simp
  show ?thesis
  proof (rule reconcile_repairs [OF assms(1,2) run])
    fix n cs acts v
    let ?may = "nd_status n = NodeHealthy \<or> inc"
    assume cs: "set cs = {c. asked ?may now d nid c}" and acts: "fst ` set acts = {gr_id g | g. awaiting now d nid g}"
      and rep: "repaired nid v cs acts d d'" and keys: "access_keys d'"
      and st: "\<And>m. m \<in> set (nodes d') \<Longrightarrow> nd_id m = nid \<Longrightarrow> nd_status m = nd_status n"
    show ?thesis
      by (rule nothing_to_reconcile [OF keys]) (use repaired_done [OF assms(1,2) cs acts rep] st in simp)
  qed
next
  case False
  then have d': "d' = d" using assms(3) by (auto elim: reconcile_run)
  then show ?thesis
  proof (cases "find (\<lambda>n. nd_id n = nid \<and> nd_status n \<in> {NodeHealthy, NodeDraining, NodeDisabled}) (nodes d)")
    case (Some n)
    have "repair_plan_of (nd_status n = NodeHealthy \<or> inc) (expectedDevices now d) (existingGrants nid d)
        (liveDeliveryVersions nid d) = ([], [])"
      using assms(3) False Some by (auto elim: reconcile_run)
    then show ?thesis using Some d' by (simp add: reconcileOneNode_def)
  qed (simp add: reconcileOneNode_def)
qed

section \<open>A run\<close>

text \<open>The second device of the sample user has no grant on the node yet.\<close>

definition toy_credentials :: "(string \<Rightarrow> string \<Rightarrow> byte list) \<times> string" where
  "toy_credentials = (toy_digest, replicate 32 CHR ''p'')"

definition repaired_db :: db where
  "repaired_db = (case reconcileOneNode toy_credentials ''n1'' False (\<lambda>_. ''g2'') ''j2'' ''e2'' 500 two_device_db of
     Inl _ \<Rightarrow> empty_db | Inr (_, d) \<Rightarrow> d)"

lemma sample_repair_run:
  "reconcileOneNode toy_credentials ''n1'' False (\<lambda>_. ''g2'') ''j2'' ''e2'' 500 two_device_db = Inr (True, repaired_db)"
  by code_simp

lemma two_device_ok: "cp_ok two_device_db" "access_keys two_device_db"
  using sample_cp_inv by (simp_all add: cp_inv_def cp_ok_def two_device_db_def access_keys_def sample_db_def empty_db_def)

lemma sample_node_in: "sample_node \<in> set (nodes two_device_db)" "nd_id sample_node = ''n1''"
  by (simp_all add: two_device_db_def sample_db_def empty_db_def sample_node_def)

theorem candidate_query_exact_witness:
  "reconciliation_candidate 500 two_device_db sample_node"
  using candidate_query_exact [OF two_device_ok sample_node_in(1), of toy_credentials False "\<lambda>_. ''g2''" "''j2''" "''e2''" 500 True]
    sample_repair_run by (simp add: sample_node_in(2) reconciliation_candidate_def)

theorem reconciliation_converges_witness:
  "length (grants repaired_db) = 2
   \<and> reconcileOneNode toy_credentials ''n1'' False (\<lambda>_. ''g3'') ''j3'' ''e3'' 500 repaired_db = Inr (False, repaired_db)"
  using reconciliation_converges [OF two_device_ok sample_repair_run] by (intro conjI) (code_simp, blast)

end
