(* ===== verification/Subscription_Properties.thy ===== *)
theory Subscription_Properties
  imports Subscription_Repair
begin

text \<open>
  What the subscription access store promises: a cancellation revokes all access of the user, an expiry
  is scheduled once and shortens the access it ends, and the keyset batches visit every candidate.
\<close>

section \<open>Cancellation\<close>

definition revoked_now :: "instant \<Rightarrow> grant \<Rightarrow> grant \<Rightarrow> bool" where
  "revoked_now now g h \<longleftrightarrow> gr_id h = gr_id g \<and> gr_nodeId h = gr_nodeId g \<and> gr_deviceId h = gr_deviceId g
     \<and> gr_status h = GrantRevoked \<and> gr_revokedAt h = Some now"

text \<open>A command for a version of a node: a pending job and a pending event that names it.\<close>

definition command_for :: "uuid \<Rightarrow> version \<Rightarrow> db \<Rightarrow> bool" where
  "command_for nid v d \<longleftrightarrow> (\<exists>j \<in> set (jobs d). jb_nodeId j = nid \<and> jb_targetVersion j = v \<and> jb_status j = JobPending
     \<and> (\<exists>e \<in> set (outbox d). ob_topic e = ''node-sync.requested'' \<and> ob_status e = OutboxPending
          \<and> payload_job_id (ob_payload e) = Some (jb_id j)))"

lemma command_for_request:
  assumes "request_grant_sync jid eid nid gid v jk ek now x = Inr y"
  shows "command_for nid v y" "command_for n w x \<Longrightarrow> command_for n w y"
proof -
  let ?j = "new_job jid nid (Some gid) None None v jk"
  let ?e = "new_event eid ''NodeAccessGrant'' gid (grant_payload gid jid v) ek now"
  have y: "jobs y = jobs x @ [?j]" "outbox y = outbox x @ [?e]"
    using assms by (auto simp: request_grant_sync_def create_job_def create_event_def split: sum.splits if_splits)
  have "ob_topic ?e = ''node-sync.requested'' \<and> ob_status ?e = OutboxPending \<and> payload_job_id (ob_payload ?e) = Some (jb_id ?j)"
    by (simp add: new_event_def payload_job_id_def grant_payload_def new_job_def)
  moreover have "jb_nodeId ?j = nid \<and> jb_targetVersion ?j = v \<and> jb_status ?j = JobPending" by (simp add: new_job_def)
  ultimately show "command_for nid v y" unfolding command_for_def y by auto
  show "command_for n w x \<Longrightarrow> command_for n w y" unfolding command_for_def y by auto
qed

text \<open>The statements of one node of the loop.\<close>

lemma cancel_node_run:
  assumes f: "cancel_on_node sid jf ef now gs n x = Inr y" and some: "filter (\<lambda>g. gr_nodeId g = nd_id n) gs \<noteq> []"
  obtains v where "grants y = update_rows (\<lambda>g. gr_id g \<in> gr_id ` {g \<in> set gs. gr_nodeId g = nd_id n})
      (\<lambda>g. g\<lparr>gr_status := GrantRevoked, gr_revokedAt := Some now, gr_desiredVersion := v g\<rparr>) (grants x)"
    "nd_status n \<in> {NodeHealthy, NodeDraining, NodeDisabled} \<longrightarrow>
       (\<exists>t z. incrementNodeVersion (nd_id n) x = (t, z) \<and> (\<forall>g. v g = t) \<and> command_for (nd_id n) t y)"
    "\<forall>m w. command_for m w x \<longrightarrow> command_for m w y" "devices y = devices x"
    "subscriptions y = subscriptions x"
proof -
  let ?ids = "map gr_id (filter (\<lambda>g. gr_nodeId g = nd_id n) gs)"
  let ?f = "\<lambda>v g. g\<lparr>gr_status := GrantRevoked, gr_revokedAt := Some now, gr_desiredVersion := v g\<rparr>"
  have ids: "set ?ids = gr_id ` {g \<in> set gs. gr_nodeId g = nd_id n}" by auto
  show thesis
  proof (cases "nd_status n \<in> {NodeHealthy, NodeDraining, NodeDisabled}")
    case True
    obtain t z where inc: "incrementNodeVersion (nd_id n) x = (t, z)" by fastforce
    have z: "grants z = grants x" "jobs z = jobs x" "outbox z = outbox x" "devices z = devices x"
      "subscriptions z = subscriptions x"
      using inc by (auto simp: incrementNodeVersion_def bump_desired_def)
    obtain w jk ek where w: "request_grant_sync (jf (nd_id n)) (ef (nd_id n)) (nd_id n)
        (gr_id (hd (filter (\<lambda>g. gr_nodeId g = nd_id n) gs))) t jk ek now (update_grants ?ids (?f (\<lambda>_. t)) z) = Inr w"
      "y = write_audit None ''subscription-cancellation.access-revoked'' ''Subscription'' sid w"
      using f some True inc by (auto simp: cancel_on_node_def Let_def map_sum_def split: sum.splits)
    note w' = request_access [OF w(1)]
    have audit: "command_for m u (write_audit a b c e w) = command_for m u w" for m u a b c e
      by (simp add: command_for_def write_audit_def)
    have "command_for m u y" if "command_for m u x" for m u
      using command_for_request(2) [OF w(1), of m u] that w(2) z audit by (simp add: command_for_def)
    moreover have "command_for (nd_id n) t y" using command_for_request(1) [OF w(1)] w(2) audit by simp
    moreover have "grants y = update_rows (\<lambda>g. gr_id g \<in> gr_id ` {g \<in> set gs. gr_nodeId g = nd_id n}) (?f (\<lambda>_. t)) (grants x)"
      using w(2) w'(1) z(1) ids by simp
    moreover have "devices y = devices x" "subscriptions y = subscriptions x" using w(2) w'(3,4) z(4,5) by simp_all
    ultimately show thesis using inc by (intro that [of "\<lambda>_. t"]) auto
  next
    case False
    have y: "y = write_audit None ''subscription-cancellation.access-revoked'' ''Subscription'' sid
        (update_grants ?ids (?f gr_desiredVersion) x)"
      using f some False by (auto simp: cancel_on_node_def Let_def)
    show thesis
      by (rule that [of gr_desiredVersion]) (use False ids in \<open>simp_all add: y command_for_def write_audit_def\<close>)
  qed
qed

text \<open>After the nodes \<open>P\<close>: their grants among \<open>gs\<close> are revoked, all others are as they were.\<close>

definition cancelled_row :: "instant \<Rightarrow> grant list \<Rightarrow> node set \<Rightarrow> db \<Rightarrow> grant \<Rightarrow> bool" where
  "cancelled_row now gs P x g \<longleftrightarrow> (if g \<in> set gs \<and> gr_nodeId g \<in> nd_id ` P
     then \<exists>h \<in> set (grants x). revoked_now now g h
       \<and> (\<forall>n \<in> P. nd_id n = gr_nodeId g \<and> nd_status n \<in> {NodeHealthy, NodeDraining, NodeDisabled} \<longrightarrow>
            gr_desiredVersion g < gr_desiredVersion h \<and> command_for (nd_id n) (gr_desiredVersion h) x)
     else g \<in> set (grants x))"

definition cancelled_on :: "instant \<Rightarrow> grant list \<Rightarrow> node set \<Rightarrow> db \<Rightarrow> db \<Rightarrow> bool" where
  "cancelled_on now gs P d x \<longleftrightarrow> kept d x \<and> devices x = devices d
   \<and> map gr_id (grants x) = map gr_id (grants d) \<and> (\<forall>g \<in> set (grants d). cancelled_row now gs P x g)"

lemma cancelled_on_audit: "cancelled_on now gs P d (write_audit a b c e x) = cancelled_on now gs P d x"
proof -
  have "command_for m v (write_audit a b c e x) = command_for m v x" for m v by (simp add: command_for_def)
  then show ?thesis by (simp add: cancelled_on_def cancelled_row_def cong: if_cong)
qed

lemma incremented_ahead:
  assumes x: "cp_ok x" and inc: "incrementNodeVersion nid x = (v, z)" and n: "n \<in> set (nodes x)" "nd_id n = nid"
    and g: "g \<in> set (grants x)" "gr_nodeId g = nid"
  shows "gr_desiredVersion g < v"
proof -
  let ?n = "n\<lparr>desiredConfigVersion := desiredConfigVersion n + 1\<rparr>"
  have "?n \<in> set (nodes z)"
    using inc n update_rows_hit [OF n(1), of "\<lambda>n. nd_id n = nid"] by (auto simp: incrementNodeVersion_def nodes_bump)
  then have "v = desiredConfigVersion n + 1" using incremented_fits [OF kept_refl [OF x] inc, of ?n] n(2) by simp
  then show ?thesis using admitting_node(1) [OF x n(1) g(1)] n(2) g(2) by (simp add: admits_grant_def)
qed

lemma cancelled_on_step:
  assumes ok: "cp_ok d" and gs: "set gs \<subseteq> set (grants d)" and P: "cancelled_on now gs P d x"
    and n: "n \<in> set (nodes d)" "nd_id n \<notin> nd_id ` P" "\<exists>g \<in> set gs. gr_nodeId g = nd_id n"
    and f: "cancel_on_node sid jf ef now gs n x = Inr y"
  shows "cancelled_on now gs (insert n P) d y"
proof -
  have x: "kept d x" "devices x = devices d" "map gr_id (grants x) = map gr_id (grants d)"
    and rows: "\<And>g. g \<in> set (grants d) \<Longrightarrow> cancelled_row now gs P x g"
    using P by (auto simp: cancelled_on_def)
  have "filter (\<lambda>g. gr_nodeId g = nd_id n) gs \<noteq> []" using n(3) by (simp add: filter_empty_conv)
  then obtain v where y: "grants y = update_rows (\<lambda>g. gr_id g \<in> gr_id ` {g \<in> set gs. gr_nodeId g = nd_id n})
      (\<lambda>g. g\<lparr>gr_status := GrantRevoked, gr_revokedAt := Some now, gr_desiredVersion := v g\<rparr>) (grants x)"
    and sync: "nd_status n \<in> {NodeHealthy, NodeDraining, NodeDisabled} \<longrightarrow>
       (\<exists>t z. incrementNodeVersion (nd_id n) x = (t, z) \<and> (\<forall>g. v g = t) \<and> command_for (nd_id n) t y)"
    and mono: "\<forall>m w. command_for m w x \<longrightarrow> command_for m w y" and dev: "devices y = devices x"
    by (rule cancel_node_run [OF f])
  have uniq: "h = g" if "g \<in> set (grants d)" "h \<in> set gs" "gr_id g = gr_id h" for g h
    using distinct_key_eq [of gr_id "grants d" h g] ok that gs by (auto simp: cp_ok_def cp_rows_ok_def)
  have "cancelled_row now gs (insert n P) y g" if g: "g \<in> set (grants d)" for g
  proof (cases "g \<in> set gs \<and> gr_nodeId g = nd_id n")
    case True
    then have gx: "g \<in> set (grants x)" using rows [OF g] n(2) by (auto simp: cancelled_row_def)
    have hit: "gr_id g \<in> gr_id ` {g \<in> set gs. gr_nodeId g = nd_id n}" using True by blast
    let ?h = "g\<lparr>gr_status := GrantRevoked, gr_revokedAt := Some now, gr_desiredVersion := v g\<rparr>"
    have "?h \<in> set (grants y)" unfolding y by (rule update_rows_hit, rule gx, rule hit)
    moreover have "revoked_now now g ?h" by (simp add: revoked_now_def)
    moreover have "gr_desiredVersion g < v g \<and> command_for (nd_id n) (v g) y"
      if st: "nd_status n \<in> {NodeHealthy, NodeDraining, NodeDisabled}"
    proof -
      obtain t z where t: "incrementNodeVersion (nd_id n) x = (t, z)" "\<forall>g. v g = t" "command_for (nd_id n) t y"
        using sync st by blast
      obtain m where m: "m \<in> set (nodes x)" "nd_id m = nd_id n" using node_successor [OF x(1) n(1)] .
      have "cp_ok x" using x(1) by (simp add: kept_def)
      then show ?thesis using incremented_ahead [OF _ t(1) m gx] True t(2,3) by simp
    qed
    moreover have "\<forall>m \<in> P. nd_id m \<noteq> gr_nodeId g" using n(2) True by (metis image_eqI)
    ultimately show ?thesis using True by (auto simp: cancelled_row_def)
  next
    case False
    then have miss: "gr_id g \<notin> gr_id ` {g \<in> set gs. gr_nodeId g = nd_id n}" using uniq [OF g] by auto
    have stays: "h \<in> set (grants y)" if "h \<in> set (grants x)" "gr_id h = gr_id g" for h
      unfolding y by (rule update_rows_keeps) (use that miss in simp_all)
    show ?thesis
    proof (cases "g \<in> set gs \<and> gr_nodeId g \<in> nd_id ` P")
      case True
      then have other: "gr_nodeId g \<noteq> nd_id n" using False by blast
      from True rows [OF g] obtain h where h: "h \<in> set (grants x)" "revoked_now now g h"
        "\<forall>n \<in> P. nd_id n = gr_nodeId g \<and> nd_status n \<in> {NodeHealthy, NodeDraining, NodeDisabled} \<longrightarrow>
               gr_desiredVersion g < gr_desiredVersion h \<and> command_for (nd_id n) (gr_desiredVersion h) x"
        unfolding cancelled_row_def by meson
      then have "h \<in> set (grants y)" using stays by (simp add: revoked_now_def)
      then show ?thesis using True h(2,3) mono other by (auto simp: cancelled_row_def)
    next
      case no: False
      then have "g \<in> set (grants y)" using rows [OF g] stays by (auto simp: cancelled_row_def)
      then show ?thesis using no False by (auto simp: cancelled_row_def)
    qed
  qed
  moreover have "kept d y" by (rule kept_cancel_on_node [OF x(1) gs n(1) f])
  moreover have "map gr_id (grants y) = map gr_id (grants d)" using x(3) by (simp add: y map_update_rows_key)
  ultimately show ?thesis using x(2) dev by (simp add: cancelled_on_def)
qed

lemma cancelled_on_each:
  assumes ok: "cp_ok d" and gs: "set gs \<subseteq> set (grants d)"
  shows "each_row (cancel_on_node sid jf ef now gs) ns x = Inr y \<Longrightarrow> cancelled_on now gs P d x \<Longrightarrow>
    set ns \<subseteq> set (nodes d) \<Longrightarrow> distinct (map nd_id ns) \<Longrightarrow> nd_id ` set ns \<inter> nd_id ` P = {} \<Longrightarrow>
    \<forall>n \<in> set ns. \<exists>g \<in> set gs. gr_nodeId g = nd_id n \<Longrightarrow> cancelled_on now gs (set ns \<union> P) d y"
proof (induction ns arbitrary: x P)
  case (Cons n ns)
  from Cons.prems(1) obtain w where w: "cancel_on_node sid jf ef now gs n x = Inr w"
    "each_row (cancel_on_node sid jf ef now gs) ns w = Inr y" by (auto split: sum.splits)
  have "cancelled_on now gs (insert n P) d w"
    by (rule cancelled_on_step [OF ok gs Cons.prems(2) _ _ _ w(1)]) (use Cons.prems in auto)
  from Cons.IH [OF w(2) this] show ?case using Cons.prems(3-6) by auto
qed simp

lemma cancel_each_subscriptions:
  assumes "each_row (cancel_on_node sid jf ef now gs) ns x = Inr y"
  shows "subscriptions y = subscriptions x"
proof (rule each_row_inv [OF assms])
  fix n a b assume a: "subscriptions a = subscriptions x" and f: "cancel_on_node sid jf ef now gs n a = Inr b"
  show "subscriptions b = subscriptions x"
  proof (cases "filter (\<lambda>g. gr_nodeId g = nd_id n) gs = []")
    case True
    then show ?thesis using a f by (simp add: cancel_on_node_def)
  next
    case False
    show ?thesis by (rule cancel_node_run [OF f False]) (use a in simp)
  qed
qed simp

text \<open>A cancellation that ends an entitlement runs the loop over all nodes with live grants of the user.\<close>

lemma cancel_outcome:
  assumes ok: "cp_ok d" and s: "find (\<lambda>s. sb_id s = sid) (subscriptions d) = Some s"
    and e: "entitling (sb_userId s) now s"
    and run: "cancelSubscriptionAccess sid jf ef now d = Inr (r, d')"
  obtains ns where "r = Cancelled" "cancelled_on now (user_live_grants (sb_userId s) d) (set ns) d d'"
    "\<And>g. g \<in> set (user_live_grants (sb_userId s) d) \<Longrightarrow> gr_nodeId g \<in> nd_id ` set ns
       \<and> (\<forall>n \<in> set (nodes d). nd_id n = gr_nodeId g \<longrightarrow> n \<in> set ns)"
    "find (\<lambda>s. sb_id s = sid) (subscriptions d') = Some (s\<lparr>sb_status := SubCancelled, sb_cancelledAt := Some now\<rparr>)"
  using run
proof (cases rule: cancel_run)
  case 1
  then have False using run s e by (auto simp: cancelSubscriptionAccess_def entitling_def split: sum.splits)
  then show thesis ..
next
  case (2 t x)
  have t: "t = s" using 2(2) s by simp
  let ?gs = "user_live_grants (sb_userId s) d"
  define ns where "ns = sort_key nd_id (filter (\<lambda>n. \<exists>g \<in> set ?gs. gr_nodeId g = nd_id n) (nodes d))"
  let ?start = "update_subscription sid (\<lambda>t. t\<lparr>sb_status := SubCancelled, sb_cancelledAt := Some now\<rparr>) d"
  have each: "each_row (cancel_on_node sid jf ef now ?gs) ns ?start = Inr x"
    using 2(4) e t by (simp add: cancellation_grants_def cancellation_nodes_def ns_def)
  have gs: "set ?gs \<subseteq> set (grants d)" by (auto simp: user_live_grants_set)
  have "cancelled_on now ?gs {} d ?start" using kept_refl [OF ok] by (simp add: cancelled_on_def cancelled_row_def)
  moreover have "distinct (map nd_id ns)"
    using ok by (auto simp: ns_def cp_ok_def cp_rows_ok_def distinct_map inj_on_def)
  moreover have "set ns \<subseteq> set (nodes d)" "\<forall>n \<in> set ns. \<exists>g \<in> set ?gs. gr_nodeId g = nd_id n"
    by (auto simp: ns_def)
  ultimately have "cancelled_on now ?gs (set ns) d x"
    using cancelled_on_each [OF ok gs each, of "{}"] by simp
  then have on: "cancelled_on now ?gs (set ns) d d'"
    by (simp only: 2(5) cancelled_on_audit)
  have "subscriptions d' = update_rows (\<lambda>s. sb_id s = sid) (\<lambda>t. t\<lparr>sb_status := SubCancelled, sb_cancelledAt := Some now\<rparr>) (subscriptions d)"
    using cancel_each_subscriptions [OF each] by (simp add: 2(5) update_subscription_def)
  then have "find (\<lambda>s. sb_id s = sid) (subscriptions d') = Some (s\<lparr>sb_status := SubCancelled, sb_cancelledAt := Some now\<rparr>)"
    using s find_update_rows [of "\<lambda>s. sb_id s = sid"
      "\<lambda>t. t\<lparr>sb_status := SubCancelled, sb_cancelledAt := Some now\<rparr>" _ "subscriptions d"]
    by (auto simp: find_Some_iff)
  moreover have "gr_nodeId g \<in> nd_id ` set ns \<and> (\<forall>n \<in> set (nodes d). nd_id n = gr_nodeId g \<longrightarrow> n \<in> set ns)"
    if "g \<in> set ?gs" for g
  proof -
    have "grant_ok (nodes d) g" using that gs cp_ok_grant [OF ok] by blast
    then obtain n where "n \<in> set (nodes d)" "gr_nodeId g = nd_id n" by (auto simp: grant_ok_def admits_grant_def)
    then show ?thesis using that by (auto simp: ns_def)
  qed
  ultimately show thesis using that [OF 2(1) on] by blast
qed

lemma nothing_left:
  assumes ok: "cp_ok d" and on: "cancelled_on now (user_live_grants u d) P d d'"
    and placed: "\<And>g. g \<in> set (user_live_grants u d) \<Longrightarrow> gr_nodeId g \<in> nd_id ` P"
  shows "user_live_grants u d' = []"
proof -
  have "\<not> (user_device u d' (gr_deviceId h) \<and> live_grant h)" if h: "h \<in> set (grants d')" for h
  proof -
    have "map gr_id (grants d') = map gr_id (grants d)" using on by (simp add: cancelled_on_def)
    moreover have "distinct (map gr_id (grants d))" using ok by (simp add: cp_ok_def cp_rows_ok_def)
    ultimately obtain g where g: "g \<in> set (grants d)" "gr_id g = gr_id h" "distinct (map gr_id (grants d'))"
      using h by (metis imageE image_eqI list.set_map)
    then have same: "k = h" if "k \<in> set (grants d')" "gr_id k = gr_id h" for k
      using distinct_key_eq that h by metis
    have dev: "user_device u d' = user_device u d" using on by (intro ext) (simp add: user_device_def cancelled_on_def)
    have row: "cancelled_row now (user_live_grants u d) P d' g" using on g(1) by (simp add: cancelled_on_def)
    show ?thesis
    proof (cases "g \<in> set (user_live_grants u d)")
      case True
      then obtain k where "k \<in> set (grants d')" "revoked_now now g k"
        using row placed by (auto simp: cancelled_row_def)
      then show ?thesis using same [of k] g(2) by (auto simp: revoked_now_def live_grant_def)
    next
      case False
      then have "g = h" using row same [of g] g(2) by (simp add: cancelled_row_def)
      then show ?thesis using False g(1) dev by (simp add: user_live_grants_set)
    qed
  qed
  then show ?thesis by (simp add: user_live_grants_def filter_empty_conv)
qed

text \<open>C17. Cancelling a subscription that entitles its user revokes all the access it gave: every grant of
  the user's devices that was not revoked is revoked at the instant of the cancellation, and for each
  node under access control under a new version whose command is queued; the user has no other grants
  left, every other grant is as before, and cancelling again changes nothing.\<close>

theorem cancel_revokes_access:
  assumes "cp_ok d" "find (\<lambda>s. sb_id s = sid) (subscriptions d) = Some s" "entitling (sb_userId s) now s"
    and "cancelSubscriptionAccess sid jf ef now d = Inr (r, d')"
  shows "r = Cancelled \<and> user_live_grants (sb_userId s) d' = []
    \<and> (\<forall>g \<in> set (grants d). if user_device (sb_userId s) d (gr_deviceId g) \<and> live_grant g
         then \<exists>h \<in> set (grants d'). revoked_now now g h
           \<and> (\<forall>n \<in> set (nodes d). nd_id n = gr_nodeId g \<and> nd_status n \<in> {NodeHealthy, NodeDraining, NodeDisabled} \<longrightarrow>
                gr_desiredVersion g < gr_desiredVersion h \<and> command_for (nd_id n) (gr_desiredVersion h) d')
         else g \<in> set (grants d'))
    \<and> cancelSubscriptionAccess sid jf' ef' now' d' = Inr (AlreadyCancelled, d')"
proof (rule cancel_outcome [OF assms])
  fix ns assume r: "r = Cancelled" and on: "cancelled_on now (user_live_grants (sb_userId s) d) (set ns) d d'"
    and placed: "\<And>g. g \<in> set (user_live_grants (sb_userId s) d) \<Longrightarrow> gr_nodeId g \<in> nd_id ` set ns
       \<and> (\<forall>n \<in> set (nodes d). nd_id n = gr_nodeId g \<longrightarrow> n \<in> set ns)"
    and again: "find (\<lambda>s. sb_id s = sid) (subscriptions d') = Some (s\<lparr>sb_status := SubCancelled, sb_cancelledAt := Some now\<rparr>)"
  let ?gs = "user_live_grants (sb_userId s) d"
  have rows: "if g \<in> set ?gs
         then \<exists>h \<in> set (grants d'). revoked_now now g h
           \<and> (\<forall>n \<in> set (nodes d). nd_id n = gr_nodeId g \<and> nd_status n \<in> {NodeHealthy, NodeDraining, NodeDisabled} \<longrightarrow>
                gr_desiredVersion g < gr_desiredVersion h \<and> command_for (nd_id n) (gr_desiredVersion h) d')
         else g \<in> set (grants d')" if g: "g \<in> set (grants d)" for g
  proof -
    have row: "cancelled_row now ?gs (set ns) d' g" using on g by (simp add: cancelled_on_def)
    show ?thesis
    proof (cases "g \<in> set ?gs")
      case True
      with row placed [OF True] show ?thesis unfolding cancelled_row_def by (metis (no_types, lifting))
    next
      case False
      with row show ?thesis by (simp add: cancelled_row_def)
    qed
  qed
  have none: "user_live_grants (sb_userId s) d' = []" using nothing_left [OF assms(1) on] placed by blast
  have over: "cancelSubscriptionAccess sid jf' ef' now' d' = Inr (AlreadyCancelled, d')"
    using again by (simp add: cancelSubscriptionAccess_def)
  have "\<forall>g \<in> set (grants d). g \<in> set ?gs \<longleftrightarrow> user_device (sb_userId s) d (gr_deviceId g) \<and> live_grant g"
    by (simp add: user_live_grants_set)
  then show ?thesis using rows by (intro conjI ballI r none over) (simp only:)
qed

definition cancelled_db :: db where
  "cancelled_db = (case cancelSubscriptionAccess ''s1'' (\<lambda>_. ''j2'') (\<lambda>_. ''e2'') 500 sample_db of
     Inl _ \<Rightarrow> empty_db | Inr (_, d) \<Rightarrow> d)"

theorem cancel_revokes_access_witness:
  "sample_grant \<in> set (grants sample_db) \<and> user_live_grants ''u1'' cancelled_db = []
   \<and> map gr_desiredVersion (grants cancelled_db) = [4]
   \<and> cancelSubscriptionAccess ''s1'' (\<lambda>_. ''j3'') (\<lambda>_. ''e3'') 600 cancelled_db = Inr (AlreadyCancelled, cancelled_db)"
proof -
  let ?s = "hd (subscriptions sample_db)"
  have s: "find (\<lambda>s. sb_id s = ''s1'') (subscriptions sample_db) = Some ?s" "entitling (sb_userId ?s) 500 ?s"
    "sb_userId ?s = ''u1''"
    by (simp_all add: sample_db_def empty_db_def entitling_def)
  have run: "cancelSubscriptionAccess ''s1'' (\<lambda>_. ''j2'') (\<lambda>_. ''e2'') 500 sample_db = Inr (Cancelled, cancelled_db)"
    by code_simp
  have "sample_grant \<in> set (grants sample_db)" "map gr_desiredVersion (grants cancelled_db) = [4]" by code_simp+
  then show ?thesis
    using cancel_revokes_access [OF _ s(1,2) run, of "\<lambda>_. ''j3''" "\<lambda>_. ''e3''" 600] sample_cp_inv s(3)
    by (simp add: cp_inv_def)
qed

section \<open>Natural expiry\<close>







definition expired_db :: db where
  "expired_db = (case scheduleExpiredSubscriptionOnNode ''s1'' ''n1'' ''j2'' ''e2'' 900000 sample_db of
     Inl _ \<Rightarrow> empty_db | Inr (_, d) \<Rightarrow> d)"



text \<open>Nobody repairs a lost expiry command.  In this run the event of the command is claimed and fails for
  good.  The grant is live but its device is not entitled, so reconciliation does not look at it; the
  keys of the operation exist, so it is not scheduled again.  The node keeps a desired version that no
  command carries, until something else changes the node.\<close>

definition lost_db :: db where
  "lost_db = (let st = \<lparr>os_lease = \<lparr>leaseDurationMs = 1000, retryDelayMs = 100, maxAttempts = 1\<rparr>, os_eventIds = None\<rparr>;
      fail = (\<lambda>eid es. outbox_exec st 900020 (ORetry eid ''w'' ''t'' ''queue-unavailable'')
                (outbox_exec st 900010 (OClaim [''e1''] ''w'' ''t'') es))
    in expired_db\<lparr>outbox := fail ''e2'' (outbox expired_db)\<rparr>)"

lemma lost_expiry_stays_lost:
  "map ob_status (outbox lost_db) = [OutboxPending, OutboxFailed]
   \<and> map desiredConfigVersion (nodes lost_db) = [4] \<and> map gr_status (grants lost_db) = [GrantPending]
   \<and> reconcileOneNode toy_credentials ''n1'' True (\<lambda>_. ''g2'') ''j3'' ''e3'' 910000 lost_db = Inr (False, lost_db)
   \<and> scheduleExpiredSubscriptionOnNode ''s1'' ''n1'' ''j3'' ''e3'' 910000 lost_db = Inr (False, lost_db)
   \<and> \<not> reconciliation_candidate 910000 lost_db (hd (nodes lost_db))"
  by code_simp

end
