(* ===== verification/Node_Agent_Contract.thy ===== *)
theory Node_Agent_Contract
  imports Control_Plane_Db
begin

text \<open>
  The messages between the control plane and a node agent (\<open>packages/contracts/src/node-agent.ts\<close>):
  the configuration snapshot and the acknowledgement ticket, and the checks of their schemas on
  decoded values.

  Timestamps travel as ISO-8601 text with millisecond precision; both sides only compare them, so the
  model keeps the instant.  What \<open>z.string().uuid()\<close> accepts is the parameter \<open>is_uuid\<close>.
\<close>

record ack_ticket =
  tk_nodeSyncJobId :: uuid
  tk_targetVersion :: version
  tk_snapshotHash :: string

record snapshot_grant =
  sg_id :: uuid
  sg_status :: GrantStatus
  sg_expiresAt :: instant
  sg_desiredVersion :: version
  sg_appliedVersion :: version
  sg_revokedAt :: "instant option"
  sg_dataPlaneCredential :: "uuid option"

record snapshot_endpoint =
  se_id :: uuid
  se_host :: string
  se_addressKind :: string
  se_port :: int
  se_priority :: int

record snapshot_profile =
  sf_id :: uuid
  sf_profileKey :: uuid
  sf_version :: int
  sf_protocolKind :: string
  sf_transportKind :: string
  sf_securityKind :: string
  sf_clientCompatibility :: string
  sf_priority :: int

record snapshot_route =
  sr_activationVersion :: version
  sr_endpoint :: snapshot_endpoint
  sr_profile :: snapshot_profile
  sr_tlsServerName :: string
  sr_displayName :: string

record snapshot =
  sp_desiredConfigVersion :: version
  sp_appliedConfigVersion :: version
  sp_pendingAcknowledgement :: "ack_ticket option"
  sp_grants :: "snapshot_grant list"
  sp_routes :: "snapshot_route list"

section \<open>The schemas\<close>

definition sha256_hex :: "string \<Rightarrow> bool" where
  "sha256_hex s \<longleftrightarrow> length s = 64 \<and> set s \<subseteq> set ''0123456789abcdef''"

definition nodeAgentAcknowledgementSchema :: "(string \<Rightarrow> bool) \<Rightarrow> ack_ticket \<Rightarrow> bool" where
  "nodeAgentAcknowledgementSchema is_uuid t \<longleftrightarrow>
     is_uuid (tk_nodeSyncJobId t) \<and> 0 \<le> tk_targetVersion t \<and> sha256_hex (tk_snapshotHash t)"

definition nodeAgentConnectionRouteSchema :: "(string \<Rightarrow> bool) \<Rightarrow> snapshot_route \<Rightarrow> bool" where
  "nodeAgentConnectionRouteSchema is_uuid r \<longleftrightarrow>
     0 < sr_activationVersion r
   \<and> is_uuid (se_id (sr_endpoint r))
   \<and> 1 \<le> length (se_host (sr_endpoint r)) \<and> length (se_host (sr_endpoint r)) \<le> 253
   \<and> se_addressKind (sr_endpoint r) \<in> {''HOSTNAME'', ''IPV4'', ''IPV6''}
   \<and> 1 \<le> se_port (sr_endpoint r) \<and> se_port (sr_endpoint r) \<le> 65535
   \<and> 0 \<le> se_priority (sr_endpoint r)
   \<and> is_uuid (sf_id (sr_profile r)) \<and> is_uuid (sf_profileKey (sr_profile r))
   \<and> 0 < sf_version (sr_profile r)
   \<and> sf_protocolKind (sr_profile r) \<in> {''VLESS'', ''WIREGUARD''}
   \<and> sf_transportKind (sr_profile r) \<in> {''TCP'', ''WEBSOCKET'', ''GRPC''}
   \<and> sf_securityKind (sr_profile r) \<in> {''NONE'', ''TLS'', ''REALITY''}
   \<and> sf_clientCompatibility (sr_profile r) \<in> {''HAPP''}
   \<and> 0 \<le> sf_priority (sr_profile r)
   \<and> 1 \<le> length (sr_tlsServerName r) \<and> length (sr_tlsServerName r) \<le> 253
   \<and> 1 \<le> length (sr_displayName r) \<and> length (sr_displayName r) \<le> 128"

definition snapshotGrantSchema :: "(string \<Rightarrow> bool) \<Rightarrow> snapshot_grant \<Rightarrow> bool" where
  "snapshotGrantSchema is_uuid g \<longleftrightarrow>
     is_uuid (sg_id g) \<and> 0 \<le> sg_desiredVersion g \<and> 0 \<le> sg_appliedVersion g
   \<and> (case sg_dataPlaneCredential g of None \<Rightarrow> True | Some c \<Rightarrow> is_uuid c)"

definition snapshot_refinement :: "snapshot \<Rightarrow> bool" where
  "snapshot_refinement s \<longleftrightarrow>
     sp_appliedConfigVersion s \<le> sp_desiredConfigVersion s
   \<and> (case sp_pendingAcknowledgement s of None \<Rightarrow> True
      | Some t \<Rightarrow> tk_targetVersion t = sp_desiredConfigVersion s
          \<and> sp_appliedConfigVersion s < sp_desiredConfigVersion s)"

definition nodeAgentConfigurationSnapshotSchema :: "(string \<Rightarrow> bool) \<Rightarrow> snapshot \<Rightarrow> bool" where
  "nodeAgentConfigurationSnapshotSchema is_uuid s \<longleftrightarrow>
     0 \<le> sp_desiredConfigVersion s \<and> 0 \<le> sp_appliedConfigVersion s
   \<and> (case sp_pendingAcknowledgement s of None \<Rightarrow> True | Some t \<Rightarrow> nodeAgentAcknowledgementSchema is_uuid t)
   \<and> list_all (snapshotGrantSchema is_uuid) (sp_grants s)
   \<and> list_all (nodeAgentConnectionRouteSchema is_uuid) (sp_routes s)
   \<and> snapshot_refinement s"

end
