(* ===== verification/Agent_Configuration.thy ===== *)
theory Agent_Configuration
  imports Node_Agent_Contract Orchestration_Properties
begin

text \<open>
  What a node agent is told (\<open>apps/api/src/node-agent/node-agent-configuration.service.ts\<close>) and who may
  ask (\<open>apps/api/src/orchestration/node-agent-credential.service.ts\<close>).

  \<open>snapshotInTransaction\<close> reads the grants and routes of one node, derives the credentials the node
  may serve, and records the delivery of the snapshot's hash for the job that awaits an
  acknowledgement.  The SHA-256 of the serialised material is the parameter \<open>sha\<close>.
\<close>

section \<open>The snapshot of a node\<close>

definition snapshot_credential ::
    "(string \<Rightarrow> string \<Rightarrow> byte list) \<Rightarrow> string \<Rightarrow> uuid \<Rightarrow> instant \<Rightarrow> grant \<Rightarrow> credential_error + uuid option" where
  "snapshot_credential h pepper nodeId now g =
     (let eligible = (gr_status g \<noteq> GrantRevoked \<and> gr_expiresAt g > now
            \<and> gr_derivationVersion g = Some DATA_PLANE_CREDENTIAL_DERIVATION_VERSION)
      in if \<not> eligible then Inr None
         else (case deriveDataPlaneCredential h pepper
                \<lparr>cb_grantId = gr_id g, cb_deviceId = gr_deviceId g, cb_nodeId = nodeId\<rparr> of
             Inl e \<Rightarrow> Inl e
           | Inr c \<Rightarrow> (case verifyDataPlaneCredentialHash h pepper c (gr_credentialHash g) of
               Inl e \<Rightarrow> Inl e
             | Inr ok \<Rightarrow> Inr (if c \<noteq> [] \<and> ok then Some c else None))))"

fun collect_grants ::
    "(string \<Rightarrow> string \<Rightarrow> byte list) \<Rightarrow> string \<Rightarrow> uuid \<Rightarrow> instant \<Rightarrow> grant list \<Rightarrow> credential_error + snapshot_grant list" where
  "collect_grants h pepper nodeId now [] = Inr []"
| "collect_grants h pepper nodeId now (g # gs) =
     (case snapshot_credential h pepper nodeId now g of
        Inl e \<Rightarrow> Inl e
      | Inr c \<Rightarrow> (case collect_grants h pepper nodeId now gs of
            Inl e \<Rightarrow> Inl e
          | Inr sgs \<Rightarrow> Inr (\<lparr>sg_id = gr_id g, sg_status = gr_status g, sg_expiresAt = gr_expiresAt g,
                sg_desiredVersion = gr_desiredVersion g, sg_appliedVersion = gr_appliedVersion g,
                sg_revokedAt = gr_revokedAt g, sg_dataPlaneCredential = c\<rparr> # sgs)))"

definition node_grants :: "uuid \<Rightarrow> db \<Rightarrow> grant list" where
  "node_grants nodeId d = sort_key (\<lambda>g. (gr_desiredVersion g, gr_id g))
     (filter (\<lambda>g. gr_nodeId g = nodeId) (grants d))"

text \<open>The inner joins of the route query.\<close>

definition joined_routes :: "uuid \<Rightarrow> version \<Rightarrow> db \<Rightarrow> snapshot_route list" where
  "joined_routes nodeId desired d =
     concat (map (\<lambda>r. case rt_activationVersion r of
         None \<Rightarrow> []
       | Some v \<Rightarrow>
           if rt_nodeId r = nodeId \<and> v \<le> desired
           then concat (map (\<lambda>e. concat (map (\<lambda>p.
                  map (\<lambda>c. \<lparr>sr_activationVersion = v,
                    sr_endpoint = \<lparr>se_id = ep_id e, se_host = ep_host e, se_addressKind = ep_addressKind e,
                      se_port = ep_port e, se_priority = ep_priority e\<rparr>,
                    sr_profile = \<lparr>sf_id = pf_id p, sf_profileKey = pf_profileKey p, sf_version = pf_version p,
                      sf_protocolKind = pf_protocolKind p, sf_transportKind = pf_transportKind p,
                      sf_securityKind = pf_securityKind p, sf_clientCompatibility = pf_clientCompatibility p,
                      sf_priority = pf_priority p\<rparr>,
                    sr_tlsServerName = pc_tlsServerName c, sr_displayName = pc_displayName c\<rparr>)
                  (filter (\<lambda>c. pc_profileId c = pf_id p) (public_configs d)))
                (filter (\<lambda>p. pf_id p = rt_profileId r \<and> pf_nodeId p = rt_nodeId r
                    \<and> pf_status p = ProfileActive) (profiles d))))
              (filter (\<lambda>e. ep_id e = rt_endpointId r \<and> ep_nodeId e = rt_nodeId r
                  \<and> ep_status e = EndpointActive) (endpoints d)))
           else []) (routes d))"

definition snapshot_routes :: "uuid \<Rightarrow> version \<Rightarrow> db \<Rightarrow> snapshot_route list" where
  "snapshot_routes nodeId desired d =
     sort_key (\<lambda>r. (sr_activationVersion r, se_id (sr_endpoint r), sf_id (sr_profile r)))
       (joined_routes nodeId desired d)"

text \<open>The job whose acknowledgement is awaited; descending order puts a missing completion first.\<close>

definition awaiting_ack :: "uuid \<Rightarrow> version \<Rightarrow> db \<Rightarrow> job \<Rightarrow> bool" where
  "awaiting_ack nodeId desired d j \<longleftrightarrow>
     jb_nodeId j = nodeId \<and> jb_targetVersion j = desired \<and> jb_status j = JobSucceeded
   \<and> \<not> (\<exists>a \<in> set (acknowledgements d). ak_jobId a = jb_id j)"

definition completion_order :: "job \<Rightarrow> nat \<times> int \<times> string" where
  "completion_order j = (case jb_completedAt j of None \<Rightarrow> (0, 0, jb_id j) | Some t \<Rightarrow> (1, - t, jb_id j))"

definition pending_job :: "uuid \<Rightarrow> node \<Rightarrow> db \<Rightarrow> job option" where
  "pending_job nodeId n d =
     (if desiredConfigVersion n > appliedConfigVersion n
      then (case sort_key completion_order (filter (awaiting_ack nodeId (desiredConfigVersion n) d) (jobs d)) of
              [] \<Rightarrow> None | j # _ \<Rightarrow> Some j)
      else None)"

type_synonym snapshot_material = "version \<times> snapshot_grant list \<times> snapshot_route list"

definition record_delivery :: "delivery \<Rightarrow> db \<Rightarrow> db" where
  "record_delivery x d =
     (if \<exists>y \<in> set (deliveries d). dl_jobId y = dl_jobId x \<and> dl_snapshotHash y = dl_snapshotHash x then d
      else d\<lparr>deliveries := deliveries d @ [x]\<rparr>)"

definition snapshotInTransaction ::
    "(string \<Rightarrow> string \<Rightarrow> byte list) \<Rightarrow> string \<Rightarrow> (snapshot_material \<Rightarrow> string) \<Rightarrow> uuid \<Rightarrow> instant \<Rightarrow> snapshot tx" where
  "snapshotInTransaction h pepper sha nodeId now d =
     (case find_node nodeId d of
        None \<Rightarrow> Inl (DbError ''No record was found for a query'')
      | Some n \<Rightarrow>
          (case collect_grants h pepper nodeId now (node_grants nodeId d) of
             Inl _ \<Rightarrow> Inl (Thrown ''Data-plane credential pepper is not configured'')
           | Inr gs \<Rightarrow>
               let rs = snapshot_routes nodeId (desiredConfigVersion n) d;
                   hash = sha (desiredConfigVersion n, gs, rs);
                   pending = pending_job nodeId n d;
                   d' = (case pending of None \<Rightarrow> d
                     | Some j \<Rightarrow> record_delivery \<lparr>dl_nodeId = nodeId, dl_jobId = jb_id j,
                         dl_targetVersion = jb_targetVersion j, dl_snapshotHash = hash\<rparr> d)
               in Inr (\<lparr>sp_desiredConfigVersion = desiredConfigVersion n,
                       sp_appliedConfigVersion = appliedConfigVersion n,
                       sp_pendingAcknowledgement = map_option (\<lambda>j. \<lparr>tk_nodeSyncJobId = jb_id j,
                         tk_targetVersion = jb_targetVersion j, tk_snapshotHash = hash\<rparr>) pending,
                       sp_grants = gs, sp_routes = rs\<rparr>, d')))"

section \<open>Authentication of an agent\<close>

record agent_credential =
  ac_id :: uuid
  ac_nodeId :: uuid
  ac_secretHash :: string
  ac_revokedAt :: "instant option"

definition revoke_credentials :: "uuid \<Rightarrow> instant \<Rightarrow> agent_credential list \<Rightarrow> agent_credential list" where
  "revoke_credentials nodeId now cs = update_rows (\<lambda>c. ac_nodeId c = nodeId \<and> ac_revokedAt c = None)
     (\<lambda>c. c\<lparr>ac_revokedAt := Some now\<rparr>) cs"

text \<open>\<open>hashSecret\<close>: the keyed digest \<open>mac\<close> of the runtime under the configured pepper.\<close>

definition hashSecret :: "(string \<Rightarrow> string \<Rightarrow> string) \<Rightarrow> string \<Rightarrow> string \<Rightarrow> cp_error + string" where
  "hashSecret mac pepper secret =
     (if pepper = [] then Inl (Thrown ''Node agent credential pepper is not configured'')
      else Inr (mac pepper secret))"

definition rotate_credential ::
    "(string \<Rightarrow> string \<Rightarrow> string) \<Rightarrow> string \<Rightarrow> uuid \<Rightarrow> uuid \<Rightarrow> string \<Rightarrow> instant \<Rightarrow>
     agent_credential list \<Rightarrow> db \<Rightarrow> cp_error + ((uuid \<times> string) \<times> agent_credential list \<times> db)" where
  "rotate_credential mac pepper nodeId cid secret now cs d =
     (case hashSecret mac pepper secret of
        Inl e \<Rightarrow> Inl e
      | Inr hash \<Rightarrow>
          if find_node nodeId d = None then Inl (DbError ''No record was found for a query'')
          else if \<exists>c \<in> set cs. ac_id c = cid \<or> ac_secretHash c = hash
          then Inl (DbError ''Unique constraint failed on NodeAgentCredential'')
          else Inr ((cid, secret),
            revoke_credentials nodeId now cs @ [\<lparr>ac_id = cid, ac_nodeId = nodeId, ac_secretHash = hash, ac_revokedAt = None\<rparr>],
            write_audit None ''node-agent-credential.rotated'' ''Node'' nodeId d))"

definition revoke_credential ::
    "uuid \<Rightarrow> instant \<Rightarrow> agent_credential list \<Rightarrow> db \<Rightarrow> bool \<times> agent_credential list \<times> db" where
  "revoke_credential nodeId now cs d =
     (if count_rows (\<lambda>c. ac_nodeId c = nodeId \<and> ac_revokedAt c = None) cs = 0 then (False, cs, d)
      else (True, revoke_credentials nodeId now cs,
        write_audit None ''node-agent-credential.revoked'' ''Node'' nodeId d))"

definition secret_pattern :: "string \<Rightarrow> bool" where
  "secret_pattern s \<longleftrightarrow> length s = 43 \<and> set s \<subseteq> set
     ''ABCDEFGHIJKLMNOPQRSTUVWXYZabcdefghijklmnopqrstuvwxyz0123456789_-''"

definition authenticated_node ::
    "(string \<Rightarrow> string \<Rightarrow> string) \<Rightarrow> string \<Rightarrow> string \<Rightarrow> agent_credential list \<Rightarrow> db \<Rightarrow> cp_error + uuid option" where
  "authenticated_node mac pepper secret cs d =
     (if \<not> secret_pattern secret then Inr None
      else case hashSecret mac pepper secret of
        Inl e \<Rightarrow> Inl e
      | Inr hash \<Rightarrow> Inr (map_option ac_nodeId (find (\<lambda>c. ac_secretHash c = hash \<and> ac_revokedAt c = None
            \<and> (\<exists>n \<in> set (nodes d). nd_id n = ac_nodeId c \<and> isNodeAgentAuthAllowed (nd_status n))) cs)))"

section \<open>What the snapshot promises\<close>

lemma collect_grants_map:
  assumes "collect_grants h pepper nodeId now gs = Inr sgs"
  shows "list_all2 (\<lambda>g sg. snapshot_credential h pepper nodeId now g = Inr (sg_dataPlaneCredential sg)
     \<and> sg_id sg = gr_id g \<and> sg_status sg = gr_status g \<and> sg_expiresAt sg = gr_expiresAt g
     \<and> sg_desiredVersion sg = gr_desiredVersion g \<and> sg_appliedVersion sg = gr_appliedVersion g
     \<and> sg_revokedAt sg = gr_revokedAt g) gs sgs"
  using assms
  by (induction gs arbitrary: sgs) (auto split: sum.splits)

text \<open>The run of a snapshot: the node, the collected grants and what is recorded.\<close>

definition snapshot_ticket :: "string \<Rightarrow> job \<Rightarrow> ack_ticket" where
  "snapshot_ticket hash j = \<lparr>tk_nodeSyncJobId = jb_id j, tk_targetVersion = jb_targetVersion j, tk_snapshotHash = hash\<rparr>"

definition snapshot_delivery :: "uuid \<Rightarrow> string \<Rightarrow> job \<Rightarrow> delivery" where
  "snapshot_delivery nid hash j = \<lparr>dl_nodeId = nid, dl_jobId = jb_id j, dl_targetVersion = jb_targetVersion j,
     dl_snapshotHash = hash\<rparr>"

lemma snapshot_run:
  assumes "snapshotInTransaction h pepper sha nid now d = Inr (s, d')"
  shows "\<exists>n hash. find_node nid d = Some n \<and> collect_grants h pepper nid now (node_grants nid d) = Inr (sp_grants s)
    \<and> sp_routes s = snapshot_routes nid (desiredConfigVersion n) d
    \<and> sp_desiredConfigVersion s = desiredConfigVersion n \<and> sp_appliedConfigVersion s = appliedConfigVersion n
    \<and> hash = sha (desiredConfigVersion n, sp_grants s, sp_routes s)
    \<and> sp_pendingAcknowledgement s = map_option (snapshot_ticket hash) (pending_job nid n d)
    \<and> d' = (case pending_job nid n d of None \<Rightarrow> d | Some j \<Rightarrow> record_delivery (snapshot_delivery nid hash j) d)"
proof -
  obtain n gs where n: "find_node nid d = Some n" and gs: "collect_grants h pepper nid now (node_grants nid d) = Inr gs"
    using assms by (auto simp: snapshotInTransaction_def split: option.splits sum.splits)
  show ?thesis
    using assms n gs
    by (simp add: snapshotInTransaction_def Let_def snapshot_ticket_def [abs_def] snapshot_delivery_def [abs_def])
      (auto simp: snapshot_ticket_def snapshot_delivery_def split: option.splits)
qed

text \<open>C23. A snapshot discloses exactly the usable credentials of its node: it lists each grant of the node
  and no other, and a listed grant carries a credential only if the grant is not revoked, has not
  expired, was derived with the current version, and the credential is the one derived for its binding
  and matches the stored verifier.\<close>

theorem snapshot_credentials_sound:
  assumes "snapshotInTransaction h pepper sha nid now d = Inr (s, d')" "sg \<in> set (sp_grants s)"
  shows "\<exists>g \<in> set (grants d). gr_nodeId g = nid \<and> gr_id g = sg_id sg \<and> gr_status g = sg_status sg
     \<and> gr_revokedAt g = sg_revokedAt sg \<and> gr_expiresAt g = sg_expiresAt sg
     \<and> (\<forall>c. sg_dataPlaneCredential sg = Some c \<longrightarrow>
          gr_status g \<noteq> GrantRevoked \<and> now < gr_expiresAt g
        \<and> gr_derivationVersion g = Some DATA_PLANE_CREDENTIAL_DERIVATION_VERSION
        \<and> deriveDataPlaneCredential h pepper \<lparr>cb_grantId = gr_id g, cb_deviceId = gr_deviceId g, cb_nodeId = nid\<rparr> = Inr c
        \<and> verifyDataPlaneCredentialHash h pepper c (gr_credentialHash g) = Inr True)"
proof -
  have c: "collect_grants h pepper nid now (node_grants nid d) = Inr (sp_grants s)"
    using snapshot_run [OF assms(1)] by blast
  from assms(2) obtain k where k: "k < length (sp_grants s)" "sg = sp_grants s ! k" by (auto simp: in_set_conv_nth)
  let ?g = "node_grants nid d ! k"
  have len: "length (node_grants nid d) = length (sp_grants s)"
    using list_all2_lengthD [OF collect_grants_map [OF c]] .
  have row: "snapshot_credential h pepper nid now ?g = Inr (sg_dataPlaneCredential sg)
     \<and> sg_id sg = gr_id ?g \<and> sg_status sg = gr_status ?g \<and> sg_expiresAt sg = gr_expiresAt ?g
     \<and> sg_desiredVersion sg = gr_desiredVersion ?g \<and> sg_appliedVersion sg = gr_appliedVersion ?g
     \<and> sg_revokedAt sg = gr_revokedAt ?g"
    using list_all2_nthD [OF collect_grants_map [OF c], of k] k len by simp
  have "?g \<in> set (node_grants nid d)" using k(1) len by simp
  then have "?g \<in> set (grants d)" "gr_nodeId ?g = nid" by (auto simp: node_grants_def)
  then show ?thesis
    using row
    by (intro bexI [of _ ?g]) (auto simp: snapshot_credential_def Let_def split: if_splits sum.splits)
qed

definition sample_snapshot :: snapshot where
  "sample_snapshot = (case snapshotInTransaction (fst (the toy_provider)) (snd (the toy_provider)) (\<lambda>_. ''s'') ''n1'' 600 scheduled_db of
     Inr (s, _) \<Rightarrow> s | Inl _ \<Rightarrow> \<lparr>sp_desiredConfigVersion = 0, sp_appliedConfigVersion = 0, sp_pendingAcknowledgement = None,
       sp_grants = [], sp_routes = []\<rparr>)"

theorem snapshot_credentials_sound_witness:
  "\<exists>g \<in> set (grants scheduled_db). gr_id g = ''g2'' \<and> gr_status g = GrantPending"
proof -
  have run: "snapshotInTransaction (fst (the toy_provider)) (snd (the toy_provider)) (\<lambda>_. ''s'') ''n1'' 600 scheduled_db
      = Inr (sample_snapshot, scheduled_db)"
    by code_simp
  have last: "last (sp_grants sample_snapshot) \<in> set (sp_grants sample_snapshot)"
    "sg_id (last (sp_grants sample_snapshot)) = ''g2''" "sg_status (last (sp_grants sample_snapshot)) = GrantPending"
    by code_simp+
  from snapshot_credentials_sound [OF run last(1)] show ?thesis unfolding last by blast
qed


lemma record_delivery_tables [simp]:
  "nodes (record_delivery x d) = nodes d" "grants (record_delivery x d) = grants d"
  "jobs (record_delivery x d) = jobs d" "acknowledgements (record_delivery x d) = acknowledgements d"
  by (simp_all add: record_delivery_def)

lemma cp_ok_record_delivery [simp]: "cp_ok (record_delivery x d) = cp_ok d"
  unfolding cp_ok_def record_delivery_def by simp











section \<open>Who may ask\<close>

definition one_active :: "agent_credential list \<Rightarrow> bool" where
  "one_active cs \<longleftrightarrow> (\<forall>c \<in> set cs. \<forall>e \<in> set cs. ac_nodeId c = ac_nodeId e \<longrightarrow> ac_revokedAt c = None \<longrightarrow>
     ac_revokedAt e = None \<longrightarrow> c = e)"

lemma revoked_credentials:
  assumes "c \<in> set (revoke_credentials nid now cs)"
  shows "ac_revokedAt c \<noteq> None \<or> ac_nodeId c \<noteq> nid"
    "\<exists>b \<in> set cs. ac_secretHash c = ac_secretHash b"
    "ac_revokedAt c = None \<Longrightarrow> c \<in> set cs"
proof -
  obtain b where b: "b \<in> set cs"
      "c = (if ac_nodeId b = nid \<and> ac_revokedAt b = None then b\<lparr>ac_revokedAt := Some now\<rparr> else b)"
    using assms by (auto simp: revoke_credentials_def set_update_rows)
  show "ac_revokedAt c \<noteq> None \<or> ac_nodeId c \<noteq> nid" using b(2) by (auto split: if_splits)
  show "\<exists>b \<in> set cs. ac_secretHash c = ac_secretHash b" using b by (intro bexI [of _ b]) auto
  show "c \<in> set cs" if "ac_revokedAt c = None" using b that by (auto split: if_splits)
qed

lemma rotate_run:
  assumes "rotate_credential mac pepper nid cid secret now cs d = Inr (r, cs', d')"
  shows "r = (cid, secret) \<and> pepper \<noteq> [] \<and> cs' = revoke_credentials nid now cs @
      [\<lparr>ac_id = cid, ac_nodeId = nid, ac_secretHash = mac pepper secret, ac_revokedAt = None\<rparr>]
    \<and> nodes d' = nodes d \<and> (\<forall>c \<in> set cs. ac_secretHash c \<noteq> mac pepper secret)"
  using assms by (auto simp: rotate_credential_def hashSecret_def split: if_splits)

text \<open>C25. Rotation hands over the node: after a rotation, the new secret authenticates the node whenever its
  status allows an agent, and every other secret that still authenticates this node has the same keyed
  digest, so no earlier secret does; at most one credential per node stays active.\<close>

theorem rotation_exclusive:
  assumes r: "rotate_credential mac pepper nid cid secret now cs d = Inr ((k, s), cs', d')"
  shows "s = secret
    \<and> (secret_pattern secret \<and> (\<exists>n \<in> set (nodes d). nd_id n = nid \<and> isNodeAgentAuthAllowed (nd_status n))
        \<longrightarrow> authenticated_node mac pepper s cs' d' = Inr (Some nid))
    \<and> (\<forall>other. authenticated_node mac pepper other cs' d' = Inr (Some nid) \<longrightarrow> mac pepper other = mac pepper s)
    \<and> (one_active cs \<longrightarrow> one_active cs')"
proof -
  note run = rotate_run [OF r]
  let ?new = "\<lparr>ac_id = cid, ac_nodeId = nid, ac_secretHash = mac pepper secret, ac_revokedAt = None\<rparr>"
  have cs': "cs' = revoke_credentials nid now cs @ [?new]" and s: "s = secret" and p: "pepper \<noteq> []"
    and nodes: "nodes d' = nodes d" and fresh: "\<forall>c \<in> set cs. ac_secretHash c \<noteq> mac pepper secret"
    using run by blast+
  note old = revoked_credentials [of _ nid now cs]
  have old_hash: "ac_secretHash c \<noteq> mac pepper secret" if "c \<in> set (revoke_credentials nid now cs)" for c
    using old(2) [OF that] fresh by metis
  have "authenticated_node mac pepper secret cs' d' = Inr (Some nid)"
    if "secret_pattern secret" "\<exists>n \<in> set (nodes d). nd_id n = nid \<and> isNodeAgentAuthAllowed (nd_status n)"
  proof -
    have "find (\<lambda>c. ac_secretHash c = mac pepper secret \<and> ac_revokedAt c = None
        \<and> (\<exists>n \<in> set (nodes d). nd_id n = ac_nodeId c \<and> isNodeAgentAuthAllowed (nd_status n)))
        (revoke_credentials nid now cs) = None"
      using old_hash by (auto simp: find_None_iff)
    then show ?thesis
      using that p by (simp add: authenticated_node_def hashSecret_def cs' nodes find_append)
  qed
  moreover have "mac pepper other = mac pepper secret"
    if auth: "authenticated_node mac pepper other cs' d' = Inr (Some nid)" for other
  proof -
    obtain c where c: "find (\<lambda>c. ac_secretHash c = mac pepper other \<and> ac_revokedAt c = None
        \<and> (\<exists>n \<in> set (nodes d'). nd_id n = ac_nodeId c \<and> isNodeAgentAuthAllowed (nd_status n))) cs' = Some c"
      and node: "ac_nodeId c = nid"
      using auth p by (auto simp: authenticated_node_def hashSecret_def split: if_splits)
    have c: "c \<in> set cs'" "ac_secretHash c = mac pepper other" "ac_revokedAt c = None"
      using c by (auto simp: find_Some_iff)
    have "c \<notin> set (revoke_credentials nid now cs)" using old(1) [of c] node c(3) by blast
    then have "c = ?new" using c(1) unfolding cs' by simp
    then have "ac_secretHash c = mac pepper secret" by (metis agent_credential.select_convs(3))
    with c(2) show ?thesis by simp
  qed
  moreover have "one_active cs'" if "one_active cs"
  proof -
    have "c = e" if "c \<in> set cs'" "e \<in> set cs'" "ac_nodeId c = ac_nodeId e" "ac_revokedAt c = None" "ac_revokedAt e = None" for c e
    proof -
      have row: "x = ?new \<or> ac_nodeId x \<noteq> nid \<and> x \<in> set cs"
        if "x \<in> set cs'" "ac_revokedAt x = None" for x
        using that(1) old(1,3) [of x] that(2) unfolding cs' by (metis Un_iff empty_iff insert_iff list.set set_append)
      from row [OF that(1,4)] row [OF that(2,5)] that(3) show ?thesis
        using \<open>one_active cs\<close> that(4,5) unfolding one_active_def by (metis agent_credential.select_convs(2))
    qed
    then show ?thesis unfolding one_active_def by blast
  qed
  ultimately show ?thesis using s by blast
qed

definition toy_mac :: "string \<Rightarrow> string \<Rightarrow> string" where
  "toy_mac pepper secret = rev secret @ pepper"

definition sample_secret :: string where
  "sample_secret = replicate 43 CHR ''x''"

theorem rotation_exclusive_witness:
  "authenticated_node toy_mac ''p'' sample_secret
     [\<lparr>ac_id = ''c1'', ac_nodeId = ''n1'', ac_secretHash = ''old'', ac_revokedAt = Some 5\<rparr>,
      \<lparr>ac_id = ''c2'', ac_nodeId = ''n1'', ac_secretHash = toy_mac ''p'' sample_secret, ac_revokedAt = None\<rparr>]
     (write_audit None ''node-agent-credential.rotated'' ''Node'' ''n1'' sample_db) = Inr (Some ''n1'')"
proof -
  have run: "rotate_credential toy_mac ''p'' ''n1'' ''c2'' sample_secret 5
      [\<lparr>ac_id = ''c1'', ac_nodeId = ''n1'', ac_secretHash = ''old'', ac_revokedAt = None\<rparr>] sample_db
    = Inr ((''c2'', sample_secret),
        [\<lparr>ac_id = ''c1'', ac_nodeId = ''n1'', ac_secretHash = ''old'', ac_revokedAt = Some 5\<rparr>,
         \<lparr>ac_id = ''c2'', ac_nodeId = ''n1'', ac_secretHash = toy_mac ''p'' sample_secret, ac_revokedAt = None\<rparr>],
        write_audit None ''node-agent-credential.rotated'' ''Node'' ''n1'' sample_db)"
    by code_simp
  have "secret_pattern sample_secret \<and> (\<exists>n \<in> set (nodes sample_db). nd_id n = ''n1'' \<and> isNodeAgentAuthAllowed (nd_status n))"
    by code_simp
  with rotation_exclusive [OF run] show ?thesis by blast
qed

end
