(* ===== verification/Xray_Access.thy ===== *)
theory Xray_Access
  imports Node_Agent_Contract
begin

text \<open>
  Which clients a node may serve, and by when lost access must be enforced
  (\<open>apps/node-agent/src/xray-access.ts\<close>), with the timing constants of
  \<open>apps/node-agent/src/security-timing.ts\<close>.  An instant that the code represents by \<open>NaN\<close> is \<open>None\<close>.
\<close>

section \<open>Timing constants\<close>

definition ACCESS_CONTROL_ENFORCEMENT_SLA_MS :: int where "ACCESS_CONTROL_ENFORCEMENT_SLA_MS = 5 * 60000"
definition LOCAL_SECURITY_RETRY_DELAY_MS :: int where "LOCAL_SECURITY_RETRY_DELAY_MS = 10000"
definition LOCAL_STATE_INTEGRITY_CHECK_INTERVAL_MS :: int where "LOCAL_STATE_INTEGRITY_CHECK_INTERVAL_MS = 10000"
definition XRAY_RELOAD_COMMAND_TIMEOUT_MS :: int where "XRAY_RELOAD_COMMAND_TIMEOUT_MS = 30000"
definition XRAY_DOCKER_COMMAND_TIMEOUT_MS :: int where "XRAY_DOCKER_COMMAND_TIMEOUT_MS = 2000"
definition XRAY_SERVING_VERIFY_ATTEMPTS :: int where "XRAY_SERVING_VERIFY_ATTEMPTS = 10"
definition XRAY_SERVING_VERIFY_RETRY_DELAY_MS :: int where "XRAY_SERVING_VERIFY_RETRY_DELAY_MS = 1000"

definition XRAY_SERVING_VERIFY_MAX_DURATION_MS :: int where
  "XRAY_SERVING_VERIFY_MAX_DURATION_MS =
     XRAY_SERVING_VERIFY_ATTEMPTS * 2 * XRAY_DOCKER_COMMAND_TIMEOUT_MS
   + (XRAY_SERVING_VERIFY_ATTEMPTS - 1) * XRAY_SERVING_VERIFY_RETRY_DELAY_MS"

definition XRAY_APPLY_MAX_DURATION_MS :: int where
  "XRAY_APPLY_MAX_DURATION_MS = XRAY_RELOAD_COMMAND_TIMEOUT_MS + XRAY_SERVING_VERIFY_MAX_DURATION_MS"

definition XRAY_FAIL_CLOSED_MAX_DURATION_MS :: int where
  "XRAY_FAIL_CLOSED_MAX_DURATION_MS = 3 * XRAY_DOCKER_COMMAND_TIMEOUT_MS"

definition LOCAL_FAIL_CLOSED_RESERVE_MS :: int where "LOCAL_FAIL_CLOSED_RESERVE_MS = 120000"
definition PRODUCTION_XRAY_MAX_POLL_INTERVAL_MS :: int where "PRODUCTION_XRAY_MAX_POLL_INTERVAL_MS = 60000"

lemmas timing_defs = ACCESS_CONTROL_ENFORCEMENT_SLA_MS_def LOCAL_SECURITY_RETRY_DELAY_MS_def
  LOCAL_STATE_INTEGRITY_CHECK_INTERVAL_MS_def XRAY_RELOAD_COMMAND_TIMEOUT_MS_def
  XRAY_DOCKER_COMMAND_TIMEOUT_MS_def XRAY_SERVING_VERIFY_ATTEMPTS_def XRAY_SERVING_VERIFY_RETRY_DELAY_MS_def
  XRAY_SERVING_VERIFY_MAX_DURATION_MS_def XRAY_APPLY_MAX_DURATION_MS_def XRAY_FAIL_CLOSED_MAX_DURATION_MS_def
  LOCAL_FAIL_CLOSED_RESERVE_MS_def PRODUCTION_XRAY_MAX_POLL_INTERVAL_MS_def

datatype agent_mode = Simulation | LocalXray | Xray

definition effectiveControlPlanePollInterval :: "agent_mode \<Rightarrow> int \<Rightarrow> int" where
  "effectiveControlPlanePollInterval mode configuredIntervalMs =
     (if mode = Xray then min configuredIntervalMs PRODUCTION_XRAY_MAX_POLL_INTERVAL_MS else configuredIntervalMs)"

definition effectiveControlPlaneRetryInterval :: "agent_mode \<Rightarrow> int \<Rightarrow> int" where
  "effectiveControlPlaneRetryInterval mode pollIntervalMs =
     (if mode = Xray then min pollIntervalMs LOCAL_SECURITY_RETRY_DELAY_MS else pollIntervalMs)"

datatype cycle_outcome = Synchronized | WaitingForCommand | Acknowledged

definition successfulControlPlaneCycleDelay :: "cycle_outcome \<Rightarrow> int \<Rightarrow> int \<Rightarrow> int" where
  "successfulControlPlaneCycleDelay outcome pollIntervalMs retryIntervalMs =
     (if outcome = WaitingForCommand then retryIntervalMs else pollIntervalMs)"

section \<open>Servable clients\<close>

record client =
  cl_grantId :: uuid
  cl_credential :: uuid

definition getActiveGrantExpiry :: "snapshot_grant \<Rightarrow> instant option" where
  "getActiveGrantExpiry g =
     (if sg_status g \<noteq> GrantActive then None
      else if sg_revokedAt g \<noteq> None then None
      else if sg_dataPlaneCredential g = None then None
      else Some (sg_expiresAt g))"

definition servable_client :: "instant \<Rightarrow> snapshot_grant \<Rightarrow> client list" where
  "servable_client now g = (case getActiveGrantExpiry g of
       None \<Rightarrow> []
     | Some expiresAt \<Rightarrow>
         if expiresAt \<le> now then []
         else (case sg_dataPlaneCredential g of None \<Rightarrow> []
             | Some c \<Rightarrow> [\<lparr>cl_grantId = sg_id g, cl_credential = c\<rparr>]))"

definition selectServableXrayClients :: "snapshot \<Rightarrow> instant \<Rightarrow> client list" where
  "selectServableXrayClients s now = sort_key cl_grantId (concat (map (servable_client now) (sp_grants s)))"

definition earlier :: "instant option \<Rightarrow> instant \<Rightarrow> instant option" where
  "earlier best t = (case best of None \<Rightarrow> Some t | Some b \<Rightarrow> Some (if t < b then t else b))"

definition findNextXrayClientExpiry :: "snapshot \<Rightarrow> instant \<Rightarrow> instant option" where
  "findNextXrayClientExpiry s now = fold (\<lambda>g best. case getActiveGrantExpiry g of
       None \<Rightarrow> best
     | Some expiresAt \<Rightarrow> if expiresAt \<le> now then best else earlier best expiresAt) (sp_grants s) None"

definition findExpiredXrayClientEnforcementDeadline :: "snapshot \<Rightarrow> instant \<Rightarrow> int \<Rightarrow> instant option" where
  "findExpiredXrayClientEnforcementDeadline s now sla = fold (\<lambda>g best. case getActiveGrantExpiry g of
       None \<Rightarrow> best
     | Some expiresAt \<Rightarrow> if expiresAt > now then best else earlier best (expiresAt + sla)) (sp_grants s) None"

section \<open>Revocations to enforce\<close>

record enforcement =
  en_grantId :: uuid
  en_deadlineAt :: instant

text \<open>\<open>new Map(...)\<close> keeps the last entry of a repeated key.\<close>

definition grant_by_id :: "snapshot \<Rightarrow> uuid \<Rightarrow> snapshot_grant option" where
  "grant_by_id s = map_of (rev (map (\<lambda>g. (sg_id g, g)) (sp_grants s)))"

definition revocation_enforcement :: "snapshot \<Rightarrow> instant \<Rightarrow> int \<Rightarrow> snapshot_grant \<Rightarrow> enforcement list" where
  "revocation_enforcement previous now sla g =
     (if sg_status g \<noteq> GrantRevoked then []
      else case sg_revokedAt g of
        None \<Rightarrow> []
      | Some revokedAt \<Rightarrow>
          (case grant_by_id previous (sg_id g) of
             None \<Rightarrow> []
           | Some p \<Rightarrow>
               if sg_status p \<noteq> GrantActive \<or> sg_revokedAt p \<noteq> None \<or> sg_dataPlaneCredential p = None
                  \<or> sg_expiresAt p \<le> revokedAt \<or> revokedAt > now
               then []
               else [\<lparr>en_grantId = sg_id g, en_deadlineAt = revokedAt + sla\<rparr>]))"

definition findRevokedXrayClientEnforcements ::
    "snapshot \<Rightarrow> snapshot \<Rightarrow> instant \<Rightarrow> int \<Rightarrow> enforcement list" where
  "findRevokedXrayClientEnforcements previous next_snapshot now sla =
     sort_key en_grantId (concat (map (revocation_enforcement previous now sla) (sp_grants next_snapshot)))"

definition findRevokedXrayClientEnforcementDeadline ::
    "snapshot \<Rightarrow> snapshot \<Rightarrow> instant \<Rightarrow> int \<Rightarrow> instant option" where
  "findRevokedXrayClientEnforcementDeadline previous next_snapshot now sla =
     fold (\<lambda>e best. case best of None \<Rightarrow> Some (en_deadlineAt e) | Some b \<Rightarrow> Some (min b (en_deadlineAt e)))
       (findRevokedXrayClientEnforcements previous next_snapshot now sla) None"

definition findSnapshotRevocationEnforcements :: "snapshot \<Rightarrow> int \<Rightarrow> enforcement list" where
  "findSnapshotRevocationEnforcements s sla = sort_key en_grantId (concat (map (\<lambda>g.
       if sg_status g \<noteq> GrantRevoked then []
       else case sg_revokedAt g of None \<Rightarrow> []
          | Some t \<Rightarrow> [\<lparr>en_grantId = sg_id g, en_deadlineAt = t + sla\<rparr>]) (sp_grants s)))"

section \<open>Laws\<close>

lemma servable_iff:
  "c \<in> set (selectServableXrayClients s now) \<longleftrightarrow>
     (\<exists>g \<in> set (sp_grants s). sg_id g = cl_grantId c \<and> sg_dataPlaneCredential g = Some (cl_credential c)
        \<and> sg_status g = GrantActive \<and> sg_revokedAt g = None \<and> now < sg_expiresAt g)"
proof -
  have "c \<in> set (servable_client now g) \<longleftrightarrow> sg_id g = cl_grantId c \<and> sg_dataPlaneCredential g = Some (cl_credential c)
        \<and> sg_status g = GrantActive \<and> sg_revokedAt g = None \<and> now < sg_expiresAt g" for g
    by (cases c) (auto simp: servable_client_def getActiveGrantExpiry_def split: option.splits)
  then show ?thesis by (auto simp: selectServableXrayClients_def)
qed

lemma sorted_servable: "sorted (map cl_grantId (selectServableXrayClients s now))"
  by (simp add: selectServableXrayClients_def)

lemma servable_shrinks:
  "now \<le> later \<Longrightarrow> set (selectServableXrayClients s later) \<subseteq> set (selectServableXrayClients s now)"
  by (force simp: servable_iff)

text \<open>The loops that look for an earliest instant.\<close>

definition earliest_of :: "instant list \<Rightarrow> instant option" where
  "earliest_of ts = (if ts = [] then None else Some (Min (set ts)))"

lemma fold_earlier: "fold (\<lambda>t best. earlier best t) ts best =
    (case best of None \<Rightarrow> earliest_of ts | Some b \<Rightarrow> Some (Min (insert b (set ts))))"
proof (induction ts arbitrary: best)
  case (Cons t ts)
  have "Min (insert b (insert t (set ts))) = Min (insert (if t < b then t else b) (set ts))" for b
    by (cases "ts = []") (auto simp: Min_insert min_def not_less split: if_splits)
  with Cons show ?case by (auto simp: earlier_def earliest_of_def split: option.splits)
qed (simp add: earliest_of_def split: option.splits)

lemma fold_earlier_filter:
  "fold (\<lambda>g best. case f g of None \<Rightarrow> best | Some t \<Rightarrow> if skip t then best else earlier best (h t)) gs best =
   fold (\<lambda>t best. earlier best t) (concat (map (\<lambda>g. case f g of None \<Rightarrow> [] | Some t \<Rightarrow> if skip t then [] else [h t]) gs)) best"
  by (induction gs arbitrary: best) (auto split: option.splits)

lemma earliest_le: "earliest_of ts = Some m \<Longrightarrow> t \<in> set ts \<Longrightarrow> m \<le> t"
  by (auto simp: earliest_of_def split: if_splits)

lemma earliest_mem: "earliest_of ts = Some m \<Longrightarrow> m \<in> set ts"
  by (auto simp: earliest_of_def split: if_splits)

lemma earliest_None: "earliest_of ts = None \<longleftrightarrow> ts = []"
  by (simp add: earliest_of_def)

definition future_expiries :: "snapshot \<Rightarrow> instant \<Rightarrow> instant list" where
  "future_expiries s now = concat (map (\<lambda>g. case getActiveGrantExpiry g of
     None \<Rightarrow> [] | Some t \<Rightarrow> if t \<le> now then [] else [t]) (sp_grants s))"

lemma next_expiry_eq: "findNextXrayClientExpiry s now = earliest_of (future_expiries s now)"
  unfolding findNextXrayClientExpiry_def future_expiries_def
  using fold_earlier_filter [where f = getActiveGrantExpiry and skip = "\<lambda>t. t \<le> now" and h = "\<lambda>t. t"]
  by (simp add: fold_earlier)

lemma future_expiries_mem:
  "t \<in> set (future_expiries s now) \<longleftrightarrow> (\<exists>g \<in> set (sp_grants s). getActiveGrantExpiry g = Some t \<and> now < t)"
proof -
  have "t \<in> set (case getActiveGrantExpiry g of None \<Rightarrow> [] | Some t \<Rightarrow> if t \<le> now then [] else [t])
      \<longleftrightarrow> getActiveGrantExpiry g = Some t \<and> now < t" for g
    by (cases "getActiveGrantExpiry g") auto
  then show ?thesis by (simp add: future_expiries_def)
qed

text \<open>Until the next expiry the servable clients do not change, so waking up then is early enough.\<close>

lemma servable_until_next_expiry:
  assumes "now \<le> t" "case findNextXrayClientExpiry s now of None \<Rightarrow> True | Some e \<Rightarrow> t < e"
  shows "selectServableXrayClients s t = selectServableXrayClients s now"
proof -
  have "servable_client t g = servable_client now g" if g: "g \<in> set (sp_grants s)" for g
  proof (cases "getActiveGrantExpiry g")
    case (Some e)
    have "t < e" if "now < e"
    proof -
      have e: "e \<in> set (future_expiries s now)" using Some g that by (auto simp: future_expiries_mem)
      then obtain m where m: "findNextXrayClientExpiry s now = Some m"
        unfolding next_expiry_eq by (cases "earliest_of (future_expiries s now)") (auto simp: earliest_None)
      then have "m \<le> e" using earliest_le e unfolding next_expiry_eq by blast
      with assms(2) m show ?thesis by simp
    qed
    with Some assms(1) show ?thesis by (auto simp: servable_client_def)
  qed (simp add: servable_client_def)
  then have "map (servable_client t) (sp_grants s) = map (servable_client now) (sp_grants s)" by simp
  then show ?thesis unfolding selectServableXrayClients_def by (rule arg_cong)
qed

lemma next_expiry_future: "findNextXrayClientExpiry s now = Some e \<Longrightarrow> now < e"
  unfolding next_expiry_eq by (auto dest!: earliest_mem simp: future_expiries_mem)

lemma expired_deadline_eq: "findExpiredXrayClientEnforcementDeadline s now sla = earliest_of (concat (map (\<lambda>g.
     case getActiveGrantExpiry g of None \<Rightarrow> [] | Some t \<Rightarrow> if t > now then [] else [t + sla]) (sp_grants s)))"
  unfolding findExpiredXrayClientEnforcementDeadline_def
  using fold_earlier_filter [where f = getActiveGrantExpiry and skip = "\<lambda>t. t > now" and h = "\<lambda>t. t + sla"]
  by (simp add: fold_earlier)

lemma expired_deadline_le:
  assumes "g \<in> set (sp_grants s)" "getActiveGrantExpiry g = Some t" "t \<le> now"
  shows "\<exists>D. findExpiredXrayClientEnforcementDeadline s now sla = Some D \<and> D \<le> t + sla"
proof -
  let ?ts = "concat (map (\<lambda>g. case getActiveGrantExpiry g of None \<Rightarrow> [] | Some t \<Rightarrow> if t > now then [] else [t + sla]) (sp_grants s))"
  have mem: "t + sla \<in> set ?ts"
    using assms by (auto intro!: bexI [of _ g] exI [of _ t])
  then have "?ts \<noteq> []" by (metis empty_iff empty_set)
  then obtain D where "earliest_of ?ts = Some D" using earliest_None by (metis not_None_eq)
  with earliest_le mem show ?thesis unfolding expired_deadline_eq by blast
qed

end
