(* ===== verification/Agent_Effects.thy ===== *)
theory Agent_Effects
  imports Xray_Access
begin

text \<open>
  The effects of the node agent as a state monad with exceptions, and its calls to the outside.

  An operation is a function from a world to a result and the world after it; an error keeps
  the effects that precede it.  The combinators and their rules hold for every world; the adapter uses
  them on \<open>agent_world\<close>, the data-plane runtime on a world of its own.  Every call outside the process -- a file operation, a command of the
  data plane, a reading of the clock, the clock probe -- consumes one \<open>answer\<close> of the stream \<open>answers\<close>,
  which fixes whether the call fails (and whether a failed directory sync is one of the unsupported kinds the code ignores), what the clock shows, what the probe says and what the data plane
  serves when a command failed halfway.  A property over all streams thus covers every pattern of
  failures.

  \<open>wp m Q E\<close> is the weakest precondition under which the operation's result satisfies \<open>Q\<close> and its errors
  satisfy \<open>E\<close>; it is computed by one equation per combinator.
\<close>

section \<open>The world of an agent\<close>

datatype 'a disk_file = Absent | Garbled | Stored 'a

datatype trust_answer = ClockTrusted | ClockUntrusted | ProbeFails

record answer =
  an_fails :: bool
  an_unsupported :: bool
  an_now :: instant
  an_trust :: trust_answer
  an_left :: "client list option"

record persisted_state =
  ps_version :: version
  ps_snapshotHash :: string
  ps_appliedAt :: instant
  ps_snapshot :: snapshot

record state_envelope =
  env_current :: persisted_state
  env_previous :: "persisted_state option"

record stop_only_latch =
  lt_targetVersion :: version
  lt_enforcementDeadlineAt :: instant
  lt_revokedGrantIds :: "uuid list"

record agent_world =
  disk_state :: "state_envelope disk_file"
  disk_latch :: "stop_only_latch disk_file"
  serving :: "client list option"
  durabilityIsConfirmed :: bool
  runtimeClientsFingerprint :: "string option"
  runtimeIsFailClosed :: bool
  notifications :: nat
  answers :: "nat \<Rightarrow> answer"
  tick :: nat

datatype agent_error =
    NodeClockUntrusted | VersionDowngrade | VersionCollision
  | LatchNotVerifiable | LatchNotSatisfied | LatchNotEnforced
  | CallFailed string | FailClosedFailed agent_error agent_error

text \<open>An operation on a world \<open>'w\<close> with errors \<open>'e\<close>.\<close>

type_synonym ('w, 'e, 'a) eff = "'w \<Rightarrow> ('e + 'a) \<times> 'w"
type_synonym 'a act = "(agent_world, agent_error, 'a) eff"

section \<open>Combinators\<close>

definition return :: "'a \<Rightarrow> ('w, 'e, 'a) eff" where
  "return x w = (Inr x, w)"

definition throw :: "'e \<Rightarrow> ('w, 'e, 'a) eff" where
  "throw e w = (Inl e, w)"

definition bind_act :: "('w, 'e, 'a) eff \<Rightarrow> ('a \<Rightarrow> ('w, 'e, 'b) eff) \<Rightarrow> ('w, 'e, 'b) eff" where
  "bind_act m f w = (case m w of (Inl e, w') \<Rightarrow> (Inl e, w') | (Inr x, w') \<Rightarrow> f x w')"

definition seq_act :: "('w, 'e, 'a) eff \<Rightarrow> ('w, 'e, 'b) eff \<Rightarrow> ('w, 'e, 'b) eff" where
  "seq_act m n = bind_act m (\<lambda>_. n)"

definition catch :: "('w, 'e, 'a) eff \<Rightarrow> ('e \<Rightarrow> ('w, 'e, 'a) eff) \<Rightarrow> ('w, 'e, 'a) eff" where
  "catch m h w = (case m w of (Inl e, w') \<Rightarrow> h e w' | (Inr x, w') \<Rightarrow> (Inr x, w'))"

text \<open>\<open>try m finally c\<close>: an error of \<open>c\<close> replaces the outcome.\<close>

definition finally_do :: "('w, 'e, 'a) eff \<Rightarrow> ('w, 'e, unit) eff \<Rightarrow> ('w, 'e, 'a) eff" where
  "finally_do m c w = (case m w of (r, w') \<Rightarrow>
     (case c w' of (Inl e, w'') \<Rightarrow> (Inl e, w'') | (Inr _, w'') \<Rightarrow> (r, w'')))"

definition get :: "('w \<Rightarrow> 'a) \<Rightarrow> ('w, 'e, 'a) eff" where
  "get f w = (Inr (f w), w)"

definition modify :: "('w \<Rightarrow> 'w) \<Rightarrow> ('w, 'e, unit) eff" where
  "modify f w = (Inr (), f w)"

definition when_act :: "bool \<Rightarrow> ('w, 'e, unit) eff \<Rightarrow> ('w, 'e, unit) eff" where
  "when_act b m = (if b then m else return ())"

definition ask :: "answer act" where
  "ask w = (Inr (answers w (tick w)), w\<lparr>tick := tick w + 1\<rparr>)"

text \<open>A call that either happens, with its effect on the world, or fails without effect.\<close>

definition call_out :: "string \<Rightarrow> (agent_world \<Rightarrow> agent_world) \<Rightarrow> unit act" where
  "call_out name eff = bind_act ask (\<lambda>a. if an_fails a then throw (CallFailed name) else modify eff)"

definition current_time :: "instant act" where
  "current_time = bind_act ask (\<lambda>a. return (an_now a))"

lemmas act_defs = return_def throw_def bind_act_def seq_act_def catch_def finally_do_def get_def modify_def
  when_act_def ask_def call_out_def current_time_def

section \<open>Weakest preconditions\<close>

definition wp ::
    "('w, 'e, 'a) eff \<Rightarrow> ('a \<Rightarrow> 'w \<Rightarrow> bool) \<Rightarrow> ('e \<Rightarrow> 'w \<Rightarrow> bool) \<Rightarrow> 'w \<Rightarrow> bool" where
  "wp m Q E w = (case m w of (Inl e, w') \<Rightarrow> E e w' | (Inr x, w') \<Rightarrow> Q x w')"

lemma wp_Inr: "wp m Q E w \<Longrightarrow> m w = (Inr x, w') \<Longrightarrow> Q x w'"
  by (simp add: wp_def)

lemma wp_Inl: "wp m Q E w \<Longrightarrow> m w = (Inl e, w') \<Longrightarrow> E e w'"
  by (simp add: wp_def)

lemma wp_mono:
  assumes "wp m Q' E' w" "\<And>x w'. Q' x w' \<Longrightarrow> Q x w'" "\<And>e w'. E' e w' \<Longrightarrow> E e w'"
  shows "wp m Q E w"
  using assms by (simp add: wp_def split: prod.splits sum.splits)

lemma wp_conj: "wp m Q E w \<Longrightarrow> wp m Q' E' w \<Longrightarrow> wp m (\<lambda>x w. Q x w \<and> Q' x w) (\<lambda>e w. E e w \<and> E' e w) w"
  by (simp add: wp_def split: prod.splits sum.splits)

named_theorems wp_simps \<open>the weakest precondition of each combinator and call\<close>

lemma wp_return [wp_simps]: "wp (return x) Q E w = Q x w"
  by (simp add: wp_def return_def)

lemma wp_throw [wp_simps]: "wp (throw e) Q E w = E e w"
  by (simp add: wp_def throw_def)

lemma wp_get [wp_simps]: "wp (get f) Q E w = Q (f w) w"
  by (simp add: wp_def get_def)

lemma wp_modify [wp_simps]: "wp (modify f) Q E w = Q () (f w)"
  by (simp add: wp_def modify_def)

lemma wp_ask [wp_simps]: "wp ask Q E w = Q (answers w (tick w)) (w\<lparr>tick := tick w + 1\<rparr>)"
  by (simp add: wp_def ask_def)

lemma wp_bind [wp_simps]: "wp (bind_act m f) Q E w = wp m (\<lambda>x. wp (f x) Q E) E w"
  by (simp add: wp_def bind_act_def split: prod.splits sum.splits)

lemma wp_seq [wp_simps]: "wp (seq_act m n) Q E w = wp m (\<lambda>_. wp n Q E) E w"
  by (simp add: seq_act_def wp_bind)

lemma wp_catch [wp_simps]: "wp (catch m h) Q E w = wp m Q (\<lambda>e. wp (h e) Q E) w"
  by (simp add: wp_def catch_def split: prod.splits sum.splits)

lemma wp_finally [wp_simps]:
  "wp (finally_do m c) Q E w = wp m (\<lambda>x. wp c (\<lambda>_. Q x) E) (\<lambda>e. wp c (\<lambda>_. E e) E) w"
  by (simp add: wp_def finally_do_def split: prod.splits sum.splits)

lemma wp_when [wp_simps]: "wp (when_act b m) Q E w = (if b then wp m Q E w else Q () w)"
  by (simp add: when_act_def wp_return)

lemma wp_if [wp_simps]: "wp (if b then m else n) Q E w = (if b then wp m Q E w else wp n Q E w)"
  by simp

lemma wp_call_out [wp_simps]:
  "wp (call_out name eff) Q E w =
     (if an_fails (answers w (tick w)) then E (CallFailed name) (w\<lparr>tick := tick w + 1\<rparr>)
      else Q () (eff (w\<lparr>tick := tick w + 1\<rparr>)))"
  by (simp add: call_out_def wp_simps)

lemma wp_current_time [wp_simps]:
  "wp current_time Q E w = Q (an_now (answers w (tick w))) (w\<lparr>tick := tick w + 1\<rparr>)"
  by (simp add: current_time_def wp_simps)

end
