(* ===== verification/Xray_Adapter.thy ===== *)
theory Xray_Adapter
  imports Agent_Effects
begin

text \<open>
  The data-plane adapter of the node agent (\<open>apps/node-agent/src/local-xray-adapter.ts\<close>): applying a
  snapshot, the local reconciliation of expiries, and the stop-only latch for revocations that arrive
  before their command.

  The state file and the latch file are \<open>disk_state\<close> and \<open>disk_latch\<close>; what the data plane serves is
  \<open>serving\<close> (\<open>None\<close>: it serves nobody).  The runtime's contract is that of \<open>XrayConfigRuntime\<close>: a
  successful \<open>applyClients\<close> serves exactly the given clients (the serving verifier checks it), a
  successful \<open>failClosed\<close> serves nobody, and a failed call leaves the runtime in any state
  (\<open>an_left\<close>).  The two SHA-256 digests are fields of the configuration.  Operations run one at a
  time (\<open>runExclusive\<close>), logging is left out.
\<close>

section \<open>Digests and consistency of the stored state\<close>

type_synonym grant_material = "uuid \<times> GrantStatus \<times> instant \<times> version \<times> instant option \<times> uuid option"
type_synonym agent_material = "version \<times> grant_material list \<times> snapshot_route list"

record agent_config =
  sha_snapshot :: "agent_material \<Rightarrow> string"
  sha_clients :: "client list \<Rightarrow> string"
  clockTrust :: bool

definition grant_material :: "snapshot_grant \<Rightarrow> grant_material" where
  "grant_material g = (sg_id g, sg_status g, sg_expiresAt g, sg_desiredVersion g, sg_revokedAt g, sg_dataPlaneCredential g)"

definition hashNodeAgentSnapshot :: "agent_config \<Rightarrow> snapshot \<Rightarrow> string" where
  "hashNodeAgentSnapshot c s =
     sha_snapshot c (sp_desiredConfigVersion s, map grant_material (sp_grants s), sp_routes s)"

definition fingerprintClients :: "agent_config \<Rightarrow> client list \<Rightarrow> string" where
  "fingerprintClients c clients = sha_clients c clients"

definition isPersistedStateConsistent :: "agent_config \<Rightarrow> persisted_state \<Rightarrow> bool" where
  "isPersistedStateConsistent c p \<longleftrightarrow> ps_version p = sp_desiredConfigVersion (ps_snapshot p)
     \<and> ps_snapshotHash p = hashNodeAgentSnapshot c (ps_snapshot p)"

definition isStateEnvelopeConsistent :: "agent_config \<Rightarrow> state_envelope \<Rightarrow> bool" where
  "isStateEnvelopeConsistent c e \<longleftrightarrow> isPersistedStateConsistent c (env_current e)
     \<and> (case env_previous e of None \<Rightarrow> True
        | Some p \<Rightarrow> ps_version p < ps_version (env_current e) \<and> isPersistedStateConsistent c p)"

section \<open>Reading the files\<close>

datatype 'a read_result = Valid 'a | Missing | Corrupt | Unreadable

definition readState :: "agent_config \<Rightarrow> state_envelope read_result act" where
  "readState c = bind_act ask (\<lambda>a. bind_act (get disk_state) (\<lambda>f. return (
     if an_fails a then Unreadable
     else case f of Absent \<Rightarrow> Missing | Garbled \<Rightarrow> Corrupt
        | Stored e \<Rightarrow> if isStateEnvelopeConsistent c e then Valid e else Corrupt)))"

definition stopOnlyLatchSchema :: "stop_only_latch \<Rightarrow> bool" where
  "stopOnlyLatchSchema l \<longleftrightarrow> 0 \<le> lt_targetVersion l \<and> lt_revokedGrantIds l \<noteq> []
     \<and> sort (remdups (lt_revokedGrantIds l)) = lt_revokedGrantIds l"

definition readStopOnlyLatch :: "stop_only_latch read_result act" where
  "readStopOnlyLatch = bind_act ask (\<lambda>a. bind_act (get disk_latch) (\<lambda>f. return (
     if an_fails a then Unreadable
     else case f of Absent \<Rightarrow> Missing | Garbled \<Rightarrow> Corrupt
        | Stored l \<Rightarrow> if stopOnlyLatchSchema l then Valid l else Corrupt)))"

section \<open>Writing the files\<close>

text \<open>A directory sync that the platform does not support counts as done.\<close>

definition syncParentDirectory :: "unit act" where
  "syncParentDirectory = bind_act ask (\<lambda>a.
     if an_fails a then (if an_unsupported a then return () else throw (CallFailed ''open directory''))
     else finally_do
       (bind_act ask (\<lambda>b. if an_fails b \<and> \<not> an_unsupported b then throw (CallFailed ''sync directory'') else return ()))
       (call_out ''close directory'' id))"

text \<open>Write to a temporary file, sync, rename over the target, sync the directory; the temporary file is
  removed in every case.  The rename is the step that changes the target.\<close>

definition writeJsonDurably :: "(agent_world \<Rightarrow> agent_world) \<Rightarrow> unit act" where
  "writeJsonDurably store =
     seq_act (call_out ''mkdir'' id)
    (seq_act (call_out ''remove temporary'' id)
    (finally_do
      (seq_act (call_out ''open temporary'' id)
      (seq_act
        (catch
          (seq_act (call_out ''write temporary'' id)
          (seq_act (call_out ''sync temporary'' id) (call_out ''close temporary'' id)))
          (\<lambda>e. seq_act (catch (call_out ''close temporary'' id) (\<lambda>_. return ())) (throw e)))
      (seq_act (call_out ''rename'' store) syncParentDirectory)))
      (call_out ''remove temporary'' id)))"

definition writeDurably :: "state_envelope \<Rightarrow> unit act" where
  "writeDurably e = writeJsonDurably (\<lambda>w. w\<lparr>disk_state := Stored e\<rparr>)"

definition confirmDurability :: "unit act" where
  "confirmDurability =
     seq_act (seq_act (call_out ''open state'' id)
               (finally_do (call_out ''sync state'' id) (call_out ''close state'' id)))
             syncParentDirectory"

section \<open>Stopping the data plane\<close>

definition runtime_applyClients :: "client list \<Rightarrow> bool \<Rightarrow> unit act" where
  "runtime_applyClients clients reloadIfUnchanged = bind_act ask (\<lambda>a.
     if an_fails a then seq_act (modify (\<lambda>w. w\<lparr>serving := an_left a\<rparr>)) (throw (CallFailed ''applyClients''))
     else modify (\<lambda>w. w\<lparr>serving := Some clients\<rparr>))"

definition runtime_failClosed :: "unit act" where
  "runtime_failClosed = bind_act ask (\<lambda>a.
     if an_fails a then seq_act (modify (\<lambda>w. w\<lparr>serving := an_left a\<rparr>)) (throw (CallFailed ''failClosed''))
     else modify (\<lambda>w. w\<lparr>serving := None\<rparr>))"

definition observeServingPresence :: "bool act" where
  "observeServingPresence = bind_act ask (\<lambda>a. bind_act (get serving) (\<lambda>s.
     return (\<not> an_fails a \<and> s \<noteq> None)))"

definition forceFailClosed :: "unit act" where
  "forceFailClosed =
     seq_act (modify (\<lambda>w. w\<lparr>runtimeIsFailClosed := False, runtimeClientsFingerprint := None\<rparr>))
    (seq_act runtime_failClosed
             (modify (\<lambda>w. w\<lparr>runtimeIsFailClosed := True\<rparr>)))"

definition enterFailClosed :: "unit act" where
  "enterFailClosed = forceFailClosed"

definition failClosedAndRethrow :: "agent_error \<Rightarrow> 'a act" where
  "failClosedAndRethrow e =
     seq_act (catch forceFailClosed (\<lambda>f. throw (FailClosedFailed e f))) (throw e)"

definition enforceClockTrust :: "agent_config \<Rightarrow> bool act" where
  "enforceClockTrust c =
     (if \<not> clockTrust c then return True
      else bind_act ask (\<lambda>a. case an_trust a of
          ProbeFails \<Rightarrow> failClosedAndRethrow (CallFailed ''clock probe'')
        | ClockTrusted \<Rightarrow> return True
        | ClockUntrusted \<Rightarrow> seq_act enterFailClosed (return False)))"

definition ensureDurabilityConfirmed :: "unit act" where
  "ensureDurabilityConfirmed = bind_act (get durabilityIsConfirmed) (\<lambda>confirmed.
     if confirmed then return ()
     else catch (seq_act confirmDurability (modify (\<lambda>w. w\<lparr>durabilityIsConfirmed := True\<rparr>)))
            failClosedAndRethrow)"

definition notifyLocalStateChange :: "unit act" where
  "notifyLocalStateChange = modify (\<lambda>w. w\<lparr>notifications := notifications w + 1\<rparr>)"

section \<open>The stop-only latch\<close>

definition merged_latch :: "stop_only_latch read_result \<Rightarrow> version \<Rightarrow> enforcement list \<Rightarrow> stop_only_latch" where
  "merged_latch existing targetVersion enforcements =
     (case existing of
        Valid l \<Rightarrow> \<lparr>lt_targetVersion = max (lt_targetVersion l) targetVersion,
          lt_enforcementDeadlineAt = fold (\<lambda>e t. min t (en_deadlineAt e)) enforcements (lt_enforcementDeadlineAt l),
          lt_revokedGrantIds = sort (remdups (lt_revokedGrantIds l @ map en_grantId enforcements))\<rparr>
      | _ \<Rightarrow> \<lparr>lt_targetVersion = targetVersion,
          lt_enforcementDeadlineAt = fold (\<lambda>e t. min t (en_deadlineAt e)) (tl enforcements) (en_deadlineAt (hd enforcements)),
          lt_revokedGrantIds = sort (remdups (map en_grantId enforcements))\<rparr>)"

definition persistStopOnlyLatch :: "version \<Rightarrow> enforcement list \<Rightarrow> unit act" where
  "persistStopOnlyLatch targetVersion enforcements =
     bind_act readStopOnlyLatch (\<lambda>existing.
       writeJsonDurably (\<lambda>w. w\<lparr>disk_latch := Stored (merged_latch existing targetVersion enforcements)\<rparr>))"

definition clearStopOnlyLatchAfterVerifiedApply :: "snapshot \<Rightarrow> stop_only_latch read_result \<Rightarrow> unit act" where
  "clearStopOnlyLatchAfterVerifiedApply s latchState =
     (case latchState of
        Missing \<Rightarrow> return ()
      | Valid l \<Rightarrow>
          if sp_desiredConfigVersion s < lt_targetVersion l then throw LatchNotSatisfied
          else bind_act current_time (\<lambda>now.
            let servableGrantIds = set (map cl_grantId (selectServableXrayClients s now))
            in if \<exists>gid \<in> set (lt_revokedGrantIds l). gid \<in> servableGrantIds then throw LatchNotEnforced
               else seq_act (call_out ''remove latch'' (\<lambda>w. w\<lparr>disk_latch := Absent\<rparr>)) syncParentDirectory)
      | _ \<Rightarrow> throw LatchNotVerifiable)"

section \<open>Deadlines\<close>

definition shouldFailClosed :: "instant option \<Rightarrow> instant \<Rightarrow> bool" where
  "shouldFailClosed enforcementDeadlineAt now =
     (case enforcementDeadlineAt of None \<Rightarrow> False | Some d \<Rightarrow> now \<ge> d - LOCAL_FAIL_CLOSED_RESERVE_MS)"

definition nextIntegrityCheckAt :: "instant \<Rightarrow> instant" where
  "nextIntegrityCheckAt now = now + LOCAL_STATE_INTEGRITY_CHECK_INTERVAL_MS"

definition nextLocalSecurityCheckAt :: "snapshot \<Rightarrow> instant \<Rightarrow> instant" where
  "nextLocalSecurityCheckAt s now = (case findNextXrayClientExpiry s now of
       None \<Rightarrow> nextIntegrityCheckAt now
     | Some e \<Rightarrow> min (nextIntegrityCheckAt now) e)"

section \<open>Applying a snapshot\<close>

datatype apply_outcome = Applied | AlreadyApplied

definition reapplySnapshot ::
    "agent_config \<Rightarrow> snapshot \<Rightarrow> client list \<Rightarrow> stop_only_latch read_result \<Rightarrow> apply_outcome act" where
  "reapplySnapshot c s clients latch =
     bind_act observeServingPresence (\<lambda>serves. bind_act (get runtimeIsFailClosed) (\<lambda>wasFailClosed.
       let recoverFromStoppedRuntime = \<not> serves
       in seq_act
           (catch
             (seq_act (runtime_applyClients clients (wasFailClosed \<or> recoverFromStoppedRuntime))
             (seq_act (modify (\<lambda>w. w\<lparr>runtimeIsFailClosed := False\<rparr>))
             (seq_act confirmDurability
                      (modify (\<lambda>w. w\<lparr>durabilityIsConfirmed := True\<rparr>)))))
             (\<lambda>e. if wasFailClosed \<or> recoverFromStoppedRuntime then failClosedAndRethrow e else throw e))
         (seq_act (catch (clearStopOnlyLatchAfterVerifiedApply s latch) failClosedAndRethrow)
         (seq_act (modify (\<lambda>w. w\<lparr>runtimeClientsFingerprint := Some (fingerprintClients c clients)\<rparr>))
         (seq_act notifyLocalStateChange (return AlreadyApplied))))))"

text \<open>The new clients are served first; only then is the snapshot stored.\<close>

definition switchRuntime ::
    "client list \<Rightarrow> persisted_state option \<Rightarrow> instant option \<Rightarrow> bool \<Rightarrow> bool \<Rightarrow> unit act" where
  "switchRuntime clients current revocationDeadlineAt wasFailClosed serves =
     catch (seq_act (runtime_applyClients clients True) (modify (\<lambda>w. w\<lparr>runtimeIsFailClosed := False\<rparr>)))
       (\<lambda>e. if wasFailClosed \<or> \<not> serves \<or> current = None then failClosedAndRethrow e
            else bind_act current_time (\<lambda>now.
              if shouldFailClosed revocationDeadlineAt now then failClosedAndRethrow e else throw e))"

definition commitSnapshot ::
    "agent_config \<Rightarrow> snapshot \<Rightarrow> client list \<Rightarrow> string \<Rightarrow> instant \<Rightarrow> stop_only_latch read_result \<Rightarrow>
     persisted_state option \<Rightarrow> apply_outcome act" where
  "commitSnapshot c s clients snapshotHash applyTime latch current =
     seq_act (modify (\<lambda>w. w\<lparr>durabilityIsConfirmed := False\<rparr>))
    (seq_act
       (catch (writeDurably \<lparr>env_current = \<lparr>ps_version = sp_desiredConfigVersion s, ps_snapshotHash = snapshotHash,
            ps_appliedAt = applyTime, ps_snapshot = s\<rparr>, env_previous = current\<rparr>)
         failClosedAndRethrow)
    (seq_act (modify (\<lambda>w. w\<lparr>durabilityIsConfirmed := True\<rparr>))
    (seq_act (catch (clearStopOnlyLatchAfterVerifiedApply s latch) failClosedAndRethrow)
    (seq_act (modify (\<lambda>w. w\<lparr>runtimeClientsFingerprint := Some (fingerprintClients c clients)\<rparr>))
    (seq_act notifyLocalStateChange (return Applied))))))"

definition applyNewSnapshot ::
    "agent_config \<Rightarrow> snapshot \<Rightarrow> client list \<Rightarrow> string \<Rightarrow> instant \<Rightarrow> stop_only_latch read_result \<Rightarrow>
     persisted_state option \<Rightarrow> apply_outcome act" where
  "applyNewSnapshot c s clients snapshotHash applyTime latch current =
     (let revocationDeadlineAt = (case current of None \<Rightarrow> None
            | Some p \<Rightarrow> findRevokedXrayClientEnforcementDeadline (ps_snapshot p) s applyTime ACCESS_CONTROL_ENFORCEMENT_SLA_MS)
      in bind_act (get runtimeIsFailClosed) (\<lambda>failClosed.
         seq_act (when_act (\<not> failClosed \<and> shouldFailClosed revocationDeadlineAt applyTime) enterFailClosed)
        (bind_act observeServingPresence (\<lambda>serves. bind_act (get runtimeIsFailClosed) (\<lambda>wasFailClosed.
         seq_act (switchRuntime clients current revocationDeadlineAt wasFailClosed serves)
                 (commitSnapshot c s clients snapshotHash applyTime latch current))))))"

definition dispatchSnapshot ::
    "agent_config \<Rightarrow> snapshot \<Rightarrow> client list \<Rightarrow> string \<Rightarrow> instant \<Rightarrow> stop_only_latch read_result \<Rightarrow>
     state_envelope read_result \<Rightarrow> apply_outcome act" where
  "dispatchSnapshot c s clients snapshotHash applyTime latch state =
     (case state of
        Valid e \<Rightarrow>
          seq_act ensureDurabilityConfirmed
            (if ps_version (env_current e) > sp_desiredConfigVersion s then throw VersionDowngrade
             else if ps_version (env_current e) = sp_desiredConfigVersion s
             then if ps_snapshotHash (env_current e) \<noteq> snapshotHash then throw VersionCollision
                  else reapplySnapshot c s clients latch
             else applyNewSnapshot c s clients snapshotHash applyTime latch (Some (env_current e)))
      | _ \<Rightarrow> seq_act enterFailClosed (applyNewSnapshot c s clients snapshotHash applyTime latch None))"

definition applySnapshot :: "agent_config \<Rightarrow> snapshot \<Rightarrow> apply_outcome act" where
  "applySnapshot c s =
     bind_act (enforceClockTrust c) (\<lambda>trusted.
       if \<not> trusted then throw NodeClockUntrusted
       else bind_act current_time (\<lambda>applyTime. bind_act readStopOnlyLatch (\<lambda>latch.
         seq_act (when_act (latch \<noteq> Missing) enterFailClosed)
           (bind_act (readState c) (\<lambda>state.
             dispatchSnapshot c s (selectServableXrayClients s applyTime) (hashNodeAgentSnapshot c s)
               applyTime latch state)))))"

section \<open>Local security\<close>

definition enforceSnapshotSecurity :: "agent_config \<Rightarrow> snapshot \<Rightarrow> unit act" where
  "enforceSnapshotSecurity c s =
     bind_act (enforceClockTrust c) (\<lambda>trusted.
       if \<not> trusted then throw NodeClockUntrusted
       else bind_act readStopOnlyLatch (\<lambda>existingLatch.
         seq_act (when_act (existingLatch \<noteq> Missing) enterFailClosed)
           (bind_act (readState c) (\<lambda>state. bind_act current_time (\<lambda>now.
             let enforcements = (case state of
                   Valid e \<Rightarrow> findRevokedXrayClientEnforcements (ps_snapshot (env_current e)) s now ACCESS_CONTROL_ENFORCEMENT_SLA_MS
                 | _ \<Rightarrow> findSnapshotRevocationEnforcements s ACCESS_CONTROL_ENFORCEMENT_SLA_MS)
             in if enforcements = []
                then (case state of Valid _ \<Rightarrow> return () | _ \<Rightarrow> enterFailClosed)
                else seq_act (catch (persistStopOnlyLatch (sp_desiredConfigVersion s) enforcements) failClosedAndRethrow)
                    (seq_act enterFailClosed notifyLocalStateChange))))))"

definition nextLocalReconcileAt :: "agent_config \<Rightarrow> instant act" where
  "nextLocalReconcileAt c =
     bind_act (enforceClockTrust c) (\<lambda>trusted.
       if \<not> trusted then bind_act current_time (\<lambda>now. return (nextIntegrityCheckAt now))
       else bind_act current_time (\<lambda>now. bind_act readStopOnlyLatch (\<lambda>latch.
         if latch \<noteq> Missing then seq_act enterFailClosed (return (nextIntegrityCheckAt now))
         else bind_act (readState c) (\<lambda>state. case state of
             Valid e \<Rightarrow> return (nextLocalSecurityCheckAt (ps_snapshot (env_current e)) now)
           | _ \<Rightarrow> seq_act enterFailClosed (return (nextIntegrityCheckAt now))))))"

definition reconcileCurrent :: "agent_config \<Rightarrow> persisted_state \<Rightarrow> instant act" where
  "reconcileCurrent c current =
     seq_act ensureDurabilityConfirmed
    (bind_act current_time (\<lambda>now.
       let clients = selectServableXrayClients (ps_snapshot current) now;
           enforcementDeadlineAt = findExpiredXrayClientEnforcementDeadline (ps_snapshot current) now ACCESS_CONTROL_ENFORCEMENT_SLA_MS;
           next_check = nextLocalSecurityCheckAt (ps_snapshot current) now
       in bind_act (get runtimeIsFailClosed) (\<lambda>failClosed.
          seq_act (when_act (\<not> failClosed \<and> shouldFailClosed enforcementDeadlineAt now) enterFailClosed)
         (bind_act observeServingPresence (\<lambda>serves. bind_act (get (\<lambda>w. (runtimeIsFailClosed w, runtimeClientsFingerprint w)))
           (\<lambda>(wasFailClosed, fingerprint).
             if \<not> wasFailClosed \<and> fingerprint = Some (fingerprintClients c clients) \<and> serves then return next_check
             else seq_act
               (catch (seq_act (runtime_applyClients clients True) (modify (\<lambda>w. w\<lparr>runtimeIsFailClosed := False\<rparr>)))
                 (\<lambda>e. bind_act current_time (\<lambda>failureTime.
                   if wasFailClosed \<or> \<not> serves \<or> shouldFailClosed enforcementDeadlineAt failureTime
                   then failClosedAndRethrow e else throw e)))
               (seq_act (modify (\<lambda>w. w\<lparr>runtimeClientsFingerprint := Some (fingerprintClients c clients)\<rparr>))
                 (return next_check))))))))"

definition reconcileLocalState :: "agent_config \<Rightarrow> instant act" where
  "reconcileLocalState c =
     bind_act (enforceClockTrust c) (\<lambda>trusted.
       if \<not> trusted then bind_act current_time (\<lambda>now. return (nextIntegrityCheckAt now))
       else bind_act readStopOnlyLatch (\<lambda>latch.
         if latch \<noteq> Missing then seq_act enterFailClosed (bind_act current_time (\<lambda>now. return (nextIntegrityCheckAt now)))
         else bind_act (readState c) (\<lambda>state. case state of
             Valid e \<Rightarrow> reconcileCurrent c (env_current e)
           | _ \<Rightarrow> seq_act enterFailClosed (bind_act current_time (\<lambda>now. return (nextIntegrityCheckAt now))))))"

end
