(* ===== verification/Xray_Adapter_Properties.thy ===== *)
theory Xray_Adapter_Properties
  imports Xray_Adapter
begin

text \<open>
  What the adapter guarantees under every pattern of failures of its calls: a successful apply serves
  exactly the clients of the snapshot, an operation that must not serve ends with a stopped data
  plane or reports that stopping failed, the state file never goes back, and the stop-only latch is
  lifted only by a snapshot that enforces it.

  The first section gives each part of the adapter one introduction rule for \<open>wp\<close>; the properties then
  follow by applying the rules along the code.
\<close>

section \<open>Rules for the parts\<close>

definition stopped_at :: "agent_world \<Rightarrow> nat \<Rightarrow> agent_world" where
  "stopped_at w k = w\<lparr>serving := None, runtimeClientsFingerprint := None, runtimeIsFailClosed := True, tick := k\<rparr>"

definition stop_failed_at :: "agent_world \<Rightarrow> client list option \<Rightarrow> nat \<Rightarrow> agent_world" where
  "stop_failed_at w x k = w\<lparr>serving := x, runtimeClientsFingerprint := None, runtimeIsFailClosed := False, tick := k\<rparr>"

lemma stopped_sel [simp]:
  "serving (stopped_at w k) = None" "runtimeIsFailClosed (stopped_at w k)" "disk_state (stopped_at w k) = disk_state w"
  "disk_latch (stopped_at w k) = disk_latch w" "answers (stopped_at w k) = answers w"
  "disk_state (stop_failed_at w x k) = disk_state w" "disk_latch (stop_failed_at w x k) = disk_latch w"
  "\<not> runtimeIsFailClosed (stop_failed_at w x k)" "answers (stop_failed_at w x k) = answers w"
  "runtimeClientsFingerprint (stopped_at w k) = None"
  by (simp_all add: stopped_at_def stop_failed_at_def)

abbreviation stop_error :: agent_error where
  "stop_error \<equiv> CallFailed ''failClosed''"

named_theorems wp_rules \<open>introduction rules for the parts of the adapter\<close>

lemma wp_sync [wp_rules]:
  assumes "\<And>k. Q () (w\<lparr>tick := k\<rparr>)" "\<And>k n. n \<noteq> ''failClosed'' \<Longrightarrow> E (CallFailed n) (w\<lparr>tick := k\<rparr>)"
  shows "wp syncParentDirectory Q E w"
  using assms by (simp add: syncParentDirectory_def wp_simps)

lemma wp_confirm [wp_rules]:
  assumes "\<And>k. Q () (w\<lparr>tick := k\<rparr>)" "\<And>k n. n \<noteq> ''failClosed'' \<Longrightarrow> E (CallFailed n) (w\<lparr>tick := k\<rparr>)"
  shows "wp confirmDurability Q E w"
  unfolding confirmDurability_def wp_simps using assms by (auto intro!: wp_sync)

lemma wp_writeJson:
  assumes "\<And>k. Q () ((store w)\<lparr>tick := k\<rparr>)" "\<And>k n. n \<noteq> ''failClosed'' \<Longrightarrow> E (CallFailed n) (w\<lparr>tick := k\<rparr>)"
    and "\<And>k n. n \<noteq> ''failClosed'' \<Longrightarrow> E (CallFailed n) ((store w)\<lparr>tick := k\<rparr>)"
    and "\<And>k. store (w\<lparr>tick := k\<rparr>) = (store w)\<lparr>tick := k\<rparr>"
  shows "wp (writeJsonDurably store) Q E w"
  unfolding writeJsonDurably_def wp_simps using assms by (auto intro!: wp_sync)

lemma wp_force [wp_rules]:
  assumes "\<And>k. Q () (stopped_at w k)" "\<And>x k. E stop_error (stop_failed_at w x k)"
  shows "wp forceFailClosed Q E w"
proof -
  have failed: "w\<lparr>runtimeIsFailClosed := False, runtimeClientsFingerprint := None, tick := k, serving := x\<rparr> = stop_failed_at w x k"
    and stopped: "stop_failed_at w None k\<lparr>runtimeIsFailClosed := True\<rparr> = stopped_at w k"
    for k x by (simp_all add: stop_failed_at_def stopped_at_def)
  show ?thesis
    by (simp add: forceFailClosed_def runtime_failClosed_def wp_simps failed stopped assms)
qed

lemma wp_enter [wp_rules]:
  assumes "\<And>k. Q () (stopped_at w k)" "\<And>x k. E stop_error (stop_failed_at w x k)"
  shows "wp enterFailClosed Q E w"
  unfolding enterFailClosed_def using assms by (rule wp_force)

lemma wp_rethrow [wp_rules]:
  assumes "\<And>k. E e (stopped_at w k)" "\<And>x k. E (FailClosedFailed e stop_error) (stop_failed_at w x k)"
  shows "wp (failClosedAndRethrow e) Q E w"
  unfolding failClosedAndRethrow_def wp_simps using assms by (intro wp_force)

lemma wp_trust [wp_rules]:
  assumes "\<And>k. \<not> clockTrust c \<or> an_trust (answers w (tick w)) = ClockTrusted \<Longrightarrow> Q True (w\<lparr>tick := k\<rparr>)"
    and "\<And>k. Q False (stopped_at w k)"
    and "\<And>k. E (CallFailed ''clock probe'') (stopped_at w k)"
    and "\<And>x k. E stop_error (stop_failed_at w x k)"
    and "\<And>x k. E (FailClosedFailed (CallFailed ''clock probe'') stop_error) (stop_failed_at w x k)"
  shows "wp (enforceClockTrust c) Q E w"
proof (cases "clockTrust c")
  case True
  have tick: "stopped_at (w\<lparr>tick := t\<rparr>) k = stopped_at w k" "stop_failed_at (w\<lparr>tick := t\<rparr>) x k = stop_failed_at w x k" for t x k
    by (simp_all add: stopped_at_def stop_failed_at_def)
  show ?thesis
    unfolding enforceClockTrust_def wp_simps using True assms
    by (cases "an_trust (answers w (tick w))") (auto simp: wp_simps tick intro!: wp_enter wp_rethrow)
next
  case False
  have "Q True (w\<lparr>tick := tick w\<rparr>)" using assms(1) False by blast
  then show ?thesis using False by (simp add: enforceClockTrust_def wp_simps)
qed

definition file_result :: "('a \<Rightarrow> bool) \<Rightarrow> 'a disk_file \<Rightarrow> 'a read_result" where
  "file_result ok f = (case f of Absent \<Rightarrow> Missing | Garbled \<Rightarrow> Corrupt | Stored x \<Rightarrow> if ok x then Valid x else Corrupt)"

lemma file_result_iff [simp]:
  "file_result ok f = Missing \<longleftrightarrow> f = Absent" "file_result ok f = Valid x \<longleftrightarrow> f = Stored x \<and> ok x"
  "Missing = file_result ok f \<longleftrightarrow> f = Absent" "Valid x = file_result ok f \<longleftrightarrow> f = Stored x \<and> ok x"
  "file_result ok f \<noteq> Unreadable"
  by (auto simp: file_result_def split: disk_file.splits)

lemma wp_readState [wp_rules]:
  assumes "\<And>k r. r = Unreadable \<or> r = file_result (isStateEnvelopeConsistent c) (disk_state w) \<Longrightarrow> Q r (w\<lparr>tick := k\<rparr>)"
  shows "wp (readState c) Q E w"
  using assms by (auto simp: readState_def wp_simps file_result_def)

lemma wp_readLatch [wp_rules]:
  assumes "\<And>k r. r = Unreadable \<or> r = file_result stopOnlyLatchSchema (disk_latch w) \<Longrightarrow> Q r (w\<lparr>tick := k\<rparr>)"
  shows "wp readStopOnlyLatch Q E w"
  using assms by (auto simp: readStopOnlyLatch_def wp_simps file_result_def)

lemma wp_time [wp_rules]:
  assumes "\<And>k. Q (an_now (answers w (tick w))) (w\<lparr>tick := k\<rparr>)"
  shows "wp current_time Q E w"
  using assms by (simp add: wp_simps)

lemma wp_apply [wp_rules]:
  assumes "\<And>k. Q () (w\<lparr>serving := Some clients, tick := k\<rparr>)"
    and "\<And>k x. E (CallFailed ''applyClients'') (w\<lparr>serving := x, tick := k\<rparr>)"
  shows "wp (runtime_applyClients clients reload) Q E w"
proof -
  have swap: "w\<lparr>tick := k, serving := x\<rparr> = w\<lparr>serving := x, tick := k\<rparr>" for k x by simp
  show ?thesis using assms by (simp add: runtime_applyClients_def wp_simps swap)
qed

lemma wp_observe [wp_rules]:
  assumes "\<And>k b. b \<longrightarrow> serving w \<noteq> None \<Longrightarrow> Q b (w\<lparr>tick := k\<rparr>)"
  shows "wp observeServingPresence Q E w"
  using assms by (simp add: observeServingPresence_def wp_simps)

lemma wp_ensure [wp_rules]:
  assumes "\<And>k. Q () (w\<lparr>durabilityIsConfirmed := True, tick := k\<rparr>)"
    and "\<And>k n. n \<noteq> ''failClosed'' \<Longrightarrow> E (CallFailed n) (stopped_at w k)"
    and "\<And>x k n. E (FailClosedFailed (CallFailed n) stop_error) (stop_failed_at w x k)"
  shows "wp ensureDurabilityConfirmed Q E w"
proof (cases "durabilityIsConfirmed w")
  case True
  have "w\<lparr>durabilityIsConfirmed := True, tick := tick w\<rparr> = w" using True by (cases w) simp
  then have "Q () w" using assms(1) [of "tick w"] by metis
  then show ?thesis using True by (simp add: ensureDurabilityConfirmed_def wp_simps)
next
  case False
  have tick: "stopped_at (w\<lparr>tick := t\<rparr>) k = stopped_at w k" "stop_failed_at (w\<lparr>tick := t\<rparr>) x k = stop_failed_at w x k"
    "w\<lparr>tick := t, durabilityIsConfirmed := True\<rparr> = w\<lparr>durabilityIsConfirmed := True, tick := t\<rparr>" for t x k
    by (simp_all add: stopped_at_def stop_failed_at_def)
  show ?thesis
    unfolding ensureDurabilityConfirmed_def wp_simps using False assms
    by (auto simp: wp_simps tick intro!: wp_confirm wp_rethrow)
qed

lemma wp_notify [wp_rules]:
  assumes "Q () (w\<lparr>notifications := notifications w + 1\<rparr>)"
  shows "wp notifyLocalStateChange Q E w"
  using assms by (simp add: notifyLocalStateChange_def wp_simps)

text \<open>Clearing the latch: it is gone afterwards, and if it was there the snapshot satisfied it.\<close>

definition latch_satisfied :: "snapshot \<Rightarrow> stop_only_latch read_result \<Rightarrow> bool" where
  "latch_satisfied s r \<longleftrightarrow> (case r of Missing \<Rightarrow> True
     | Valid l \<Rightarrow> lt_targetVersion l \<le> sp_desiredConfigVersion s
         \<and> (\<exists>t. \<forall>gid \<in> set (lt_revokedGrantIds l). gid \<notin> cl_grantId ` set (selectServableXrayClients s t))
     | _ \<Rightarrow> False)"

lemma wp_clear [wp_rules]:
  assumes "\<And>k. latch_satisfied s r \<Longrightarrow> Q () (w\<lparr>disk_latch := (if r = Missing then disk_latch w else Absent), tick := k\<rparr>)"
    and "\<And>k e. r \<noteq> Missing \<Longrightarrow> e \<in> {LatchNotVerifiable, LatchNotSatisfied, LatchNotEnforced} \<Longrightarrow> E e (w\<lparr>tick := k\<rparr>)"
    and "\<And>k n. r \<noteq> Missing \<Longrightarrow> n \<noteq> ''failClosed'' \<Longrightarrow> E (CallFailed n) (w\<lparr>tick := k\<rparr>)"
    and "\<And>k n. r \<noteq> Missing \<Longrightarrow> latch_satisfied s r \<Longrightarrow> n \<noteq> ''failClosed'' \<Longrightarrow> E (CallFailed n) (w\<lparr>disk_latch := Absent, tick := k\<rparr>)"
  shows "wp (clearStopOnlyLatchAfterVerifiedApply s r) Q E w"
proof (cases r)
  case (Valid l)
  let ?ids = "cl_grantId ` set (selectServableXrayClients s (an_now (answers w (tick w))))"
  have swap: "w\<lparr>tick := k, disk_latch := Absent\<rparr> = w\<lparr>disk_latch := Absent, tick := k\<rparr>" for k by simp
  have satisfied: "latch_satisfied s (Valid l)"
    if "\<not> sp_desiredConfigVersion s < lt_targetVersion l" "\<not> (\<exists>gid \<in> set (lt_revokedGrantIds l). gid \<in> ?ids)"
    using that by (force simp: latch_satisfied_def)
  have unsatisfied: "E LatchNotSatisfied w" using assms(2) [of LatchNotSatisfied "tick w"] Valid by simp
  show ?thesis
    using assms satisfied unsatisfied Valid
    by (auto simp: clearStopOnlyLatchAfterVerifiedApply_def wp_simps Let_def swap intro!: wp_sync)
next
  case Missing
  have "Q () (w\<lparr>disk_latch := disk_latch w, tick := tick w\<rparr>)"
    using assms(1) [of "tick w"] Missing by (simp add: latch_satisfied_def)
  then show ?thesis using Missing by (simp add: clearStopOnlyLatchAfterVerifiedApply_def wp_simps)
next
  case Corrupt
  have "E LatchNotVerifiable (w\<lparr>tick := tick w\<rparr>)" using assms(2) Corrupt by blast
  then show ?thesis using Corrupt by (simp add: clearStopOnlyLatchAfterVerifiedApply_def wp_simps)
next
  case Unreadable
  have "E LatchNotVerifiable (w\<lparr>tick := tick w\<rparr>)" using assms(2) Unreadable by blast
  then show ?thesis using Unreadable by (simp add: clearStopOnlyLatchAfterVerifiedApply_def wp_simps)
qed

section \<open>Applying a snapshot\<close>

definition stop_error_of :: "agent_error \<Rightarrow> bool" where
  "stop_error_of e \<longleftrightarrow> (case e of FailClosedFailed _ _ \<Rightarrow> True | CallFailed n \<Rightarrow> n = ''failClosed'' | _ \<Rightarrow> False)"

lemma stop_error_of_simps [simp]:
  "stop_error_of (FailClosedFailed e f)" "stop_error_of stop_error" "\<not> stop_error_of LatchNotSatisfied"
  "\<not> stop_error_of VersionDowngrade" "\<not> stop_error_of VersionCollision" "\<not> stop_error_of NodeClockUntrusted"
  "stop_error_of (CallFailed n) \<longleftrightarrow> n = ''failClosed''"
  by (simp_all add: stop_error_of_def)

definition silent :: "agent_error \<Rightarrow> agent_world \<Rightarrow> bool" where
  "silent e w \<longleftrightarrow> serving w = None \<or> stop_error_of e"

definition serves_snapshot :: "agent_config \<Rightarrow> snapshot \<Rightarrow> client list \<Rightarrow> agent_world \<Rightarrow> bool" where
  "serves_snapshot c s clients w \<longleftrightarrow> serving w = Some clients \<and> \<not> runtimeIsFailClosed w
     \<and> runtimeClientsFingerprint w = Some (fingerprintClients c clients)
     \<and> (\<exists>e. disk_state w = Stored e \<and> ps_version (env_current e) = sp_desiredConfigVersion s
          \<and> ps_snapshotHash (env_current e) = hashNodeAgentSnapshot c s)"

definition latch_kept :: "snapshot \<Rightarrow> stop_only_latch read_result \<Rightarrow> agent_world \<Rightarrow> agent_world \<Rightarrow> bool" where
  "latch_kept s latch w w' \<longleftrightarrow> disk_latch w' = disk_latch w \<or> disk_latch w' = Absent \<and> latch_satisfied s latch"

lemma wp_reapply:
  assumes "disk_state w = Stored e" "ps_version (env_current e) = sp_desiredConfigVersion s"
    "ps_snapshotHash (env_current e) = hashNodeAgentSnapshot c s"
  shows "wp (reapplySnapshot c s clients latch)
     (\<lambda>_ w'. serves_snapshot c s clients w' \<and> latch_satisfied s latch \<and> disk_state w' = disk_state w
        \<and> disk_latch w' = (if latch = Missing then disk_latch w else Absent))
     (\<lambda>e w'. (runtimeIsFailClosed w \<or> serving w = None \<longrightarrow> silent e w') \<and> disk_state w' = disk_state w
        \<and> latch_kept s latch w w') w"
  unfolding reapplySnapshot_def wp_simps Let_def
  by (intro wp_rules) (use assms in \<open>auto simp: wp_simps serves_snapshot_def silent_def latch_kept_def intro!: wp_rules\<close>)

definition new_envelope :: "agent_config \<Rightarrow> snapshot \<Rightarrow> instant \<Rightarrow> persisted_state option \<Rightarrow> state_envelope" where
  "new_envelope c s applyTime current = \<lparr>env_current = \<lparr>ps_version = sp_desiredConfigVersion s,
     ps_snapshotHash = hashNodeAgentSnapshot c s, ps_appliedAt = applyTime, ps_snapshot = s\<rparr>, env_previous = current\<rparr>"

lemma wp_switch [wp_rules]:
  assumes "\<And>k. Q () (w\<lparr>serving := Some clients, runtimeIsFailClosed := False, tick := k\<rparr>)"
    and "\<And>k. E (CallFailed ''applyClients'') (stopped_at w k)"
    and "\<And>x k. E (FailClosedFailed (CallFailed ''applyClients'') stop_error) (stop_failed_at w x k)"
    and "\<And>x k. \<not> wasFailClosed \<Longrightarrow> serves \<Longrightarrow> current \<noteq> None \<Longrightarrow> E (CallFailed ''applyClients'') (w\<lparr>serving := x, tick := k\<rparr>)"
  shows "wp (switchRuntime clients current deadline wasFailClosed serves) Q E w"
proof -
  have swap: "w\<lparr>serving := x, tick := k, runtimeIsFailClosed := False\<rparr> = w\<lparr>serving := x, runtimeIsFailClosed := False, tick := k\<rparr>"
    "w\<lparr>serving := x, tick := k, tick := l\<rparr> = w\<lparr>serving := x, tick := l\<rparr>"
    "stopped_at (w\<lparr>serving := x, tick := l\<rparr>) k = stopped_at w k"
    "stop_failed_at (w\<lparr>serving := x, tick := l\<rparr>) y k = stop_failed_at w y k" for x y k l
    by (simp_all add: stopped_at_def stop_failed_at_def)
  show ?thesis
    unfolding switchRuntime_def wp_simps using assms by (auto simp: wp_simps swap intro!: wp_rules)
qed

lemma wp_commit:
  assumes "serving w = Some clients" "\<not> runtimeIsFailClosed w"
  shows "wp (commitSnapshot c s clients (hashNodeAgentSnapshot c s) applyTime latch current)
     (\<lambda>_ w'. serves_snapshot c s clients w' \<and> latch_satisfied s latch
        \<and> disk_state w' = Stored (new_envelope c s applyTime current)
        \<and> disk_latch w' = (if latch = Missing then disk_latch w else Absent))
     (\<lambda>e w'. silent e w'
        \<and> (disk_state w' = disk_state w \<or> disk_state w' = Stored (new_envelope c s applyTime current))
        \<and> latch_kept s latch w w') w"
  unfolding commitSnapshot_def wp_simps writeDurably_def
  by (rule wp_writeJson)
    (use assms in \<open>auto simp: wp_simps serves_snapshot_def silent_def latch_kept_def new_envelope_def intro!: wp_rules\<close>)

definition new_done :: "agent_config \<Rightarrow> snapshot \<Rightarrow> client list \<Rightarrow> instant \<Rightarrow> stop_only_latch read_result \<Rightarrow>
    persisted_state option \<Rightarrow> agent_world \<Rightarrow> apply_outcome \<Rightarrow> agent_world \<Rightarrow> bool" where
  "new_done c s clients applyTime latch current w r w' \<longleftrightarrow> serves_snapshot c s clients w' \<and> latch_satisfied s latch
     \<and> disk_state w' = Stored (new_envelope c s applyTime current)
     \<and> disk_latch w' = (if latch = Missing then disk_latch w else Absent)"

definition new_failed :: "agent_config \<Rightarrow> snapshot \<Rightarrow> instant \<Rightarrow> stop_only_latch read_result \<Rightarrow> persisted_state option \<Rightarrow> agent_world \<Rightarrow>
    agent_error \<Rightarrow> agent_world \<Rightarrow> bool" where
  "new_failed c s applyTime latch current w e w' \<longleftrightarrow>
     (runtimeIsFailClosed w \<or> serving w = None \<or> current = None \<longrightarrow> silent e w')
   \<and> (disk_state w' = disk_state w \<or> disk_state w' = Stored (new_envelope c s applyTime current))
   \<and> latch_kept s latch w w'"

lemma wp_new [wp_rules]:
  "wp (applyNewSnapshot c s clients (hashNodeAgentSnapshot c s) applyTime latch current)
     (new_done c s clients applyTime latch current w) (new_failed c s applyTime latch current w) w"
proof -
  have commit: "wp (commitSnapshot c s clients (hashNodeAgentSnapshot c s) applyTime latch cur)
      (new_done c s clients applyTime latch cur w) (new_failed c s applyTime latch cur w) v"
    if "serving v = Some clients" "\<not> runtimeIsFailClosed v" "disk_state v = disk_state w" "disk_latch v = disk_latch w" for v cur
    by (rule wp_mono [OF wp_commit [OF that(1,2)]]) (simp_all add: that(3,4) new_done_def new_failed_def latch_kept_def)
  have failed: "new_failed c s applyTime latch cur w e v"
    if "runtimeIsFailClosed w \<or> serving w = None \<or> cur = None \<longrightarrow> silent e v" "disk_state v = disk_state w" "disk_latch v = disk_latch w" for e v cur
    using that by (simp add: new_failed_def latch_kept_def)
  show ?thesis
    unfolding applyNewSnapshot_def wp_simps Let_def
    by (auto simp: wp_simps silent_def intro!: wp_rules commit failed)
qed

text \<open>The facts about a whole call of \<open>applySnapshot\<close>, over the world \<open>w\<close> it starts in.\<close>

definition stored_current :: "agent_config \<Rightarrow> agent_world \<Rightarrow> persisted_state option" where
  "stored_current c w = (case disk_state w of
     Stored e \<Rightarrow> if isStateEnvelopeConsistent c e then Some (env_current e) else None | _ \<Rightarrow> None)"

definition latch_enforced :: "snapshot \<Rightarrow> stop_only_latch disk_file \<Rightarrow> bool" where
  "latch_enforced s f \<longleftrightarrow> (case f of Absent \<Rightarrow> True | Garbled \<Rightarrow> False | Stored l \<Rightarrow> latch_satisfied s (Valid l))"

definition must_stop :: "agent_config \<Rightarrow> agent_world \<Rightarrow> bool" where
  "must_stop c w \<longleftrightarrow> serving w = None \<or> disk_latch w \<noteq> Absent \<or> stored_current c w = None"

definition state_advances :: "agent_config \<Rightarrow> snapshot \<Rightarrow> agent_world \<Rightarrow> agent_world \<Rightarrow> bool" where
  "state_advances c s w w' \<longleftrightarrow> disk_state w' = disk_state w
     \<or> (\<exists>t current. disk_state w' = Stored (new_envelope c s t current)
          \<and> (\<forall>p. current = Some p \<longrightarrow> stored_current c w = Some p \<and> ps_version p < sp_desiredConfigVersion s))"

definition apply_done :: "agent_config \<Rightarrow> snapshot \<Rightarrow> agent_world \<Rightarrow> apply_outcome \<Rightarrow> agent_world \<Rightarrow> bool" where
  "apply_done c s w r w' \<longleftrightarrow> (\<exists>k. serves_snapshot c s (selectServableXrayClients s (an_now (answers w k))) w')
     \<and> disk_latch w' = Absent \<and> latch_enforced s (disk_latch w) \<and> state_advances c s w w'"

definition apply_failed :: "agent_config \<Rightarrow> snapshot \<Rightarrow> agent_world \<Rightarrow> agent_error \<Rightarrow> agent_world \<Rightarrow> bool" where
  "apply_failed c s w e w' \<longleftrightarrow> (must_stop c w \<longrightarrow> silent e w') \<and> state_advances c s w w'
     \<and> (disk_latch w' = disk_latch w \<or> disk_latch w' = Absent \<and> latch_enforced s (disk_latch w))"

lemma latch_read_enforced:
  "latch_satisfied s r \<Longrightarrow> r = Unreadable \<or> r = file_result stopOnlyLatchSchema f \<Longrightarrow>
     (if r = Missing then f else Absent) = Absent \<and> latch_enforced s f"
  by (cases f) (auto simp: latch_satisfied_def latch_enforced_def file_result_def split: if_splits)

lemma state_read_current:
  "r = Unreadable \<or> r = file_result (isStateEnvelopeConsistent c) (disk_state w) \<Longrightarrow> r = Valid e \<Longrightarrow>
     stored_current c w = Some (env_current e) \<and> disk_state w = Stored e"
  by (elim disjE) (simp_all add: stored_current_def)

text \<open>The world the rest of the call starts in: the files are those of the start, and the data plane is
  stopped if it had to be.\<close>

definition dispatch_world :: "agent_config \<Rightarrow> agent_world \<Rightarrow> stop_only_latch read_result \<Rightarrow> agent_world \<Rightarrow> bool" where
  "dispatch_world c w latch v \<longleftrightarrow> disk_state v = disk_state w \<and> disk_latch v = disk_latch w \<and> answers v = answers w
     \<and> (latch = Unreadable \<or> latch = file_result stopOnlyLatchSchema (disk_latch w))
     \<and> (disk_latch w \<noteq> Absent \<or> serving w = None \<longrightarrow> serving v = None)"

lemma wp_dispatch_current:
  assumes v: "dispatch_world c w latch v" and stored: "disk_state v = Stored e" and cur: "stored_current c w = Some (env_current e)"
  shows "wp (dispatchSnapshot c s (selectServableXrayClients s (an_now (answers w k))) (hashNodeAgentSnapshot c s)
      applyTime latch (Valid e)) (apply_done c s w) (apply_failed c s w) v"
proof -
  have stop: "must_stop c w \<Longrightarrow> serving v = None"
    using v cur by (auto simp: must_stop_def dispatch_world_def)
  have same: "disk_state v = disk_state w" "disk_latch v = disk_latch w" "latch = Unreadable \<or> latch = file_result stopOnlyLatchSchema (disk_latch w)"
    using v by (simp_all add: dispatch_world_def)
  have kept: "disk_latch x = disk_latch w \<or> disk_latch x = Absent \<and> latch_enforced s (disk_latch w)"
    if "latch_kept s latch u x" "disk_latch u = disk_latch v" for u x
    using latch_read_enforced [OF _ same(3)] that same by (auto simp: latch_kept_def)
  have failed: "apply_failed c s w e u" if "must_stop c w \<Longrightarrow> silent e u" "disk_state u = disk_state v" "disk_latch u = disk_latch v" for e u
    using that same by (simp add: apply_failed_def state_advances_def)
  have reapply: "wp (reapplySnapshot c s (selectServableXrayClients s (an_now (answers w k))) latch)
      (apply_done c s w) (apply_failed c s w) u"
    if u: "serving u = serving v" "disk_state u = disk_state v" "disk_latch u = disk_latch v"
      and hash: "ps_version (env_current e) = sp_desiredConfigVersion s" "ps_snapshotHash (env_current e) = hashNodeAgentSnapshot c s" for u
  proof (rule wp_mono [OF wp_reapply [of u e s c]])
    show "disk_state u = Stored e" using u stored by simp
    show "ps_version (env_current e) = sp_desiredConfigVersion s" "ps_snapshotHash (env_current e) = hashNodeAgentSnapshot c s"
      by (fact hash)+
  next
    fix r x
    assume r: "serves_snapshot c s (selectServableXrayClients s (an_now (answers w k))) x \<and> latch_satisfied s latch
      \<and> disk_state x = disk_state u \<and> disk_latch x = (if latch = Missing then disk_latch u else Absent)"
    then show "apply_done c s w r x"
      using latch_read_enforced [OF _ same(3)] u same by (auto simp: apply_done_def state_advances_def)
  next
    fix e x
    assume "(runtimeIsFailClosed u \<or> serving u = None \<longrightarrow> silent e x) \<and> disk_state x = disk_state u \<and> latch_kept s latch u x"
    then show "apply_failed c s w e x" using u stop kept same by (auto simp: apply_failed_def state_advances_def)
  qed
  have fresh: "wp (applyNewSnapshot c s (selectServableXrayClients s (an_now (answers w k))) (hashNodeAgentSnapshot c s)
      applyTime latch (Some (env_current e))) (apply_done c s w) (apply_failed c s w) u"
    if u: "serving u = serving v" "disk_state u = disk_state v" "disk_latch u = disk_latch v"
      and newer: "ps_version (env_current e) < sp_desiredConfigVersion s" for u
  proof (rule wp_mono [OF wp_new])
    fix r x
    assume "new_done c s (selectServableXrayClients s (an_now (answers w k))) applyTime latch (Some (env_current e)) u r x"
    then show "apply_done c s w r x"
      using latch_read_enforced [OF _ same(3)] u same newer cur
      by (auto simp: apply_done_def state_advances_def new_done_def)
  next
    fix e' x
    assume "new_failed c s applyTime latch (Some (env_current e)) u e' x"
    then show "apply_failed c s w e' x"
      using u stop same newer cur kept by (auto simp: new_failed_def apply_failed_def state_advances_def)
  qed
  show ?thesis
    unfolding dispatchSnapshot_def read_result.case wp_simps
    by (rule wp_ensure) (use stop in \<open>auto simp: wp_simps silent_def intro!: failed reapply fresh\<close>)
qed

lemma wp_dispatch_other:
  assumes v: "dispatch_world c w latch v" and cur: "\<And>e. state \<noteq> Valid e"
  shows "wp (dispatchSnapshot c s (selectServableXrayClients s (an_now (answers w k))) (hashNodeAgentSnapshot c s)
      applyTime latch state) (apply_done c s w) (apply_failed c s w) v"
proof -
  have same: "disk_state v = disk_state w" "disk_latch v = disk_latch w" "latch = Unreadable \<or> latch = file_result stopOnlyLatchSchema (disk_latch w)"
    using v by (simp_all add: dispatch_world_def)
  have kept: "disk_latch x = disk_latch w \<or> disk_latch x = Absent \<and> latch_enforced s (disk_latch w)"
    if "latch_kept s latch u x" "disk_latch u = disk_latch v" for u x
    using latch_read_enforced [OF _ same(3)] that same by (auto simp: latch_kept_def)
  have fresh: "wp (applyNewSnapshot c s (selectServableXrayClients s (an_now (answers w k))) (hashNodeAgentSnapshot c s)
      applyTime latch None) (apply_done c s w) (apply_failed c s w) u"
    if u: "disk_state u = disk_state v" "disk_latch u = disk_latch v" for u
  proof (rule wp_mono [OF wp_new])
    fix r x
    assume "new_done c s (selectServableXrayClients s (an_now (answers w k))) applyTime latch None u r x"
    then show "apply_done c s w r x"
      using latch_read_enforced [OF _ same(3)] u same by (auto simp: apply_done_def state_advances_def new_done_def)
  next
    fix e x
    assume "new_failed c s applyTime latch None u e x"
    then show "apply_failed c s w e x"
      using u same kept by (auto simp: new_failed_def apply_failed_def state_advances_def)
  qed
  have "dispatchSnapshot c s clients hash applyTime latch state =
      seq_act enterFailClosed (applyNewSnapshot c s clients hash applyTime latch None)" for clients hash
  proof (cases state)
    case (Valid e)
    then show ?thesis using cur by blast
  qed (simp_all add: dispatchSnapshot_def)
  then show ?thesis
    by (auto simp: wp_simps silent_def apply_failed_def state_advances_def same intro!: wp_enter fresh)
qed

lemma wp_dispatch:
  assumes v: "dispatch_world c w latch v"
    and state: "state = Unreadable \<or> state = file_result (isStateEnvelopeConsistent c) (disk_state v)"
  shows "wp (dispatchSnapshot c s (selectServableXrayClients s (an_now (answers w k))) (hashNodeAgentSnapshot c s)
      applyTime latch state) (apply_done c s w) (apply_failed c s w) v"
proof (cases "\<exists>e. state = Valid e")
  case True
  then obtain e where e: "state = Valid e" by blast
  then have "stored_current c w = Some (env_current e)" "disk_state v = Stored e"
    using state_read_current [OF state e] v by (auto simp: stored_current_def dispatch_world_def)
  then show ?thesis unfolding e using wp_dispatch_current v by blast
qed (use wp_dispatch_other v in blast)

lemma dispatch_world_stopped:
  "dispatch_world c w latch u \<Longrightarrow> dispatch_world c w latch (stopped_at u k)"
  by (simp add: dispatch_world_def)

lemma wp_applySnapshot: "wp (applySnapshot c s) (apply_done c s w) (apply_failed c s w) w"
proof -
  have failed: "apply_failed c s w e u" if "silent e u" "disk_state u = disk_state w" "disk_latch u = disk_latch w" for e u
    using that by (simp add: apply_failed_def state_advances_def)
  have world: "dispatch_world c w latch u"
    if "disk_state u = disk_state w" "disk_latch u = disk_latch w" "answers u = answers w"
      "latch = Unreadable \<or> latch = file_result stopOnlyLatchSchema (disk_latch w)"
      "serving u = (if latch = Missing then serving w else None)" for latch u
    using that by (auto simp: dispatch_world_def)
  have rest: "wp (dispatchSnapshot c s (selectServableXrayClients s (an_now (answers w k))) (hashNodeAgentSnapshot c s)
      (an_now (answers w k)) latch state) (apply_done c s w) (apply_failed c s w) u"
    if "disk_state u = disk_state w" "disk_latch u = disk_latch w" "answers u = answers w"
      "latch = Unreadable \<or> latch = file_result stopOnlyLatchSchema (disk_latch w)"
      "serving u = (if latch = Missing then serving w else None)"
      "state = Unreadable \<or> state = file_result (isStateEnvelopeConsistent c) (disk_state w)" for latch u state k
    using wp_dispatch [OF world [OF that(1-5)]] that by metis
  show ?thesis
    unfolding applySnapshot_def wp_simps
    by (rule wp_trust) (auto simp: wp_simps silent_def intro!: wp_rules rest failed)
qed

section \<open>Local reconciliation\<close>

definition fingerprint_truthful :: "agent_config \<Rightarrow> agent_world \<Rightarrow> bool" where
  "fingerprint_truthful c w \<longleftrightarrow> (\<forall>f cs. runtimeClientsFingerprint w = Some f \<longrightarrow> serving w = Some cs \<longrightarrow> fingerprintClients c cs = f)"

definition reconciled :: "agent_config \<Rightarrow> persisted_state \<Rightarrow> agent_world \<Rightarrow> instant \<Rightarrow> agent_world \<Rightarrow> bool" where
  "reconciled c p w next_check w' \<longleftrightarrow> (\<exists>k.
     serving w' = Some (selectServableXrayClients (ps_snapshot p) (an_now (answers w k)))
     \<and> next_check = nextLocalSecurityCheckAt (ps_snapshot p) (an_now (answers w k)))"

definition deadline_open :: "persisted_state \<Rightarrow> agent_world \<Rightarrow> bool" where
  "deadline_open p w \<longleftrightarrow> (\<exists>j k. \<not> shouldFailClosed
     (findExpiredXrayClientEnforcementDeadline (ps_snapshot p) (an_now (answers w j)) ACCESS_CONTROL_ENFORCEMENT_SLA_MS)
     (an_now (answers w k)))"

definition same_files :: "agent_world \<Rightarrow> agent_world \<Rightarrow> bool" where
  "same_files w w' \<longleftrightarrow> disk_state w' = disk_state w \<and> disk_latch w' = disk_latch w"

lemma wp_reconcileCurrent:
  assumes truthful: "fingerprint_truthful c v" and inj: "inj (sha_clients c)"
    and v: "answers v = answers w" "same_files w v"
  shows "wp (reconcileCurrent c p)
     (\<lambda>t w'. reconciled c p w t w' \<and> same_files w w')
     (\<lambda>e w'. (silent e w' \<or> serving v \<noteq> None \<and> deadline_open p w) \<and> same_files w w') v"
proof -
  have served: "reconciled c p w (nextLocalSecurityCheckAt (ps_snapshot p) (an_now (answers w k))) u"
    if u: "serving u = Some y"
      and clients: "clients = selectServableXrayClients (ps_snapshot p) (an_now (answers w k))"
      and y: "y = clients \<or> runtimeClientsFingerprint v = Some (fingerprintClients c clients) \<and> serving v = Some y" for k u y clients
  proof -
    have "y = clients"
      using y
    proof
      assume "runtimeClientsFingerprint v = Some (fingerprintClients c clients) \<and> serving v = Some y"
      then have "fingerprintClients c y = fingerprintClients c clients"
        using truthful by (simp add: fingerprint_truthful_def)
      then show ?thesis using inj by (simp add: fingerprintClients_def inj_eq)
    qed
    then show ?thesis using u clients by (auto simp: reconciled_def)
  qed
  show ?thesis
    unfolding reconcileCurrent_def wp_simps Let_def
    by (rule wp_ensure) (use v in \<open>auto simp: wp_simps silent_def same_files_def deadline_open_def intro!: wp_rules served\<close>)
qed

lemma fingerprint_truthful_cong:
  "fingerprint_truthful c w \<Longrightarrow> runtimeClientsFingerprint v = runtimeClientsFingerprint w \<Longrightarrow> serving v = serving w
     \<Longrightarrow> fingerprint_truthful c v"
  by (simp add: fingerprint_truthful_def)

lemma reconcile_eq:
  "reconcileLocalState c = bind_act (enforceClockTrust c) (\<lambda>trusted.
     if \<not> trusted then bind_act current_time (\<lambda>now. return (nextIntegrityCheckAt now))
     else bind_act readStopOnlyLatch (\<lambda>latch.
       if latch \<noteq> Missing then seq_act enterFailClosed (bind_act current_time (\<lambda>now. return (nextIntegrityCheckAt now)))
       else bind_act (readState c) (\<lambda>state.
         if \<exists>e. state = Valid e then reconcileCurrent c (env_current (THE e. state = Valid e))
         else seq_act enterFailClosed (bind_act current_time (\<lambda>now. return (nextIntegrityCheckAt now))))))"
  unfolding reconcileLocalState_def
  by (intro arg_cong2 [where f = bind_act] refl ext if_cong) (auto split: read_result.splits)

definition reconcile_ok :: "agent_config \<Rightarrow> agent_world \<Rightarrow> instant \<Rightarrow> agent_world \<Rightarrow> bool" where
  "reconcile_ok c w t w' \<longleftrightarrow> (serving w' = None \<and> (\<exists>k. t = nextIntegrityCheckAt (an_now (answers w k)))
       \<or> disk_latch w = Absent \<and> (\<exists>p. stored_current c w = Some p \<and> reconciled c p w t w'))
     \<and> same_files w w'"

definition reconcile_failed :: "agent_config \<Rightarrow> agent_world \<Rightarrow> agent_error \<Rightarrow> agent_world \<Rightarrow> bool" where
  "reconcile_failed c w e w' \<longleftrightarrow> (silent e w'
       \<or> \<not> must_stop c w \<and> (\<exists>p. stored_current c w = Some p \<and> deadline_open p w))
     \<and> same_files w w'"

lemma wp_reconcile:
  assumes "fingerprint_truthful c w" and inj: "inj (sha_clients c)"
  shows "wp (reconcileLocalState c) (reconcile_ok c w) (reconcile_failed c w) w"
proof -
  have current: "wp (reconcileCurrent c (env_current (THE e. state = Valid e))) (reconcile_ok c w) (reconcile_failed c w) u"
    if u: "answers u = answers w" "same_files w u" "serving u = serving w" "fingerprint_truthful c u" "disk_latch w = Absent"
      and state: "state = Unreadable \<or> state = file_result (isStateEnvelopeConsistent c) (disk_state w)"
      and valid: "state = Valid e" for u state e
  proof -
    have cur: "stored_current c w = Some (env_current e)" using state_read_current [OF state valid] by simp
    show ?thesis unfolding valid
      by (rule wp_mono [OF wp_reconcileCurrent [where w = w, OF u(4) inj u(1,2)]])
        (use cur u in \<open>auto simp: reconcile_ok_def reconcile_failed_def must_stop_def\<close>)
  qed
  have stopped: "reconcile_ok c w (nextIntegrityCheckAt (an_now (answers w k))) u" if "serving u = None" "same_files w u" for u k
    using that by (auto simp: reconcile_ok_def)
  have failed: "reconcile_failed c w e u" if "silent e u" "same_files w u" for e u
    using that by (simp add: reconcile_failed_def)
  show ?thesis
    unfolding reconcile_eq wp_simps
    by (rule wp_trust) (use assms(1) in \<open>auto simp: wp_simps silent_def same_files_def
      elim: fingerprint_truthful_cong intro!: wp_rules current stopped failed\<close>)
qed

section \<open>Revocations that arrive before their command\<close>

definition latch_covers :: "stop_only_latch disk_file \<Rightarrow> version \<Rightarrow> enforcement list \<Rightarrow> bool" where
  "latch_covers f v es \<longleftrightarrow> (\<exists>l. f = Stored l \<and> stopOnlyLatchSchema l \<and> v \<le> lt_targetVersion l
     \<and> (\<forall>e \<in> set es. en_grantId e \<in> set (lt_revokedGrantIds l) \<and> lt_enforcementDeadlineAt l \<le> en_deadlineAt e))"

lemma latch_covers_schema: "latch_covers (Stored l) v es \<Longrightarrow> stopOnlyLatchSchema l"
  by (simp add: latch_covers_def)

lemma fold_min_le: "fold (\<lambda>e t. min t (en_deadlineAt e)) es t \<le> t
    \<and> (\<forall>e \<in> set es. fold (\<lambda>e t. min t (en_deadlineAt e)) es t \<le> en_deadlineAt e)"
proof (induction es arbitrary: t)
  case (Cons e es)
  show ?case using Cons [of "min t (en_deadlineAt e)"] by auto
qed simp

lemma canonical_latch_covers:
  assumes "ids \<noteq> []" "0 \<le> v" "v \<le> tv" "\<And>e. e \<in> set es \<Longrightarrow> en_grantId e \<in> set ids \<and> d \<le> en_deadlineAt e"
  shows "latch_covers (Stored \<lparr>lt_targetVersion = tv, lt_enforcementDeadlineAt = d, lt_revokedGrantIds = sort (remdups ids)\<rparr>) v es"
proof -
  have "sort (remdups (sort (remdups ids))) = sort (remdups ids)"
    by (simp add: distinct_remdups_id sorted_sort_id)
  moreover have "sort (remdups ids) \<noteq> []" using assms(1) by (metis set_empty set_remdups set_sort)
  ultimately show ?thesis using assms by (simp add: latch_covers_def stopOnlyLatchSchema_def)
qed

lemma merged_latch_covers:
  assumes "es \<noteq> []" "0 \<le> v"
  shows "latch_covers (Stored (merged_latch r v es)) v es"
proof -
  obtain e es' where es: "es = e # es'" using assms(1) by (cases es) auto
  have ids: "map en_grantId es \<noteq> []" "xs @ map en_grantId es \<noteq> []" for xs using es by simp_all
  have deadline: "fold (\<lambda>e t. min t (en_deadlineAt e)) (tl es) (en_deadlineAt (hd es)) \<le> en_deadlineAt x" if "x \<in> set es" for x
    using fold_min_le [of es' "en_deadlineAt e"] that by (auto simp: es)
  show ?thesis
    using assms(2) fold_min_le [of es] deadline ids
    by (cases r) (auto simp: merged_latch_def intro!: canonical_latch_covers)
qed

lemma wp_persist:
  assumes "es \<noteq> []" "0 \<le> v"
    and "\<And>k l. latch_covers (Stored l) v es \<Longrightarrow> stopOnlyLatchSchema l \<Longrightarrow> Q () (w\<lparr>disk_latch := Stored l, tick := k\<rparr>)"
    and "\<And>k n. E (CallFailed n) (w\<lparr>tick := k\<rparr>)" "\<And>k l n. stopOnlyLatchSchema l \<Longrightarrow> E (CallFailed n) (w\<lparr>disk_latch := Stored l, tick := k\<rparr>)"
  shows "wp (persistStopOnlyLatch v es) Q E w"
proof -
  have "stopOnlyLatchSchema (merged_latch r v es)" for r
    using merged_latch_covers [OF assms(1,2), of r] by (auto simp: latch_covers_def)
  then show ?thesis
    unfolding persistStopOnlyLatch_def wp_simps
    by (intro wp_rules) (use assms merged_latch_covers latch_covers_schema in \<open>auto intro!: wp_writeJson\<close>)
qed

text \<open>The revocations a call has to enforce: against the stored snapshot if it could be read, and all
  revocations of the snapshot otherwise.\<close>

definition known_revocations :: "agent_config \<Rightarrow> snapshot \<Rightarrow> agent_world \<Rightarrow> instant \<Rightarrow> enforcement list \<Rightarrow> bool" where
  "known_revocations c s w now es \<longleftrightarrow>
     (\<exists>p. stored_current c w = Some p \<and> es = findRevokedXrayClientEnforcements (ps_snapshot p) s now ACCESS_CONTROL_ENFORCEMENT_SLA_MS)
   \<or> es = findSnapshotRevocationEnforcements s ACCESS_CONTROL_ENFORCEMENT_SLA_MS"

definition secured :: "agent_config \<Rightarrow> snapshot \<Rightarrow> agent_world \<Rightarrow> agent_world \<Rightarrow> bool" where
  "secured c s w w' \<longleftrightarrow> disk_state w' = disk_state w
     \<and> (\<exists>k es. known_revocations c s w (an_now (answers w k)) es
          \<and> (if es = [] then disk_latch w' = disk_latch w \<and> (must_stop c w \<longrightarrow> serving w' = None)
             else serving w' = None \<and> latch_covers (disk_latch w') (sp_desiredConfigVersion s) es))"

definition secure_failed :: "agent_world \<Rightarrow> agent_error \<Rightarrow> agent_world \<Rightarrow> bool" where
  "secure_failed w e w' \<longleftrightarrow> silent e w' \<and> disk_state w' = disk_state w \<and> (disk_latch w' = disk_latch w \<or> (\<exists>l. disk_latch w' = Stored l \<and> stopOnlyLatchSchema l))"

definition revocations :: "snapshot \<Rightarrow> state_envelope read_result \<Rightarrow> instant \<Rightarrow> enforcement list" where
  "revocations s state now = (case state of
     Valid e \<Rightarrow> findRevokedXrayClientEnforcements (ps_snapshot (env_current e)) s now ACCESS_CONTROL_ENFORCEMENT_SLA_MS
   | _ \<Rightarrow> findSnapshotRevocationEnforcements s ACCESS_CONTROL_ENFORCEMENT_SLA_MS)"

definition security_tail :: "snapshot \<Rightarrow> state_envelope read_result \<Rightarrow> instant \<Rightarrow> unit act" where
  "security_tail s state now = (let es = revocations s state now
     in if es = [] then when_act (\<forall>e. state \<noteq> Valid e) enterFailClosed
        else seq_act (catch (persistStopOnlyLatch (sp_desiredConfigVersion s) es) failClosedAndRethrow)
            (seq_act enterFailClosed notifyLocalStateChange))"

lemma enforceSnapshotSecurity_eq:
  "enforceSnapshotSecurity c s =
     bind_act (enforceClockTrust c) (\<lambda>trusted.
       if \<not> trusted then throw NodeClockUntrusted
       else bind_act readStopOnlyLatch (\<lambda>existingLatch.
         seq_act (when_act (existingLatch \<noteq> Missing) enterFailClosed)
           (bind_act (readState c) (\<lambda>state. bind_act current_time (security_tail s state)))))"
  unfolding enforceSnapshotSecurity_def security_tail_def revocations_def Let_def
  by (intro arg_cong2 [where f = bind_act] arg_cong2 [where f = seq_act] refl ext if_cong)
    (auto simp: when_act_def split: read_result.splits)

lemma known_revocationsI:
  assumes "state = Unreadable \<or> state = file_result (isStateEnvelopeConsistent c) (disk_state w)"
    and "es = revocations s state now"
  shows "known_revocations c s w now es"
proof (cases state)
  case (Valid e)
  then show ?thesis using state_read_current [OF assms(1) Valid] assms(2) by (auto simp: known_revocations_def revocations_def)
qed (use assms(2) in \<open>simp_all add: known_revocations_def revocations_def\<close>)

lemma wp_security_tail:
  assumes "0 \<le> sp_desiredConfigVersion s" and u: "same_files w u" "serving w = None \<or> disk_latch w \<noteq> Absent \<Longrightarrow> serving u = None"
    and state: "state = Unreadable \<or> state = file_result (isStateEnvelopeConsistent c) (disk_state w)"
  shows "wp (security_tail s state (an_now (answers w k))) (\<lambda>_. secured c s w) (secure_failed w) u"
proof -
  let ?es = "revocations s state (an_now (answers w k))"
  have known: "known_revocations c s w (an_now (answers w k)) ?es"
    using known_revocationsI [OF state refl] .
  have idle: "secured c s w v" if "?es = []" "same_files w v" "must_stop c w \<Longrightarrow> serving v = None" for v
    using known that unfolding secured_def same_files_def by metis
  have latched: "secured c s w v" if "?es \<noteq> []" "disk_state v = disk_state w" "serving v = None"
    "latch_covers (disk_latch v) (sp_desiredConfigVersion s) ?es" for v
    using known that unfolding secured_def by metis
  have failed: "secure_failed w e v" if "silent e v" "disk_state v = disk_state w" "disk_latch v = disk_latch w \<or> (\<exists>l. disk_latch v = Stored l \<and> stopOnlyLatchSchema l)" for e v
    using that by (simp add: secure_failed_def)
  have stop: "serving u = None" if "state = Valid e" "must_stop c w" for e
    using that u state_read_current [OF state] by (auto simp: must_stop_def)
  show ?thesis
  proof (cases "?es = []")
    case True
    then show ?thesis using u stop unfolding security_tail_def Let_def
      by (auto simp: wp_simps silent_def same_files_def intro!: wp_rules idle failed)
  next
    case False
    then show ?thesis using assms(1) u unfolding security_tail_def Let_def
      by (auto simp: wp_simps silent_def same_files_def intro!: wp_rules wp_persist latched failed)
  qed
qed

lemma wp_security:
  assumes "0 \<le> sp_desiredConfigVersion s"
  shows "wp (enforceSnapshotSecurity c s) (\<lambda>_. secured c s w) (secure_failed w) w"
proof -
  have failed: "secure_failed w e v" if "silent e v" "same_files w v" for e v
    using that by (simp add: secure_failed_def same_files_def)
  show ?thesis
    unfolding enforceSnapshotSecurity_eq wp_simps
    by (rule wp_trust) (auto simp: wp_simps silent_def same_files_def intro!: wp_rules wp_security_tail assms failed)
qed

section \<open>The next check\<close>

lemma wp_next:
  "wp (nextLocalReconcileAt c)
     (\<lambda>t w'. same_files w w' \<and> (serving w' = None \<or> serving w' = serving w \<and> \<not> must_stop c w)
        \<and> (\<exists>k. t \<le> nextIntegrityCheckAt (an_now (answers w k))))
     (\<lambda>e w'. silent e w' \<and> same_files w w') w"
proof -
  have current: "stored_current c w \<noteq> None" if "Valid e = file_result (isStateEnvelopeConsistent c) (disk_state w)" for e
    using that by (simp add: stored_current_def)
  have "nextLocalSecurityCheckAt s t \<le> nextIntegrityCheckAt t" for s t
    by (simp add: nextLocalSecurityCheckAt_def split: option.splits)
  then have le: "\<exists>j. nextLocalSecurityCheckAt s (an_now (answers w k)) \<le> nextIntegrityCheckAt (an_now (answers w j))"
    "\<exists>j. nextIntegrityCheckAt (an_now (answers w k)) \<le> nextIntegrityCheckAt (an_now (answers w j))" for s k
    by blast+
  show ?thesis
    unfolding nextLocalReconcileAt_def wp_simps
    by (rule wp_trust) (use current le in \<open>auto simp: wp_simps silent_def same_files_def must_stop_def
      split: read_result.splits intro!: wp_rules\<close>)
qed

end
