(* ===== verification/Adapter_Samples.thy ===== *)
theory Adapter_Samples
  imports Xray_Adapter
begin

text \<open>Concrete snapshots, agents and answers, for the witnesses.\<close>

section \<open>An injective digest\<close>

fun enc_text :: "string \<Rightarrow> string" where
  "enc_text [] = ''.''"
| "enc_text (x # xs) = ''-'' @ x # enc_text xs"

fun enc_clients :: "client list \<Rightarrow> string" where
  "enc_clients [] = []"
| "enc_clients (x # xs) = enc_text (cl_grantId x) @ enc_text (cl_credential x) @ enc_clients xs"

lemma enc_text_append: "enc_text x @ r = enc_text y @ s \<longleftrightarrow> x = y \<and> r = s"
proof (induction x arbitrary: y)
  case Nil
  show ?case by (cases y) auto
next
  case (Cons a x)
  then show ?case by (cases y) auto
qed

lemma enc_text_nonempty: "enc_text x \<noteq> []"
  by (cases x) auto

lemma enc_clients_inj: "enc_clients xs = enc_clients ys \<longleftrightarrow> xs = ys"
proof (induction xs arbitrary: ys)
  case Nil
  show ?case by (cases ys) (auto simp: enc_text_nonempty)
next
  case (Cons x xs)
  show ?case by (cases ys) (auto simp: enc_text_append enc_text_nonempty Cons.IH intro: client.equality)
qed

section \<open>A snapshot, a configuration and a world\<close>

definition sample_config :: agent_config where
  "sample_config = \<lparr>sha_snapshot = (\<lambda>(v, gs, rs). concat (map (\<lambda>(i, st, _). enc_text i @ (if st = GrantActive then ''A'' else ''N'')) gs)),
     sha_clients = enc_clients, clockTrust = True\<rparr>"

definition sample_snapshot_grant :: "uuid \<Rightarrow> GrantStatus \<Rightarrow> instant option \<Rightarrow> snapshot_grant" where
  "sample_snapshot_grant gid st revoked = \<lparr>sg_id = gid, sg_status = st, sg_expiresAt = 1000, sg_desiredVersion = 1,
     sg_appliedVersion = 0, sg_revokedAt = revoked, sg_dataPlaneCredential = Some (gid @ ''c'')\<rparr>"

definition sample_agent_snapshot :: "version \<Rightarrow> snapshot_grant list \<Rightarrow> snapshot" where
  "sample_agent_snapshot v gs = \<lparr>sp_desiredConfigVersion = v, sp_appliedConfigVersion = 0, sp_pendingAcknowledgement = None,
     sp_grants = gs, sp_routes = []\<rparr>"

definition two_clients :: snapshot where
  "two_clients = sample_agent_snapshot 2 [sample_snapshot_grant ''b'' GrantActive None, sample_snapshot_grant ''a'' GrantActive None]"

definition one_revoked :: snapshot where
  "one_revoked = sample_agent_snapshot 3 [sample_snapshot_grant ''b'' GrantActive None, sample_snapshot_grant ''a'' GrantRevoked (Some 50)]"

definition answer_at :: "instant \<Rightarrow> answer" where
  "answer_at t = \<lparr>an_fails = False, an_unsupported = False, an_now = t, an_trust = ClockTrusted, an_left = None\<rparr>"

definition agent_at :: "state_envelope disk_file \<Rightarrow> stop_only_latch disk_file \<Rightarrow> client list option \<Rightarrow> (nat \<Rightarrow> answer) \<Rightarrow> agent_world" where
  "agent_at st latch serves ans = \<lparr>disk_state = st, disk_latch = latch, serving = serves, durabilityIsConfirmed = False,
     runtimeClientsFingerprint = None, runtimeIsFailClosed = False, notifications = 0, answers = ans, tick = 0\<rparr>"

definition fresh_agent :: agent_world where
  "fresh_agent = agent_at Absent Absent None (\<lambda>_. answer_at 100)"

lemma fresh_apply: "fst (applySnapshot sample_config two_clients fresh_agent) = Inr Applied"
  by code_simp

lemma fresh_apply_serves: "serving (snd (applySnapshot sample_config two_clients fresh_agent)) =
   Some [\<lparr>cl_grantId = ''a'', cl_credential = ''ac''\<rparr>, \<lparr>cl_grantId = ''b'', cl_credential = ''bc''\<rparr>]"
  by code_simp

text \<open>After a first apply.\<close>

definition serving_agent :: agent_world where
  "serving_agent = snd (applySnapshot sample_config two_clients fresh_agent)"

lemma serving_agent_sel:
  "serving serving_agent = Some [\<lparr>cl_grantId = ''a'', cl_credential = ''ac''\<rparr>, \<lparr>cl_grantId = ''b'', cl_credential = ''bc''\<rparr>]"
  "runtimeClientsFingerprint serving_agent = Some (fingerprintClients sample_config (the (serving serving_agent)))"
  "disk_latch serving_agent = Absent"
  by code_simp+

end
