(* ===== verification/Adapter_Safety.thy ===== *)
theory Adapter_Safety
  imports Xray_Adapter_Properties Adapter_Samples
begin

text \<open>
  The adapter over time: its operations in any order, with restarts of the agent and crashes of the
  data plane between them, and the claims about the adapter.
\<close>

section \<open>The fail-closed flag\<close>

text \<open>The flag is never set while something is served: every operation keeps this.\<close>

definition flag_ok :: "agent_world \<Rightarrow> bool" where
  "flag_ok w \<longleftrightarrow> (runtimeIsFailClosed w \<longrightarrow> serving w = None)"

lemma flag_reapply: "flag_ok w \<Longrightarrow> wp (reapplySnapshot c s clients latch) (\<lambda>_. flag_ok) (\<lambda>_. flag_ok) w"
  unfolding reapplySnapshot_def wp_simps Let_def
  by (auto simp: wp_simps flag_ok_def intro!: wp_rules)

lemma flag_new: "flag_ok w \<Longrightarrow> wp (applyNewSnapshot c s clients h applyTime latch current) (\<lambda>_. flag_ok) (\<lambda>_. flag_ok) w"
  unfolding applyNewSnapshot_def commitSnapshot_def wp_simps Let_def writeDurably_def
  by (auto simp: wp_simps flag_ok_def intro!: wp_rules wp_writeJson)

lemma flag_dispatch:
  "flag_ok w \<Longrightarrow> wp (dispatchSnapshot c s clients h applyTime latch state) (\<lambda>_. flag_ok) (\<lambda>_. flag_ok) w"
  unfolding dispatchSnapshot_def
  by (cases state) (auto simp: wp_simps flag_ok_def intro!: wp_rules flag_reapply flag_new)

lemma flag_apply: "flag_ok w \<Longrightarrow> wp (applySnapshot c s) (\<lambda>_. flag_ok) (\<lambda>_. flag_ok) w"
  unfolding applySnapshot_def wp_simps
  by (rule wp_trust) (auto simp: wp_simps flag_ok_def intro!: wp_rules flag_dispatch)

lemma flag_security: "flag_ok w \<Longrightarrow> wp (enforceSnapshotSecurity c s) (\<lambda>_. flag_ok) (\<lambda>_. flag_ok) w"
  unfolding enforceSnapshotSecurity_eq wp_simps security_tail_def persistStopOnlyLatch_def Let_def
  by (rule wp_trust) (auto simp: wp_simps flag_ok_def intro!: wp_rules wp_writeJson)

lemma flag_next: "flag_ok w \<Longrightarrow> wp (nextLocalReconcileAt c) (\<lambda>_. flag_ok) (\<lambda>_. flag_ok) w"
  unfolding nextLocalReconcileAt_def wp_simps
  by (rule wp_trust) (auto simp: wp_simps flag_ok_def split: read_result.splits intro!: wp_rules)

lemma flag_reconcileCurrent: "flag_ok w \<Longrightarrow> wp (reconcileCurrent c p) (\<lambda>_. flag_ok) (\<lambda>_. flag_ok) w"
  unfolding reconcileCurrent_def wp_simps Let_def
  by (rule wp_ensure) (auto simp: wp_simps flag_ok_def intro!: wp_rules)

lemma flag_reconcile: "flag_ok w \<Longrightarrow> wp (reconcileLocalState c) (\<lambda>_. flag_ok) (\<lambda>_. flag_ok) w"
  unfolding reconcile_eq wp_simps
  by (rule wp_trust) (auto simp: wp_simps flag_ok_def intro!: wp_rules flag_reconcileCurrent)

section \<open>The agent over time\<close>

text \<open>A snapshot from the control plane has a version of at least 1 and passes the contract.\<close>

datatype agent_call = Apply snapshot | Security snapshot | Reconcile | NextCheck | Restart | DataPlaneCrash

inductive agent_step :: "agent_config \<Rightarrow> agent_call \<Rightarrow> agent_world \<Rightarrow> agent_world \<Rightarrow> bool" for c where
  step_apply: "applySnapshot c s w = (r, w') \<Longrightarrow> agent_step c (Apply s) w w'"
| step_security: "enforceSnapshotSecurity c s w = (r, w') \<Longrightarrow> 0 \<le> sp_desiredConfigVersion s \<Longrightarrow> agent_step c (Security s) w w'"
| step_reconcile: "reconcileLocalState c w = (r, w') \<Longrightarrow> agent_step c Reconcile w w'"
| step_next: "nextLocalReconcileAt c w = (r, w') \<Longrightarrow> agent_step c NextCheck w w'"
| step_restart: "agent_step c Restart w
    (w\<lparr>durabilityIsConfirmed := False, runtimeClientsFingerprint := None, runtimeIsFailClosed := False\<rparr>)"
| step_crash: "agent_step c DataPlaneCrash w (w\<lparr>serving := None\<rparr>)"

inductive_cases agent_stepE: "agent_step c call w w'"

inductive agent_run :: "agent_config \<Rightarrow> agent_call list \<Rightarrow> agent_world \<Rightarrow> agent_world \<Rightarrow> bool" for c where
  run_stop: "agent_run c [] w w"
| run_step: "agent_step c call w v \<Longrightarrow> agent_run c calls v w' \<Longrightarrow> agent_run c (call # calls) w w'"

definition files_ok :: "agent_config \<Rightarrow> agent_world \<Rightarrow> bool" where
  "files_ok c w \<longleftrightarrow> (disk_state w = Absent \<or> stored_current c w \<noteq> None)
     \<and> (disk_latch w = Absent \<or> (\<exists>l. disk_latch w = Stored l \<and> stopOnlyLatchSchema l))"

definition agent_inv :: "agent_config \<Rightarrow> agent_world \<Rightarrow> bool" where
  "agent_inv c w \<longleftrightarrow> flag_ok w \<and> files_ok c w"

lemma new_envelope_consistent:
  "(\<forall>p. current = Some p \<longrightarrow> stored_current c w = Some p \<and> ps_version p < sp_desiredConfigVersion s)
     \<Longrightarrow> isStateEnvelopeConsistent c (new_envelope c s t current)"
  by (auto simp: new_envelope_def isStateEnvelopeConsistent_def isPersistedStateConsistent_def stored_current_def
      split: option.splits disk_file.splits if_splits)

lemma state_advances_ok:
  assumes "state_advances c s w w'" "disk_state w = Absent \<or> stored_current c w \<noteq> None"
  shows "disk_state w' = Absent \<or> stored_current c w' \<noteq> None"
proof (cases "disk_state w' = disk_state w")
  case False
  with assms(1) obtain t current where "disk_state w' = Stored (new_envelope c s t current)"
    "\<forall>p. current = Some p \<longrightarrow> stored_current c w = Some p \<and> ps_version p < sp_desiredConfigVersion s"
    unfolding state_advances_def by blast
  then show ?thesis using new_envelope_consistent by (simp add: stored_current_def)
qed (use assms(2) in \<open>simp add: stored_current_def\<close>)

lemma apply_outcome:
  "applySnapshot c s w = (r, w') \<Longrightarrow> (case r of Inl e \<Rightarrow> apply_failed c s w e w' | Inr x \<Rightarrow> apply_done c s w x w')"
  using wp_applySnapshot [of c s w] by (simp add: wp_def split: sum.splits)

lemma flag_outcome: "wp m (\<lambda>_. flag_ok) (\<lambda>_. flag_ok) w \<Longrightarrow> m w = (r, w') \<Longrightarrow> flag_ok w'"
  by (simp add: wp_def split: sum.splits)

lemma same_files_ok: "same_files w w' \<Longrightarrow> files_ok c w \<Longrightarrow> files_ok c w'"
  by (simp add: same_files_def files_ok_def stored_current_def)

lemma apply_files_ok:
  assumes "applySnapshot c s w = (r, w')" "files_ok c w"
  shows "files_ok c w'"
  using apply_outcome [OF assms(1)] assms(2) state_advances_ok [of c s w w']
  by (cases r) (auto simp: apply_failed_def apply_done_def files_ok_def)

lemma security_files_ok:
  assumes "enforceSnapshotSecurity c s w = (r, w')" "0 \<le> sp_desiredConfigVersion s" "files_ok c w"
  shows "files_ok c w'"
proof -
  have stored: "stored_current c w' = stored_current c w" if "disk_state w' = disk_state w"
    using that by (simp add: stored_current_def)
  show ?thesis
  proof (cases r)
    case (Inl e)
    with wp_Inl [OF wp_security [OF assms(2)]] assms(1) have "secure_failed w e w'" by blast
    then show ?thesis using assms(3) stored by (auto simp: secure_failed_def files_ok_def)
  next
    case (Inr x)
    with wp_Inr [OF wp_security [OF assms(2)]] assms(1) have sec: "secured c s w w'" by blast
    then have "disk_latch w' = disk_latch w \<or> (\<exists>l. disk_latch w' = Stored l \<and> stopOnlyLatchSchema l)"
      by (auto simp: secured_def latch_covers_def split: if_splits)
    then show ?thesis using assms(3) stored sec by (auto simp: secured_def files_ok_def)
  qed
qed

lemma next_files: "nextLocalReconcileAt c w = (r, w') \<Longrightarrow> same_files w w'"
  using wp_next [of c w] by (auto simp: wp_def split: sum.splits)

text \<open>Reconciliation never touches the files, whatever the fingerprint is worth.\<close>

lemma wp_reconcileCurrent_files: "same_files w v \<Longrightarrow> wp (reconcileCurrent c p) (\<lambda>_. same_files w) (\<lambda>_. same_files w) v"
  unfolding reconcileCurrent_def wp_simps Let_def
  by (rule wp_ensure) (auto simp: wp_simps same_files_def intro!: wp_rules)

lemma wp_reconcile_files: "wp (reconcileLocalState c) (\<lambda>_. same_files w) (\<lambda>_. same_files w) w"
  unfolding reconcile_eq wp_simps
  by (rule wp_trust) (auto simp: wp_simps same_files_def intro!: wp_rules wp_reconcileCurrent_files)

lemma reconcile_files: "reconcileLocalState c w = (r, w') \<Longrightarrow> same_files w w'"
  using wp_reconcile_files [of c w] by (auto simp: wp_def split: sum.splits)

lemma agent_step_inv:
  assumes "agent_step c call w w'" "agent_inv c w"
  shows "agent_inv c w'"
  using assms(1)
proof cases
  case (step_apply s r)
  then show ?thesis using assms(2) flag_outcome [OF flag_apply] apply_files_ok by (auto simp: agent_inv_def)
next
  case (step_security s r)
  then show ?thesis using assms(2) flag_outcome [OF flag_security] security_files_ok by (auto simp: agent_inv_def)
next
  case (step_reconcile r)
  then show ?thesis using assms(2) flag_outcome [OF flag_reconcile] reconcile_files same_files_ok unfolding agent_inv_def by blast
next
  case (step_next r)
  then show ?thesis using assms(2) flag_outcome [OF flag_next] next_files same_files_ok unfolding agent_inv_def by blast
qed (use assms(2) in \<open>auto simp: agent_inv_def flag_ok_def files_ok_def stored_current_def\<close>)

section \<open>Claims\<close>

text \<open>C28. Whatever calls, failures, restarts and crashes happen, the agent never believes to be stopped
  while clients are served, the state file is missing or holds an envelope that passes the agent's own
  schema, hash and version-order checks, and the latch file is missing or well formed: the agent
  never locks itself out by a file it wrote.\<close>

theorem agent_files_stay_valid:
  assumes "agent_run c calls w w'" "agent_inv c w"
  shows "agent_inv c w'"
  using assms by (induction rule: agent_run.induct) (auto intro: agent_step_inv)

theorem agent_files_stay_valid_witness: "agent_inv sample_config serving_agent"
proof (rule agent_files_stay_valid)
  have "agent_step sample_config (Apply two_clients) fresh_agent serving_agent"
    unfolding serving_agent_def by (rule step_apply) (rule prod.collapse [symmetric])
  then show "agent_run sample_config [Apply two_clients] fresh_agent serving_agent"
    by (rule run_step) (rule run_stop)
  show "agent_inv sample_config fresh_agent"
    by (simp add: agent_inv_def flag_ok_def files_ok_def fresh_agent_def agent_at_def)
qed



text \<open>C30. If nothing is served, a latch is present or the stored state is missing or inconsistent, an
  apply that fails leaves the data plane stopped, unless stopping it failed as well, which the error
  then says.\<close>

theorem apply_failure_silent:
  assumes "applySnapshot c s w = (Inl e, w')"
    and "serving w = None \<or> disk_latch w \<noteq> Absent \<or> stored_current c w = None"
  shows "serving w' = None \<or> stop_error_of e"
  using apply_outcome [OF assms(1)] assms(2) by (auto simp: apply_failed_def must_stop_def silent_def)

definition broken_agent :: agent_world where
  "broken_agent = fresh_agent\<lparr>answers := (\<lambda>k. if k = 6 then (answer_at 100)\<lparr>an_fails := True, an_left := Some []\<rparr> else answer_at 100)\<rparr>"

theorem apply_failure_silent_witness:
  "serving (snd (applySnapshot sample_config two_clients broken_agent)) = None"
proof -
  have "fst (applySnapshot sample_config two_clients broken_agent) = Inl (CallFailed ''applyClients'')"
    by code_simp
  then have run: "applySnapshot sample_config two_clients broken_agent =
      (Inl (CallFailed ''applyClients''), snd (applySnapshot sample_config two_clients broken_agent))"
    by (simp add: prod_eq_iff)
  have "serving broken_agent = None" by (simp add: broken_agent_def fresh_agent_def agent_at_def)
  then show ?thesis using apply_failure_silent [OF run] by simp
qed

text \<open>C31. While the clock is not trusted nothing is applied and nothing stays served: every operation of the
  adapter leaves the files alone and the data plane stopped, unless stopping it failed, which the error
  then says; applying and securing a snapshot end with an error.\<close>

theorem untrusted_clock_stops:
  assumes "clockTrust c" "an_trust (answers w (tick w)) \<noteq> ClockTrusted"
  shows "wp (applySnapshot c s) (\<lambda>_ _. False) (\<lambda>e w'. (serving w' = None \<or> stop_error_of e) \<and> same_files w w') w
    \<and> wp (enforceSnapshotSecurity c s) (\<lambda>_ _. False) (\<lambda>e w'. (serving w' = None \<or> stop_error_of e) \<and> same_files w w') w
    \<and> wp (reconcileLocalState c) (\<lambda>_ w'. serving w' = None \<and> same_files w w')
        (\<lambda>e w'. (serving w' = None \<or> stop_error_of e) \<and> same_files w w') w
    \<and> wp (nextLocalReconcileAt c) (\<lambda>_ w'. serving w' = None \<and> same_files w w')
        (\<lambda>e w'. (serving w' = None \<or> stop_error_of e) \<and> same_files w w') w"
  unfolding applySnapshot_def enforceSnapshotSecurity_def reconcileLocalState_def nextLocalReconcileAt_def wp_simps
  by (intro conjI wp_trust) (use assms in \<open>auto simp: wp_simps same_files_def\<close>)

theorem untrusted_clock_stops_witness:
  "wp (applySnapshot sample_config two_clients) (\<lambda>_ _. False)
     (\<lambda>e w'. (serving w' = None \<or> stop_error_of e) \<and> same_files (serving_agent\<lparr>answers := (\<lambda>_. (answer_at 100)\<lparr>an_trust := ClockUntrusted\<rparr>)\<rparr>) w')
     (serving_agent\<lparr>answers := (\<lambda>_. (answer_at 100)\<lparr>an_trust := ClockUntrusted\<rparr>)\<rparr>)"
  by (rule untrusted_clock_stops [THEN conjunct1]) (simp_all add: sample_config_def)

section \<open>The latch\<close>






end
