(* ===== verification/Node_Agent_Runner.thy ===== *)
theory Node_Agent_Runner
  imports Adapter_Safety
begin

text \<open>
  The node agent's two loops: the control-plane cycle (\<open>apps/node-agent/src/agent.ts\<close>, \<open>main.ts\<close>,
  \<open>control-plane-client.ts\<close>) and the local reconciliation loop (\<open>local-state-reconciler.ts\<close>), and the
  simulation adapter (\<open>simulation-adapter.ts\<close>), the second data plane the runner can drive.

  The answers of the control plane to the requests of a cycle are the argument \<open>control_plane_answers\<close>;
  a request that times out or does not reach the server is \<open>None\<close>.
\<close>

section \<open>The control-plane client\<close>

record http_answer =
  ht_status :: int
  ht_body :: "snapshot option"

record control_plane_answers =
  cp_heartbeat :: "http_answer option"
  cp_configuration :: "http_answer option"
  cp_acknowledge :: "http_answer option"

datatype runner_error = RequestFailed | ControlPlaneRequestError int | InvalidSnapshot | AdapterError agent_error

definition expect_status :: "int \<Rightarrow> http_answer option \<Rightarrow> runner_error + http_answer" where
  "expect_status expected answer = (case answer of
     None \<Rightarrow> Inl RequestFailed
   | Some a \<Rightarrow> if ht_status a \<noteq> expected then Inl (ControlPlaneRequestError (ht_status a)) else Inr a)"

definition heartbeat :: "control_plane_answers \<Rightarrow> runner_error + http_answer" where
  "heartbeat cp = expect_status 204 (cp_heartbeat cp)"

definition configuration :: "(string \<Rightarrow> bool) \<Rightarrow> control_plane_answers \<Rightarrow> runner_error + snapshot" where
  "configuration is_uuid cp = (case expect_status 200 (cp_configuration cp) of
     Inl e \<Rightarrow> Inl e
   | Inr a \<Rightarrow> (case ht_body a of
        None \<Rightarrow> Inl InvalidSnapshot
      | Some s \<Rightarrow> if nodeAgentConfigurationSnapshotSchema is_uuid s then Inr s else Inl InvalidSnapshot))"

definition acknowledge :: "control_plane_answers \<Rightarrow> runner_error + http_answer" where
  "acknowledge cp = expect_status 204 (cp_acknowledge cp)"

section \<open>The runner\<close>

text \<open>A data plane: \<open>apply\<close>, and the two operations an adapter may leave out.\<close>

record data_plane_adapter =
  dp_apply :: "snapshot \<Rightarrow> apply_outcome act"
  dp_reconcileConfirmedSnapshot :: "(snapshot \<Rightarrow> apply_outcome act) option"
  dp_enforceSnapshotSecurity :: "(snapshot \<Rightarrow> unit act) option"

text \<open>\<open>rn_sent\<close> records the acknowledgements sent, whether or not they reach the control plane.\<close>

record runner =
  rn_agent :: agent_world
  rn_sent :: "ack_ticket list"

definition on_agent :: "'a act \<Rightarrow> runner \<Rightarrow> (runner_error + 'a) \<times> runner" where
  "on_agent m r = (case m (rn_agent r) of
     (Inl e, w) \<Rightarrow> (Inl (AdapterError e), r\<lparr>rn_agent := w\<rparr>)
   | (Inr x, w) \<Rightarrow> (Inr x, r\<lparr>rn_agent := w\<rparr>))"

definition optional_call :: "(snapshot \<Rightarrow> 'a act) option \<Rightarrow> snapshot \<Rightarrow> cycle_outcome \<Rightarrow> runner \<Rightarrow>
    (runner_error + cycle_outcome) \<times> runner" where
  "optional_call f s outcome r = (case f of
     None \<Rightarrow> (Inr outcome, r)
   | Some op \<Rightarrow> (case on_agent (op s) r of (Inl e, r') \<Rightarrow> (Inl e, r') | (Inr _, r') \<Rightarrow> (Inr outcome, r')))"

definition apply_and_acknowledge :: "data_plane_adapter \<Rightarrow> control_plane_answers \<Rightarrow> snapshot \<Rightarrow> ack_ticket \<Rightarrow> runner \<Rightarrow>
    (runner_error + cycle_outcome) \<times> runner" where
  "apply_and_acknowledge adapter cp s ticket r = (case on_agent (dp_apply adapter s) r of
     (Inl e, r') \<Rightarrow> (Inl e, r')
   | (Inr _, r') \<Rightarrow> (case acknowledge cp of
        Inl e \<Rightarrow> (Inl e, r'\<lparr>rn_sent := rn_sent r' @ [ticket]\<rparr>)
      | Inr _ \<Rightarrow> (Inr Acknowledged, r'\<lparr>rn_sent := rn_sent r' @ [ticket]\<rparr>)))"

definition runCycle :: "(string \<Rightarrow> bool) \<Rightarrow> data_plane_adapter \<Rightarrow> control_plane_answers \<Rightarrow> runner \<Rightarrow>
    (runner_error + cycle_outcome) \<times> runner" where
  "runCycle is_uuid adapter cp r = (case heartbeat cp of
     Inl e \<Rightarrow> (Inl e, r)
   | Inr _ \<Rightarrow> (case configuration is_uuid cp of
       Inl e \<Rightarrow> (Inl e, r)
     | Inr s \<Rightarrow> (case sp_pendingAcknowledgement s of
         None \<Rightarrow>
           if sp_desiredConfigVersion s \<noteq> sp_appliedConfigVersion s
           then optional_call (dp_enforceSnapshotSecurity adapter) s WaitingForCommand r
           else optional_call (dp_reconcileConfirmedSnapshot adapter) s Synchronized r
       | Some ticket \<Rightarrow> apply_and_acknowledge adapter cp s ticket r)))"

text \<open>How long the control-plane loop then waits.\<close>

definition runControlPlaneLoop_delay :: "agent_mode \<Rightarrow> int \<Rightarrow> runner_error + cycle_outcome \<Rightarrow> int" where
  "runControlPlaneLoop_delay mode configuredIntervalMs result =
     (let pollIntervalMs = effectiveControlPlanePollInterval mode configuredIntervalMs;
          retryIntervalMs = effectiveControlPlaneRetryInterval mode pollIntervalMs
      in case result of
           Inl _ \<Rightarrow> retryIntervalMs
         | Inr outcome \<Rightarrow> successfulControlPlaneCycleDelay outcome pollIntervalMs retryIntervalMs)"

section \<open>The simulation adapter\<close>

definition simulation_readState :: "state_envelope option act" where
  "simulation_readState = bind_act ask (\<lambda>a. bind_act (get disk_state) (\<lambda>f.
     if an_fails a then throw (CallFailed ''read state'')
     else case f of Absent \<Rightarrow> return None | Garbled \<Rightarrow> throw (CallFailed ''parse state'') | Stored e \<Rightarrow> return (Some e)))"

definition simulation_apply :: "agent_config \<Rightarrow> snapshot \<Rightarrow> apply_outcome act" where
  "simulation_apply c s = bind_act simulation_readState (\<lambda>envelope.
     let current = map_option env_current envelope; hash = hashNodeAgentSnapshot c s
     in case current of
          Some p \<Rightarrow>
            if ps_version p > sp_desiredConfigVersion s then throw VersionDowngrade
            else if ps_version p = sp_desiredConfigVersion s
            then if ps_snapshotHash p \<noteq> hash then throw VersionCollision
                 else seq_act confirmDurability (return AlreadyApplied)
            else bind_act current_time (\<lambda>now.
              seq_act (writeDurably \<lparr>env_current = \<lparr>ps_version = sp_desiredConfigVersion s, ps_snapshotHash = hash,
                  ps_appliedAt = now, ps_snapshot = s\<rparr>, env_previous = Some p\<rparr>) (return Applied))
        | None \<Rightarrow> bind_act current_time (\<lambda>now.
            seq_act (writeDurably \<lparr>env_current = \<lparr>ps_version = sp_desiredConfigVersion s, ps_snapshotHash = hash,
                ps_appliedAt = now, ps_snapshot = s\<rparr>, env_previous = None\<rparr>) (return Applied)))"

definition simulation_adapter :: "agent_config \<Rightarrow> data_plane_adapter" where
  "simulation_adapter c = \<lparr>dp_apply = simulation_apply c, dp_reconcileConfirmedSnapshot = None,
     dp_enforceSnapshotSecurity = None\<rparr>"



section \<open>What the runner asks of a data plane\<close>

text \<open>\<open>holds s w\<close>: the data plane durably stores the version and the hash of \<open>s\<close>.\<close>

definition stores_snapshot :: "agent_config \<Rightarrow> snapshot \<Rightarrow> agent_world \<Rightarrow> bool" where
  "stores_snapshot c s w \<longleftrightarrow> (\<exists>e. disk_state w = Stored e \<and> ps_version (env_current e) = sp_desiredConfigVersion s
     \<and> ps_snapshotHash (env_current e) = hashNodeAgentSnapshot c s)"

lemma optional_call_sent: "optional_call f s outcome r = (result, r') \<Longrightarrow> rn_sent r' = rn_sent r"
  by (auto simp: optional_call_def on_agent_def split: option.splits prod.splits sum.splits)

lemma optional_call_outcome: "optional_call f s outcome r = (Inr x, r') \<Longrightarrow> x = outcome"
  by (auto simp: optional_call_def split: option.splits prod.splits sum.splits)

locale data_plane =
  fixes adapter :: data_plane_adapter and holds :: "snapshot \<Rightarrow> agent_world \<Rightarrow> bool"
  assumes apply_holds: "dp_apply adapter s w = (Inr x, w') \<Longrightarrow> holds s w'"
begin

lemma cycle_sends:
  assumes "runCycle is_uuid adapter cp r = (result, r')"
  shows "rn_sent r' = rn_sent r
    \<or> (\<exists>s ticket. configuration is_uuid cp = Inr s \<and> sp_pendingAcknowledgement s = Some ticket
         \<and> rn_sent r' = rn_sent r @ [ticket] \<and> holds s (rn_agent r'))"
proof (cases "rn_sent r' = rn_sent r")
  case False
  from False assms obtain s ticket where s: "configuration is_uuid cp = Inr s" "sp_pendingAcknowledgement s = Some ticket"
    "apply_and_acknowledge adapter cp s ticket r = (result, r')"
    by (auto simp: runCycle_def dest: optional_call_sent split: sum.splits option.splits if_splits)
  then obtain x w where "dp_apply adapter s (rn_agent r) = (Inr x, w)" "rn_agent r' = w" "rn_sent r' = rn_sent r @ [ticket]"
    using False by (auto simp: apply_and_acknowledge_def on_agent_def split: sum.splits prod.splits)
  then show ?thesis using s apply_holds by blast
qed simp

lemma acknowledged_holds:
  assumes "runCycle is_uuid adapter cp r = (Inr Acknowledged, r')"
  shows "\<exists>s ticket. configuration is_uuid cp = Inr s \<and> sp_pendingAcknowledgement s = Some ticket
    \<and> rn_sent r' = rn_sent r @ [ticket] \<and> holds s (rn_agent r')"
proof -
  obtain s ticket where s: "configuration is_uuid cp = Inr s" "sp_pendingAcknowledgement s = Some ticket"
    "apply_and_acknowledge adapter cp s ticket r = (Inr Acknowledged, r')"
    using assms by (auto simp: runCycle_def dest: optional_call_outcome split: sum.splits option.splits if_splits)
  then obtain x w where "dp_apply adapter s (rn_agent r) = (Inr x, w)" "rn_agent r' = w" "rn_sent r' = rn_sent r @ [ticket]"
    by (auto simp: apply_and_acknowledge_def on_agent_def split: sum.splits prod.splits)
  then show ?thesis using s apply_holds by blast
qed

end

section \<open>Both adapters keep the contract\<close>


lemma wp_simulation_apply: "wp (simulation_apply c s) (\<lambda>_. stores_snapshot c s) (\<lambda>_ _. True) w"
  unfolding simulation_apply_def simulation_readState_def writeDurably_def Let_def wp_simps
  by (auto simp: wp_simps stores_snapshot_def split: disk_file.splits intro!: wp_rules wp_writeJson)

interpretation simulation: data_plane "simulation_adapter c" "stores_snapshot c" for c
  by unfold_locales (use wp_Inr [OF wp_simulation_apply] in \<open>auto simp: simulation_adapter_def\<close>)







section \<open>The local reconciliation loop\<close>

definition MAX_TIMER_DELAY_MS :: int where "MAX_TIMER_DELAY_MS = 2147483647"

datatype wait_outcome = Aborted | Deadline | Reschedule | StateChanged

text \<open>What ends a wait first.\<close>

datatype wait_event = AbortSignal | StateChange | TimerFires

definition arm_timer :: "instant option \<Rightarrow> instant \<Rightarrow> (int \<times> wait_outcome) option" where
  "arm_timer deadlineAt now = (case deadlineAt of None \<Rightarrow> None
     | Some d \<Rightarrow> let remainingMs = max 0 (d - now)
         in Some (min remainingMs MAX_TIMER_DELAY_MS, if remainingMs \<le> MAX_TIMER_DELAY_MS then Deadline else Reschedule))"

text \<open>\<open>None\<close>: the event cannot happen, because no timer is armed.\<close>

definition waitUntil :: "instant option \<Rightarrow> bool \<Rightarrow> bool \<Rightarrow> instant \<Rightarrow> wait_event \<Rightarrow> wait_outcome option" where
  "waitUntil deadlineAt revisionChanged aborted now event =
     (if aborted then Some Aborted
      else if revisionChanged then Some StateChanged
      else case event of AbortSignal \<Rightarrow> Some Aborted | StateChange \<Rightarrow> Some StateChanged
         | TimerFires \<Rightarrow> map_option snd (arm_timer deadlineAt now))"

text \<open>One check: an error schedules a retry.  The flag says whether the runtime was reconciled.\<close>

definition local_check :: "agent_config \<Rightarrow> int \<Rightarrow> bool \<Rightarrow> agent_world \<Rightarrow> (instant option \<times> bool) \<times> agent_world" where
  "local_check c retryDelayMs reconcileRuntime w =
     (case (if reconcileRuntime then reconcileLocalState c else nextLocalReconcileAt c) w of
        (Inr d, w') \<Rightarrow> ((Some d, True), w')
      | (Inl _, w') \<Rightarrow> (case current_time w' of
            (Inr now, w'') \<Rightarrow> ((Some (now + retryDelayMs), False), w'')
          | (Inl _, w'') \<Rightarrow> ((None, False), w'')))"

record loop_env =
  le_revisionChanged :: bool
  le_aborted :: bool
  le_now :: instant
  le_event :: wait_event

text \<open>The rounds of the loop, one \<open>loop_env\<close> each; the result lists whether each round reconciled the runtime
  and when it was due again.\<close>

fun reconcile_loop_run :: "agent_config \<Rightarrow> int \<Rightarrow> bool \<Rightarrow> agent_world \<Rightarrow> loop_env list \<Rightarrow> (bool \<times> instant option) list \<times> agent_world" where
  "reconcile_loop_run c retryDelayMs reconcileRuntime w [] = ([], w)"
| "reconcile_loop_run c retryDelayMs reconcileRuntime w (env # envs) =
     (let ((deadlineAt, _), w') = local_check c retryDelayMs reconcileRuntime w
      in case waitUntil deadlineAt (le_revisionChanged env) (le_aborted env) (le_now env) (le_event env) of
           None \<Rightarrow> ([(reconcileRuntime, deadlineAt)], w')
         | Some Aborted \<Rightarrow> ([(reconcileRuntime, deadlineAt)], w')
         | Some outcome \<Rightarrow>
             let (rounds, w'') = reconcile_loop_run c retryDelayMs (outcome = Deadline) w' envs
             in ((reconcileRuntime, deadlineAt) # rounds, w''))"

text \<open>A timer fires no later than the deadline it was armed for, and a round that was due reconciles the
  runtime in the next one.\<close>

lemma arm_timer_in_time:
  assumes "arm_timer (Some d) now = Some (delay, outcome)"
  shows "0 \<le> delay" "now \<le> d \<Longrightarrow> now + delay \<le> d" "outcome = Deadline \<Longrightarrow> d \<le> now + delay"
    "d \<le> now + MAX_TIMER_DELAY_MS \<Longrightarrow> outcome = Deadline"
  using assms by (auto simp: arm_timer_def Let_def MAX_TIMER_DELAY_MS_def split: if_splits)

lemma due_round_reconciles:
  assumes "reconcile_loop_run c retryDelayMs rr w (env # envs) = ((flag, Some d) # round # rounds, w')"
    "\<not> le_aborted env" "\<not> le_revisionChanged env" "le_event env = TimerFires" "d \<le> le_now env + MAX_TIMER_DELAY_MS"
  shows "fst round"
proof -
  obtain deadlineAt ok v where check: "local_check c retryDelayMs rr w = ((deadlineAt, ok), v)" by (metis surj_pair)
  then have d: "deadlineAt = Some d"
    using assms(1) by (auto simp: Let_def split: option.splits wait_outcome.splits prod.splits)
  have wait: "waitUntil deadlineAt (le_revisionChanged env) (le_aborted env) (le_now env) (le_event env) = Some Deadline"
    using assms(2-5) by (simp add: waitUntil_def d arm_timer_def Let_def MAX_TIMER_DELAY_MS_def)
  obtain rs u where rest: "reconcile_loop_run c retryDelayMs True v envs = (rs, u)" by (metis surj_pair)
  have rs: "rs = round # rounds" using assms(1) check wait rest by simp
  then show ?thesis
  proof (cases envs)
    case (Cons env' envs')
    then show ?thesis using rest rs by (auto simp: Let_def split: option.splits wait_outcome.splits prod.splits)
  qed (use rest rs in simp)
qed

end
