(* ===== verification/Xray_Runtime.thy ===== *)
theory Xray_Runtime
  imports Agent_Effects Json_Schema
begin

text \<open>
  The data-plane runtime the adapter drives: \<open>apps/node-agent/src/xray-runtime.ts\<close> (the configuration file
  and the reload command) and \<open>apps/node-agent/src/xray-serving-verifier.ts\<close> (Docker commands that read
  back what Xray serves and stop it).

  Every call outside the process is a \<open>runtime_call\<close>; \<open>rt_calls w n engine c\<close> is the output of call \<open>c\<close>
  as the \<open>n\<close>-th one, \<open>None\<close> if it fails, with the containers of the Compose service it leaves behind.
  \<open>rt_elapsed\<close> adds up the longest time the calls may take: the timeouts the code passes and the
  pauses between attempts (file operations have no timeout and count nothing).  \<open>JSON.parse\<close> and
  \<open>JSON.stringify\<close> are the fields of \<open>json_codec\<close>; blanks are the ASCII ones.
\<close>

section \<open>Calls\<close>

record container =
  ct_id :: string
  ct_running :: bool
  ct_users :: "client list"

datatype runtime_call =
    ReadTemplate | ReadConfig | ChangeMode | MakeDirectory | RemoveTemporary | OpenTemporary | WriteTemporary
  | SyncTemporary | CloseTemporary | RenameTemporary | ReloadCommand string
  | DockerPs bool | DockerStop "string list" | InboundUsers string

datatype runtime_error =
    CallRejected runtime_call | InvalidJson | NotAnObject | MissingInbounds | MissingVlessInbound | WrongProtocol
  | MissingClientsArray | TemplateHasCredentials
  | InvalidUsersResponse | InvalidUser | NotOneContainer | AccessListMismatch | StillRunning
  | VerificationFailed "runtime_error option"

record runtime_world =
  rt_calls :: "nat \<Rightarrow> container list \<Rightarrow> runtime_call \<Rightarrow> string option \<times> container list"
  rt_pause :: "nat \<Rightarrow> container list \<Rightarrow> container list"
  rt_engine :: "container list"
  rt_count :: nat
  rt_elapsed :: int
  rt_config :: "string option"

type_synonym 'a rt = "(runtime_world, runtime_error, 'a) eff"

record json_codec =
  js_parse :: "string \<Rightarrow> json option"
  js_stringify :: "json \<Rightarrow> string"

definition call_timeout :: "runtime_call \<Rightarrow> int" where
  "call_timeout c = (case c of ReloadCommand _ \<Rightarrow> XRAY_RELOAD_COMMAND_TIMEOUT_MS
     | DockerPs _ \<Rightarrow> XRAY_DOCKER_COMMAND_TIMEOUT_MS | DockerStop _ \<Rightarrow> XRAY_DOCKER_COMMAND_TIMEOUT_MS
     | InboundUsers _ \<Rightarrow> XRAY_DOCKER_COMMAND_TIMEOUT_MS | _ \<Rightarrow> 0)"

definition called :: "runtime_call \<Rightarrow> runtime_world \<Rightarrow> runtime_world" where
  "called c w = w\<lparr>rt_engine := snd (rt_calls w (rt_count w) (rt_engine w) c), rt_count := Suc (rt_count w),
     rt_elapsed := rt_elapsed w + call_timeout c\<rparr>"

definition call :: "runtime_call \<Rightarrow> string rt" where
  "call c w = (case fst (rt_calls w (rt_count w) (rt_engine w) c) of
     None \<Rightarrow> (Inl (CallRejected c), called c w)
   | Some out \<Rightarrow> (Inr out, called c w))"

definition perform :: "runtime_call \<Rightarrow> unit rt" where
  "perform c = bind_act (call c) (\<lambda>_. return ())"

definition lift_result :: "runtime_error + 'a \<Rightarrow> 'a rt" where
  "lift_result r = (case r of Inl e \<Rightarrow> throw e | Inr x \<Rightarrow> return x)"

section \<open>The configuration file\<close>

fun json_array :: "json option \<Rightarrow> json list option" where
  "json_array (Some (JArr xs)) = Some xs"
| "json_array _ = None"

definition json_field :: "json \<Rightarrow> string \<Rightarrow> json option" where
  "json_field j k = (case json_object j of None \<Rightarrow> None | Some entries \<Rightarrow> map_of entries k)"

definition parseJsonObject :: "json_codec \<Rightarrow> string \<Rightarrow> runtime_error + json" where
  "parseJsonObject js raw = (case js_parse js raw of
     None \<Rightarrow> Inl InvalidJson
   | Some j \<Rightarrow> if json_object j = None then Inl NotAnObject else Inr j)"

definition is_inbound :: "string \<Rightarrow> json \<Rightarrow> bool" where
  "is_inbound tag j \<longleftrightarrow> json_object j \<noteq> None \<and> json_field j ''tag'' = Some (JStr tag)"

definition vless_inbound_ok :: "json \<Rightarrow> runtime_error + json" where
  "vless_inbound_ok j =
     (if json_field j ''protocol'' \<noteq> Some (JStr ''vless'') then Inl WrongProtocol
      else case json_field j ''settings'' of
        None \<Rightarrow> Inl MissingClientsArray
      | Some settings \<Rightarrow> if json_array (json_field settings ''clients'') = None then Inl MissingClientsArray else Inr j)"

definition findVlessInbound :: "json \<Rightarrow> string \<Rightarrow> runtime_error + json" where
  "findVlessInbound config tag = (case json_array (json_field config ''inbounds'') of
     None \<Rightarrow> Inl MissingInbounds
   | Some inbounds \<Rightarrow> (case find (is_inbound tag) inbounds of
        None \<Rightarrow> Inl MissingVlessInbound
      | Some j \<Rightarrow> vless_inbound_ok j))"

definition has_clients :: "json \<Rightarrow> bool" where
  "has_clients inbound = (case json_field inbound ''settings'' of None \<Rightarrow> False
     | Some settings \<Rightarrow> (case json_array (json_field settings ''clients'') of None \<Rightarrow> False | Some xs \<Rightarrow> xs \<noteq> []))"

definition assertTemplateHasNoClientCredentials :: "json \<Rightarrow> runtime_error + unit" where
  "assertTemplateHasNoClientCredentials config = (case json_array (json_field config ''inbounds'') of
     None \<Rightarrow> Inr ()
   | Some inbounds \<Rightarrow> if list_ex has_clients inbounds then Inl TemplateHasCredentials else Inr ())"

text \<open>The assignment to \<open>settings.clients\<close> of the inbound found, which changes the template in place.\<close>

definition set_field :: "string \<Rightarrow> (json \<Rightarrow> json) \<Rightarrow> json \<Rightarrow> json" where
  "set_field k f j = (case j of JObj entries \<Rightarrow> JObj (map (\<lambda>(k', v). (k', if k' = k then f v else v)) entries) | _ \<Rightarrow> j)"

fun update_first :: "('a \<Rightarrow> bool) \<Rightarrow> ('a \<Rightarrow> 'a) \<Rightarrow> 'a list \<Rightarrow> 'a list" where
  "update_first p f [] = []"
| "update_first p f (x # xs) = (if p x then f x # xs else x # update_first p f xs)"

definition client_entry :: "client \<Rightarrow> json" where
  "client_entry c = JObj [(''id'', JStr (cl_credential c)), (''email'', JStr (cl_grantId c))]"

definition with_clients :: "string \<Rightarrow> client list \<Rightarrow> json \<Rightarrow> json" where
  "with_clients tag clients = set_field ''inbounds'' (\<lambda>inbounds. case inbounds of
     JArr xs \<Rightarrow> JArr (update_first (is_inbound tag)
       (set_field ''settings'' (set_field ''clients'' (\<lambda>_. JArr (map client_entry (sort_key cl_grantId clients))))) xs)
   | j \<Rightarrow> j)"

definition newline :: string where
  "newline = [CHR 0x0A]"

definition readRuntimeIfPresent :: "string option rt" where
  "readRuntimeIfPresent = bind_act (call ReadConfig) (\<lambda>_. get rt_config)"

definition writeRuntimeConfig :: "string \<Rightarrow> unit rt" where
  "writeRuntimeConfig contents =
     seq_act (perform MakeDirectory)
    (seq_act (perform RemoveTemporary)
    (finally_do
      (seq_act (perform OpenTemporary)
      (seq_act
        (catch (seq_act (perform WriteTemporary) (seq_act (perform SyncTemporary) (perform CloseTemporary)))
          (\<lambda>e. seq_act (catch (perform CloseTemporary) (\<lambda>_. return ())) (throw e)))
      (seq_act (perform ChangeMode)
      (seq_act (perform RenameTemporary) (modify (\<lambda>w. w\<lparr>rt_config := Some contents\<rparr>))))))
      (perform RemoveTemporary)))"

section \<open>Reading back what is served\<close>

definition blank :: "char \<Rightarrow> bool" where
  "blank x \<longleftrightarrow> x \<in> {CHR '' '', CHR 0x09, CHR 0x0A, CHR 0x0D, CHR 0x0B, CHR 0x0C}"

definition trim :: "string \<Rightarrow> string" where
  "trim s = rev (dropWhile blank (rev (dropWhile blank s)))"

fun split_lines :: "string \<Rightarrow> string list" where
  "split_lines [] = [[]]"
| "split_lines (x # xs) = (if x = CHR 0x0A then [] # split_lines xs
     else case split_lines xs of [] \<Rightarrow> [[x]] | l # ls \<Rightarrow> (x # l) # ls)"

text \<open>The carriage return the pattern also takes is removed by the trimming.\<close>

definition container_ids :: "string \<Rightarrow> string list" where
  "container_ids out = filter (\<lambda>l. l \<noteq> []) (map trim (split_lines out))"

definition findContainers :: "bool \<Rightarrow> string list rt" where
  "findContainers includeStopped = bind_act (call (DockerPs includeStopped)) (\<lambda>out. return (container_ids out))"

definition parse_user :: "json \<Rightarrow> runtime_error + client" where
  "parse_user entry = (case (json_string (json_field entry ''email''), json_field entry ''account'') of
     (Some email, Some account) \<Rightarrow> (case json_string (json_field account ''id'') of
         Some cid \<Rightarrow> Inr \<lparr>cl_grantId = email, cl_credential = cid\<rparr>
       | None \<Rightarrow> Inl InvalidUser)
   | _ \<Rightarrow> Inl InvalidUser)"

fun parse_users :: "json list \<Rightarrow> runtime_error + client list" where
  "parse_users [] = Inr []"
| "parse_users (x # xs) = (case parse_user x of Inl e \<Rightarrow> Inl e
     | Inr c \<Rightarrow> (case parse_users xs of Inl e \<Rightarrow> Inl e | Inr cs \<Rightarrow> Inr (c # cs)))"

definition parseInboundUsers :: "json_codec \<Rightarrow> string \<Rightarrow> runtime_error + client list" where
  "parseInboundUsers js raw = (case js_parse js raw of
     None \<Rightarrow> Inl InvalidJson
   | Some j \<Rightarrow> if json_object j = None then Inl InvalidUsersResponse
       else (case json_field j ''users'' of
         None \<Rightarrow> Inr []
       | Some JNull \<Rightarrow> Inr []
       | Some (JArr users) \<Rightarrow> parse_users users
       | Some _ \<Rightarrow> Inl InvalidUsersResponse))"

definition sameClients :: "client list \<Rightarrow> client list \<Rightarrow> bool" where
  "sameClients actual expected \<longleftrightarrow>
     sort_key (\<lambda>c. (cl_grantId c, cl_credential c)) actual = sort_key (\<lambda>c. (cl_grantId c, cl_credential c)) expected"

definition inspectServingClients :: "json_codec \<Rightarrow> client list rt" where
  "inspectServingClients js = bind_act (findContainers False) (\<lambda>ids. case ids of
     [cid] \<Rightarrow> bind_act (call (InboundUsers cid)) (\<lambda>out. lift_result (parseInboundUsers js out))
   | _ \<Rightarrow> throw NotOneContainer)"

definition verify_attempt :: "json_codec \<Rightarrow> client list \<Rightarrow> unit rt" where
  "verify_attempt js expected = bind_act (inspectServingClients js) (\<lambda>actual.
     if sameClients actual expected then return () else throw AccessListMismatch)"

text \<open>The pause between two attempts, in which the engine may change.\<close>

definition pause :: "unit rt" where
  "pause = modify (\<lambda>w. w\<lparr>rt_engine := rt_pause w (rt_count w) (rt_engine w), rt_count := Suc (rt_count w),
     rt_elapsed := rt_elapsed w + XRAY_SERVING_VERIFY_RETRY_DELAY_MS\<rparr>)"

fun verify_loop :: "json_codec \<Rightarrow> client list \<Rightarrow> runtime_error option \<Rightarrow> nat \<Rightarrow> unit rt" where
  "verify_loop js expected lastError 0 = throw (VerificationFailed lastError)"
| "verify_loop js expected lastError (Suc n) =
     catch (verify_attempt js expected)
       (\<lambda>e. seq_act (when_act (n \<noteq> 0) pause) (verify_loop js expected (Some e) n))"

definition verifyClients :: "json_codec \<Rightarrow> nat \<Rightarrow> client list \<Rightarrow> unit rt" where
  "verifyClients js attempts expected = verify_loop js expected None attempts"

definition docker_isServing :: "bool rt" where
  "docker_isServing = bind_act (findContainers False) (\<lambda>ids. return (length ids = 1))"

definition stopServing :: "unit rt" where
  "stopServing = bind_act (findContainers True) (\<lambda>ids.
     seq_act (when_act (ids \<noteq> []) (perform (DockerStop ids)))
       (bind_act (findContainers False) (\<lambda>running. if running \<noteq> [] then throw StillRunning else return ())))"

section \<open>The runtime\<close>

text \<open>\<open>docker_attempts\<close>: the production runtime reads back what is served, at most this often, and stops the
  containers to fail closed; without it the runtime trusts the reload command.\<close>

record runtime_options =
  inboundTag :: string
  reloadCommand :: "string option"
  docker_attempts :: "nat option"

definition reload :: "runtime_options \<Rightarrow> unit rt" where
  "reload opts = (case reloadCommand opts of None \<Rightarrow> return () | Some c \<Rightarrow> perform (ReloadCommand c))"

definition verify_serving :: "json_codec \<Rightarrow> runtime_options \<Rightarrow> client list \<Rightarrow> unit rt" where
  "verify_serving js opts clients = (case docker_attempts opts of None \<Rightarrow> return ()
     | Some attempts \<Rightarrow> verifyClients js attempts clients)"

definition rendered_config :: "json_codec \<Rightarrow> runtime_options \<Rightarrow> client list \<Rightarrow> string \<Rightarrow> runtime_error + string" where
  "rendered_config js opts clients raw = (case parseJsonObject js raw of
     Inl e \<Rightarrow> Inl e
   | Inr template \<Rightarrow> (case assertTemplateHasNoClientCredentials template of
       Inl e \<Rightarrow> Inl e
     | Inr _ \<Rightarrow> (case findVlessInbound template (inboundTag opts) of
         Inl e \<Rightarrow> Inl e
       | Inr _ \<Rightarrow> Inr (js_stringify js (with_clients (inboundTag opts) clients template) @ newline))))"

definition applyClients :: "json_codec \<Rightarrow> runtime_options \<Rightarrow> client list \<Rightarrow> bool \<Rightarrow> unit rt" where
  "applyClients js opts clients reloadIfUnchanged =
     bind_act (call ReadTemplate) (\<lambda>raw. bind_act (lift_result (rendered_config js opts clients raw)) (\<lambda>serialized.
       bind_act readRuntimeIfPresent (\<lambda>existing.
         if existing = Some serialized
         then seq_act (perform ChangeMode)
             (seq_act (when_act reloadIfUnchanged (reload opts)) (verify_serving js opts clients))
         else seq_act (writeRuntimeConfig serialized)
             (seq_act (reload opts) (verify_serving js opts clients)))))"

definition runtime_isServing :: "runtime_options \<Rightarrow> bool rt" where
  "runtime_isServing opts = (case docker_attempts opts of None \<Rightarrow> return True | Some _ \<Rightarrow> docker_isServing)"

definition entry_client :: "json \<Rightarrow> client list" where
  "entry_client entry = (case (json_string (json_field entry ''id''), json_string (json_field entry ''email'')) of
     (Some cid, Some email) \<Rightarrow> [\<lparr>cl_grantId = email, cl_credential = cid\<rparr>] | _ \<Rightarrow> [])"

definition configured_clients :: "json_codec \<Rightarrow> runtime_options \<Rightarrow> string \<Rightarrow> runtime_error + client list" where
  "configured_clients js opts raw = (case parseJsonObject js raw of
     Inl e \<Rightarrow> Inl e
   | Inr config \<Rightarrow> (case findVlessInbound config (inboundTag opts) of
       Inl e \<Rightarrow> Inl e
     | Inr inbound \<Rightarrow> Inr (case json_field inbound ''settings'' of None \<Rightarrow> []
         | Some settings \<Rightarrow> (case json_array (json_field settings ''clients'') of None \<Rightarrow> []
             | Some entries \<Rightarrow> concat (map entry_client entries)))))"

definition inspectClients :: "json_codec \<Rightarrow> runtime_options \<Rightarrow> client list rt" where
  "inspectClients js opts = bind_act readRuntimeIfPresent (\<lambda>raw. case raw of
     None \<Rightarrow> return [] | Some text \<Rightarrow> lift_result (configured_clients js opts text))"

definition file_runtime_failClosed :: "json_codec \<Rightarrow> runtime_options \<Rightarrow> unit rt" where
  "file_runtime_failClosed js opts = (case docker_attempts opts of Some _ \<Rightarrow> stopServing
     | None \<Rightarrow> applyClients js opts [] True)"

section \<open>The runtime of the tests\<close>

text \<open>\<open>InMemoryXrayRuntime\<close>, with an optional hook that may fail after the clients were taken over.\<close>

record memory_runtime =
  mr_clients :: "client list"
  mr_serving :: bool

definition memory_applyClients :: "(client list \<Rightarrow> string option) \<Rightarrow> client list \<Rightarrow> bool \<Rightarrow> (memory_runtime, string, unit) eff" where
  "memory_applyClients hook clients reloadIfUnchanged =
     seq_act (modify (\<lambda>w. w\<lparr>mr_clients := clients, mr_serving := True\<rparr>))
       (case hook clients of None \<Rightarrow> return () | Some e \<Rightarrow> throw e)"

definition memory_failClosed :: "(memory_runtime, string, unit) eff" where
  "memory_failClosed = modify (\<lambda>w. w\<lparr>mr_clients := [], mr_serving := False\<rparr>)"

definition memory_inspectClients :: "(memory_runtime, string, client list) eff" where
  "memory_inspectClients = get mr_clients"

definition memory_isServing :: "(memory_runtime, string, bool) eff" where
  "memory_isServing = get mr_serving"

end
