(* ===== verification/Xray_Runtime_Properties.thy ===== *)
theory Xray_Runtime_Properties
  imports Xray_Runtime Adapter_Samples
begin

text \<open>
  The contract the adapter relies on, as a locale, and its two providers: the production runtime over
  Docker and the in-memory runtime of the tests.  Every behaviour of a provider is one of the runtime
  calls of the adapter's model under some answer, so what is proved of the adapter for all answers
  holds over them.
\<close>

section \<open>The contract\<close>

definition answering :: "answer \<Rightarrow> agent_world \<Rightarrow> agent_world" where
  "answering a v = v\<lparr>answers := (answers v)(tick v := a)\<rparr>"

lemma answering_sel [simp]: "answers (answering a v) (tick v) = a" "serving (answering a v) = serving v"
  "tick (answering a v) = tick v"
  by (simp_all add: answering_def)

definition covers :: "('e + 'a) \<times> client multiset option \<Rightarrow> (agent_error + 'b) \<times> agent_world \<Rightarrow> bool" where
  "covers concrete model \<longleftrightarrow> isl (fst concrete) = isl (fst model)
     \<and> map_option mset (serving (snd model)) = snd concrete"

locale xray_config_runtime =
  fixes apply_op :: "client list \<Rightarrow> bool \<Rightarrow> ('w, 'e, unit) eff" and stop_op :: "('w, 'e, unit) eff"
    and presence_op :: "('w, 'e, bool) eff" and serves :: "'w \<Rightarrow> client multiset option" and ok :: "'w \<Rightarrow> bool"
  assumes apply_law: "ok w \<Longrightarrow> wp (apply_op clients b) (\<lambda>_ w'. serves w' = Some (mset clients) \<and> ok w') (\<lambda>_. ok) w"
    and stop_law: "ok w \<Longrightarrow> wp stop_op (\<lambda>_ w'. serves w' = None \<and> ok w') (\<lambda>_. ok) w"
    and presence_law: "ok w \<Longrightarrow> wp presence_op (\<lambda>x w'. (x \<longrightarrow> serves w \<noteq> None) \<and> serves w' = serves w \<and> ok w')
       (\<lambda>_ w'. serves w' = serves w \<and> ok w') w"
begin

lemma apply_covered:
  assumes "ok w" "apply_op clients b w = (r, w')"
  shows "\<exists>a. covers (r, serves w') (runtime_applyClients clients b (answering a v)) \<and> ok w'"
proof (cases r)
  case (Inl e)
  obtain x where x: "map_option mset x = serves w'" by (metis ex_mset map_option_is_None not_Some_eq option.simps(9))
  let ?a = "(answer_at 0)\<lparr>an_fails := True, an_left := x\<rparr>"
  have "covers (r, serves w') (runtime_applyClients clients b (answering ?a v))"
    using x Inl by (simp add: covers_def runtime_applyClients_def act_defs)
  moreover have "ok w'" using wp_Inl [OF apply_law [OF assms(1)]] assms(2) Inl by blast
  ultimately show ?thesis by blast
next
  case (Inr u)
  have "serves w' = Some (mset clients)" "ok w'" using wp_Inr [OF apply_law [OF assms(1)]] assms(2) Inr by blast+
  then have "covers (r, serves w') (runtime_applyClients clients b (answering (answer_at 0) v)) \<and> ok w'"
    using Inr by (simp add: covers_def runtime_applyClients_def act_defs answer_at_def)
  then show ?thesis by blast
qed

lemma stop_covered:
  assumes "ok w" "stop_op w = (r, w')"
  shows "\<exists>a. covers (r, serves w') (runtime_failClosed (answering a v)) \<and> ok w'"
proof (cases r)
  case (Inl e)
  obtain x where x: "map_option mset x = serves w'" by (metis ex_mset map_option_is_None not_Some_eq option.simps(9))
  let ?a = "(answer_at 0)\<lparr>an_fails := True, an_left := x\<rparr>"
  have "covers (r, serves w') (runtime_failClosed (answering ?a v))"
    using x Inl by (simp add: covers_def runtime_failClosed_def act_defs)
  moreover have "ok w'" using wp_Inl [OF stop_law [OF assms(1)]] assms(2) Inl by blast
  ultimately show ?thesis by blast
next
  case (Inr u)
  have "serves w' = None" "ok w'" using wp_Inr [OF stop_law [OF assms(1)]] assms(2) Inr by blast+
  then have "covers (r, serves w') (runtime_failClosed (answering (answer_at 0) v)) \<and> ok w'"
    using Inr by (simp add: covers_def runtime_failClosed_def act_defs answer_at_def)
  then show ?thesis by blast
qed

text \<open>The adapter treats a failed presence check as "not serving".\<close>

lemma presence_covered:
  assumes "ok w" "presence_op w = (r, w')" "map_option mset (serving v) = serves w"
  shows "\<exists>a. fst (observeServingPresence (answering a v)) = Inr (r = Inr True)
     \<and> map_option mset (serving (snd (observeServingPresence (answering a v)))) = serves w' \<and> ok w'"
proof -
  let ?a = "(answer_at 0)\<lparr>an_fails := r \<noteq> Inr True\<rparr>"
  have "serves w' = serves w \<and> ok w'" "r = Inr True \<Longrightarrow> serves w \<noteq> None"
    using wp_Inl [OF presence_law [OF assms(1)]] wp_Inr [OF presence_law [OF assms(1)]] assms(2) by (cases r; blast)+
  then have "fst (observeServingPresence (answering ?a v)) = Inr (r = Inr True)
     \<and> map_option mset (serving (snd (observeServingPresence (answering ?a v)))) = serves w' \<and> ok w'"
    using assms(3) by (auto simp: observeServingPresence_def act_defs)
  then show ?thesis by blast
qed

end

section \<open>The production runtime\<close>

text \<open>What Docker and Xray's API are relied on for: a listing names the containers of the service (the
  running ones unless all are asked for), the users listed are those of the running container asked,
  and a query changes nothing, whether it fails or not.\<close>

definition docker_truthful :: "json_codec \<Rightarrow> runtime_world \<Rightarrow> bool" where
  "docker_truthful js w \<longleftrightarrow>
     (\<forall>n cs all. snd (rt_calls w n cs (DockerPs all)) = cs
        \<and> (\<forall>out. fst (rt_calls w n cs (DockerPs all)) = Some out \<longrightarrow>
             container_ids out = map ct_id (filter (\<lambda>c. all \<or> ct_running c) cs)))
   \<and> (\<forall>n cs cid. snd (rt_calls w n cs (InboundUsers cid)) = cs
        \<and> (\<forall>out us. fst (rt_calls w n cs (InboundUsers cid)) = Some out \<longrightarrow> parseInboundUsers js out = Inr us \<longrightarrow>
             (\<exists>c \<in> set cs. ct_running c \<and> ct_id c = cid \<and> ct_users c = us)))"

text \<open>The clients that running containers serve.\<close>

definition engine_serves :: "container list \<Rightarrow> client multiset option" where
  "engine_serves cs = (case filter ct_running cs of [] \<Rightarrow> None | rs \<Rightarrow> Some (mset (concat (map ct_users rs))))"

lemma engine_serves_None: "engine_serves cs = None \<longleftrightarrow> filter ct_running cs = []"
  by (simp add: engine_serves_def split: list.splits)

lemma wp_call:
  "wp (call c) Q E w = (case fst (rt_calls w (rt_count w) (rt_engine w) c) of
     None \<Rightarrow> E (CallRejected c) (called c w) | Some out \<Rightarrow> Q out (called c w))"
  by (simp add: wp_def call_def split: option.splits)

lemma called_sel [simp]: "rt_calls (called c w) = rt_calls w" "rt_config (called c w) = rt_config w"
  "docker_truthful js (called c w) = docker_truthful js w" "rt_elapsed (called c w) = rt_elapsed w + call_timeout c"
  by (simp_all add: called_def docker_truthful_def)

lemma query_quiet [simp]:
  "docker_truthful js w \<Longrightarrow> rt_engine (called (DockerPs all) w) = rt_engine w"
  "docker_truthful js w \<Longrightarrow> rt_engine (called (InboundUsers cid) w) = rt_engine w"
  by (simp_all add: called_def docker_truthful_def)

lemma wp_findContainers:
  assumes "docker_truthful js w"
    and "Q (map ct_id (filter (\<lambda>c. all \<or> ct_running c) (rt_engine w))) (called (DockerPs all) w)"
    and "E (CallRejected (DockerPs all)) (called (DockerPs all) w)"
  shows "wp (findContainers all) Q E w"
  using assms by (auto simp: findContainers_def wp_simps wp_call docker_truthful_def split: option.splits)

lemma wp_perform: "Q () (called c w) \<Longrightarrow> E (CallRejected c) (called c w) \<Longrightarrow> wp (perform c) Q E w"
  by (simp add: perform_def wp_simps wp_call split: option.splits)

lemma sameClients_iff: "sameClients xs ys \<longleftrightarrow> mset xs = mset ys"
proof
  show "mset xs = mset ys" if "sameClients xs ys"
    using that unfolding sameClients_def by (metis mset_sort)
next
  assume "mset xs = mset ys"
  moreover have "inj_on (\<lambda>c :: client. (cl_grantId c, cl_credential c)) (set xs)"
    by (rule inj_onI) (auto intro: client.equality)
  ultimately show "sameClients xs ys"
    unfolding sameClients_def by (intro sort_key_inj_key_eq) simp_all
qed

lemma one_running:
  assumes "map ct_id (filter ct_running cs) = [cid]" "c \<in> set cs" "ct_running c" "ct_id c = cid"
  shows "engine_serves cs = Some (mset (ct_users c))"
proof -
  obtain c' where c': "filter ct_running cs = [c']" using assms(1) by auto
  moreover have "c \<in> set (filter ct_running cs)" using assms(2,3) by simp
  ultimately have "c = c'" by simp
  then show ?thesis by (simp add: engine_serves_def c')
qed

lemma wp_verify_attempt:
  assumes "docker_truthful js w"
  shows "wp (verify_attempt js expected)
     (\<lambda>_ w'. engine_serves (rt_engine w') = Some (mset expected) \<and> docker_truthful js w' \<and> rt_elapsed w' \<le> rt_elapsed w + 2 * XRAY_DOCKER_COMMAND_TIMEOUT_MS)
     (\<lambda>_ w'. docker_truthful js w' \<and> rt_elapsed w' \<le> rt_elapsed w + 2 * XRAY_DOCKER_COMMAND_TIMEOUT_MS) w"
proof -
  have users: "engine_serves (rt_engine w) = Some (mset us)"
    if ids: "map ct_id (filter ct_running (rt_engine w)) = [cid]"
      and out: "fst (rt_calls w n (rt_engine w) (InboundUsers cid)) = Some out" "parseInboundUsers js out = Inr us" for cid n out us
  proof -
    obtain c where "c \<in> set (rt_engine w)" "ct_running c" "ct_id c = cid" "ct_users c = us"
      using assms out unfolding docker_truthful_def by blast
    then show ?thesis using one_running [OF ids] by metis
  qed
  show ?thesis
    unfolding verify_attempt_def inspectServingClients_def wp_simps
    by (rule wp_findContainers [OF assms])
      (use assms users in \<open>auto simp: wp_simps wp_call lift_result_def sameClients_iff called_def call_timeout_def timing_defs
        docker_truthful_def split: list.splits option.splits sum.splits\<close>)
qed

lemma wp_verify_loop:
  assumes "docker_truthful js w" "rt_elapsed w + int n * 2 * XRAY_DOCKER_COMMAND_TIMEOUT_MS + int (n - 1) * XRAY_SERVING_VERIFY_RETRY_DELAY_MS \<le> B"
  shows "wp (verify_loop js expected lastError n)
     (\<lambda>_ w'. engine_serves (rt_engine w') = Some (mset expected) \<and> docker_truthful js w' \<and> rt_elapsed w' \<le> B)
     (\<lambda>_ w'. docker_truthful js w' \<and> rt_elapsed w' \<le> B) w"
  using assms
proof (induction n arbitrary: w lastError)
  case 0
  then show ?case by (simp add: wp_simps)
next
  case (Suc n)
  have cost: "rt_elapsed u \<le> rt_elapsed w + 2 * XRAY_DOCKER_COMMAND_TIMEOUT_MS \<Longrightarrow> rt_elapsed u \<le> B" for u
    using Suc.prems(2) by (simp add: timing_defs algebra_simps)
  have rest: "wp (verify_loop js expected (Some e) n)
     (\<lambda>_ w'. engine_serves (rt_engine w') = Some (mset expected) \<and> docker_truthful js w' \<and> rt_elapsed w' \<le> B)
     (\<lambda>_ w'. docker_truthful js w' \<and> rt_elapsed w' \<le> B) v"
    if "docker_truthful js v" "rt_elapsed v \<le> rt_elapsed w + 2 * XRAY_DOCKER_COMMAND_TIMEOUT_MS + (if n = 0 then 0 else XRAY_SERVING_VERIFY_RETRY_DELAY_MS)" for e v
    by (rule Suc.IH [OF that(1)], cases n) (use Suc.prems(2) that(2) in \<open>auto simp: timing_defs algebra_simps\<close>)
  have paused: "docker_truthful js (u\<lparr>rt_engine := x, rt_count := k, rt_elapsed := y\<rparr>) = docker_truthful js u" for u x k y
    by (simp add: docker_truthful_def)
  show ?case
    unfolding verify_loop.simps wp_simps
    by (rule wp_mono [OF wp_verify_attempt [OF Suc.prems(1)]])
      (auto simp: wp_simps pause_def paused intro!: rest cost)
qed

lemma verify_bound:
  "int (nat XRAY_SERVING_VERIFY_ATTEMPTS) * 2 * XRAY_DOCKER_COMMAND_TIMEOUT_MS
     + int (nat XRAY_SERVING_VERIFY_ATTEMPTS - 1) * XRAY_SERVING_VERIFY_RETRY_DELAY_MS = XRAY_SERVING_VERIFY_MAX_DURATION_MS"
  by (simp add: timing_defs)

definition bounded :: "json_codec \<Rightarrow> runtime_world \<Rightarrow> int \<Rightarrow> runtime_world \<Rightarrow> bool" where
  "bounded js w d w' \<longleftrightarrow> docker_truthful js w' \<and> rt_elapsed w' \<le> rt_elapsed w + d"

lemma wp_stopServing:
  assumes "docker_truthful js w"
  shows "wp stopServing (\<lambda>_ w'. engine_serves (rt_engine w') = None \<and> bounded js w XRAY_FAIL_CLOSED_MAX_DURATION_MS w')
     (\<lambda>_. bounded js w XRAY_FAIL_CLOSED_MAX_DURATION_MS) w"
  unfolding stopServing_def wp_simps
  by (rule wp_findContainers [OF assms])
    (use assms in \<open>auto simp: wp_simps bounded_def engine_serves_None call_timeout_def timing_defs
      intro!: wp_perform wp_findContainers [where js = js]\<close>)

lemma wp_docker_isServing:
  assumes "docker_truthful js w"
  shows "wp docker_isServing (\<lambda>x w'. (x \<longrightarrow> engine_serves (rt_engine w) \<noteq> None) \<and> rt_engine w' = rt_engine w \<and> docker_truthful js w')
     (\<lambda>_ w'. rt_engine w' = rt_engine w \<and> docker_truthful js w') w"
  unfolding docker_isServing_def wp_simps
  by (rule wp_findContainers [OF assms]) (use assms in \<open>auto simp: wp_simps engine_serves_def length_Suc_conv\<close>)

definition untimed :: "json_codec \<Rightarrow> runtime_world \<Rightarrow> runtime_world \<Rightarrow> bool" where
  "untimed js w w' \<longleftrightarrow> docker_truthful js w' \<and> rt_elapsed w' = rt_elapsed w"

lemma untimed_called [simp]:
  "call_timeout c = 0 \<Longrightarrow> untimed js w (called c v) = untimed js w v"
  "untimed js w (v\<lparr>rt_config := x\<rparr>) = untimed js w v"
  by (simp_all add: untimed_def docker_truthful_def)

lemma untimed_refl [simp]: "untimed js w w \<longleftrightarrow> docker_truthful js w"
  by (simp add: untimed_def)

lemma wp_writeRuntimeConfig:
  assumes "untimed js w v"
  shows "wp (writeRuntimeConfig contents) (\<lambda>_ w'. rt_config w' = Some contents \<and> untimed js w w') (\<lambda>_. untimed js w) v"
proof -
  have kept: "rt_config (called c u) = Some contents \<longleftrightarrow> rt_config u = Some contents" for c u by simp
  show ?thesis
    unfolding writeRuntimeConfig_def wp_simps
    by (intro wp_perform) (use assms in \<open>simp_all add: wp_simps call_timeout_def wp_perform\<close>)
qed

lemma wp_reload:
  "docker_truthful js w \<Longrightarrow> wp (reload opts) (\<lambda>_. bounded js w XRAY_RELOAD_COMMAND_TIMEOUT_MS) (\<lambda>_. bounded js w XRAY_RELOAD_COMMAND_TIMEOUT_MS) w"
  by (auto simp: reload_def wp_simps bounded_def call_timeout_def timing_defs split: option.splits intro!: wp_perform)

definition verify_budget :: "nat \<Rightarrow> int" where
  "verify_budget n = int n * 2 * XRAY_DOCKER_COMMAND_TIMEOUT_MS + int (n - 1) * XRAY_SERVING_VERIFY_RETRY_DELAY_MS"

lemma verify_budget_nonneg: "0 \<le> verify_budget n"
  by (simp add: verify_budget_def timing_defs)

lemma wp_verify_serving:
  assumes "docker_truthful js v" "docker_attempts opts = Some n" "rt_elapsed v + verify_budget n \<le> rt_elapsed w + d"
  shows "wp (verify_serving js opts clients)
     (\<lambda>_ w'. engine_serves (rt_engine w') = Some (mset clients) \<and> bounded js w d w') (\<lambda>_. bounded js w d) v"
  unfolding verify_serving_def verifyClients_def assms(2) option.case bounded_def
  by (rule wp_verify_loop [OF assms(1)]) (use assms(3) in \<open>simp add: verify_budget_def\<close>)

lemma wp_applyClients:
  assumes "docker_truthful js w" "docker_attempts opts = Some n"
  shows "wp (applyClients js opts clients b)
     (\<lambda>_ w'. engine_serves (rt_engine w') = Some (mset clients)
        \<and> bounded js w (XRAY_RELOAD_COMMAND_TIMEOUT_MS + verify_budget n) w')
     (\<lambda>_. bounded js w (XRAY_RELOAD_COMMAND_TIMEOUT_MS + verify_budget n)) w"
proof -
  let ?d = "XRAY_RELOAD_COMMAND_TIMEOUT_MS + verify_budget n"
  let ?Q = "\<lambda>_ w'. engine_serves (rt_engine w') = Some (mset clients) \<and> bounded js w ?d w'"
  have pos: "0 \<le> XRAY_RELOAD_COMMAND_TIMEOUT_MS" by (simp add: timing_defs)
  have short: "bounded js w ?d u" if "untimed js w u" for u
    using that pos verify_budget_nonneg [of n] by (simp add: untimed_def bounded_def)
  have verified: "wp (verify_serving js opts clients) ?Q (\<lambda>_. bounded js w ?d) u" if "untimed js w u" for u
    by (rule wp_verify_serving [OF _ assms(2)]) (use that pos in \<open>auto simp: untimed_def\<close>)
  have reloaded: "wp (reload opts) (\<lambda>_. wp (verify_serving js opts clients) ?Q (\<lambda>_. bounded js w ?d)) (\<lambda>_. bounded js w ?d) u"
    if "untimed js w u" for u
  proof (rule wp_mono [OF wp_reload [of js]])
    show "docker_truthful js u" using that by (simp add: untimed_def)
  next
    fix x v
    assume "bounded js u XRAY_RELOAD_COMMAND_TIMEOUT_MS v"
    then show "wp (verify_serving js opts clients) ?Q (\<lambda>_. bounded js w ?d) v"
      by (intro wp_verify_serving [OF _ assms(2)]) (use that in \<open>auto simp: untimed_def bounded_def\<close>)
  next
    fix e v
    assume "bounded js u XRAY_RELOAD_COMMAND_TIMEOUT_MS v"
    then show "bounded js w ?d v" using that verify_budget_nonneg [of n] by (simp add: untimed_def bounded_def)
  qed
  show ?thesis
    unfolding applyClients_def readRuntimeIfPresent_def lift_result_def wp_simps wp_call
    using assms(1)
    by (auto simp: wp_simps wp_call call_timeout_def split: option.splits sum.splits
      intro!: short verified reloaded wp_perform wp_mono [OF wp_writeRuntimeConfig [of js w]])
qed

text \<open>Both providers keep the contract.\<close>

interpretation docker_runtime: xray_config_runtime "applyClients js opts" "file_runtime_failClosed js opts" "runtime_isServing opts"
    "\<lambda>w. engine_serves (rt_engine w)" "\<lambda>w. docker_truthful js w \<and> docker_attempts opts = Some n" for js opts n
proof unfold_locales
  fix w clients b
  assume "docker_truthful js w \<and> docker_attempts opts = Some n"
  then have w: "docker_truthful js w" "docker_attempts opts = Some n" by simp_all
  show "wp (applyClients js opts clients b) (\<lambda>_ w'. engine_serves (rt_engine w') = Some (mset clients) \<and> docker_truthful js w' \<and> docker_attempts opts = Some n)
      (\<lambda>_ w'. docker_truthful js w' \<and> docker_attempts opts = Some n) w"
    by (rule wp_mono [OF wp_applyClients [OF w]]) (simp_all add: bounded_def w)
  show "wp (file_runtime_failClosed js opts) (\<lambda>_ w'. engine_serves (rt_engine w') = None \<and> docker_truthful js w' \<and> docker_attempts opts = Some n)
      (\<lambda>_ w'. docker_truthful js w' \<and> docker_attempts opts = Some n) w"
    unfolding file_runtime_failClosed_def w(2) option.case
    by (rule wp_mono [OF wp_stopServing [OF w(1)]]) (simp_all add: bounded_def w)
  show "wp (runtime_isServing opts) (\<lambda>x w'. (x \<longrightarrow> engine_serves (rt_engine w) \<noteq> None) \<and> engine_serves (rt_engine w') = engine_serves (rt_engine w)
        \<and> docker_truthful js w' \<and> docker_attempts opts = Some n)
      (\<lambda>_ w'. engine_serves (rt_engine w') = engine_serves (rt_engine w) \<and> docker_truthful js w' \<and> docker_attempts opts = Some n) w"
    unfolding runtime_isServing_def w(2) option.case
    by (rule wp_mono [OF wp_docker_isServing [OF w(1)]]) (simp_all add: w)
qed

definition memory_serves :: "memory_runtime \<Rightarrow> client multiset option" where
  "memory_serves w = (if mr_serving w then Some (mset (mr_clients w)) else None)"

interpretation memory: xray_config_runtime "memory_applyClients hook" memory_failClosed memory_isServing memory_serves "\<lambda>_. True" for hook
  by unfold_locales
    (auto simp: memory_applyClients_def memory_failClosed_def memory_isServing_def memory_serves_def wp_simps split: option.splits)

section \<open>Claims\<close>

text \<open>C39. The production runtime refines the adapter's model of it.  Over a truthful Docker, whatever its
  commands do, each call of \<open>applyClients\<close>, \<open>failClosed\<close> and \<open>isServing\<close> behaves like the model's call under some
  answer: it fails exactly when the model fails, and afterwards the running containers serve exactly
  the clients the model says are served.  A failed presence check counts as not serving.\<close>

theorem docker_runtime_refines_model:
  assumes "docker_truthful js w" "docker_attempts opts = Some n" "map_option mset (serving v) = engine_serves (rt_engine w)"
  shows "(\<exists>a. covers (fst (applyClients js opts clients b w), engine_serves (rt_engine (snd (applyClients js opts clients b w))))
          (runtime_applyClients clients b (answering a v)))
    \<and> (\<exists>a. covers (fst (file_runtime_failClosed js opts w), engine_serves (rt_engine (snd (file_runtime_failClosed js opts w))))
          (runtime_failClosed (answering a v)))
    \<and> (\<exists>a. fst (observeServingPresence (answering a v)) = Inr (fst (runtime_isServing opts w) = Inr True)
          \<and> map_option mset (serving (snd (observeServingPresence (answering a v))))
              = engine_serves (rt_engine (snd (runtime_isServing opts w))))"
proof -
  have ok: "docker_truthful js w \<and> docker_attempts opts = Some n" using assms(1,2) by blast
  note run = prod.collapse [symmetric]
  show ?thesis
    using docker_runtime.apply_covered [OF ok run] docker_runtime.stop_covered [OF ok run]
      docker_runtime.presence_covered [OF ok run assms(3)] by blast
qed

definition sample_container :: "bool \<Rightarrow> container" where
  "sample_container r = \<lparr>ct_id = ''x'', ct_running = r, ct_users = [\<lparr>cl_grantId = ''a'', cl_credential = ''c''\<rparr>]\<rparr>"

text \<open>A codec of one document, the users of the sample container, and a Docker that runs one container
  after the reload.\<close>

definition sample_users :: json where
  "sample_users = JObj [(''users'', JArr [JObj [(''email'', JStr ''a''), (''account'', JObj [(''id'', JStr ''c'')])]])]"

definition sample_template :: json where
  "sample_template = JObj [(''inbounds'', JArr [JObj [(''tag'', JStr ''t''), (''protocol'', JStr ''vless''),
     (''settings'', JObj [(''clients'', JArr [])])]])]"

definition sample_codec :: json_codec where
  "sample_codec = \<lparr>js_parse = (\<lambda>s. if s = ''users'' then Some sample_users else if s = ''template'' then Some sample_template else None),
     js_stringify = (\<lambda>_. ''config'')\<rparr>"

definition sample_calls :: "nat \<Rightarrow> container list \<Rightarrow> runtime_call \<Rightarrow> string option \<times> container list" where
  "sample_calls n cs c = (case c of
     ReadTemplate \<Rightarrow> (Some ''template'', cs)
   | ReloadCommand _ \<Rightarrow> (Some [], [sample_container True])
   | DockerStop _ \<Rightarrow> (Some [], [sample_container False])
   | DockerPs all \<Rightarrow> if cs = [sample_container True] then (Some (''x'' @ newline), cs)
       else if cs = [sample_container False] then (Some (if all then ''x'' @ newline else []), cs)
       else if cs = [] then (Some [], cs) else (None, cs)
   | InboundUsers cid \<Rightarrow> if cs = [sample_container True] \<and> cid = ''x'' then (Some ''users'', cs) else (None, cs)
   | _ \<Rightarrow> (Some [], cs))"

definition sample_runtime :: runtime_world where
  "sample_runtime = \<lparr>rt_calls = sample_calls, rt_pause = (\<lambda>_ cs. cs), rt_engine = [], rt_count = 0, rt_elapsed = 0, rt_config = None\<rparr>"

definition sample_options :: runtime_options where
  "sample_options = \<lparr>inboundTag = ''t'', reloadCommand = Some ''reload'', docker_attempts = Some (nat XRAY_SERVING_VERIFY_ATTEMPTS)\<rparr>"

lemma sample_runtime_truthful: "docker_truthful sample_codec sample_runtime"
proof -
  have ids: "container_ids (CHR ''x'' # newline) = [''x'']" "container_ids [] = []" by code_simp+
  have users: "parseInboundUsers sample_codec ''users'' = Inr (ct_users (sample_container True))" by code_simp
  show ?thesis
    unfolding docker_truthful_def sample_runtime_def
    by (auto simp: sample_calls_def ids users sample_container_def)
qed

theorem docker_runtime_refines_model_witness:
  "\<exists>a. covers (Inr () :: runtime_error + unit, engine_serves [sample_container True])
     (runtime_applyClients (ct_users (sample_container True)) True (answering a (agent_at Absent Absent None (\<lambda>_. answer_at 0))))"
proof -
  have start: "map_option mset (serving (agent_at Absent Absent None (\<lambda>_. answer_at 0))) = engine_serves (rt_engine sample_runtime)"
    by (simp add: agent_at_def sample_runtime_def engine_serves_def)
  have attempts: "docker_attempts sample_options = Some (nat XRAY_SERVING_VERIFY_ATTEMPTS)" by (simp add: sample_options_def)
  have run: "fst (applyClients sample_codec sample_options (ct_users (sample_container True)) True sample_runtime) = Inr ()"
    "rt_engine (snd (applyClients sample_codec sample_options (ct_users (sample_container True)) True sample_runtime)) = [sample_container True]"
    by code_simp+
  show ?thesis
    using docker_runtime_refines_model [OF sample_runtime_truthful attempts start, of "ct_users (sample_container True)" True]
    unfolding run by blast
qed

lemma outcome_bounded:
  assumes "wp m (\<lambda>_ w'. Q w' \<and> bounded js w d w') (\<lambda>_. bounded js w d) w"
  shows "rt_elapsed (snd (m w)) - rt_elapsed w \<le> d"
  using assms by (auto simp: wp_def bounded_def split: prod.splits sum.splits)

text \<open>The timing budget holds for the calls the code makes.  With the production settings applying a list
  of clients, reload and at most ten read-backs included, takes at most 79 seconds and stopping at most 6;
  a retry, a presence check, an apply and a stop fit into the 120 seconds reserved before a local deadline;
  and a poll at its longest interval with two requests at their longest timeout, an apply and a stop fit
  into the five minutes within which a revocation must take effect.\<close>

theorem enforcement_budget:
  assumes "docker_truthful js w" "docker_attempts opts = Some (nat XRAY_SERVING_VERIFY_ATTEMPTS)" "requestTimeoutMs \<le> 30000"
  shows "rt_elapsed (snd (applyClients js opts clients b w)) - rt_elapsed w \<le> XRAY_APPLY_MAX_DURATION_MS
    \<and> rt_elapsed (snd (file_runtime_failClosed js opts w)) - rt_elapsed w \<le> XRAY_FAIL_CLOSED_MAX_DURATION_MS
    \<and> LOCAL_SECURITY_RETRY_DELAY_MS + XRAY_DOCKER_COMMAND_TIMEOUT_MS + XRAY_APPLY_MAX_DURATION_MS
        + XRAY_FAIL_CLOSED_MAX_DURATION_MS \<le> LOCAL_FAIL_CLOSED_RESERVE_MS
    \<and> effectiveControlPlanePollInterval Xray configuredIntervalMs + 2 * requestTimeoutMs + XRAY_DOCKER_COMMAND_TIMEOUT_MS
        + XRAY_APPLY_MAX_DURATION_MS + XRAY_FAIL_CLOSED_MAX_DURATION_MS \<le> ACCESS_CONTROL_ENFORCEMENT_SLA_MS"
proof (intro conjI)
  have "XRAY_RELOAD_COMMAND_TIMEOUT_MS + verify_budget (nat XRAY_SERVING_VERIFY_ATTEMPTS) = XRAY_APPLY_MAX_DURATION_MS"
    unfolding verify_budget_def verify_bound by (simp add: XRAY_APPLY_MAX_DURATION_MS_def)
  then show "rt_elapsed (snd (applyClients js opts clients b w)) - rt_elapsed w \<le> XRAY_APPLY_MAX_DURATION_MS"
    using outcome_bounded [OF wp_applyClients [OF assms(1,2)]] by metis
  show "rt_elapsed (snd (file_runtime_failClosed js opts w)) - rt_elapsed w \<le> XRAY_FAIL_CLOSED_MAX_DURATION_MS"
    unfolding file_runtime_failClosed_def assms(2) option.case by (rule outcome_bounded [OF wp_stopServing [OF assms(1)]])
qed (use assms(3) in \<open>simp_all add: timing_defs effectiveControlPlanePollInterval_def\<close>)

theorem enforcement_budget_witness:
  "rt_elapsed (snd (applyClients sample_codec sample_options [] True sample_runtime)) \<le> 79000"
proof -
  have attempts: "docker_attempts sample_options = Some (nat XRAY_SERVING_VERIFY_ATTEMPTS)" by (simp add: sample_options_def)
  have "rt_elapsed sample_runtime = 0" "XRAY_APPLY_MAX_DURATION_MS = 79000" by (simp_all add: sample_runtime_def timing_defs)
  then show ?thesis
    using enforcement_budget [OF sample_runtime_truthful attempts, of 5000 "[]" True] by simp
qed

section \<open>The configuration file\<close>

lemma map_of_set_field: "map_of (map (\<lambda>(k', v). (k', if k' = k then f v else v)) es) x =
    (if x = k then map_option f (map_of es x) else map_of es x)"
  by (induction es) auto

lemma json_object_set [simp]: "json_object (set_field k f j) = None \<longleftrightarrow> json_object j = None"
  by (cases j) (auto simp: set_field_def)

lemma json_field_set [simp]:
  "json_field (set_field k f j) k' = (if k' = k then map_option f (json_field j k) else json_field j k')"
  by (cases j) (auto simp: set_field_def json_field_def map_of_set_field)

lemma find_update_first:
  "(\<And>x. p (f x) = p x) \<Longrightarrow> find p (update_first p f xs) = map_option f (find p xs)"
  by (induction xs) auto

lemma entry_clients [simp]: "concat (map (entry_client \<circ> client_entry) cs) = cs"
  by (induction cs) (auto simp: entry_client_def client_entry_def json_field_def)

lemma json_array_Some: "json_array x = Some xs \<longleftrightarrow> x = Some (JArr xs)"
  by (cases x rule: json_array.cases) auto

lemma rendered_roundtrip:
  assumes law: "\<And>j. js_parse js (js_stringify js j @ newline) = Some j"
    and rendered: "rendered_config js opts clients raw = Inr text"
  shows "configured_clients js opts text = Inr (sort_key cl_grantId clients)"
proof -
  let ?tag = "inboundTag opts" and ?list = "map client_entry (sort_key cl_grantId clients)"
  let ?set = "set_field ''settings'' (set_field ''clients'' (\<lambda>_. JArr ?list))"
  obtain template inbound where t: "json_object template \<noteq> None" "findVlessInbound template ?tag = Inr inbound"
      "text = js_stringify js (with_clients ?tag clients template) @ newline"
    using rendered by (auto simp: rendered_config_def parseJsonObject_def split: option.splits sum.splits if_splits)
  then obtain inbounds where inbounds: "json_field template ''inbounds'' = Some (JArr inbounds)"
      "find (is_inbound ?tag) inbounds = Some inbound" "vless_inbound_ok inbound = Inr inbound"
    by (auto simp: findVlessInbound_def json_array_Some vless_inbound_ok_def split: option.splits if_splits)
  obtain settings old where settings: "json_field inbound ''settings'' = Some settings"
      "json_field settings ''clients'' = Some (JArr old)" "json_field inbound ''protocol'' = Some (JStr ''vless'')"
    using inbounds(3) by (auto simp: vless_inbound_ok_def json_array_Some split: option.splits if_splits)
  have tag: "is_inbound ?tag (?set x) = is_inbound ?tag x" for x by (simp add: is_inbound_def)
  have parsed: "parseJsonObject js text = Inr (with_clients ?tag clients template)"
    using t(1,3) law by (simp add: parseJsonObject_def with_clients_def)
  have field: "json_field (with_clients ?tag clients template) ''inbounds'' = Some (JArr (update_first (is_inbound ?tag) ?set inbounds))"
    using inbounds(1) by (simp add: with_clients_def)
  have "findVlessInbound (with_clients ?tag clients template) ?tag = Inr (?set inbound)"
    using field inbounds(2) settings tag by (simp add: findVlessInbound_def find_update_first vless_inbound_ok_def)
  then show ?thesis
    unfolding configured_clients_def parsed by (simp add: settings)
qed

end
